(* ===== verification/Prelude.thy ===== *)
theory Prelude
  imports Main "HOL-Library.Word" "HOL-Library.Monad_Syntax" "HOL-Library.Sublist"
begin

text \<open>
  Shared vocabulary of the development: the names of the machine integers, the
  reading of an \<open>option\<close> result as a C++ computation, and the big-endian
  byte/number lemmas the components share.

  A result of type \<open>'a option\<close> is \<open>Some x\<close> when the C++ code computes \<open>x\<close>, and \<open>None\<close>
  when the language does not determine what happens: an access outside an array or a
  container, a byte that was never written, or (in a build without \<open>NDEBUG\<close>) an
  assertion that fails. \<open>post\<close> and \<open>total\<close> are the two ways to state a property of
  such a result.
\<close>

unbundle bit_operations_syntax

subsection \<open>Machine integers\<close>

type_synonym byte = "8 word"
type_synonym u16 = "16 word"
type_synonym u32 = "32 word"
type_synonym u64 = "64 word"
type_synonym u256 = "256 word"

subsection \<open>Collections\<close>

named_theorems post_rules \<open>how \<open>post\<close> and \<open>total\<close> move through the program constructs\<close>
named_theorems frame_simps \<open>which fields an operation leaves alone\<close>
named_theorems trace_intros \<open>operations that only extend the trace of their state\<close>
named_theorems handler_defs \<open>the definitions of the instruction handlers\<close>

subsection \<open>Partial and total properties of a result\<close>

definition post :: "'a option \<Rightarrow> ('a \<Rightarrow> bool) \<Rightarrow> bool" where
  "post m Q \<longleftrightarrow> (case m of None \<Rightarrow> True | Some x \<Rightarrow> Q x)"

definition total :: "'a option \<Rightarrow> ('a \<Rightarrow> bool) \<Rightarrow> bool" where
  "total m Q \<longleftrightarrow> (case m of None \<Rightarrow> False | Some x \<Rightarrow> Q x)"

lemma post_None [simp, post_rules]: "post None Q"
  by (simp add: post_def)

lemma post_Some [simp, post_rules]: "post (Some x) Q = Q x"
  by (simp add: post_def)

lemma post_bind [post_rules]: "post (Option.bind m f) Q = post m (\<lambda>x. post (f x) Q)"
  by (cases m) (simp_all add: post_def)

lemma post_if [post_rules]:
  "post (if c then a else b) Q = ((c \<longrightarrow> post a Q) \<and> (\<not> c \<longrightarrow> post b Q))"
  by simp

lemma post_case_prod [post_rules]:
  "post (case p of (a, b) \<Rightarrow> f a b) Q = (case p of (a, b) \<Rightarrow> post (f a b) Q)"
  by (cases p) simp

lemma post_mono: "post m P \<Longrightarrow> (\<And>x. P x \<Longrightarrow> Q x) \<Longrightarrow> post m Q"
  by (cases m) (simp_all add: post_def)

lemma postI: "(\<And>x. m = Some x \<Longrightarrow> Q x) \<Longrightarrow> post m Q"
  by (cases m) (simp_all add: post_def)

lemma postD: "post m Q \<Longrightarrow> m = Some x \<Longrightarrow> Q x"
  by (simp add: post_def)

lemma post_bindI:
  "post m P \<Longrightarrow> (\<And>x. P x \<Longrightarrow> post (f x) Q) \<Longrightarrow> post (Option.bind m f) Q"
  by (cases m) simp_all

lemma post_skip: "(\<And>x. post (f x) Q) \<Longrightarrow> post (Option.bind m f) Q"
  by (cases m) simp_all

lemma post_ifI: "(c \<Longrightarrow> post a Q) \<Longrightarrow> (\<not> c \<Longrightarrow> post b Q) \<Longrightarrow> post (if c then a else b) Q"
  by simp

lemma post_letI: "(\<And>x. x = v \<Longrightarrow> post (f x) Q) \<Longrightarrow> post (Let v f) Q"
  by simp

lemma post_prodI: "(\<And>a b. p = (a, b) \<Longrightarrow> post (f a b) Q) \<Longrightarrow> post (case p of (a, b) \<Rightarrow> f a b) Q"
  by (cases p) simp

lemma total_Some [simp, post_rules]: "total (Some x) Q = Q x"
  by (simp add: total_def)

lemma total_None [simp, post_rules]: "\<not> total None Q"
  by (simp add: total_def)

lemma total_bind [post_rules]: "total (Option.bind m f) Q = total m (\<lambda>x. total (f x) Q)"
  by (cases m) (simp_all add: total_def)

lemma total_case_prod [post_rules]:
  "total (case p of (a, b) \<Rightarrow> f a b) Q = (case p of (a, b) \<Rightarrow> total (f a b) Q)"
  by (cases p) simp

lemma total_iff: "total m Q \<longleftrightarrow> (\<exists>x. m = Some x \<and> Q x)"
  by (cases m) (simp_all add: total_def)

lemma total_bindI:
  "total m P \<Longrightarrow> (\<And>x. P x \<Longrightarrow> total (f x) Q) \<Longrightarrow> total (Option.bind m f) Q"
  by (auto simp: total_iff)

lemma total_mono: "total m P \<Longrightarrow> (\<And>x. P x \<Longrightarrow> Q x) \<Longrightarrow> total m Q"
  by (auto simp: total_iff)

lemma total_post: "total m Q \<Longrightarrow> post m Q"
  by (cases m) simp_all

subsection \<open>Checked array access\<close>

text \<open>\<open>nth_opt xs i\<close> is the C++ read \<open>xs[i]\<close> of an array that holds \<open>xs\<close>; \<open>None\<close> outside it.\<close>

definition nth_opt :: "'a list \<Rightarrow> nat \<Rightarrow> 'a option" where
  "nth_opt xs i = (if i < length xs then Some (xs ! i) else None)"

lemma nth_opt_Some [simp]: "i < length xs \<Longrightarrow> nth_opt xs i = Some (xs ! i)"
  by (simp add: nth_opt_def)

lemma nth_opt_None [simp]: "length xs \<le> i \<Longrightarrow> nth_opt xs i = None"
  by (simp add: nth_opt_def)

lemma nth_opt_SomeD: "nth_opt xs i = Some x \<Longrightarrow> i < length xs \<and> xs ! i = x"
  by (simp add: nth_opt_def split: if_splits)

text \<open>\<open>slice_opt xs i n\<close> reads the \<open>n\<close> elements from index \<open>i\<close>; \<open>None\<close> if any is outside.\<close>

definition slice_opt :: "'a list \<Rightarrow> nat \<Rightarrow> nat \<Rightarrow> 'a list option" where
  "slice_opt xs i n = (if i + n \<le> length xs then Some (take n (drop i xs)) else None)"

lemma slice_opt_Some [simp]: "i + n \<le> length xs \<Longrightarrow> slice_opt xs i n = Some (take n (drop i xs))"
  by (simp add: slice_opt_def)

lemma slice_opt_length: "slice_opt xs i n = Some ys \<Longrightarrow> length ys = n"
  by (auto simp: slice_opt_def split: if_splits)

text \<open>\<open>splice_opt xs i ys\<close> is \<open>memcpy(&xs[i], ys, |ys|)\<close>; \<open>None\<close> if it leaves the array.\<close>

definition splice_opt :: "'a list \<Rightarrow> nat \<Rightarrow> 'a list \<Rightarrow> 'a list option" where
  "splice_opt xs i ys =
     (if i + length ys \<le> length xs then Some (take i xs @ ys @ drop (i + length ys) xs) else None)"

lemma splice_opt_Some [simp]:
  "i + length ys \<le> length xs \<Longrightarrow>
   splice_opt xs i ys = Some (take i xs @ ys @ drop (i + length ys) xs)"
  by (simp add: splice_opt_def)

lemma splice_opt_length: "splice_opt xs i ys = Some zs \<Longrightarrow> length zs = length xs"
  by (auto simp: splice_opt_def split: if_splits)

lemma splice_opt_nth:
  assumes "splice_opt xs i ys = Some zs" and "k < length xs"
  shows "zs ! k = (if i \<le> k \<and> k < i + length ys then ys ! (k - i) else xs ! k)"
  using assms by (auto simp: splice_opt_def nth_append split: if_splits)

subsection \<open>Big-endian byte strings\<close>

definition be_val :: "byte list \<Rightarrow> nat" where
  "be_val bs = foldl (\<lambda>a b. a * 256 + unat b) 0 bs"

fun be_bytes :: "nat \<Rightarrow> nat \<Rightarrow> byte list" where
  "be_bytes 0 v = []"
| "be_bytes (Suc n) v = be_bytes n (v div 256) @ [word_of_nat v]"

lemma unat_byte [simp]: "unat (word_of_nat v :: byte) = v mod 256"
  by (simp add: unat_of_nat)

lemma unat_byte_less: "unat (b :: byte) < 256"
proof -
  have "unat b < 2 ^ LENGTH(8)" by (rule unsigned_less)
  then show ?thesis by simp
qed

lemma length_be_bytes [simp]: "length (be_bytes n v) = n"
  by (induction n arbitrary: v) simp_all

lemma be_val_Nil [simp]: "be_val [] = 0"
  by (simp add: be_val_def)

lemma be_val_snoc [simp]: "be_val (bs @ [b]) = be_val bs * 256 + unat b"
  by (simp add: be_val_def)

lemma be_val_append: "be_val (xs @ ys) = be_val xs * 256 ^ length ys + be_val ys"
proof (induction ys rule: rev_induct)
  case Nil
  then show ?case by simp
next
  case (snoc y ys)
  have "be_val (xs @ ys @ [y]) = be_val (xs @ ys) * 256 + unat y"
    using be_val_snoc [of "xs @ ys" y] by simp
  with snoc show ?case by (simp add: algebra_simps)
qed

lemma be_val_single [simp]: "be_val [b] = unat b"
  using be_val_snoc [of "[]" b] by simp

lemma be_val_Cons: "be_val (b # bs) = unat b * 256 ^ length bs + be_val bs"
  using be_val_append [of "[b]" bs] by simp

lemma be_val_less: "be_val bs < 256 ^ length bs"
proof (induction bs rule: rev_induct)
  case Nil
  then show ?case by simp
next
  case (snoc b bs)
  have "be_val bs * 256 + unat b < (be_val bs + 1) * 256"
    using unat_byte_less [of b] by simp
  also have "\<dots> \<le> 256 ^ length bs * 256"
    using snoc by (intro mult_right_mono) simp_all
  finally show ?case by simp
qed

lemma be_val_be_bytes: "be_val (be_bytes n v) = v mod 256 ^ n"
proof (induction n arbitrary: v)
  case 0
  then show ?case by simp
next
  case (Suc n)
  then show ?case
    using mod_mult2_eq [of v 256 "256 ^ n"] by (simp add: mult.commute)
qed

lemma be_bytes_be_val: "be_bytes (length bs) (be_val bs) = bs"
proof (induction bs rule: rev_induct)
  case Nil
  then show ?case by simp
next
  case (snoc b bs)
  have "(be_val bs * 256 + unat b) div 256 = be_val bs"
    using unat_byte_less [of b] by simp
  moreover have "(word_of_nat (be_val bs * 256 + unat b) :: byte) = b"
    by (rule word_unat_eq_iff [THEN iffD2])
      (simp add: unat_byte_less del: of_nat_add of_nat_mult)
  ultimately show ?case
    using snoc by (simp del: of_nat_add of_nat_mult)
qed

lemma be_val_zeros [simp]: "be_val (replicate n 0 @ bs) = be_val bs"
proof -
  have "be_val (replicate n 0) = 0"
    by (induction n) (simp_all add: replicate_append_same [symmetric] del: replicate_append_same)
  then show ?thesis by (simp add: be_val_append)
qed

lemma be_val_inj: "length xs = length ys \<Longrightarrow> be_val xs = be_val ys \<Longrightarrow> xs = ys"
  by (metis be_bytes_be_val)

lemma take_be_bytes: "k \<le> n \<Longrightarrow> take k (be_bytes n v) = be_bytes k (v div 256 ^ (n - k))"
proof (induction n arbitrary: v)
  case 0
  then show ?case by simp
next
  case (Suc n)
  show ?case
  proof (cases "k = Suc n")
    case True
    then show ?thesis by simp
  next
    case False
    with Suc.prems have "k \<le> n" by simp
    then show ?thesis
      by (simp add: Suc.IH Suc_diff_le div_mult2_eq)
  qed
qed

lemma drop_be_bytes: "drop k (be_bytes n v) = be_bytes (n - k) v"
proof (induction n arbitrary: v)
  case 0
  then show ?case by simp
next
  case (Suc n)
  show ?case
  proof (cases "k \<le> n")
    case True
    then show ?thesis by (simp add: Suc.IH Suc_diff_le)
  next
    case False
    then show ?thesis by (cases "k = Suc n") (simp_all)
  qed
qed

end
