(* ===== verification/Evmc.thy ===== *)
theory Evmc
  imports Prelude
begin

text \<open>
  The EVMC data model (\<open>evmc/evmc.h\<close>, \<open>evmc/evmc.hpp\<close>, \<open>evmc/helpers.h\<close>): revisions,
  status codes, call kinds, messages, results, the table of host callbacks, and the
  comparison, hashing and printing functions on addresses and 32-byte values.

  \<open>evmc_address\<close> and \<open>evmc_bytes32\<close> are the byte arrays of the C structs: lists of 20 and
  32 bytes (\<open>is_address\<close>, \<open>is_bytes32\<close>). A pointer and its length (\<open>input_data\<close>,
  \<open>output_data\<close>) are one byte list.
\<close>

subsection \<open>Enumerations\<close>

datatype evmc_revision =
    EVMC_FRONTIER | EVMC_HOMESTEAD | EVMC_TANGERINE_WHISTLE | EVMC_SPURIOUS_DRAGON
  | EVMC_BYZANTIUM | EVMC_CONSTANTINOPLE | EVMC_PETERSBURG | EVMC_ISTANBUL | EVMC_BERLIN
  | EVMC_LONDON | EVMC_PARIS | EVMC_SHANGHAI | EVMC_CANCUN | EVMC_PRAGUE

fun rev_index :: "evmc_revision \<Rightarrow> nat" where
  "rev_index EVMC_FRONTIER = 0"
| "rev_index EVMC_HOMESTEAD = 1"
| "rev_index EVMC_TANGERINE_WHISTLE = 2"
| "rev_index EVMC_SPURIOUS_DRAGON = 3"
| "rev_index EVMC_BYZANTIUM = 4"
| "rev_index EVMC_CONSTANTINOPLE = 5"
| "rev_index EVMC_PETERSBURG = 6"
| "rev_index EVMC_ISTANBUL = 7"
| "rev_index EVMC_BERLIN = 8"
| "rev_index EVMC_LONDON = 9"
| "rev_index EVMC_PARIS = 10"
| "rev_index EVMC_SHANGHAI = 11"
| "rev_index EVMC_CANCUN = 12"
| "rev_index EVMC_PRAGUE = 13"

definition all_revisions :: "evmc_revision list" where
  "all_revisions =
     [EVMC_FRONTIER, EVMC_HOMESTEAD, EVMC_TANGERINE_WHISTLE, EVMC_SPURIOUS_DRAGON,
      EVMC_BYZANTIUM, EVMC_CONSTANTINOPLE, EVMC_PETERSBURG, EVMC_ISTANBUL, EVMC_BERLIN,
      EVMC_LONDON, EVMC_PARIS, EVMC_SHANGHAI, EVMC_CANCUN, EVMC_PRAGUE]"

abbreviation EVMC_LATEST_STABLE_REVISION :: evmc_revision where
  "EVMC_LATEST_STABLE_REVISION \<equiv> EVMC_SHANGHAI"

lemma rev_index_inj: "rev_index a = rev_index b \<Longrightarrow> a = b"
  by (cases a; cases b; simp)

instantiation evmc_revision :: linorder
begin

definition less_eq_evmc_revision :: "evmc_revision \<Rightarrow> evmc_revision \<Rightarrow> bool" where
  "a \<le> b \<longleftrightarrow> rev_index a \<le> rev_index b"

definition less_evmc_revision :: "evmc_revision \<Rightarrow> evmc_revision \<Rightarrow> bool" where
  "a < b \<longleftrightarrow> rev_index a < rev_index b"

instance
  by standard
    (auto simp: less_eq_evmc_revision_def less_evmc_revision_def dest: rev_index_inj)

end

lemmas rev_order = less_eq_evmc_revision_def less_evmc_revision_def

lemma all_revisions_complete [simp]: "r \<in> set all_revisions"
  by (cases r) (simp_all add: all_revisions_def)

lemma all_revisions_nth: "all_revisions ! rev_index r = r"
  by (cases r) (simp_all add: all_revisions_def)

datatype evmc_status_code =
    EVMC_SUCCESS | EVMC_FAILURE | EVMC_REVERT | EVMC_OUT_OF_GAS | EVMC_INVALID_INSTRUCTION
  | EVMC_UNDEFINED_INSTRUCTION | EVMC_STACK_OVERFLOW | EVMC_STACK_UNDERFLOW
  | EVMC_BAD_JUMP_DESTINATION | EVMC_INVALID_MEMORY_ACCESS | EVMC_CALL_DEPTH_EXCEEDED
  | EVMC_STATIC_MODE_VIOLATION | EVMC_PRECOMPILE_FAILURE | EVMC_CONTRACT_VALIDATION_FAILURE
  | EVMC_ARGUMENT_OUT_OF_RANGE | EVMC_WASM_UNREACHABLE_INSTRUCTION | EVMC_WASM_TRAP
  | EVMC_INSUFFICIENT_BALANCE | EVMC_INTERNAL_ERROR | EVMC_REJECTED | EVMC_OUT_OF_MEMORY

datatype evmc_call_kind =
  EVMC_CALL | EVMC_DELEGATECALL | EVMC_CALLCODE | EVMC_CREATE | EVMC_CREATE2

datatype evmc_storage_status =
    EVMC_STORAGE_ASSIGNED | EVMC_STORAGE_ADDED | EVMC_STORAGE_DELETED | EVMC_STORAGE_MODIFIED
  | EVMC_STORAGE_DELETED_ADDED | EVMC_STORAGE_MODIFIED_DELETED | EVMC_STORAGE_DELETED_RESTORED
  | EVMC_STORAGE_ADDED_DELETED | EVMC_STORAGE_MODIFIED_RESTORED

datatype evmc_access_status = EVMC_ACCESS_COLD | EVMC_ACCESS_WARM

definition EVMC_STATIC :: u32 where
  "EVMC_STATIC = 1"

subsection \<open>Addresses and 32-byte values\<close>

type_synonym evmc_address = "byte list"
type_synonym evmc_bytes32 = "byte list"

definition is_address :: "evmc_address \<Rightarrow> bool" where
  "is_address a \<longleftrightarrow> length a = 20"

definition is_bytes32 :: "evmc_bytes32 \<Rightarrow> bool" where
  "is_bytes32 b \<longleftrightarrow> length b = 32"

definition zero_address :: evmc_address where
  "zero_address = replicate 20 0"

definition zero_bytes32 :: evmc_bytes32 where
  "zero_bytes32 = replicate 32 0"

definition address_of_uint64 :: "u64 \<Rightarrow> evmc_address" where
  "address_of_uint64 v =
     [0, 0, 0, 0, 0, 0, 0, 0, 0, 0, 0, 0,
      ucast (drop_bit 56 v), ucast (drop_bit 48 v), ucast (drop_bit 40 v),
      ucast (drop_bit 32 v), ucast (drop_bit 24 v), ucast (drop_bit 16 v),
      ucast (drop_bit 8 v), ucast (drop_bit 0 v)]"

definition bytes32_of_uint64 :: "u64 \<Rightarrow> evmc_bytes32" where
  "bytes32_of_uint64 v =
     [0, 0, 0, 0, 0, 0, 0, 0, 0, 0, 0, 0, 0, 0, 0, 0, 0, 0, 0, 0, 0, 0, 0, 0,
      ucast (drop_bit 56 v), ucast (drop_bit 48 v), ucast (drop_bit 40 v),
      ucast (drop_bit 32 v), ucast (drop_bit 24 v), ucast (drop_bit 16 v),
      ucast (drop_bit 8 v), ucast (drop_bit 0 v)]"

text \<open>The loads read from index \<open>i\<close> of the array, as the calls \<open>load64be(&a.bytes[i])\<close> do.\<close>

definition load64be :: "byte list \<Rightarrow> nat \<Rightarrow> u64" where
  "load64be d i =
     push_bit 56 (ucast (d ! i)) OR push_bit 48 (ucast (d ! (i + 1))) OR
     push_bit 40 (ucast (d ! (i + 2))) OR push_bit 32 (ucast (d ! (i + 3))) OR
     push_bit 24 (ucast (d ! (i + 4))) OR push_bit 16 (ucast (d ! (i + 5))) OR
     push_bit 8 (ucast (d ! (i + 6))) OR ucast (d ! (i + 7))"

definition load64le :: "byte list \<Rightarrow> nat \<Rightarrow> u64" where
  "load64le d i =
     ucast (d ! i) OR push_bit 8 (ucast (d ! (i + 1))) OR
     push_bit 16 (ucast (d ! (i + 2))) OR push_bit 24 (ucast (d ! (i + 3))) OR
     push_bit 32 (ucast (d ! (i + 4))) OR push_bit 40 (ucast (d ! (i + 5))) OR
     push_bit 48 (ucast (d ! (i + 6))) OR push_bit 56 (ucast (d ! (i + 7)))"

definition load32be :: "byte list \<Rightarrow> nat \<Rightarrow> u32" where
  "load32be d i =
     push_bit 24 (ucast (d ! i)) OR push_bit 16 (ucast (d ! (i + 1))) OR
     push_bit 8 (ucast (d ! (i + 2))) OR ucast (d ! (i + 3))"

definition load32le :: "byte list \<Rightarrow> nat \<Rightarrow> u32" where
  "load32le d i =
     ucast (d ! i) OR push_bit 8 (ucast (d ! (i + 1))) OR
     push_bit 16 (ucast (d ! (i + 2))) OR push_bit 24 (ucast (d ! (i + 3)))"

definition address_eq :: "evmc_address \<Rightarrow> evmc_address \<Rightarrow> bool" where
  "address_eq a b \<longleftrightarrow>
     load64le a 0 = load64le b 0 \<and> load64le a 8 = load64le b 8 \<and> load32le a 16 = load32le b 16"

definition address_less :: "evmc_address \<Rightarrow> evmc_address \<Rightarrow> bool" where
  "address_less a b \<longleftrightarrow>
     load64be a 0 < load64be b 0 \<or>
     (load64be a 0 = load64be b 0 \<and>
      (load64be a 8 < load64be b 8 \<or>
       (load64be a 8 = load64be b 8 \<and> load32be a 16 < load32be b 16)))"

definition bytes32_eq :: "evmc_bytes32 \<Rightarrow> evmc_bytes32 \<Rightarrow> bool" where
  "bytes32_eq a b \<longleftrightarrow>
     load64le a 0 = load64le b 0 \<and> load64le a 8 = load64le b 8 \<and>
     load64le a 16 = load64le b 16 \<and> load64le a 24 = load64le b 24"

definition bytes32_less :: "evmc_bytes32 \<Rightarrow> evmc_bytes32 \<Rightarrow> bool" where
  "bytes32_less a b \<longleftrightarrow>
     load64be a 0 < load64be b 0 \<or>
     (load64be a 0 = load64be b 0 \<and>
      (load64be a 8 < load64be b 8 \<or>
       (load64be a 8 = load64be b 8 \<and>
        (load64be a 16 < load64be b 16 \<or>
         (load64be a 16 = load64be b 16 \<and> load64be a 24 < load64be b 24)))))"

definition is_zero_address :: "evmc_address \<Rightarrow> bool" where
  "is_zero_address a = address_eq a zero_address"

definition is_zero_bytes32 :: "evmc_bytes32 \<Rightarrow> bool" where
  "is_zero_bytes32 a = bytes32_eq a zero_bytes32"

definition fnv_prime :: u64 where
  "fnv_prime = 0x100000001b3"

definition fnv_offset_basis :: u64 where
  "fnv_offset_basis = 0xcbf29ce484222325"

definition fnv1a_by64 :: "u64 \<Rightarrow> u64 \<Rightarrow> u64" where
  "fnv1a_by64 h x = (h XOR x) * fnv_prime"

definition hash_address :: "evmc_address \<Rightarrow> u64" where
  "hash_address s =
     fnv1a_by64 (fnv1a_by64 (fnv1a_by64 fnv_offset_basis (load64le s 0)) (load64le s 8))
       (ucast (load32le s 16))"

definition hash_bytes32 :: "evmc_bytes32 \<Rightarrow> u64" where
  "hash_bytes32 s =
     fnv1a_by64 (fnv1a_by64 (fnv1a_by64 (fnv1a_by64 fnv_offset_basis (load64le s 0))
       (load64le s 8)) (load64le s 16)) (load64le s 24)"

subsection \<open>The loads as numbers, the comparisons as orders\<close>

lemma shift_or_byte: "push_bit 8 x OR ucast (b :: byte) = x * 256 + (ucast b :: 'a::len word)"
proof -
  have "push_bit 8 x AND (ucast b :: 'a word) = 0"
    by (rule bit_word_eqI) (auto simp: bit_simps dest: bit_imp_le_length)
  then have "push_bit 8 x OR (ucast b :: 'a word) = push_bit 8 x + ucast b"
    by (simp add: disjunctive_add_eq_or)
  then show ?thesis by (simp add: push_bit_eq_mult)
qed

lemma fold_shift_or: "foldl (\<lambda>x b. push_bit 8 x OR ucast b) 0 bs = (word_of_nat (be_val bs) :: 'a::len word)"
  by (induction bs rule: rev_induct) (simp_all add: shift_or_byte)

lemma unat_of_be_val:
  assumes "8 * length bs \<le> LENGTH('a)"
  shows "unat (word_of_nat (be_val bs) :: 'a::len word) = be_val bs"
proof -
  have "be_val bs < 2 ^ (8 * length bs)"
    using be_val_less [of bs] by (simp add: power_mult)
  also have "\<dots> \<le> 2 ^ LENGTH('a)"
    using assms by (intro power_increasing) simp_all
  finally show ?thesis
    by (simp add: unat_of_nat)
qed

lemma take8_drop:
  "i + 8 \<le> length d \<Longrightarrow>
   take 8 (drop i d) = [d ! i, d ! (i+1), d ! (i+2), d ! (i+3), d ! (i+4), d ! (i+5), d ! (i+6), d ! (i+7)]"
  by (rule nth_equalityI) (auto simp: less_Suc_eq numeral_eq_Suc)

lemma take4_drop:
  "i + 4 \<le> length d \<Longrightarrow> take 4 (drop i d) = [d ! i, d ! (i+1), d ! (i+2), d ! (i+3)]"
  by (rule nth_equalityI) (auto simp: less_Suc_eq numeral_eq_Suc)

lemma load64be_eq: "i + 8 \<le> length d \<Longrightarrow> load64be d i = word_of_nat (be_val (take 8 (drop i d)))"
  by (simp add: take8_drop load64be_def push_bit_or or.assoc flip: fold_shift_or)

lemma load32be_eq: "i + 4 \<le> length d \<Longrightarrow> load32be d i = word_of_nat (be_val (take 4 (drop i d)))"
  by (simp add: take4_drop load32be_def push_bit_or or.assoc flip: fold_shift_or)

lemma load64le_eq: "i + 8 \<le> length d \<Longrightarrow> load64le d i = word_of_nat (be_val (rev (take 8 (drop i d))))"
  by (simp add: take8_drop load64le_def push_bit_or ac_simps flip: fold_shift_or)

lemma load32le_eq: "i + 4 \<le> length d \<Longrightarrow> load32le d i = word_of_nat (be_val (rev (take 4 (drop i d))))"
  by (simp add: take4_drop load32le_def push_bit_or ac_simps flip: fold_shift_or)

lemma unat_load64be: "i + 8 \<le> length d \<Longrightarrow> unat (load64be d i) = be_val (take 8 (drop i d))"
  by (simp add: load64be_eq unat_of_be_val)

lemma unat_load32be: "i + 4 \<le> length d \<Longrightarrow> unat (load32be d i) = be_val (take 4 (drop i d))"
  by (simp add: load32be_eq unat_of_be_val)

lemma load64le_inj:
  assumes "i + 8 \<le> length a" and "i + 8 \<le> length b" and "load64le a i = load64le b i"
  shows "take 8 (drop i a) = take 8 (drop i b)"
proof -
  have "be_val (rev (take 8 (drop i a))) = be_val (rev (take 8 (drop i b)))"
    using arg_cong [OF assms(3), of unat] assms(1,2) by (simp add: load64le_eq unat_of_be_val)
  then have "rev (take 8 (drop i a)) = rev (take 8 (drop i b))"
    by (rule be_val_inj [rotated]) (use assms in simp)
  then show ?thesis by simp
qed

lemma load32le_inj:
  assumes "i + 4 \<le> length a" and "i + 4 \<le> length b" and "load32le a i = load32le b i"
  shows "take 4 (drop i a) = take 4 (drop i b)"
proof -
  have "be_val (rev (take 4 (drop i a))) = be_val (rev (take 4 (drop i b)))"
    using arg_cong [OF assms(3), of unat] assms(1,2) by (simp add: load32le_eq unat_of_be_val)
  then have "rev (take 4 (drop i a)) = rev (take 4 (drop i b))"
    by (rule be_val_inj [rotated]) (use assms in simp)
  then show ?thesis by simp
qed


text \<open>Byte strings cut at multiples of 8, and the lexicographic order of the pieces.\<close>

lemma cut20:
  assumes "length a = 20"
  shows "take 8 a @ take 8 (drop 8 a) @ take 4 (drop 16 a) = a"
proof -
  have "take 4 (drop 16 a) = drop 16 a" using assms by simp
  moreover have "take 8 (drop 8 a) @ drop 16 a = drop 8 a"
    using append_take_drop_id [of 8 "drop 8 a"] by simp
  ultimately show ?thesis by simp
qed

lemma cut32:
  assumes "length a = 32"
  shows "take 8 a @ take 8 (drop 8 a) @ take 8 (drop 16 a) @ take 8 (drop 24 a) = a"
proof -
  have "take 8 (drop 24 a) = drop 24 a" using assms by simp
  moreover have "take 8 (drop 16 a) @ drop 24 a = drop 16 a"
    using append_take_drop_id [of 8 "drop 16 a"] by simp
  moreover have "take 8 (drop 8 a) @ drop 16 a = drop 8 a"
    using append_take_drop_id [of 8 "drop 8 a"] by simp
  ultimately show ?thesis by simp
qed

lemma mixed_radix_less:
  fixes a a' b b' M :: nat
  assumes "b < M" and "b' < M"
  shows "a * M + b < a' * M + b' \<longleftrightarrow> a < a' \<or> a = a' \<and> b < b'"
proof (cases "a = a'")
  case False
  show ?thesis
  proof (cases "a < a'")
    case True
    then have "Suc a * M \<le> a' * M" by (intro mult_right_mono) simp_all
    with assms True show ?thesis by simp
  next
    case F: False
    with False have "Suc a' * M \<le> a * M" by (intro mult_right_mono) simp_all
    with assms F False show ?thesis by simp
  qed
qed simp

lemma be_val_append_less:
  assumes "length y = length y'"
  shows "be_val (x @ y) < be_val (x' @ y') \<longleftrightarrow>
         be_val x < be_val x' \<or> be_val x = be_val x' \<and> be_val y < be_val y'"
  using assms be_val_less [of y] be_val_less [of y']
  by (simp add: be_val_append mixed_radix_less)

lemma be_val_cut20_less:
  assumes "length a = 20" and "length b = 20"
  shows "be_val a < be_val b \<longleftrightarrow> address_less a b"
proof -
  have "be_val a < be_val b \<longleftrightarrow>
        be_val (take 8 a @ take 8 (drop 8 a) @ take 4 (drop 16 a)) <
        be_val (take 8 b @ take 8 (drop 8 b) @ take 4 (drop 16 b))"
    using assms by (simp only: cut20)
  also have "\<dots> \<longleftrightarrow> address_less a b"
    using assms
    by (simp add: be_val_append_less address_less_def word_less_nat_alt word_unat_eq_iff
        unat_load64be unat_load32be)
  finally show ?thesis .
qed

lemma be_val_cut32_less:
  assumes "length a = 32" and "length b = 32"
  shows "be_val a < be_val b \<longleftrightarrow> bytes32_less a b"
proof -
  have "be_val a < be_val b \<longleftrightarrow>
        be_val (take 8 a @ take 8 (drop 8 a) @ take 8 (drop 16 a) @ take 8 (drop 24 a)) <
        be_val (take 8 b @ take 8 (drop 8 b) @ take 8 (drop 16 b) @ take 8 (drop 24 b))"
    using assms by (simp only: cut32)
  also have "\<dots> \<longleftrightarrow> bytes32_less a b"
    using assms
    by (simp add: be_val_append_less bytes32_less_def word_less_nat_alt word_unat_eq_iff
        unat_load64be)
  finally show ?thesis .
qed

lemma address_eq_iff:
  assumes "length a = 20" and "length b = 20"
  shows "address_eq a b \<longleftrightarrow> a = b"
proof
  assume eq: "address_eq a b"
  have "take 8 (drop 0 a) = take 8 (drop 0 b)"
    by (rule load64le_inj) (use assms eq in \<open>auto simp: address_eq_def\<close>)
  moreover have "take 8 (drop 8 a) = take 8 (drop 8 b)"
    by (rule load64le_inj) (use assms eq in \<open>auto simp: address_eq_def\<close>)
  moreover have "take 4 (drop 16 a) = take 4 (drop 16 b)"
    by (rule load32le_inj) (use assms eq in \<open>auto simp: address_eq_def\<close>)
  ultimately show "a = b"
    using assms by (metis cut20 drop_0)
qed (simp add: address_eq_def)

lemma bytes32_eq_iff:
  assumes "length a = 32" and "length b = 32"
  shows "bytes32_eq a b \<longleftrightarrow> a = b"
proof
  assume eq: "bytes32_eq a b"
  have "take 8 (drop 0 a) = take 8 (drop 0 b)"
    by (rule load64le_inj) (use assms eq in \<open>auto simp: bytes32_eq_def\<close>)
  moreover have "take 8 (drop 8 a) = take 8 (drop 8 b)"
    by (rule load64le_inj) (use assms eq in \<open>auto simp: bytes32_eq_def\<close>)
  moreover have "take 8 (drop 16 a) = take 8 (drop 16 b)"
    by (rule load64le_inj) (use assms eq in \<open>auto simp: bytes32_eq_def\<close>)
  moreover have "take 8 (drop 24 a) = take 8 (drop 24 b)"
    by (rule load64le_inj) (use assms eq in \<open>auto simp: bytes32_eq_def\<close>)
  ultimately show "a = b"
    using assms by (metis cut32 drop_0)
qed (simp add: bytes32_eq_def)


lemma address_less_linear:
  assumes "is_address a" and "is_address b"
  shows "address_less a b \<or> address_eq a b \<or> address_less b a"
  using assms be_val_inj [of a b]
  by (auto simp: is_address_def address_eq_iff simp flip: be_val_cut20_less)

subsection \<open>Messages, results, transaction context\<close>

record evmc_message =
  msg_kind :: evmc_call_kind
  msg_flags :: u32
  msg_depth :: int
  msg_gas :: int
  msg_recipient :: evmc_address
  msg_sender :: evmc_address
  msg_input :: "byte list"
  msg_value :: evmc_bytes32
  msg_create2_salt :: evmc_bytes32
  msg_code_address :: evmc_address

record evmc_tx_context =
  tx_gas_price :: evmc_bytes32
  tx_origin :: evmc_address
  block_coinbase :: evmc_address
  block_number :: int
  block_timestamp :: int
  block_gas_limit :: int
  block_prev_randao :: evmc_bytes32
  chain_id :: evmc_bytes32
  block_base_fee :: evmc_bytes32
  blob_base_fee :: evmc_bytes32
  blob_hashes :: "evmc_bytes32 list"

record evmc_result =
  res_status_code :: evmc_status_code
  res_gas_left :: int
  res_gas_refund :: int
  res_output :: "byte list"
  res_create_address :: evmc_address

text \<open>\<open>evmc_message{}\<close> and \<open>evmc_tx_context{}\<close>: every field zero.\<close>

definition zero_message :: evmc_message where
  "zero_message = \<lparr>msg_kind = EVMC_CALL, msg_flags = 0, msg_depth = 0, msg_gas = 0,
     msg_recipient = zero_address, msg_sender = zero_address, msg_input = [],
     msg_value = zero_bytes32, msg_create2_salt = zero_bytes32,
     msg_code_address = zero_address\<rparr>"

definition zero_tx_context :: evmc_tx_context where
  "zero_tx_context = \<lparr>tx_gas_price = zero_bytes32, tx_origin = zero_address,
     block_coinbase = zero_address, block_number = 0, block_timestamp = 0, block_gas_limit = 0,
     block_prev_randao = zero_bytes32, chain_id = zero_bytes32, block_base_fee = zero_bytes32,
     blob_base_fee = zero_bytes32, blob_hashes = []\<rparr>"

text \<open>
  \<open>evmc_make_result\<close>: the output is copied into memory from \<open>malloc\<close>, whose success is
  the parameter \<open>malloc_ok\<close>.
\<close>

definition make_result ::
  "(nat \<Rightarrow> bool) \<Rightarrow> evmc_status_code \<Rightarrow> int \<Rightarrow> int \<Rightarrow> byte list \<Rightarrow> evmc_result" where
  "make_result malloc_ok status_code gas_left gas_refund output =
     (if length output \<noteq> 0 \<and> \<not> malloc_ok (length output)
      then \<lparr>res_status_code = EVMC_OUT_OF_MEMORY, res_gas_left = 0, res_gas_refund = 0,
            res_output = [], res_create_address = zero_address\<rparr>
      else \<lparr>res_status_code = status_code, res_gas_left = gas_left,
            res_gas_refund = gas_refund, res_output = output,
            res_create_address = zero_address\<rparr>)"

text \<open>The constructors of \<open>evmc::Result\<close>.\<close>

definition result_no_output :: "evmc_status_code \<Rightarrow> int \<Rightarrow> int \<Rightarrow> evmc_result" where
  "result_no_output st gl gr = make_result (\<lambda>_. True) st gl gr []"

definition result_created :: "evmc_status_code \<Rightarrow> int \<Rightarrow> int \<Rightarrow> evmc_address \<Rightarrow> evmc_result" where
  "result_created st gl gr addr =
     (make_result (\<lambda>_. True) st gl gr []) \<lparr>res_create_address := addr\<rparr>"

lemma result_simps [simp]:
  "res_status_code (result_no_output st gl gr) = st"
  "res_gas_left (result_no_output st gl gr) = gl"
  "res_gas_refund (result_no_output st gl gr) = gr"
  "res_output (result_no_output st gl gr) = []"
  "res_status_code (result_created st gl gr a) = st"
  "res_gas_left (result_created st gl gr a) = gl"
  "res_create_address (result_created st gl gr a) = a"
  by (simp_all add: result_no_output_def result_created_def make_result_def)

subsection \<open>The host callbacks\<close>

text \<open>
  The callback functions, over the host context \<open>'h\<close> that every non-\<open>const\<close> callback may
  change. Each returns the next state of the context beside its result. \<open>copy_code\<close> returns
  the bytes it wrote to the buffer; their number is its \<open>size_t\<close> result. \<open>call\<close> runs another
  contract, and is \<open>None\<close> where that run has no determined result.
\<close>

type_synonym 'h evmc_account_exists_fn =
  "'h \<Rightarrow> evmc_address \<Rightarrow> bool \<times> 'h"
type_synonym 'h evmc_get_storage_fn =
  "'h \<Rightarrow> evmc_address \<Rightarrow> evmc_bytes32 \<Rightarrow> evmc_bytes32 \<times> 'h"
type_synonym 'h evmc_set_storage_fn =
  "'h \<Rightarrow> evmc_address \<Rightarrow> evmc_bytes32 \<Rightarrow> evmc_bytes32 \<Rightarrow> evmc_storage_status \<times> 'h"
type_synonym 'h evmc_get_balance_fn =
  "'h \<Rightarrow> evmc_address \<Rightarrow> evmc_bytes32 \<times> 'h"
type_synonym 'h evmc_get_code_size_fn =
  "'h \<Rightarrow> evmc_address \<Rightarrow> nat \<times> 'h"
type_synonym 'h evmc_get_code_hash_fn =
  "'h \<Rightarrow> evmc_address \<Rightarrow> evmc_bytes32 \<times> 'h"
type_synonym 'h evmc_copy_code_fn =
  "'h \<Rightarrow> evmc_address \<Rightarrow> nat \<Rightarrow> nat \<Rightarrow> byte list \<times> 'h"
type_synonym 'h evmc_selfdestruct_fn =
  "'h \<Rightarrow> evmc_address \<Rightarrow> evmc_address \<Rightarrow> bool \<times> 'h"
type_synonym 'h evmc_call_fn =
  "'h \<Rightarrow> evmc_message \<Rightarrow> (evmc_result \<times> 'h) option"
type_synonym 'h evmc_get_tx_context_fn = "'h \<Rightarrow> evmc_tx_context"
type_synonym 'h evmc_get_block_hash_fn = "'h \<Rightarrow> int \<Rightarrow> evmc_bytes32"
type_synonym 'h evmc_emit_log_fn =
  "'h \<Rightarrow> evmc_address \<Rightarrow> byte list \<Rightarrow> evmc_bytes32 list \<Rightarrow> 'h"
type_synonym 'h evmc_access_account_fn =
  "'h \<Rightarrow> evmc_address \<Rightarrow> evmc_access_status \<times> 'h"
type_synonym 'h evmc_access_storage_fn =
  "'h \<Rightarrow> evmc_address \<Rightarrow> evmc_bytes32 \<Rightarrow> evmc_access_status \<times> 'h"
type_synonym 'h evmc_get_transient_storage_fn =
  "'h \<Rightarrow> evmc_address \<Rightarrow> evmc_bytes32 \<Rightarrow> evmc_bytes32 \<times> 'h"
type_synonym 'h evmc_set_transient_storage_fn =
  "'h \<Rightarrow> evmc_address \<Rightarrow> evmc_bytes32 \<Rightarrow> evmc_bytes32 \<Rightarrow> 'h"

text \<open>\<open>struct evmc_host_interface\<close>: one function per callback.\<close>

record 'h host_interface =
  account_exists_fn :: "'h evmc_account_exists_fn"
  get_storage_fn :: "'h evmc_get_storage_fn"
  set_storage_fn :: "'h evmc_set_storage_fn"
  get_balance_fn :: "'h evmc_get_balance_fn"
  get_code_size_fn :: "'h evmc_get_code_size_fn"
  get_code_hash_fn :: "'h evmc_get_code_hash_fn"
  copy_code_fn :: "'h evmc_copy_code_fn"
  selfdestruct_fn :: "'h evmc_selfdestruct_fn"
  call_fn :: "'h evmc_call_fn"
  get_tx_context_fn :: "'h evmc_get_tx_context_fn"
  get_block_hash_fn :: "'h evmc_get_block_hash_fn"
  emit_log_fn :: "'h evmc_emit_log_fn"
  access_account_fn :: "'h evmc_access_account_fn"
  access_storage_fn :: "'h evmc_access_storage_fn"
  get_transient_storage_fn :: "'h evmc_get_transient_storage_fn"
  set_transient_storage_fn :: "'h evmc_set_transient_storage_fn"

subsection \<open>Names of the status codes and revisions\<close>

fun evmc_status_code_to_string :: "evmc_status_code \<Rightarrow> string" where
  "evmc_status_code_to_string EVMC_SUCCESS = ''success''"
| "evmc_status_code_to_string EVMC_FAILURE = ''failure''"
| "evmc_status_code_to_string EVMC_REVERT = ''revert''"
| "evmc_status_code_to_string EVMC_OUT_OF_GAS = ''out of gas''"
| "evmc_status_code_to_string EVMC_INVALID_INSTRUCTION = ''invalid instruction''"
| "evmc_status_code_to_string EVMC_UNDEFINED_INSTRUCTION = ''undefined instruction''"
| "evmc_status_code_to_string EVMC_STACK_OVERFLOW = ''stack overflow''"
| "evmc_status_code_to_string EVMC_STACK_UNDERFLOW = ''stack underflow''"
| "evmc_status_code_to_string EVMC_BAD_JUMP_DESTINATION = ''bad jump destination''"
| "evmc_status_code_to_string EVMC_INVALID_MEMORY_ACCESS = ''invalid memory access''"
| "evmc_status_code_to_string EVMC_CALL_DEPTH_EXCEEDED = ''call depth exceeded''"
| "evmc_status_code_to_string EVMC_STATIC_MODE_VIOLATION = ''static mode violation''"
| "evmc_status_code_to_string EVMC_PRECOMPILE_FAILURE = ''precompile failure''"
| "evmc_status_code_to_string EVMC_CONTRACT_VALIDATION_FAILURE = ''contract validation failure''"
| "evmc_status_code_to_string EVMC_ARGUMENT_OUT_OF_RANGE = ''argument out of range''"
| "evmc_status_code_to_string EVMC_WASM_UNREACHABLE_INSTRUCTION = ''wasm unreachable instruction''"
| "evmc_status_code_to_string EVMC_WASM_TRAP = ''wasm trap''"
| "evmc_status_code_to_string EVMC_INSUFFICIENT_BALANCE = ''insufficient balance''"
| "evmc_status_code_to_string EVMC_INTERNAL_ERROR = ''internal error''"
| "evmc_status_code_to_string EVMC_REJECTED = ''rejected''"
| "evmc_status_code_to_string EVMC_OUT_OF_MEMORY = ''out of memory''"

fun evmc_revision_to_string :: "evmc_revision \<Rightarrow> string" where
  "evmc_revision_to_string EVMC_FRONTIER = ''Frontier''"
| "evmc_revision_to_string EVMC_HOMESTEAD = ''Homestead''"
| "evmc_revision_to_string EVMC_TANGERINE_WHISTLE = ''Tangerine Whistle''"
| "evmc_revision_to_string EVMC_SPURIOUS_DRAGON = ''Spurious Dragon''"
| "evmc_revision_to_string EVMC_BYZANTIUM = ''Byzantium''"
| "evmc_revision_to_string EVMC_CONSTANTINOPLE = ''Constantinople''"
| "evmc_revision_to_string EVMC_PETERSBURG = ''Petersburg''"
| "evmc_revision_to_string EVMC_ISTANBUL = ''Istanbul''"
| "evmc_revision_to_string EVMC_BERLIN = ''Berlin''"
| "evmc_revision_to_string EVMC_LONDON = ''London''"
| "evmc_revision_to_string EVMC_PARIS = ''Paris''"
| "evmc_revision_to_string EVMC_SHANGHAI = ''Shanghai''"
| "evmc_revision_to_string EVMC_CANCUN = ''Cancun''"
| "evmc_revision_to_string EVMC_PRAGUE = ''Prague''"

end
