(* ===== verification/Hex.thy ===== *)
theory Hex
  imports Evmc
begin

text \<open>
  Hexadecimal encoding (\<open>evmc/hex.hpp\<close>, with the white-space filter of
  \<open>evmc/filter_iterator.hpp\<close>). A \<open>char\<close> is read by its code; the iterator pair of
  \<open>from_hex\<close> is the list of the characters between the two iterators, and its output
  iterator the list of the bytes written through it.
\<close>

definition hex_digit :: "byte \<Rightarrow> char" where
  "hex_digit n = ''0123456789abcdef'' ! unat n"

definition hex_byte :: "byte \<Rightarrow> string" where
  "hex_byte b = [hex_digit (drop_bit 4 b), hex_digit (b AND 0xf)]"

primrec hex_bytes :: "byte list \<Rightarrow> string" where
  "hex_bytes [] = []"
| "hex_bytes (b # bs) = hex_byte b @ hex_bytes bs"

definition from_hex_digit :: "char \<Rightarrow> int" where
  "from_hex_digit h =
     (let c = of_char h
      in if of_char (CHR ''0'') \<le> c \<and> c \<le> of_char (CHR ''9'') then c - of_char (CHR ''0'')
         else if of_char (CHR ''a'') \<le> c \<and> c \<le> of_char (CHR ''f'')
           then c - of_char (CHR ''a'') + 10
         else if of_char (CHR ''A'') \<le> c \<and> c \<le> of_char (CHR ''F'')
           then c - of_char (CHR ''A'') + 10
         else - 1)"

text \<open>The loop of \<open>from_hex\<close>, from its state \<open>i\<close>, \<open>hi_nibble\<close> and the output so far.\<close>

fun from_hex_loop :: "string \<Rightarrow> nat \<Rightarrow> int \<Rightarrow> byte list \<Rightarrow> bool \<times> byte list" where
  "from_hex_loop [] i hi_nibble out = (i mod 2 = 0, out)"
| "from_hex_loop (h # hs) i hi_nibble out =
     (let v = from_hex_digit h
      in if v < 0
         then if i = 1 \<and> hi_nibble = 0 \<and> h = CHR ''x''
           then from_hex_loop hs (i + 1) hi_nibble out
           else (False, out)
         else if i mod 2 = 0
           then from_hex_loop hs (i + 1) (push_bit 4 v) out
           else from_hex_loop hs (i + 1) hi_nibble (out @ [word_of_int (hi_nibble OR v)]))"

definition from_hex_iter :: "string \<Rightarrow> bool \<times> byte list" where
  "from_hex_iter s = from_hex_loop s 0 (- 1) []"

definition validate_hex :: "string \<Rightarrow> bool" where
  "validate_hex s = fst (from_hex_iter s)"

definition from_hex :: "string \<Rightarrow> byte list option" where
  "from_hex s = (let (ok, bs) = from_hex_iter s in if \<not> ok then None else Some bs)"

text \<open>
  \<open>from_hex<T>\<close> for a type of \<open>num_out_bytes\<close> bytes: the bytes are written from index
  \<open>num_out_bytes - num_in_bytes\<close> of a zeroed array.
\<close>

definition from_hex_fixed :: "nat \<Rightarrow> string \<Rightarrow> byte list option" where
  "from_hex_fixed num_out_bytes s =
     (let s = (if 2 \<le> length s \<and> s ! 0 = CHR ''0'' \<and> s ! 1 = CHR ''x'' then drop 2 s else s);
          num_in_bytes = length s div 2
      in if num_in_bytes > num_out_bytes then None
         else let (ok, bs) = from_hex_iter s
              in if \<not> ok then None
                 else splice_opt (replicate num_out_bytes 0) (num_out_bytes - num_in_bytes) bs)"

text \<open>\<open>isspace\<close>: the subtraction is unsigned 32-bit, so codes below a tab wrap around.\<close>

definition isspace :: "char \<Rightarrow> bool" where
  "isspace ch \<longleftrightarrow> ch = CHR '' '' \<or> (of_char ch - 9 :: u32) < 5"

definition is_not_space :: "char \<Rightarrow> bool" where
  "is_not_space ch = (\<not> isspace ch)"

text \<open>
  \<open>filter_iterator\<close>: the underlying position, as the text from there to \<open>base_end\<close>, and the
  value read there, which has not been set if nothing was read. Iterators that are compared
  run over the same text, so their positions are equal if what is left of it is.
\<close>

record filter_iterator =
  it_base :: string
  it_value :: "char option"

function forward_to_next_value :: "(char \<Rightarrow> bool) \<Rightarrow> filter_iterator \<Rightarrow> filter_iterator" where
  "forward_to_next_value p it =
     (case it_base it of
        [] \<Rightarrow> it
      | c # cs \<Rightarrow>
          let it = it\<lparr>it_value := Some c\<rparr>
          in if p c then it else forward_to_next_value p (it\<lparr>it_base := cs\<rparr>))"
  by pat_completeness auto
termination by (relation "measure (\<lambda>(p, it). length (it_base it))") auto

declare forward_to_next_value.simps [simp del]

definition iter_make :: "(char \<Rightarrow> bool) \<Rightarrow> string \<Rightarrow> filter_iterator" where
  "iter_make p s = forward_to_next_value p \<lparr>it_base = s, it_value = None\<rparr>"

definition iter_deref :: "filter_iterator \<Rightarrow> char option" where
  "iter_deref it = it_value it"

definition iter_next :: "(char \<Rightarrow> bool) \<Rightarrow> filter_iterator \<Rightarrow> filter_iterator option" where
  "iter_next p it = (case it_base it of
     [] \<Rightarrow> None | _ # cs \<Rightarrow> Some (forward_to_next_value p (it\<lparr>it_base := cs\<rparr>)))"

definition iter_eq :: "filter_iterator \<Rightarrow> filter_iterator \<Rightarrow> bool" where
  "iter_eq it other \<longleftrightarrow> it_base it = it_base other"

definition iter_ne :: "filter_iterator \<Rightarrow> filter_iterator \<Rightarrow> bool" where
  "iter_ne it other \<longleftrightarrow> it_base it \<noteq> it_base other"

lemma forward_length: "length (it_base (forward_to_next_value p it)) \<le> length (it_base it)"
proof (induction p it rule: forward_to_next_value.induct)
  case (1 p it)
  then show ?case
    by (subst forward_to_next_value.simps) (force split: list.split simp: Let_def)
qed

text \<open>
  The characters a loop from one iterator to another visits; \<open>None\<close> if it reads an unset value
  or steps past the end.
\<close>

function iter_chars :: "(char \<Rightarrow> bool) \<Rightarrow> filter_iterator \<Rightarrow> filter_iterator \<Rightarrow> string option" where
  "iter_chars p it last_it =
     (if iter_ne it last_it
      then (case (iter_deref it, iter_next p it) of
          (Some c, Some it') \<Rightarrow> map_option (Cons c) (iter_chars p it' last_it)
        | _ \<Rightarrow> None)
      else Some [])"
  by pat_completeness auto
termination
proof (relation "measure (\<lambda>(p, it, _). length (it_base it))", goal_cases)
  case (2 p it)
  then obtain d cs where "it_base it = d # cs"
    by (auto simp: iter_next_def split: list.splits)
  then show ?case
    using 2 forward_length [of p "it\<lparr>it_base := cs\<rparr>"] by (auto simp: iter_next_def)
qed simp

declare iter_chars.simps [simp del]

text \<open>\<open>skip_space_iterator\<close> is the adaptor with the predicate \<open>is_not_space\<close>.\<close>

definition skip_space_iterator :: "string \<Rightarrow> filter_iterator" where
  "skip_space_iterator s = iter_make is_not_space s"

definition from_spaced_hex :: "string \<Rightarrow> byte list option" where
  "from_spaced_hex s =
     Option.bind (iter_chars is_not_space (skip_space_iterator s) (skip_space_iterator [])) from_hex"

subsection \<open>The iterator adaptor is a filter\<close>

lemma forward_cases:
  "(filter p (it_base it) = [] \<and> it_base (forward_to_next_value p it) = []) \<or>
   (\<exists>c cs. it_base (forward_to_next_value p it) = c # cs \<and> it_value (forward_to_next_value p it) = Some c \<and>
      filter p (it_base it) = c # filter p cs \<and> length cs < length (it_base it))"
proof (induction p it rule: forward_to_next_value.induct)
  case (1 p it)
  show ?case
  proof (cases "it_base it")
    case Nil
    then show ?thesis by (simp add: forward_to_next_value.simps)
  next
    case (Cons c cs)
    show ?thesis
    proof (cases "p c")
      case True
      then show ?thesis
        using Cons by (simp add: forward_to_next_value.simps [of p it])
    next
      case False
      then show ?thesis
        using 1 [OF Cons refl False] Cons by (auto simp: forward_to_next_value.simps [of p it])
    qed
  qed
qed

lemma iter_chars_filter:
  "it_base it = c # cs \<Longrightarrow> it_value it = Some c \<Longrightarrow> it_base last_it = [] \<Longrightarrow>
   iter_chars p it last_it = Some (c # filter p cs)"
proof (induction cs arbitrary: it c rule: length_induct)
  case (1 cs)
  let ?next = "forward_to_next_value p (it\<lparr>it_base := cs\<rparr>)"
  have step: "iter_chars p it last_it = map_option (Cons c) (iter_chars p ?next last_it)"
    using 1(2,3,4) by (subst iter_chars.simps) (simp add: iter_ne_def iter_deref_def iter_next_def)
  from forward_cases [of p "it\<lparr>it_base := cs\<rparr>"] show ?case
  proof (elim disjE exE conjE)
    assume "filter p (it_base (it\<lparr>it_base := cs\<rparr>)) = []" "it_base ?next = []"
    then show ?thesis
      using step 1(4) by (simp add: iter_chars.simps [of p ?next] iter_ne_def)
  next
    fix d ds
    assume "it_base ?next = d # ds" "it_value ?next = Some d" "length ds < length (it_base (it\<lparr>it_base := cs\<rparr>))"
      and "filter p (it_base (it\<lparr>it_base := cs\<rparr>)) = d # filter p ds"
    then show ?thesis using 1(1,4) step by simp
  qed
qed

lemma iter_range_filter:
  "iter_chars p (iter_make p s) (iter_make p []) = Some (filter p s)"
proof -
  have last: "it_base (iter_make p []) = []"
    by (simp add: iter_make_def forward_to_next_value.simps)
  let ?it = "\<lparr>it_base = s, it_value = None\<rparr>"
  from forward_cases [of p ?it] show ?thesis
  proof (elim disjE exE conjE)
    assume "filter p (it_base ?it) = []" and "it_base (forward_to_next_value p ?it) = []"
    then show ?thesis using last by (subst iter_chars.simps) (simp add: iter_ne_def iter_make_def)
  next
    fix c cs
    assume "it_base (forward_to_next_value p ?it) = c # cs" "it_value (forward_to_next_value p ?it) = Some c"
      and "filter p (it_base ?it) = c # filter p cs"
    then show ?thesis using last iter_chars_filter [of "iter_make p s" c cs] by (simp add: iter_make_def)
  qed
qed

lemma from_spaced_hex_eq: "from_spaced_hex s = from_hex (filter is_not_space s)"
  by (simp add: from_spaced_hex_def skip_space_iterator_def iter_range_filter)

subsection \<open>Decoding\<close>

lemma from_hex_digit_range: "from_hex_digit h = - 1 \<or> (0 \<le> from_hex_digit h \<and> from_hex_digit h < 16)"
  by (auto simp: from_hex_digit_def Let_def)

definition nibbles :: "byte list" where
  "nibbles = map word_of_nat [0..<16]"

lemma nibble_cases: "(n :: byte) < 16 \<Longrightarrow> n \<in> set nibbles"
  unfolding nibbles_def set_map
  by (rule image_eqI [where x = "unat n"]) (simp_all add: word_less_nat_alt)

lemma from_hex_digit_hex_digit: "n < 16 \<Longrightarrow> from_hex_digit (hex_digit n) = int (unat n)"
proof -
  have "\<forall>n \<in> set nibbles. from_hex_digit (hex_digit n) = int (unat n)"
    by code_simp
  then show "n < 16 \<Longrightarrow> ?thesis" using nibble_cases by blast
qed

lemma drop_bit_4_less: "drop_bit 4 (b :: byte) < 16"
  using unat_byte_less [of b]
  by (simp add: word_less_nat_alt unat_drop_bit_eq drop_bit_eq_div [where 'a = nat])

lemma and_15_less: "(b :: byte) AND 15 < 16"
  using word_and_le1 [of b 15] by (simp add: word_le_nat_alt word_less_nat_alt)

lemma join_nibbles:
  "word_of_int (push_bit 4 (uint (drop_bit 4 b)) OR uint (b AND 15)) = (b :: byte)"
proof -
  have "(15 :: byte) = mask 4" by (simp add: mask_eq_exp_minus_1)
  moreover have "word_of_int (push_bit 4 (uint (drop_bit 4 b)) OR uint (b AND mask 4)) = b"
    by (rule bit_word_eqI) (auto simp: bit_simps)
  ultimately show ?thesis by (simp only:)
qed

lemma hex_digit_not_x: "n < 16 \<Longrightarrow> 0 \<le> from_hex_digit (hex_digit n)"
  by (simp add: from_hex_digit_hex_digit)

lemma from_hex_loop_hex_bytes:
  "i mod 2 = 0 \<Longrightarrow> from_hex_loop (hex_bytes bs) i hi out = (True, out @ bs)"
proof (induction bs arbitrary: i hi out)
  case Nil
  then show ?case by simp
next
  case (Cons b bs)
  from Cons.prems have "(i + 1) mod 2 \<noteq> 0" "(i + 2) mod 2 = 0" by presburger+
  then show ?case
    using Cons.prems
    by (simp add: hex_byte_def from_hex_digit_hex_digit drop_bit_4_less and_15_less
        join_nibbles Cons.IH)
qed

lemma from_hex_hex_bytes: "from_hex (hex_bytes bs) = Some bs"
  by (simp add: from_hex_def from_hex_iter_def from_hex_loop_hex_bytes)

text \<open>The bound the comment of \<open>from_hex\<close> promises: at most half of the input length.\<close>

lemma from_hex_loop_length:
  "2 * length (snd (from_hex_loop hs i hi out)) \<le> length hs + i mod 2 + 2 * length out"
proof (induction hs i hi out rule: from_hex_loop.induct)
  case (1 i hi out)
  then show ?case by simp
next
  case (2 h hs i hi out)
  then show ?case by (auto simp: Let_def mod_Suc split: if_splits)
qed

lemma from_hex_loop_even:
  "fst (from_hex_loop hs i hi out) \<Longrightarrow> even (length hs + i)"
proof (induction hs i hi out rule: from_hex_loop.induct)
  case (1 i hi out)
  then show ?case by auto
next
  case (2 h hs i hi out)
  then show ?case by (auto simp: Let_def split: if_splits)
qed

text \<open>\<open>from_hex<T>\<close> never writes outside the bytes of \<open>T\<close>.\<close>

lemma from_hex_fixed_length: "from_hex_fixed n s = Some bs \<Longrightarrow> length bs = n"
  by (auto simp: from_hex_fixed_def Let_def split: if_splits prod.splits
      dest: splice_opt_length)

subsection \<open>Reference decoder\<close>

text \<open>
  What the text means, without the code's arithmetic on character codes: the value of every
  digit by a table, and after the optional prefix pairs of digits, the high one first. The loop
  of \<open>from_hex\<close> decodes exactly the texts that consist of such pairs.
\<close>

definition digit_values :: "(char \<times> int) list" where
  "digit_values = zip ''0123456789abcdefABCDEF''
     [0, 1, 2, 3, 4, 5, 6, 7, 8, 9, 10, 11, 12, 13, 14, 15, 10, 11, 12, 13, 14, 15]"

definition digit_value :: "char \<Rightarrow> int option" where
  "digit_value c = map_of digit_values c"

definition strip_0x :: "string \<Rightarrow> string" where
  "strip_0x s = (if 2 \<le> length s \<and> s ! 0 = CHR ''0'' \<and> s ! 1 = CHR ''x'' then drop 2 s else s)"

fun decode_pairs :: "string \<Rightarrow> byte list option" where
  "decode_pairs [] = Some []"
| "decode_pairs [a] = None"
| "decode_pairs (a # b # s) = do {
     hi \<leftarrow> digit_value a;
     lo \<leftarrow> digit_value b;
     bs \<leftarrow> decode_pairs s;
     Some (word_of_int (16 * hi + lo) # bs) }"

lemma from_hex_digit_listed:
  "list_all (\<lambda>(c, v). from_hex_digit c = v \<and> map_of digit_values c = Some v \<and> 0 \<le> v \<and> v < 16) digit_values"
  by code_simp

lemma digit_codes:
  "map (\<lambda>(c, v). of_char c) digit_values = [48 :: int, 49, 50, 51, 52, 53, 54, 55, 56, 57,
     97, 98, 99, 100, 101, 102, 65, 66, 67, 68, 69, 70]"
  by code_simp

lemma digit_value_Some: "digit_value c = Some v \<Longrightarrow> from_hex_digit c = v \<and> 0 \<le> v \<and> v < 16"
  using from_hex_digit_listed by (auto simp: digit_value_def list_all_iff dest!: map_of_SomeD)

lemma digit_value_None:
  assumes "digit_value c = None"
  shows "from_hex_digit c = - 1"
proof (rule ccontr)
  assume "from_hex_digit c \<noteq> - 1"
  then have "48 \<le> (of_char c :: int) \<and> (of_char c :: int) \<le> 57 \<or> 97 \<le> (of_char c :: int) \<and> (of_char c :: int) \<le> 102 \<or>
      65 \<le> (of_char c :: int) \<and> (of_char c :: int) \<le> 70"
    by (auto simp: from_hex_digit_def Let_def split: if_splits)
  then have "(of_char c :: int) \<in> set (map (\<lambda>(c, v). of_char c) digit_values)"
    unfolding digit_codes list.set insert_iff empty_iff by presburger
  then have "c \<in> fst ` set digit_values" by force
  then show False using assms by (simp add: digit_value_def map_of_eq_None_iff)
qed

lemma from_hex_digit_value:
  "from_hex_digit c = (case digit_value c of None \<Rightarrow> - 1 | Some v \<Rightarrow> v)"
  by (cases "digit_value c") (simp_all add: digit_value_None digit_value_Some)

lemma digit_value_x [simp]: "digit_value CHR ''x'' = None" "digit_value CHR ''0'' = Some 0"
  by code_simp+

lemma digit_value_0:
  assumes "digit_value a = Some 0"
  shows "a = CHR ''0''"
proof -
  have "from_hex_digit a = 0" using digit_value_Some [OF assms] by simp
  then have "of_char a = (48 :: int)"
    by (auto simp: from_hex_digit_def Let_def split: if_splits)
  then have "of_char a = (of_char CHR ''0'' :: int)" by simp
  then show "a = CHR ''0''" by (simp only: of_char_eq_iff)
qed

lemma join_digits:
  assumes "digit_value a = Some hi" and "digit_value b = Some lo"
  shows "push_bit 4 hi OR lo = 16 * hi + lo"
proof -
  have lo: "take_bit 4 lo = lo"
    using digit_value_Some [OF assms(2)] by (simp add: take_bit_int_eq_self)
  have "push_bit 4 hi AND take_bit 4 lo = 0"
    by (rule bit_eqI) (auto simp: bit_simps)
  then have "push_bit 4 hi + lo = push_bit 4 hi OR lo"
    unfolding lo by (rule disjunctive_add_eq_or)
  then show ?thesis by (simp add: push_bit_eq_mult)
qed

text \<open>One pair of digits in the loop, and the whole loop behind the first pair.\<close>

lemma from_hex_loop_pair:
  assumes "even i" and "digit_value a = Some hi" and "digit_value b = Some lo"
  shows "from_hex_loop (a # b # s) i n out =
    from_hex_loop s (i + 2) (push_bit 4 hi) (out @ [word_of_int (16 * hi + lo)])"
proof -
  have "i mod 2 = 0" "(i + 1) mod 2 \<noteq> 0" using assms(1) by presburger+
  then show ?thesis
    using digit_value_Some [OF assms(2)] digit_value_Some [OF assms(3)] join_digits [OF assms(2,3)]
    by (simp add: Let_def)
qed

lemma from_hex_loop_pairs:
  assumes "even i" and "2 \<le> i"
  shows "(case decode_pairs d of
      Some bs \<Rightarrow> from_hex_loop d i n out = (True, out @ bs)
    | None \<Rightarrow> \<not> fst (from_hex_loop d i n out))"
  using assms
proof (induction d arbitrary: i n out rule: decode_pairs.induct)
  case (2 a)
  then have "odd (i + 1)" "i \<noteq> 1" by presburger+
  then show ?case by (auto simp: Let_def odd_iff_mod_2_eq_one)
next
  case (3 a b s)
  have i: "even (i + 2)" "2 \<le> i + 2" "i mod 2 = 0" "i \<noteq> 1" "i \<noteq> 0" using 3(2,3) by presburger+
  show ?case
  proof (cases "digit_value a")
    case None
    then show ?thesis using i by (simp add: digit_value_None)
  next
    case a: (Some hi)
    show ?thesis
    proof (cases "digit_value b")
      case None
      then show ?thesis using i a digit_value_Some [OF a] by (simp add: digit_value_None)
    next
      case b: (Some lo)
      show ?thesis
        using 3(1) [OF a b i(1,2), of "push_bit 4 hi" "out @ [word_of_int (16 * hi + lo)]"]
        unfolding from_hex_loop_pair [OF 3(2) a b]
        by (cases "decode_pairs s") (simp_all add: a b)
    qed
  qed
qed simp

lemma from_hex_iter_pairs:
  "case decode_pairs (strip_0x s) of
      Some bs \<Rightarrow> from_hex_iter s = (True, bs)
    | None \<Rightarrow> \<not> fst (from_hex_iter s)"
proof (cases s rule: decode_pairs.cases)
  case (3 a b r)
  have pairs: "case decode_pairs r of Some bs \<Rightarrow> from_hex_loop r 2 n out = (True, out @ bs)
      | None \<Rightarrow> \<not> fst (from_hex_loop r 2 n out)" for n out
    using from_hex_loop_pairs [of 2 r n out] by simp
  consider (prefix) "a = CHR ''0'' \<and> b = CHR ''x''" | (bad) "\<not> (a = CHR ''0'' \<and> b = CHR ''x'')" "digit_value a = None \<or> digit_value b = None"
    | (pair) hi lo where "digit_value a = Some hi" "digit_value b = Some lo"
    by (metis not_Some_eq)
  then show ?thesis
  proof cases
    case prefix
    then have "from_hex_iter s = from_hex_loop r 2 0 []"
      using 3 from_hex_digit_value [of a] from_hex_digit_value [of b]
      by (simp add: from_hex_iter_def Let_def numeral_2_eq_2)
    then show ?thesis using 3 prefix pairs [of 0 "[]"] by (simp add: strip_0x_def split: option.splits)
  next
    case bad
    then have "decode_pairs (strip_0x s) = None" using 3 by (auto simp: strip_0x_def split: option.splits)
    moreover have "\<not> fst (from_hex_iter s)"
    proof (cases "digit_value a")
      case None
      then show ?thesis using 3 by (simp add: from_hex_iter_def digit_value_None)
    next
      case a: (Some hi)
      then have b: "digit_value b = None" using bad by simp
      have "\<not> (hi = 0 \<and> b = CHR ''x'')" using bad(1) digit_value_0 [of a] a by blast
      then show ?thesis
        using 3 digit_value_Some [OF a] digit_value_None [OF b]
        by (auto simp: from_hex_iter_def push_bit_eq_mult)
    qed
    ultimately show ?thesis by simp
  next
    case pair
    then have "strip_0x s = s" using 3 by (auto simp: strip_0x_def)
    then show ?thesis
      using 3 pairs [of "push_bit 4 hi" "[word_of_int (16 * hi + lo)]"] pair
        from_hex_loop_pair [of 0 a hi b lo r "- 1" "[]"]
      by (simp add: from_hex_iter_def numeral_2_eq_2 split: option.splits)
  qed
qed (auto simp: from_hex_iter_def strip_0x_def Let_def)

lemma from_hex_pairs:
  "from_hex s = decode_pairs (strip_0x s)" "validate_hex s \<longleftrightarrow> decode_pairs (strip_0x s) \<noteq> None"
  using from_hex_iter_pairs [of s]
  by (auto simp: from_hex_def validate_hex_def split: option.splits prod.splits)

end
