(* ===== verification/Evmc_Operators.thy ===== *)
theory Evmc_Operators
  imports Evmc Hex
begin

text \<open>
  The other operators of \<open>evmc::address\<close> and \<open>evmc::bytes32\<close> (\<open>evmc/evmc.hpp\<close>), which are
  defined from \<open>==\<close> and \<open><\<close>, and the user-defined literals.
\<close>

definition address_ne :: "evmc_address \<Rightarrow> evmc_address \<Rightarrow> bool" where
  "address_ne a b \<longleftrightarrow> \<not> address_eq a b"

definition address_greater :: "evmc_address \<Rightarrow> evmc_address \<Rightarrow> bool" where
  "address_greater a b \<longleftrightarrow> address_less b a"

definition address_le :: "evmc_address \<Rightarrow> evmc_address \<Rightarrow> bool" where
  "address_le a b \<longleftrightarrow> \<not> address_less b a"

definition address_ge :: "evmc_address \<Rightarrow> evmc_address \<Rightarrow> bool" where
  "address_ge a b \<longleftrightarrow> \<not> address_less a b"

definition address_bool :: "evmc_address \<Rightarrow> bool" where
  "address_bool a \<longleftrightarrow> \<not> is_zero_address a"

definition bytes32_ne :: "evmc_bytes32 \<Rightarrow> evmc_bytes32 \<Rightarrow> bool" where
  "bytes32_ne a b \<longleftrightarrow> \<not> bytes32_eq a b"

definition bytes32_greater :: "evmc_bytes32 \<Rightarrow> evmc_bytes32 \<Rightarrow> bool" where
  "bytes32_greater a b \<longleftrightarrow> bytes32_less b a"

definition bytes32_le :: "evmc_bytes32 \<Rightarrow> evmc_bytes32 \<Rightarrow> bool" where
  "bytes32_le a b \<longleftrightarrow> \<not> bytes32_less b a"

definition bytes32_ge :: "evmc_bytes32 \<Rightarrow> evmc_bytes32 \<Rightarrow> bool" where
  "bytes32_ge a b \<longleftrightarrow> \<not> bytes32_less a b"

definition bytes32_bool :: "evmc_bytes32 \<Rightarrow> bool" where
  "bytes32_bool a \<longleftrightarrow> \<not> is_zero_bytes32 a"

text \<open>
  A literal that is not hexadecimal text of at most the size of the type ends the program:
  \<open>value()\<close> throws in a \<open>noexcept\<close> function.
\<close>

definition parse_literal :: "nat \<Rightarrow> string \<Rightarrow> byte list option" where
  "parse_literal size_T s = from_hex_fixed size_T s"

definition address_literal :: "string \<Rightarrow> evmc_address option" where
  "address_literal s = parse_literal 20 s"

definition bytes32_literal :: "string \<Rightarrow> evmc_bytes32 option" where
  "bytes32_literal s = parse_literal 32 s"

lemmas address_operators = address_ne_def address_greater_def address_le_def address_ge_def
  address_bool_def is_zero_address_def
lemmas bytes32_operators = bytes32_ne_def bytes32_greater_def bytes32_le_def bytes32_ge_def
  bytes32_bool_def is_zero_bytes32_def

lemma literals_typed:
  "address_literal s = Some a \<Longrightarrow> is_address a" "bytes32_literal s = Some b \<Longrightarrow> is_bytes32 b"
  by (auto simp: address_literal_def bytes32_literal_def parse_literal_def is_address_def is_bytes32_def
      dest: from_hex_fixed_length)

lemma zero_sizes [simp]: "is_address zero_address" "is_bytes32 zero_bytes32"
  by (simp_all add: is_address_def is_bytes32_def zero_address_def zero_bytes32_def)

end
