(* ===== verification/Zkevm_Word.thy ===== *)
theory Zkevm_Word
  imports Evmc "HOL-Library.Signed_Division"
begin

text \<open>
  The 256-bit stack word (\<open>include/zkevm_word.hpp\<close>). \<open>zkevm_word\<close> wraps one
  \<open>intx::uint256\<close>; here it is a \<open>256 word\<close>, whose \<open>+ - * / % & | ^ ~ == <\<close> are the
  operators of that unsigned 256-bit integer and whose \<open>value[i]\<close> is the \<open>i\<close>-th 64-bit limb.

  The named functions of third-party code are not modelled but parameters: the record
  \<open>libs\<close> holds \<open>intx::sdivrem\<close>, \<open>addmod\<close>, \<open>mulmod\<close>, \<open>exp\<close>, \<open>count_significant_bytes\<close>,
  \<open>slt\<close>, \<open>be::load\<close>, \<open>be::store\<close>, \<open>be::trunc\<close>, \<open>ethash::keccak256\<close>, the range of the
  field library's \<open>integral_type\<close>, whether the build defines \<open>NDEBUG\<close>, and which
  allocations succeed. The locale \<open>intx_api\<close> states what the code relies on about them,
  and \<open>reference_libs\<close> is an instance.
\<close>

subsection \<open>Third-party functions as parameters\<close>

record libs =
  ndebug :: bool
  malloc_ok :: "nat \<Rightarrow> bool"
  intx_sdivrem :: "u256 \<Rightarrow> u256 \<Rightarrow> u256 \<times> u256"
  intx_addmod :: "u256 \<Rightarrow> u256 \<Rightarrow> u256 \<Rightarrow> u256"
  intx_mulmod :: "u256 \<Rightarrow> u256 \<Rightarrow> u256 \<Rightarrow> u256"
  intx_exp :: "u256 \<Rightarrow> u256 \<Rightarrow> u256"
  intx_count_significant_bytes :: "u256 \<Rightarrow> nat"
  intx_slt :: "u256 \<Rightarrow> u256 \<Rightarrow> bool"
  intx_be_load :: "byte list \<Rightarrow> u256"
  intx_be_load_uint :: "byte list \<Rightarrow> u64"
  intx_be_store :: "nat \<Rightarrow> u256 \<Rightarrow> byte list"
  intx_be_trunc :: "nat \<Rightarrow> u256 \<Rightarrow> byte list"
  keccak256 :: "byte list \<Rightarrow> byte list"
  integral_mod :: nat

text \<open>\<open>assert(c)\<close>: checked unless the build defines \<open>NDEBUG\<close>; a failing check aborts.\<close>

definition cassert :: "'a libs_scheme \<Rightarrow> bool \<Rightarrow> unit option" where
  "cassert L c = (if ndebug L \<or> c then Some () else None)"

lemma cassert_True [simp]: "cassert L True = Some ()"
  by (simp add: cassert_def)

lemma cassert_ndebug: "ndebug L \<Longrightarrow> cassert L c = Some ()"
  by (simp add: cassert_def)

lemma post_cassert [post_rules]: "post (cassert L c) Q = ((ndebug L \<or> c) \<longrightarrow> Q ())"
  by (cases "ndebug L \<or> c") (auto simp: cassert_def)

lemma bind_cassert_Some:
  "(do { _ \<leftarrow> cassert L c; f }) = Some x \<longleftrightarrow> (ndebug L \<or> c) \<and> f = Some x"
  by (simp add: cassert_def)

subsection \<open>Limbs\<close>

type_synonym zkevm_word = u256

definition to_uint64 :: "zkevm_word \<Rightarrow> nat \<Rightarrow> u64" where
  "to_uint64 v i = ucast (drop_bit (64 * i) v)"

definition set_val :: "zkevm_word \<Rightarrow> u64 \<Rightarrow> nat \<Rightarrow> zkevm_word" where
  "set_val v x i =
     (v AND NOT (push_bit (64 * i) (ucast (- 1 :: u64)))) OR push_bit (64 * i) (ucast x)"

text \<open>The low limb as a number: the \<open>to_uint64()\<close> most callers use.\<close>

abbreviation lo64 :: "zkevm_word \<Rightarrow> nat" where
  "lo64 v \<equiv> unat (to_uint64 v 0)"

subsection \<open>Constructors\<close>

definition word_of_uint64 :: "u64 \<Rightarrow> zkevm_word" where
  "word_of_uint64 v = ucast v"

definition word_of_size :: "nat \<Rightarrow> zkevm_word" where
  "word_of_size n = word_of_uint64 (word_of_nat n)"

text \<open>From a signed integer: its 64 bits become the low limb, so negative values are not extended.\<close>

definition word_of_int64 :: "int \<Rightarrow> zkevm_word" where
  "word_of_int64 v = word_of_uint64 (word_of_int v)"

definition word_of_bool :: "bool \<Rightarrow> zkevm_word" where
  "word_of_bool b = (if b then 1 else 0)"

definition word_of_uint256be :: "'a libs_scheme \<Rightarrow> evmc_bytes32 \<Rightarrow> zkevm_word" where
  "word_of_uint256be L v = intx_be_load L v"

definition word_of_address :: "'a libs_scheme \<Rightarrow> evmc_address \<Rightarrow> zkevm_word" where
  "word_of_address L addr = intx_be_load L addr"

definition word_of_hash :: "'a libs_scheme \<Rightarrow> byte list \<Rightarrow> zkevm_word" where
  "word_of_hash L h = intx_be_load L h"

text \<open>
  \<open>zkevm_word(const uint8_t* data, size_t len)\<close>: \<open>len\<close> bytes copied to the end of 32
  zero bytes. Past 32 bytes the copy would leave the buffer.
\<close>

definition word_of_data :: "'a libs_scheme \<Rightarrow> byte list \<Rightarrow> zkevm_word option" where
  "word_of_data L data = do {
     _ \<leftarrow> cassert L (length data \<le> 32);
     if length data \<le> 32
     then Some (intx_be_load L (replicate (32 - length data) 0 @ data))
     else None }"

subsection \<open>Operators\<close>

definition zw_add :: "zkevm_word \<Rightarrow> zkevm_word \<Rightarrow> zkevm_word" where
  "zw_add a b = a + b"

definition zw_sub :: "zkevm_word \<Rightarrow> zkevm_word \<Rightarrow> zkevm_word" where
  "zw_sub a b = a - b"

definition zw_mul :: "zkevm_word \<Rightarrow> zkevm_word \<Rightarrow> zkevm_word" where
  "zw_mul a b = a * b"

definition zw_div :: "zkevm_word \<Rightarrow> zkevm_word \<Rightarrow> zkevm_word" where
  "zw_div a b = a div b"

definition zw_mod :: "zkevm_word \<Rightarrow> zkevm_word \<Rightarrow> zkevm_word" where
  "zw_mod a b = a mod b"

definition zw_sdiv :: "'a libs_scheme \<Rightarrow> zkevm_word \<Rightarrow> zkevm_word \<Rightarrow> zkevm_word" where
  "zw_sdiv L a b = (if b \<noteq> 0 then fst (intx_sdivrem L a b) else 0)"

definition zw_smod :: "'a libs_scheme \<Rightarrow> zkevm_word \<Rightarrow> zkevm_word \<Rightarrow> zkevm_word" where
  "zw_smod L a b = (if b \<noteq> 0 then snd (intx_sdivrem L a b) else 0)"

definition zw_addmod ::
  "'a libs_scheme \<Rightarrow> zkevm_word \<Rightarrow> zkevm_word \<Rightarrow> zkevm_word \<Rightarrow> zkevm_word" where
  "zw_addmod L a b m = (if m \<noteq> 0 then intx_addmod L a b m else 0)"

definition zw_mulmod ::
  "'a libs_scheme \<Rightarrow> zkevm_word \<Rightarrow> zkevm_word \<Rightarrow> zkevm_word \<Rightarrow> zkevm_word" where
  "zw_mulmod L a b m = (if m \<noteq> 0 then intx_mulmod L a b m else 0)"

definition zw_exp :: "'a libs_scheme \<Rightarrow> zkevm_word \<Rightarrow> zkevm_word \<Rightarrow> zkevm_word" where
  "zw_exp L a e = intx_exp L a e"

definition zw_count_significant_bytes :: "'a libs_scheme \<Rightarrow> zkevm_word \<Rightarrow> nat" where
  "zw_count_significant_bytes L v = intx_count_significant_bytes L v"

definition zw_slt :: "'a libs_scheme \<Rightarrow> zkevm_word \<Rightarrow> zkevm_word \<Rightarrow> bool" where
  "zw_slt L a b = intx_slt L a b"

text \<open>
  The comparisons and the bitwise operators. An \<open>int\<close> operand of \<open>!=\<close> or \<open><\<close> is converted to
  a word of 256 bits first.
\<close>

definition zw_eq :: "zkevm_word \<Rightarrow> zkevm_word \<Rightarrow> bool" where
  [simp]: "zw_eq a b \<longleftrightarrow> a = b"

definition zw_ne :: "zkevm_word \<Rightarrow> zkevm_word \<Rightarrow> bool" where
  [simp]: "zw_ne a b \<longleftrightarrow> a \<noteq> b"

definition zw_ne_int :: "zkevm_word \<Rightarrow> int \<Rightarrow> bool" where
  [simp]: "zw_ne_int a v \<longleftrightarrow> a \<noteq> word_of_int v"

definition zw_lt :: "zkevm_word \<Rightarrow> zkevm_word \<Rightarrow> bool" where
  [simp]: "zw_lt a b \<longleftrightarrow> a < b"

definition zw_lt_int :: "zkevm_word \<Rightarrow> int \<Rightarrow> bool" where
  [simp]: "zw_lt_int a v \<longleftrightarrow> a < word_of_int v"

definition zw_and :: "zkevm_word \<Rightarrow> zkevm_word \<Rightarrow> zkevm_word" where
  [simp]: "zw_and a b = a AND b"

definition zw_or :: "zkevm_word \<Rightarrow> zkevm_word \<Rightarrow> zkevm_word" where
  [simp]: "zw_or a b = a OR b"

definition zw_xor :: "zkevm_word \<Rightarrow> zkevm_word \<Rightarrow> zkevm_word" where
  [simp]: "zw_xor a b = a XOR b"

definition zw_not :: "zkevm_word \<Rightarrow> zkevm_word" where
  [simp]: "zw_not a = NOT a"

lemmas zw_operators = zw_eq_def zw_ne_def zw_ne_int_def zw_lt_def zw_lt_int_def zw_and_def zw_or_def
  zw_xor_def zw_not_def

lemma word_of_int64_zero [simp]: "word_of_int64 0 = 0"
  by (simp add: word_of_int64_def word_of_uint64_def)

definition zw_shl :: "zkevm_word \<Rightarrow> zkevm_word \<Rightarrow> zkevm_word" where
  "zw_shl a s = (if s < 256 then push_bit (unat s) a else 0)"

definition zw_shr :: "zkevm_word \<Rightarrow> zkevm_word \<Rightarrow> zkevm_word" where
  "zw_shr a s = (if s < 256 then drop_bit (unat s) a else 0)"

definition zw_shl64 :: "zkevm_word \<Rightarrow> u64 \<Rightarrow> zkevm_word" where
  "zw_shl64 a s = (if s < 256 then push_bit (unat s) a else 0)"

definition zw_shr64 :: "zkevm_word \<Rightarrow> u64 \<Rightarrow> zkevm_word" where
  "zw_shr64 a s = (if s < 256 then drop_bit (unat s) a else 0)"

subsection \<open>Conversions to bytes\<close>

definition to_hash :: "'a libs_scheme \<Rightarrow> zkevm_word \<Rightarrow> byte list" where
  "to_hash L v = intx_be_store L 32 v"

definition to_address :: "'a libs_scheme \<Rightarrow> zkevm_word \<Rightarrow> evmc_address" where
  "to_address L v = intx_be_trunc L 20 v"

definition to_uint256be :: "'a libs_scheme \<Rightarrow> zkevm_word \<Rightarrow> evmc_bytes32" where
  "to_uint256be L v = intx_be_store L 32 v"

text \<open>
  \<open>store<T>(data)\<close> writes \<open>static_cast<T>(value)\<close>, the low bytes of the value; \<open>n\<close> is
  \<open>sizeof(T)\<close>, one of 1, 2, 4, 8 and 32.
\<close>

definition word_store :: "'a libs_scheme \<Rightarrow> nat \<Rightarrow> zkevm_word \<Rightarrow> byte list" where
  "word_store L n v = intx_be_store L n v"

text \<open>
  \<open>load_partial_data(data, len, i)\<close>: limb \<open>i\<close> becomes the \<open>len\<close> big-endian bytes at
  \<open>data\<close>. For 3 and for 5 to 7 bytes the code loads 4 or 8 and shifts, so it reads past
  the \<open>len\<close> bytes; other lengths leave the word as it is.
\<close>

definition load_partial_data ::
  "'a libs_scheme \<Rightarrow> zkevm_word \<Rightarrow> byte list \<Rightarrow> nat \<Rightarrow> nat \<Rightarrow> nat \<Rightarrow> zkevm_word option" where
  "load_partial_data L v buf off len i =
     (if len = 1 then do {
        bs \<leftarrow> slice_opt buf off 1;
        Some (set_val v (intx_be_load_uint L bs) i) }
      else if len = 2 then do {
        bs \<leftarrow> slice_opt buf off 2;
        Some (set_val v (intx_be_load_uint L bs) i) }
      else if len = 3 then do {
        bs \<leftarrow> slice_opt buf off 4;
        Some (set_val v (drop_bit 8 (intx_be_load_uint L bs)) i) }
      else if len = 4 then do {
        bs \<leftarrow> slice_opt buf off 4;
        Some (set_val v (intx_be_load_uint L bs) i) }
      else if 5 \<le> len \<and> len \<le> 8 then do {
        bs \<leftarrow> slice_opt buf off 8;
        Some (set_val v (drop_bit (8 * (8 - len)) (intx_be_load_uint L bs)) i) }
      else Some v)"

subsection \<open>Conversions to the field\<close>

text \<open>
  \<open>integral_type\<close> is the field library's big integer; its arithmetic is modulo
  \<open>integral_mod\<close> (0 for an unbounded one). A field element is made from it by \<open>of_nat\<close>.
\<close>

definition intg :: "'a libs_scheme \<Rightarrow> nat \<Rightarrow> nat" where
  "intg L n = n mod integral_mod L"

definition word_and_integral :: "'a libs_scheme \<Rightarrow> zkevm_word \<Rightarrow> nat \<Rightarrow> nat" where
  "word_and_integral L v other =
     (let val0 = intg L (unat (to_uint64 v 0));
          lo = intg L (unat (to_uint64 v 1));
          hi = intg L (unat (to_uint64 v 2));
          h = intg L (unat (to_uint64 v 3));
          val1 = intg L (val0 + intg L (push_bit 64 lo));
          val2 = intg L (val1 + intg L (push_bit (64 * 2) hi));
          val3 = intg L (val2 + intg L (push_bit (64 * 3) h))
      in val3 AND other)"

definition address_integral :: "'a libs_scheme \<Rightarrow> zkevm_word \<Rightarrow> nat" where
  "address_integral L v =
     (let res = intg L (unat (to_uint64 v 0));
          lo = intg L (unat (to_uint64 v 1));
          hi = intg L (unat (to_uint64 v 2));
          res1 = intg L (res + intg L (push_bit 64 lo))
      in intg L (res1 + intg L (push_bit 128 hi)))"

definition to_field_as_address :: "'a libs_scheme \<Rightarrow> zkevm_word \<Rightarrow> 'f::field" where
  "to_field_as_address L v = of_nat (address_integral L v)"

definition w_hi_integral :: "'a libs_scheme \<Rightarrow> zkevm_word \<Rightarrow> nat" where
  "w_hi_integral L v =
     intg L (intg L (push_bit 64 (intg L (unat (to_uint64 v 3)))) + unat (to_uint64 v 2))"

definition w_lo_integral :: "'a libs_scheme \<Rightarrow> zkevm_word \<Rightarrow> nat" where
  "w_lo_integral L v =
     intg L (intg L (push_bit 64 (intg L (unat (to_uint64 v 1)))) + unat (to_uint64 v 0))"

definition w_hi :: "'a libs_scheme \<Rightarrow> zkevm_word \<Rightarrow> 'f::field" where
  "w_hi L v = of_nat (w_hi_integral L v)"

definition w_lo :: "'a libs_scheme \<Rightarrow> zkevm_word \<Rightarrow> 'f::field" where
  "w_lo L v = of_nat (w_lo_integral L v)"

subsection \<open>Limb laws\<close>

lemma bit_to_uint64 [bit_simps]: "bit (to_uint64 v i) n \<longleftrightarrow> n < 64 \<and> bit v (64 * i + n)"
  by (simp add: to_uint64_def bit_simps)

lemma bit_set_val [bit_simps]:
  "bit (set_val v x i) n \<longleftrightarrow>
   n < 256 \<and> (if 64 * i \<le> n \<and> n < 64 * i + 64 then bit x (n - 64 * i) else bit v n)"
  by (auto simp: set_val_def bit_simps dest: bit_imp_le_length)

lemma limb_index: "n < 256 \<Longrightarrow> \<exists>i<4. \<exists>k<64. n = 64 * i + (k::nat)"
  by (rule exI [of _ "n div 64"], rule conjI, simp, rule exI [of _ "n mod 64"]) simp

lemma limbs_eqI:
  assumes "\<And>i. i < 4 \<Longrightarrow> to_uint64 a i = to_uint64 b i"
  shows "a = b"
proof (rule bit_word_eqI)
  fix n assume "n < LENGTH(256)"
  then obtain i k where "i < 4" "k < 64" "n = 64 * i + k" using limb_index [of n] by auto
  then show "bit a n \<longleftrightarrow> bit b n"
    using arg_cong [OF assms [of i], of "\<lambda>w. bit w k"] by (simp add: bit_simps)
qed

lemma to_uint64_set_val:
  assumes "i < 4" and "j < 4"
  shows "to_uint64 (set_val v x i) j = (if i = j then x else to_uint64 v j)"
proof (rule bit_word_eqI)
  fix n assume n: "n < LENGTH(64)"
  have "\<not> (64 * i \<le> 64 * j + n \<and> 64 * j + n < 64 * i + 64)" if "i \<noteq> j"
    using that n by (simp add: not_le) arith
  then show "bit (to_uint64 (set_val v x i) j) n = bit (if i = j then x else to_uint64 v j) n"
    using assms n by (auto simp: bit_simps)
qed

lemma set_val_all:
  "set_val (set_val (set_val (set_val v (to_uint64 t 0) 0) (to_uint64 t 1) 1) (to_uint64 t 2) 2)
     (to_uint64 t 3) 3 = t"
proof (rule limbs_eqI)
  fix i :: nat assume "i < 4"
  then consider "i = 0" | "i = 1" | "i = 2" | "i = 3" by linarith
  then show "to_uint64 (set_val (set_val (set_val (set_val v (to_uint64 t 0) 0) (to_uint64 t 1) 1)
     (to_uint64 t 2) 2) (to_uint64 t 3) 3) i = to_uint64 t i"
    by cases (simp_all add: to_uint64_set_val)
qed

lemma take_bit_unat_u256 [simp]: "take_bit 256 (unat (v :: u256)) = unat v"
proof -
  have "unat v < 2 ^ LENGTH(256)" by (rule unsigned_less)
  then show ?thesis by (simp add: take_bit_nat_eq_self)
qed

lemma unat_drop_bit_u256: "unat (drop_bit m (v :: u256)) = unat v div 2 ^ m"
  by (simp add: unsigned_drop_bit_eq drop_bit_eq_div [where 'a = nat])

lemma exp_beyond_u256: "256 \<le> k \<Longrightarrow> (2 :: u256) ^ k = 0"
proof -
  assume "256 \<le> k"
  then obtain j where "k = 256 + j" by (auto simp: le_iff_add)
  moreover have "(2 :: u256) ^ 256 = 0" by simp
  ultimately show ?thesis by (simp only: power_add mult_zero_left)
qed

lemma unat_to_uint64: "unat (to_uint64 v i) = unat v div 2 ^ (64 * i) mod 2 ^ 64"
proof -
  have "unat v < 2 ^ LENGTH(256)" by (rule unsigned_less)
  then have *: "take_bit LENGTH(256) (unat v) = unat v"
    by (simp only: take_bit_nat_eq_self)
  show ?thesis
    unfolding to_uint64_def unsigned_ucast_eq unsigned_drop_bit_eq *
    by (simp add: drop_bit_eq_div [where 'a = nat] take_bit_eq_mod [where 'a = nat])
qed

lemma radix4:
  fixes x B :: nat
  assumes "x < B ^ 4"
  shows "x = x mod B + (x div B mod B) * B + (x div B ^ 2 mod B) * B ^ 2 + (x div B ^ 3 mod B) * B ^ 3"
proof -
  define y where "y = x div B"
  define z where "z = y div B"
  define w where "w = z div B"
  have x: "x = y * B + x mod B" and y: "y = z * B + y mod B" and z: "z = w * B + z mod B"
    by (simp_all add: y_def z_def w_def)
  have d2: "x div B ^ 2 = z" and d3: "x div B ^ 3 = w"
    by (simp_all add: y_def z_def w_def power2_eq_square power3_eq_cube div_mult2_eq)
  have "w < B"
    using assms unfolding d3 [symmetric]
    by (simp add: less_mult_imp_div_less power_Suc [symmetric] power_add [symmetric] flip: power_Suc2)
  then have "w mod B = w" by simp
  have "x = ((w * B + z mod B) * B + y mod B) * B + x mod B"
    using x y z by simp
  then show ?thesis
    using \<open>w mod B = w\<close> unfolding d2 d3 y_def [symmetric]
    by (simp add: algebra_simps power2_eq_square power3_eq_cube)
qed

lemma limbs_sum:
  "unat v = unat (to_uint64 v 0) + unat (to_uint64 v 1) * 2 ^ 64
     + unat (to_uint64 v 2) * 2 ^ 128 + unat (to_uint64 v 3) * 2 ^ 192"
proof -
  have "unat v < 2 ^ LENGTH(256)" by (rule unsigned_less)
  then have "unat v < (2 ^ 64) ^ 4" by simp
  then show ?thesis
    by (rule trans [OF radix4]) (simp add: unat_to_uint64)
qed

lemma to_uint64_small: "unat v < 2 ^ 64 \<Longrightarrow> lo64 v = unat v"
  by (simp add: unat_to_uint64)

subsection \<open>What the code relies on about the big-integer and hash libraries\<close>

locale intx_api =
  fixes L :: "'a libs_scheme"
  assumes sdivrem: "b \<noteq> 0 \<Longrightarrow> intx_sdivrem L a b =
      (word_of_int (sint a sdiv sint b), word_of_int (sint a smod sint b))"
    and addmod: "m \<noteq> 0 \<Longrightarrow> unat (intx_addmod L a b m) = (unat a + unat b) mod unat m"
    and mulmod: "m \<noteq> 0 \<Longrightarrow> unat (intx_mulmod L a b m) = (unat a * unat b) mod unat m"
    and exp_pow: "intx_exp L a e = a ^ unat e"
    and significant_bytes: "intx_count_significant_bytes L v \<le> k \<longleftrightarrow> unat v < 256 ^ k"
    and slt: "intx_slt L a b \<longleftrightarrow> sint a < sint b"
    and be_load: "length bs \<le> 32 \<Longrightarrow> unat (intx_be_load L bs) = be_val bs"
    and be_load_uint: "length bs \<le> 8 \<Longrightarrow> unat (intx_be_load_uint L bs) = be_val bs"
    and be_store: "intx_be_store L n v = be_bytes n (unat v)"
    and be_trunc: "intx_be_trunc L n v = be_bytes n (unat v)"
    and keccak_length: "length (keccak256 L bs) = 32"

text \<open>The field library's big integer holds every 256-bit value.\<close>

locale wide_integral = intx_api +
  assumes integral_wide: "integral_mod L = 0 \<or> 2 ^ 256 \<le> integral_mod L"

fun significant_bytes_of :: "nat \<Rightarrow> nat" where
  "significant_bytes_of n = (if n = 0 then 0 else Suc (significant_bytes_of (n div 256)))"

declare significant_bytes_of.simps [simp del]

lemma significant_bytes_of_le: "significant_bytes_of n \<le> k \<longleftrightarrow> n < 256 ^ k"
proof (induction n arbitrary: k rule: significant_bytes_of.induct)
  case (1 n)
  show ?case
  proof (cases "n = 0")
    case True
    then show ?thesis by (simp add: significant_bytes_of.simps)
  next
    case False
    show ?thesis
    proof (cases k)
      case 0
      with False show ?thesis by (simp add: significant_bytes_of.simps [of n])
    next
      case (Suc j)
      have "n div 256 < 256 ^ j \<longleftrightarrow> n < 256 ^ j * 256"
        by (rule div_less_iff_less_mult) simp
      with False Suc 1 show ?thesis
        by (simp add: significant_bytes_of.simps [of n] mult.commute)
    qed
  qed
qed

text \<open>An instance: the documented functions, and a 32-byte digest that is no hash.\<close>

definition reference_libs :: libs where
  "reference_libs = \<lparr>
     ndebug = True,
     malloc_ok = (\<lambda>_. True),
     intx_sdivrem = (\<lambda>a b. (word_of_int (sint a sdiv sint b), word_of_int (sint a smod sint b))),
     intx_addmod = (\<lambda>a b m. word_of_nat ((unat a + unat b) mod unat m)),
     intx_mulmod = (\<lambda>a b m. word_of_nat ((unat a * unat b) mod unat m)),
     intx_exp = (\<lambda>a e. a ^ unat e),
     intx_count_significant_bytes = (\<lambda>v. significant_bytes_of (unat v)),
     intx_slt = (\<lambda>a b. sint a < sint b),
     intx_be_load = (\<lambda>bs. word_of_nat (be_val bs)),
     intx_be_load_uint = (\<lambda>bs. word_of_nat (be_val bs)),
     intx_be_store = (\<lambda>n v. be_bytes n (unat v)),
     intx_be_trunc = (\<lambda>n v. be_bytes n (unat v)),
     keccak256 = (\<lambda>bs. be_bytes 32 (be_val bs)),
     integral_mod = 0\<rparr>"

lemma unat_mod_word: "m \<noteq> 0 \<Longrightarrow> unat (word_of_nat (n mod unat m) :: u256) = n mod unat (m :: u256)"
proof -
  assume "m \<noteq> 0"
  then have "n mod unat m < unat m" by (simp add: unat_gt_0)
  moreover have "unat m < 2 ^ LENGTH(256)" by (rule unsigned_less)
  ultimately have "n mod unat m < 2 ^ LENGTH(256)" by linarith
  then show ?thesis by (simp only: unat_of_nat mod_less)
qed

interpretation ref: wide_integral reference_libs
proof
  fix a b m :: u256 assume "m \<noteq> 0"
  then show "unat (intx_addmod reference_libs a b m) = (unat a + unat b) mod unat m"
    and "unat (intx_mulmod reference_libs a b m) = (unat a * unat b) mod unat m"
    by (simp_all add: reference_libs_def unat_mod_word del: of_nat_add of_nat_mult)
next
  fix bs :: "byte list" assume "length bs \<le> 32"
  then show "unat (intx_be_load reference_libs bs) = be_val bs"
    by (simp add: reference_libs_def unat_of_be_val)
next
  fix bs :: "byte list" assume "length bs \<le> 8"
  then show "unat (intx_be_load_uint reference_libs bs) = be_val bs"
    by (simp add: reference_libs_def unat_of_be_val)
qed (simp_all add: reference_libs_def significant_bytes_of_le)

subsection \<open>Conversions to bytes and back\<close>

lemma unat_u256_less: "unat (v :: u256) < 256 ^ 32"
proof -
  have "unat v < 2 ^ LENGTH(256)" by (rule unsigned_less)
  then show ?thesis by simp
qed

context intx_api
begin

lemma load_store: "word_of_uint256be L (to_uint256be L v) = v"
proof (rule word_unat_eq_iff [THEN iffD2])
  show "unat (word_of_uint256be L (to_uint256be L v)) = unat v"
    using unat_u256_less [of v]
    by (simp add: word_of_uint256be_def to_uint256be_def be_load be_store be_val_be_bytes)
qed

lemma store_load: "is_bytes32 b \<Longrightarrow> to_uint256be L (word_of_uint256be L b) = b"
  using be_bytes_be_val [of b]
  by (simp add: word_of_uint256be_def to_uint256be_def be_load be_store is_bytes32_def)

lemma address_load: "is_address a \<Longrightarrow> to_address L (word_of_address L a) = a"
  using be_bytes_be_val [of a]
  by (simp add: word_of_address_def to_address_def be_load be_trunc is_address_def)

lemma address_of_word: "unat (word_of_address L (to_address L v)) = unat v mod 2 ^ 160"
  by (simp add: word_of_address_def to_address_def be_load be_trunc be_val_be_bytes)

lemma is_address_to_address [simp]: "is_address (to_address L v)"
  by (simp add: is_address_def to_address_def be_trunc)

lemma is_bytes32_to_uint256be [simp]: "is_bytes32 (to_uint256be L v)"
  by (simp add: is_bytes32_def to_uint256be_def be_store)

lemma length_word_store [simp]: "length (word_store L n v) = n"
  by (simp add: word_store_def be_store)

lemma length_to_hash [simp]: "length (to_hash L v) = 32"
  by (simp add: to_hash_def be_store)

lemma unat_word_of_data:
  "length bs \<le> 32 \<Longrightarrow> total (word_of_data L bs) (\<lambda>w. unat w = be_val bs)"
  by (simp add: word_of_data_def be_load)

lemma word_of_data_eq:
  "length bs \<le> 32 \<Longrightarrow> word_of_data L bs = Some (word_of_nat (be_val bs))"
  using be_load [of "replicate (32 - length bs) 0 @ bs"]
    unat_of_be_val [of bs, where 'a = 256]
  by (simp add: word_of_data_def word_unat_eq_iff)

text \<open>\<open>load_partial_data\<close> sets one limb to the big-endian value of the bytes.\<close>

lemma unat_be_load_uint_drop:
  assumes "k \<le> 8" and "length bs = 8"
  shows "unat (drop_bit (8 * (8 - k)) (intx_be_load_uint L bs)) = be_val (take k bs)"
proof -
  have b: "be_val bs = be_val (take k bs) * 256 ^ (8 - k) + be_val (drop k bs)"
    using be_val_append [of "take k bs" "drop k bs"] assms by simp
  have "be_val (drop k bs) < 256 ^ (8 - k)"
    using be_val_less [of "drop k bs"] assms by simp
  moreover have "(2::nat) ^ (8 * (8 - k)) = 256 ^ (8 - k)"
    by (simp add: power_mult)
  ultimately have "be_val bs div 2 ^ (8 * (8 - k)) = be_val (take k bs)"
    using b by simp
  then show ?thesis
    using be_load_uint [of bs] assms
    by (simp add: unat_drop_bit_eq drop_bit_eq_div [where 'a = nat])
qed

end

end
