(* ===== verification/Memory.thy ===== *)
theory Memory
  imports Zkevm_Word
begin

text \<open>
  The byte memory of a running contract (\<open>class Memory\<close> of \<open>evmone/execution_state.hpp\<close>) and
  the functions that charge for it and grow it (\<open>num_words\<close>, \<open>copy_cost\<close>, \<open>grow_memory\<close>,
  \<open>check_memory\<close> of \<open>evmone/instructions.hpp\<close>).

  \<open>mem_data\<close> holds the first \<open>m_size\<close> bytes of the allocation, the ones \<open>grow\<close> has written;
  what lies between \<open>m_size\<close> and \<open>mem_capacity\<close> is indeterminate, so reading it is \<open>None\<close>. A
  failing \<open>realloc\<close> terminates the process: \<open>malloc_ok\<close> says which allocations succeed.
\<close>

record memory =
  mem_data :: "byte list"
  mem_capacity :: nat

definition page_size :: nat where
  "page_size = 4 * 1024"

definition mem_size :: "memory \<Rightarrow> nat" where
  "mem_size m = length (mem_data m)"

definition allocate_capacity :: "'a libs_scheme \<Rightarrow> memory \<Rightarrow> memory option" where
  "allocate_capacity L m = (if malloc_ok L (mem_capacity m) then Some m else None)"

definition mem_new :: "'a libs_scheme \<Rightarrow> memory option" where
  "mem_new L = allocate_capacity L \<lparr>mem_data = [], mem_capacity = page_size\<rparr>"

definition mem_grow :: "'a libs_scheme \<Rightarrow> nat \<Rightarrow> memory \<Rightarrow> memory option" where
  "mem_grow L new_size m = do {
     _ \<leftarrow> cassert L (new_size mod 32 = 0);
     _ \<leftarrow> cassert L (new_size > mem_size m);
     m \<leftarrow> (if new_size > mem_capacity m
           then let cap = mem_capacity m * 2;
                    cap = (if cap < new_size
                           then ((new_size + (page_size - 1)) div page_size) * page_size
                           else cap)
                in allocate_capacity L (m\<lparr>mem_capacity := cap\<rparr>)
           else Some m);
     if mem_size m \<le> new_size
     then Some (m\<lparr>mem_data := mem_data m @ replicate (new_size - mem_size m) 0\<rparr>)
     else None }"

definition mem_clear :: "memory \<Rightarrow> memory" where
  "mem_clear m = m\<lparr>mem_data := []\<rparr>"

definition mem_get :: "memory \<Rightarrow> nat \<Rightarrow> byte option" where
  "mem_get m i = nth_opt (mem_data m) i"

text \<open>\<open>n\<close> bytes read from, and a byte string written to, the address of \<open>memory[i]\<close>.\<close>

definition mem_read :: "memory \<Rightarrow> nat \<Rightarrow> nat \<Rightarrow> byte list option" where
  "mem_read m i n = slice_opt (mem_data m) i n"

definition mem_write :: "memory \<Rightarrow> nat \<Rightarrow> byte list \<Rightarrow> memory option" where
  "mem_write m i bs = do {
     d \<leftarrow> splice_opt (mem_data m) i bs;
     Some (m\<lparr>mem_data := d\<rparr>) }"

subsection \<open>Costs and checks\<close>

definition max_buffer_size :: nat where
  "max_buffer_size = 2 ^ 32 - 1"

definition word_size :: nat where
  "word_size = 32"

definition num_words :: "nat \<Rightarrow> int" where
  "num_words size_in_bytes = int (((size_in_bytes + (word_size - 1)) mod 2 ^ 64) div word_size)"

definition copy_cost :: "nat \<Rightarrow> int" where
  "copy_cost size_in_bytes = num_words size_in_bytes * 3"

definition grow_memory :: "'a libs_scheme \<Rightarrow> int \<Rightarrow> memory \<Rightarrow> nat \<Rightarrow> (int \<times> memory) option" where
  "grow_memory L gas_left m new_size =
     (let new_words = num_words new_size;
          current_words = int (mem_size m div word_size);
          new_cost = 3 * new_words + new_words * new_words div 512;
          current_cost = 3 * current_words + current_words * current_words div 512;
          cost = new_cost - current_cost;
          gas_left = gas_left - cost
      in do {
        m \<leftarrow> (if gas_left \<ge> 0 then mem_grow L (nat (new_words * int word_size)) m else Some m);
        Some (gas_left, m) })"

text \<open>
  The two \<open>check_memory\<close> overloads. The result is the returned flag with the gas and the
  memory they update through their reference parameters. Only the low limb of a stack word
  is looked at.
\<close>

definition check_memory ::
  "'a libs_scheme \<Rightarrow> int \<Rightarrow> memory \<Rightarrow> zkevm_word \<Rightarrow> nat \<Rightarrow> (bool \<times> int \<times> memory) option" where
  "check_memory L gas_left m offset sz =
     (let offset_uint = lo64 offset
      in if offset_uint > max_buffer_size then Some (False, gas_left, m)
         else let new_size = (offset_uint + sz) mod 2 ^ 64
              in do {
                (gas_left, m) \<leftarrow> (if new_size > mem_size m then grow_memory L gas_left m new_size
                                  else Some (gas_left, m));
                Some (gas_left \<ge> 0, gas_left, m) })"

definition check_memory_copy ::
  "'a libs_scheme \<Rightarrow> int \<Rightarrow> memory \<Rightarrow> zkevm_word \<Rightarrow> zkevm_word \<Rightarrow> (bool \<times> int \<times> memory) option" where
  "check_memory_copy L gas_left m offset sz =
     (if sz = 0 then Some (True, gas_left, m)
      else let size_uint = lo64 sz
           in if size_uint > max_buffer_size then Some (False, gas_left, m)
              else check_memory L gas_left m offset size_uint)"

subsection \<open>Specification\<close>

text \<open>The cost of a memory of \<open>w\<close> words, and the smallest whole number of words that holds \<open>n\<close> bytes.\<close>

definition memory_cost :: "nat \<Rightarrow> int" where
  "memory_cost w = 3 * int w + int w * int w div 512"

definition words_for :: "nat \<Rightarrow> nat" where
  "words_for n = (n + 31) div 32"

text \<open>A memory is well formed when it is a whole number of words and fits its allocation.\<close>

definition mem_wf :: "memory \<Rightarrow> bool" where
  "mem_wf m \<longleftrightarrow> mem_size m mod 32 = 0 \<and> mem_size m \<le> mem_capacity m \<and> page_size \<le> mem_capacity m"

text \<open>\<open>extended_to m n m'\<close>: \<open>m'\<close> is \<open>m\<close> followed by zeros, up to \<open>n\<close> bytes if \<open>m\<close> is shorter.\<close>

definition extended_to :: "memory \<Rightarrow> nat \<Rightarrow> memory \<Rightarrow> bool" where
  "extended_to m n m' \<longleftrightarrow> mem_data m' = mem_data m @ replicate (n - mem_size m) 0"

lemma memory_cost_mono: "v \<le> w \<Longrightarrow> memory_cost v \<le> memory_cost w"
  unfolding memory_cost_def
  by (intro add_mono mult_left_mono zdiv_mono1 mult_mono) simp_all

lemma words_for_mono: "m \<le> n \<Longrightarrow> words_for m \<le> words_for n"
  by (simp add: words_for_def div_le_mono)

lemma words_for_bound: "n \<le> 32 * words_for n"
  unfolding words_for_def by linarith

lemma words_for_least: "32 * words_for n < n + 32"
  unfolding words_for_def by linarith

lemma words_for_whole: "n mod 32 = 0 \<Longrightarrow> 32 * words_for n = n"
  unfolding words_for_def by (auto simp flip: dvd_eq_mod_eq_0 elim!: dvdE)

lemma num_words_eq: "n + 31 < 2 ^ 64 \<Longrightarrow> num_words n = int (words_for n)"
  by (simp add: num_words_def words_for_def word_size_def)

lemma copy_cost_eq: "n + 31 < 2 ^ 64 \<Longrightarrow> copy_cost n = 3 * int (words_for n)"
  by (simp add: copy_cost_def num_words_eq)

lemma copy_cost_nonneg: "0 \<le> copy_cost n"
  by (simp add: copy_cost_def num_words_def)

subsection \<open>Growing\<close>

lemma mem_grow_total:
  assumes "mem_wf m" and "n mod 32 = 0" and "mem_size m < n" and "\<And>k. malloc_ok L k"
  shows "total (mem_grow L n m) (\<lambda>m'. extended_to m n m' \<and> mem_size m' = n \<and> mem_wf m')"
proof -
  have "n \<le> (n + 4095) div 4096 * 4096" by linarith
  then have round: "n \<le> (n + (page_size - 1)) div page_size * page_size"
    by (simp add: page_size_def)
  show ?thesis
    using assms round
    by (auto simp: mem_grow_def allocate_capacity_def total_iff extended_to_def mem_size_def
        mem_wf_def Let_def page_size_def)
qed

lemma grow_memory_total:
  assumes wf: "mem_wf m" and size: "mem_size m < n" and n: "n + 31 < 2 ^ 64"
    and alloc: "\<And>k. malloc_ok L k"
  defines "cost \<equiv> memory_cost (words_for n) - memory_cost (mem_size m div 32)"
  shows "total (grow_memory L g m n) (\<lambda>(g', m').
     g' = g - cost \<and> mem_wf m' \<and>
     (if 0 \<le> g' then extended_to m (32 * words_for n) m' \<and> mem_size m' = 32 * words_for n
      else m' = m))"
proof -
  have less: "mem_size m < 32 * words_for n"
    using size words_for_bound [of n] by linarith
  have g: "g - (3 * int (words_for n) + int (words_for n) * int (words_for n) div 512
        - (3 * int (mem_size m div 32) + int (mem_size m div 32) * int (mem_size m div 32) div 512))
      = g - cost"
    by (simp add: cost_def memory_cost_def)
  have nat: "nat (int (words_for n) * 32) = 32 * words_for n" by simp
  show ?thesis
    unfolding grow_memory_def Let_def num_words_eq [OF n] word_size_def of_nat_numeral g nat
    using wf mem_grow_total [OF wf _ less alloc]
    by (auto simp: total_bind elim!: total_mono)
qed

subsection \<open>The checks\<close>

lemma check_memory_total:
  assumes wf: "mem_wf m" and sz: "sz \<le> max_buffer_size" and gas: "0 \<le> g"
    and alloc: "\<And>k. malloc_ok L k"
  shows "total (check_memory L g m offset sz) (\<lambda>(ok, g', m').
     mem_wf m' \<and> g' \<le> g \<and>
     (ok \<longrightarrow> 0 \<le> g' \<and> lo64 offset \<le> max_buffer_size \<and> lo64 offset + sz \<le> mem_size m' \<and>
        extended_to m (32 * words_for (lo64 offset + sz)) m' \<and>
        g' = g - (memory_cost (mem_size m' div 32) - memory_cost (mem_size m div 32))) \<and>
     (\<not> ok \<longrightarrow> m' = m))"
proof (cases "lo64 offset > max_buffer_size")
  case True
  then show ?thesis using wf by (simp add: check_memory_def)
next
  case False
  let ?n = "lo64 offset + sz"
  from False sz have n: "?n + 31 < 2 ^ 64" by (simp add: max_buffer_size_def)
  then have "?n mod 2 ^ 64 = ?n" by simp
  then have eq: "check_memory L g m offset sz =
      (do { (g, m) \<leftarrow> (if ?n > mem_size m then grow_memory L g m ?n else Some (g, m));
            Some (g \<ge> 0, g, m) })"
    using False by (simp add: check_memory_def Let_def)
  show ?thesis
  proof (cases "?n > mem_size m")
    case grow: True
    have "memory_cost (mem_size m div 32) \<le> memory_cost (words_for ?n)"
      using grow unfolding words_for_def by (intro memory_cost_mono div_le_mono) simp
    then show ?thesis
      unfolding eq using grow False words_for_bound [of ?n]
      by (auto simp: total_bind gas
          intro!: total_mono [OF grow_memory_total [OF wf grow n alloc]] split: if_splits)
  next
    case fits: False
    moreover have "32 * words_for ?n \<le> mem_size m"
    proof -
      have "words_for ?n \<le> words_for (mem_size m)"
        using fits by (intro words_for_mono) simp
      then show ?thesis
        using wf words_for_whole [of "mem_size m"] by (simp add: mem_wf_def)
    qed
    ultimately show ?thesis
      unfolding eq using wf gas False by (simp add: extended_to_def)
  qed
qed

text \<open>
  What the callers of both checks rely on, for any combination of offset and size: on success
  the accessed range is inside the memory and the gas is not negative.
\<close>

definition range_ok :: "memory \<Rightarrow> nat \<Rightarrow> nat \<Rightarrow> bool" where
  "range_ok m i n \<longleftrightarrow> (n \<noteq> 0 \<longrightarrow> i + n \<le> mem_size m)"

lemma check_memory_copy_total:
  assumes wf: "mem_wf m" and gas: "0 \<le> g" and alloc: "\<And>k. malloc_ok L k"
  shows "total (check_memory_copy L g m offset sz) (\<lambda>(ok, g', m').
     mem_wf m' \<and> g' \<le> g \<and> (ok \<longrightarrow> 0 \<le> g' \<and> range_ok m' (lo64 offset) (lo64 sz)) \<and>
     (\<not> ok \<longrightarrow> m' = m))"
proof (cases "sz = 0")
  case True
  then show ?thesis
    using wf gas by (simp add: check_memory_copy_def range_ok_def to_uint64_def)
next
  case False
  show ?thesis
  proof (cases "lo64 sz > max_buffer_size")
    case True
    then show ?thesis using False wf by (simp add: check_memory_copy_def)
  next
    case le: False
    then have "lo64 sz \<le> max_buffer_size" by simp
    from check_memory_total [OF wf this gas alloc, of offset] show ?thesis
      using False le
      by (auto simp: check_memory_copy_def range_ok_def elim!: total_mono)
  qed
qed

lemma mem_read_ok: "i + n \<le> mem_size m \<Longrightarrow> mem_read m i n = Some (take n (drop i (mem_data m)))"
  by (simp add: mem_read_def mem_size_def)

lemma mem_write_ok:
  "i + length bs \<le> mem_size m \<Longrightarrow>
   total (mem_write m i bs) (\<lambda>m'. mem_size m' = mem_size m \<and> mem_capacity m' = mem_capacity m \<and>
     mem_read m' i (length bs) = Some bs)"
  by (simp add: mem_write_def mem_size_def mem_read_def)

lemma mem_write_wf: "mem_wf m \<Longrightarrow> mem_write m i bs = Some m' \<Longrightarrow> mem_wf m'"
  by (auto simp: mem_write_def mem_wf_def mem_size_def bind_eq_Some_conv dest: splice_opt_length)

subsection \<open>What every memory step keeps\<close>

text \<open>
  With no assumption on the gas or the allocator: a memory never shrinks, and stays well formed.
  A range that a check has allowed lies in the memory it leaves.
\<close>

definition mem_kept :: "memory \<Rightarrow> memory \<Rightarrow> bool" where
  "mem_kept m m' \<longleftrightarrow> (mem_wf m \<longrightarrow> mem_wf m') \<and> mem_size m \<le> mem_size m'"

lemma mem_kept_refl [simp]: "mem_kept m m"
  by (simp add: mem_kept_def)

lemma mem_kept_trans: "mem_kept m m' \<Longrightarrow> mem_kept m' m'' \<Longrightarrow> mem_kept m m''"
  by (auto simp: mem_kept_def)

lemma mem_grow_post:
  assumes "n mod 32 = 0"
  shows "post (mem_grow L n m) (\<lambda>m'. mem_kept m m' \<and> mem_size m' = n)"
proof -
  have "n \<le> (n + 4095) div 4096 * 4096" by linarith
  then show ?thesis
    using assms by (auto simp: mem_grow_def allocate_capacity_def post_rules mem_kept_def mem_wf_def
        mem_size_def page_size_def Let_def)
qed

lemma num_words_nonneg [simp]: "0 \<le> num_words n"
  by (simp add: num_words_def)

lemma grow_memory_post:
  "post (grow_memory L g m n) (\<lambda>(g', m'). mem_kept m m' \<and>
     (0 \<le> g' \<and> n + 31 < 2 ^ 64 \<longrightarrow> n \<le> mem_size m'))"
proof -
  have whole: "nat (num_words n * int word_size) mod 32 = 0"
    by (simp add: word_size_def nat_mult_distrib)
  have "n \<le> nat (num_words n * int word_size)" if "n + 31 < 2 ^ 64"
    using words_for_bound [of n] num_words_eq [OF that]
    by (simp add: word_size_def nat_mult_distrib)
  with mem_grow_post [OF whole, of L m] show ?thesis
    by (auto simp: grow_memory_def Let_def post_rules intro: post_mono)
qed

lemma check_memory_range:
  assumes "n \<le> max_buffer_size"
  shows "post (check_memory L g m off n)
    (\<lambda>(ok, g', m'). mem_kept m m' \<and> (ok \<longrightarrow> lo64 off + n \<le> mem_size m'))"
  using grow_memory_post [of L g m "lo64 off + n"] assms
  by (auto simp: check_memory_def Let_def post_rules max_buffer_size_def elim!: post_mono)

lemma check_memory_post [trace_intros]:
  "post (check_memory L g m off n) (\<lambda>(ok, g', m'). mem_kept m m')"
proof -
  have "post (grow_memory L g m k) (\<lambda>(g', m'). mem_kept m m')" for k
    by (rule post_mono [OF grow_memory_post]) auto
  then show ?thesis
    by (auto simp: check_memory_def Let_def post_rules elim!: post_mono)
qed

lemma check_memory_copy_range:
  "post (check_memory_copy L g m off n)
    (\<lambda>(ok, g', m'). mem_kept m m' \<and> (ok \<longrightarrow> range_ok m' (lo64 off) (lo64 n)))"
  using check_memory_range [of "lo64 n" L g m off]
  by (auto simp: check_memory_copy_def Let_def post_rules range_ok_def to_uint64_def elim!: post_mono)

lemma check_memory_copy_post [trace_intros]:
  "post (check_memory_copy L g m off n) (\<lambda>(ok, g', m'). mem_kept m m')"
  by (rule post_mono [OF check_memory_copy_range]) auto

lemma mem_write_post [trace_intros]: "post (mem_write m i bs) (mem_kept m)"
proof (rule postI)
  fix m' assume w: "mem_write m i bs = Some m'"
  then have "mem_size m' = mem_size m"
    by (auto simp: mem_write_def mem_size_def bind_eq_Some_conv dest: splice_opt_length)
  then show "mem_kept m m'" using mem_write_wf [OF _ w] by (simp add: mem_kept_def)
qed

end
