(* ===== verification/Ownership.thy ===== *)
theory Ownership
  imports Prelude
begin

text \<open>
  Classes whose objects own a resource and hand it over when they are moved: the interface of
  such a class, programs that use its objects, and the proof that every program of the language
  releases each resource exactly once.
\<close>

subsection \<open>Programs over the objects of a class\<close>

text \<open>
  The special members of a class with objects \<open>'o\<close> in a world \<open>'w\<close>: a constructor from
  arguments \<open>'a\<close>, the move constructor, which returns the new object and what is left of the
  other one, the move assignment, and the destructor. \<open>None\<close> is undefined behaviour, such as
  a release of what has been released.
\<close>

record ('a, 'o, 'w) handle_class =
  hc_make :: "'a \<Rightarrow> 'w \<Rightarrow> 'o \<times> 'w"
  hc_move :: "'o \<Rightarrow> 'o \<times> 'o"
  hc_assign :: "'o \<Rightarrow> 'o \<Rightarrow> 'w \<Rightarrow> ('o \<times> 'o \<times> 'w) option"
  hc_destroy :: "'o \<Rightarrow> 'w \<Rightarrow> 'w option"

datatype 'a handle_op = Construct nat 'a | Move_construct nat nat | Move_assign nat nat | Destruct nat

type_synonym ('o, 'w) handle_store = "(nat \<rightharpoonup> 'o) \<times> 'w"

fun handle_step ::
  "('a, 'o, 'w) handle_class \<Rightarrow> 'a handle_op \<Rightarrow> ('o, 'w) handle_store \<Rightarrow> ('o, 'w) handle_store option" where
  "handle_step C (Construct x a) (st, w) = (let (v, w) = hc_make C a w in Some (st(x \<mapsto> v), w))"
| "handle_step C (Move_construct x y) (st, w) = do {
     v \<leftarrow> st y;
     let (v, left) = hc_move C v;
     Some (st(y \<mapsto> left, x \<mapsto> v), w) }"
| "handle_step C (Move_assign x y) (st, w) = do {
     u \<leftarrow> st x;
     v \<leftarrow> st y;
     (u, v, w) \<leftarrow> hc_assign C u v w;
     Some (st(x \<mapsto> u, y \<mapsto> v), w) }"
| "handle_step C (Destruct x) (st, w) = do {
     v \<leftarrow> st x;
     w \<leftarrow> hc_destroy C v w;
     Some (st(x := None), w) }"

fun handle_run ::
  "('a, 'o, 'w) handle_class \<Rightarrow> 'a handle_op list \<Rightarrow> ('o, 'w) handle_store \<Rightarrow> ('o, 'w) handle_store option" where
  "handle_run C [] s = Some s"
| "handle_run C (p # ps) s = Option.bind (handle_step C p s) (handle_run C ps)"

text \<open>
  What the scoping of the language ensures: only objects that exist are used and a constructor
  makes a new one. \<open>scope_after\<close> is the list of the objects after an operation. An object may be
  assigned to itself.
\<close>

fun scope_after :: "'a handle_op \<Rightarrow> nat list \<Rightarrow> nat list option" where
  "scope_after (Construct x a) D = (if x \<notin> set D then Some (x # D) else None)"
| "scope_after (Move_construct x y) D = (if x \<notin> set D \<and> y \<in> set D then Some (x # D) else None)"
| "scope_after (Move_assign x y) D = (if x \<in> set D \<and> y \<in> set D then Some D else None)"
| "scope_after (Destruct x) D = (if x \<in> set D then Some (removeAll x D) else None)"

fun scoped :: "'a handle_op list \<Rightarrow> nat list \<Rightarrow> bool" where
  "scoped [] D = True"
| "scoped (p # ps) D = (case scope_after p D of None \<Rightarrow> False | Some D' \<Rightarrow> scoped ps D')"

subsection \<open>The contract of such a class\<close>

locale owning_class =
  fixes C :: "('a, 'o, 'w) handle_class"
    and owned :: "'o \<Rightarrow> 'i option"
    and held :: "'w \<Rightarrow> 'i set"
  assumes make_owns: "hc_make C a w = (v, w') \<Longrightarrow>
      set_option (owned v) \<inter> held w = {} \<and> held w' = held w \<union> set_option (owned v)"
    and move_owns: "hc_move C v = (u, left) \<Longrightarrow> owned u = owned v \<and> owned left = None"
    and destroy_owns: "set_option (owned v) \<subseteq> held w \<Longrightarrow>
      \<exists>w'. hc_destroy C v w = Some w' \<and> held w' = held w - set_option (owned v)"
    and assign_owns: "set_option (owned u) \<subseteq> held w \<Longrightarrow>
      \<exists>u' left w'. hc_assign C u v w = Some (u', left, w') \<and> owned u' = owned v \<and> owned left = None \<and>
        held w' = held w - set_option (owned u)"
begin

text \<open>
  The invariant of a program that started when the resources \<open>B\<close> were held by others: every
  other resource has exactly one owner.
\<close>

definition owns :: "'i set \<Rightarrow> ('x \<rightharpoonup> 'i) \<Rightarrow> 'i set \<Rightarrow> bool" where
  "owns B own H \<longleftrightarrow> (\<forall>x y i. own x = Some i \<longrightarrow> own y = Some i \<longrightarrow> x = y) \<and>
     B \<inter> ran own = {} \<and> H = B \<union> ran own"

definition owners :: "(nat \<rightharpoonup> 'o) \<Rightarrow> nat \<rightharpoonup> 'i" where
  "owners st x = Option.bind (st x) owned"

lemma owners_upd [simp]:
  "owners (st(x \<mapsto> v)) = (owners st)(x := owned v)" "owners (st(x := None)) = (owners st)(x := None)"
  by (auto simp: owners_def)

lemma owners_some [simp]: "st x = Some v \<Longrightarrow> owners st x = owned v"
  by (simp add: owners_def)

lemma owns_subset: "owns B own H \<Longrightarrow> set_option (own x) \<subseteq> H"
  by (cases "own x") (auto simp: owns_def intro: ranI)

lemma owns_held: "owns B (owners st) H \<Longrightarrow> st x = Some v \<Longrightarrow> set_option (owned v) \<subseteq> H"
  using owns_subset [of B "owners st" H x] by simp

lemma owns_make:
  assumes "owns B own H" and "own x = None" and "set_option i \<inter> H = {}"
  shows "owns B (own(x := i)) (H \<union> set_option i)"
proof (cases i)
  case None
  then show ?thesis using assms by (simp add: fun_upd_idem)
next
  case (Some j)
  then have "j \<notin> ran own" "j \<notin> B" using assms by (auto simp: owns_def)
  then show ?thesis
    using assms Some by (auto simp: owns_def ran_map_upd dest: ranI)
qed

lemma owns_drop:
  assumes "owns B own H"
  shows "owns B (own(x := None)) (H - set_option (own x))"
proof -
  have "ran (own(x := None)) = ran own - set_option (own x)"
    using assms by (auto simp: owns_def ran_def)
  moreover have "B \<inter> set_option (own x) = {}"
    using assms by (auto simp: owns_def dest: ranI)
  ultimately show ?thesis using assms by (auto simp: owns_def)
qed

lemma owns_move:
  assumes "owns B own H" and "own x = None" and "x \<noteq> y"
  shows "owns B (own(y := None, x := own y)) H"
proof -
  have "H - set_option (own y) \<union> set_option (own y) = H" using owns_subset [OF assms(1), of y] by blast
  then show ?thesis
    using owns_make [OF owns_drop [OF assms(1), of y], of x "own y"] assms(2,3) by simp
qed

lemma stored: "dom st = set D \<Longrightarrow> x \<in> set D \<Longrightarrow> \<exists>v. st x = Some v"
  by (metis domD)

lemma owner_none: "x \<notin> dom st \<Longrightarrow> owners st x = None"
  by (simp add: owners_def domIff)

text \<open>One operation.\<close>

lemma step_owns:
  assumes own: "owns B (owners st) (held w)" and D: "dom st = set D" and ok: "scope_after p D = Some D'"
  shows "\<exists>st' w'. handle_step C p (st, w) = Some (st', w') \<and> owns B (owners st') (held w') \<and> dom st' = set D'"
proof (cases p)
  case (Construct x a)
  obtain v w' where m: "hc_make C a w = (v, w')" by force
  have x: "x \<notin> set D" "D' = x # D" using Construct ok by (auto split: if_splits)
  then have "owns B ((owners st)(x := owned v)) (held w')"
    using owns_make [OF own, of x "owned v"] make_owns [OF m] owner_none [of x st] D by simp
  then show ?thesis
    using Construct m x D by (intro exI [of _ "st(x \<mapsto> v)"] exI [of _ w']) simp
next
  case (Move_construct x y)
  then have xy: "x \<notin> set D" "y \<in> set D" "D' = x # D" using ok by (auto split: if_splits)
  then obtain v where v: "st y = Some v" using stored [OF D] by blast
  obtain u left where m: "hc_move C v = (u, left)" by force
  have "owns B ((owners st)(y := None, x := owned u)) (held w)"
    using owns_move [OF own, of x y] owner_none [of x st] xy D v move_owns [OF m] by auto
  then show ?thesis
    using Move_construct m v xy D move_owns [OF m]
    by (intro exI [of _ "st(y \<mapsto> left, x \<mapsto> u)"] exI [of _ w]) auto
next
  case (Move_assign x y)
  then have xy: "x \<in> set D" "y \<in> set D" "D' = D" using ok by (auto split: if_splits)
  then obtain u v where uv: "st x = Some u" "st y = Some v" using stored [OF D] by blast
  obtain u' left w' where a: "hc_assign C u v w = Some (u', left, w')" "owned u' = owned v"
    "owned left = None" "held w' = held w - set_option (owned u)"
    using assign_owns [OF owns_held [OF own uv(1)], of v] by blast
  have drop: "owns B ((owners st)(x := None)) (held w')"
    using owns_drop [OF own, of x] a(4) uv by simp
  have "owns B ((owners st)(x := owned u', y := None)) (held w')"
  proof (cases "x = y")
    case True
    then show ?thesis using drop by simp
  next
    case False
    then show ?thesis using owns_move [OF drop, of x y] a(2) uv by (simp add: fun_upd_twist)
  qed
  then show ?thesis
    using Move_assign a uv xy D
    by (intro exI [of _ "st(x \<mapsto> u', y \<mapsto> left)"] exI [of _ w']) auto
next
  case (Destruct x)
  then have x: "x \<in> set D" "D' = removeAll x D" using ok by (auto split: if_splits)
  then obtain v where v: "st x = Some v" using stored [OF D] by blast
  obtain w' where d: "hc_destroy C v w = Some w'" "held w' = held w - set_option (owned v)"
    using destroy_owns [OF owns_held [OF own v]] by blast
  have "owns B ((owners st)(x := None)) (held w')"
    using owns_drop [OF own, of x] d(2) v by simp
  then show ?thesis
    using Destruct d v x D
    by (intro exI [of _ "st(x := None)"] exI [of _ w']) auto
qed

lemma run_owns:
  "owns B (owners st) (held w) \<Longrightarrow> dom st = set D \<Longrightarrow> scoped ps D \<Longrightarrow>
   \<exists>st' w'. handle_run C ps (st, w) = Some (st', w') \<and> owns B (owners st') (held w')"
proof (induction ps arbitrary: st w D)
  case Nil
  then show ?case by simp
next
  case (Cons p ps)
  obtain D' where D': "scope_after p D = Some D'" "scoped ps D'"
    using Cons.prems(3) by (auto split: option.splits)
  obtain st' w' where "handle_step C p (st, w) = Some (st', w')" "owns B (owners st') (held w')"
    "dom st' = set D'"
    using step_owns [OF Cons.prems(1,2) D'(1)] by blast
  then show ?case using Cons.IH [of st' w' D'] D'(2) by simp
qed

text \<open>
  A whole program: it never runs into undefined behaviour, every resource of an object that is
  left is still held, and when no object is left all that the program acquired is released.
\<close>

lemma program_owns:
  assumes "scoped ps []"
  shows "\<exists>st w'. handle_run C ps (Map.empty, w) = Some (st, w') \<and>
    (\<forall>x v. st x = Some v \<longrightarrow> set_option (owned v) \<subseteq> held w') \<and>
    (\<forall>x y u v i. st x = Some u \<longrightarrow> st y = Some v \<longrightarrow> owned u = Some i \<longrightarrow> owned v = Some i \<longrightarrow> x = y) \<and>
    held w \<subseteq> held w' \<and> (st = Map.empty \<longrightarrow> held w' = held w)"
proof -
  have empty: "owners Map.empty = Map.empty" by (auto simp: owners_def)
  then have "owns (held w) (owners Map.empty) (held w)" by (simp add: owns_def)
  from run_owns [OF this _ assms] obtain st w'
    where run: "handle_run C ps (Map.empty, w) = Some (st, w')" and own: "owns (held w) (owners st) (held w')"
    by auto
  have "x = y" if "st x = Some u" "st y = Some v" "owned u = Some i" "owned v = Some i" for x y u v i
    using own that owners_some [of st x u] owners_some [of st y v] unfolding owns_def by metis
  moreover have "st = Map.empty \<longrightarrow> held w' = held w" using own by (simp add: owns_def empty)
  moreover have "held w \<subseteq> held w'" using own by (auto simp: owns_def)
  ultimately show ?thesis using run owns_held [OF own] by blast
qed

end

subsection \<open>Programs over objects and raw values\<close>

text \<open>
  A class whose objects can be taken apart. A raw value \<open>'r\<close> is a plain struct with the same
  resource: a function of the C interface makes one or releases one, an object gives up its
  resource as one, and the converting constructor makes an object that takes one over. What is
  left of a raw value that has been taken over or released is not used again.
\<close>

record ('b, 'r, 'o, 'w) raw_interface =
  ri_make :: "'b \<Rightarrow> 'w \<Rightarrow> 'r \<times> 'w"
  ri_free :: "'r \<Rightarrow> 'w \<Rightarrow> 'w option"
  ri_release_raw :: "'o \<Rightarrow> 'r \<times> 'o"
  ri_of_raw :: "'r \<Rightarrow> 'o"

datatype ('a, 'b) raw_op =
  On_objects "'a handle_op" | Make_raw nat 'b | Free_raw nat | Release_raw nat nat | Convert nat nat

type_synonym ('r, 'o, 'w) raw_store = "(nat \<rightharpoonup> 'o) \<times> (nat \<rightharpoonup> 'r) \<times> 'w"

fun raw_step ::
  "('a, 'o, 'w) handle_class \<Rightarrow> ('b, 'r, 'o, 'w) raw_interface \<Rightarrow> ('a, 'b) raw_op \<Rightarrow>
   ('r, 'o, 'w) raw_store \<Rightarrow> ('r, 'o, 'w) raw_store option" where
  "raw_step C R (On_objects p) (st, raws, w) = do {
     (st, w) \<leftarrow> handle_step C p (st, w);
     Some (st, raws, w) }"
| "raw_step C R (Make_raw k b) (st, raws, w) =
     (let (r, w) = ri_make R b w in Some (st, raws(k \<mapsto> r), w))"
| "raw_step C R (Free_raw k) (st, raws, w) = do {
     r \<leftarrow> raws k;
     w \<leftarrow> ri_free R r w;
     Some (st, raws(k := None), w) }"
| "raw_step C R (Release_raw k x) (st, raws, w) = do {
     v \<leftarrow> st x;
     let (r, left) = ri_release_raw R v;
     Some (st(x \<mapsto> left), raws(k \<mapsto> r), w) }"
| "raw_step C R (Convert x k) (st, raws, w) = do {
     r \<leftarrow> raws k;
     Some (st(x \<mapsto> ri_of_raw R r), raws(k := None), w) }"

fun raw_run ::
  "('a, 'o, 'w) handle_class \<Rightarrow> ('b, 'r, 'o, 'w) raw_interface \<Rightarrow> ('a, 'b) raw_op list \<Rightarrow>
   ('r, 'o, 'w) raw_store \<Rightarrow> ('r, 'o, 'w) raw_store option" where
  "raw_run C R [] s = Some s"
| "raw_run C R (p # ps) s = Option.bind (raw_step C R p s) (raw_run C R ps)"

text \<open>The objects and the raw values that exist after an operation, if it is well scoped.\<close>

fun raw_scope :: "('a, 'b) raw_op \<Rightarrow> nat list \<times> nat list \<Rightarrow> (nat list \<times> nat list) option" where
  "raw_scope (On_objects p) (D, K) = map_option (\<lambda>D. (D, K)) (scope_after p D)"
| "raw_scope (Make_raw k b) (D, K) = (if k \<notin> set K then Some (D, k # K) else None)"
| "raw_scope (Free_raw k) (D, K) = (if k \<in> set K then Some (D, removeAll k K) else None)"
| "raw_scope (Release_raw k x) (D, K) = (if k \<notin> set K \<and> x \<in> set D then Some (D, k # K) else None)"
| "raw_scope (Convert x k) (D, K) = (if x \<notin> set D \<and> k \<in> set K then Some (x # D, removeAll k K) else None)"

fun raw_scoped :: "('a, 'b) raw_op list \<Rightarrow> nat list \<times> nat list \<Rightarrow> bool" where
  "raw_scoped [] E = True"
| "raw_scoped (p # ps) E = (case raw_scope p E of None \<Rightarrow> False | Some E' \<Rightarrow> raw_scoped ps E')"

text \<open>Both kinds in one map of owners: \<open>Inl\<close> for the objects, \<open>Inr\<close> for the raw values.\<close>

locale raw_class = owning_class C owned held
  for C :: "('a, 'o, 'w) handle_class" and owned :: "'o \<Rightarrow> 'i option" and held :: "'w \<Rightarrow> 'i set" +
  fixes R :: "('b, 'r, 'o, 'w) raw_interface"
    and raw_owned :: "'r \<Rightarrow> 'i option"
  assumes make_raw_owns: "ri_make R b w = (r, w') \<Longrightarrow>
      set_option (raw_owned r) \<inter> held w = {} \<and> held w' = held w \<union> set_option (raw_owned r)"
    and free_raw_owns: "set_option (raw_owned r) \<subseteq> held w \<Longrightarrow>
      \<exists>w'. ri_free R r w = Some w' \<and> held w' = held w - set_option (raw_owned r)"
    and release_raw_owns: "ri_release_raw R v = (r, left) \<Longrightarrow> raw_owned r = owned v \<and> owned left = None"
    and convert_owns: "owned (ri_of_raw R r) = raw_owned r"
begin

definition raw_owners :: "(nat \<rightharpoonup> 'r) \<Rightarrow> nat \<rightharpoonup> 'i" where
  "raw_owners raws k = Option.bind (raws k) raw_owned"

lemma raw_owners_upd [simp]:
  "raw_owners (raws(k \<mapsto> r)) = (raw_owners raws)(k := raw_owned r)"
  "raw_owners (raws(k := None)) = (raw_owners raws)(k := None)"
  by (auto simp: raw_owners_def)

lemma raw_owners_some [simp]: "raws k = Some r \<Longrightarrow> raw_owners raws k = raw_owned r"
  by (simp add: raw_owners_def)

lemma raw_owners_none: "k \<notin> dom raws \<Longrightarrow> raw_owners raws k = None"
  by (simp add: raw_owners_def domIff)

lemma case_sum_upd:
  "(case_sum f g)(Inl x := i) = case_sum (f(x := i)) g" "(case_sum f g)(Inr k := i) = case_sum f (g(k := i))"
  by (auto split: sum.splits)

lemma ran_case_sum: "ran (case_sum f g) = ran f \<union> ran g"
  by (auto simp: ran_def split_sum_ex)

text \<open>Seen from the objects, what the raw values own is held by others.\<close>

lemma owns_split:
  "owns B (case_sum f g) H \<longleftrightarrow> owns (B \<union> ran g) f H \<and> owns B g (B \<union> ran g)"
proof
  assume a: "owns B (case_sum f g) H"
  then have one: "y = z" if "case_sum f g y = Some i" "case_sum f g z = Some i" for y z i
    using that unfolding owns_def by blast
  have "f x \<noteq> Some i \<or> g k \<noteq> Some i" for x k i using one [of "Inl x" i "Inr k"] by auto
  then have "ran f \<inter> ran g = {}" by (auto simp: ran_def)
  moreover have "x = y" if "f x = Some i" "f y = Some i" for x y i
    using one [of "Inl x" i "Inl y"] that by simp
  moreover have "x = y" if "g x = Some i" "g y = Some i" for x y i
    using one [of "Inr x" i "Inr y"] that by simp
  moreover have "B \<inter> (ran f \<union> ran g) = {}" "H = B \<union> (ran f \<union> ran g)"
    using a by (simp_all add: owns_def ran_case_sum)
  ultimately show "owns (B \<union> ran g) f H \<and> owns B g (B \<union> ran g)"
    unfolding owns_def by blast
next
  assume a: "owns (B \<union> ran g) f H \<and> owns B g (B \<union> ran g)"
  then have "ran g \<inter> ran f = {}" "B \<inter> ran f = {}" "B \<inter> ran g = {}" "H = B \<union> ran f \<union> ran g"
    unfolding owns_def by blast+
  moreover have "x = y" if "case_sum f g x = Some i" "case_sum f g y = Some i" for x y i
    using a that calculation(1) by (auto simp: owns_def dest: ranI split: sum.splits)
  ultimately show "owns B (case_sum f g) H"
    unfolding owns_def ran_case_sum by blast
qed

abbreviation all_owners :: "(nat \<rightharpoonup> 'o) \<Rightarrow> (nat \<rightharpoonup> 'r) \<Rightarrow> nat + nat \<rightharpoonup> 'i" where
  "all_owners st raws \<equiv> case_sum (owners st) (raw_owners raws)"

lemma owns_all_drop:
  assumes "owns B (all_owners st raws) H"
  shows "owns B (all_owners st (raws(k := None))) (H - set_option (raw_owners raws k))"
  using owns_drop [OF assms, of "Inr k"] by (simp add: case_sum_upd)

lemma raw_step_owns:
  assumes own: "owns B (all_owners st raws) (held w)" and D: "dom st = set D" and K: "dom raws = set K"
    and ok: "raw_scope p (D, K) = Some (D', K')"
  shows "\<exists>st' raws' w'. raw_step C R p (st, raws, w) = Some (st', raws', w') \<and>
    owns B (all_owners st' raws') (held w') \<and> dom st' = set D' \<and> dom raws' = set K'"
proof (cases p)
  case (On_objects q)
  then have q: "scope_after q D = Some D'" "K' = K" using ok by auto
  have "\<exists>st' w'. handle_step C q (st, w) = Some (st', w') \<and>
      owns (B \<union> ran (raw_owners raws)) (owners st') (held w') \<and> dom st' = set D'"
    using step_owns [OF _ D q(1)] own by (simp add: owns_split)
  then show ?thesis using On_objects own q K by (auto simp: owns_split)
next
  case (Make_raw k b)
  obtain r w' where m: "ri_make R b w = (r, w')" by force
  have k: "k \<notin> set K" "D' = D" "K' = k # K" using Make_raw ok by (auto split: if_splits)
  then have "owns B (all_owners st (raws(k \<mapsto> r))) (held w')"
    using owns_make [OF own, of "Inr k" "raw_owned r"] make_raw_owns [OF m] raw_owners_none [of k raws] K
    by (simp add: case_sum_upd)
  then show ?thesis using Make_raw m k D K by simp
next
  case (Free_raw k)
  then have k: "k \<in> set K" "D' = D" "K' = removeAll k K" using ok by (auto split: if_splits)
  then obtain r where r: "raws k = Some r" using stored [OF K] by blast
  have "set_option (raw_owned r) \<subseteq> held w" using owns_subset [OF own, of "Inr k"] r by simp
  then obtain w' where "ri_free R r w = Some w'" "held w' = held w - set_option (raw_owned r)"
    using free_raw_owns by blast
  then show ?thesis using Free_raw r k D K owns_all_drop [OF own, of k] by auto
next
  case (Release_raw k x)
  then have k: "k \<notin> set K" "x \<in> set D" "D' = D" "K' = k # K" using ok by (auto split: if_splits)
  then obtain v where v: "st x = Some v" using stored [OF D] by blast
  obtain r left where m: "ri_release_raw R v = (r, left)" by force
  have "owns B (all_owners (st(x \<mapsto> left)) (raws(k \<mapsto> r))) (held w)"
    using owns_move [OF own, of "Inr k" "Inl x"] raw_owners_none [of k raws] k K v release_raw_owns [OF m]
    by (simp add: case_sum_upd)
  then show ?thesis using Release_raw m v k D K by auto
next
  case (Convert x k)
  then have k: "x \<notin> set D" "k \<in> set K" "D' = x # D" "K' = removeAll k K" using ok by (auto split: if_splits)
  then obtain r where r: "raws k = Some r" using stored [OF K] by blast
  have "owns B (all_owners (st(x \<mapsto> ri_of_raw R r)) (raws(k := None))) (held w)"
    using owns_move [OF own, of "Inl x" "Inr k"] owner_none [of x st] k D r convert_owns [of r]
    by (simp add: case_sum_upd)
  then show ?thesis using Convert r k D K by auto
qed

lemma raw_run_owns:
  "owns B (all_owners st raws) (held w) \<Longrightarrow> dom st = set D \<Longrightarrow> dom raws = set K \<Longrightarrow>
   raw_scoped ps (D, K) \<Longrightarrow>
   \<exists>st' raws' w'. raw_run C R ps (st, raws, w) = Some (st', raws', w') \<and> owns B (all_owners st' raws') (held w')"
proof (induction ps arbitrary: st raws w D K)
  case Nil
  then show ?case by simp
next
  case (Cons p ps)
  obtain D' K' where E: "raw_scope p (D, K) = Some (D', K')" "raw_scoped ps (D', K')"
    using Cons.prems(4) by (auto split: option.splits)
  obtain st' raws' w' where "raw_step C R p (st, raws, w) = Some (st', raws', w')"
    "owns B (all_owners st' raws') (held w')" "dom st' = set D'" "dom raws' = set K'"
    using raw_step_owns [OF Cons.prems(1-3) E(1)] by blast
  then show ?case using Cons.IH [of st' raws' w' D' K'] E(2) by simp
qed

text \<open>A whole program over objects and raw values, as above.\<close>

lemma raw_program_owns:
  assumes "raw_scoped ps ([], [])"
  shows "\<exists>st raws w'. raw_run C R ps (Map.empty, Map.empty, w) = Some (st, raws, w') \<and>
    (\<forall>x v. st x = Some v \<longrightarrow> set_option (owned v) \<subseteq> held w') \<and>
    (\<forall>k r. raws k = Some r \<longrightarrow> set_option (raw_owned r) \<subseteq> held w') \<and>
    (\<forall>x y u v i. st x = Some u \<longrightarrow> st y = Some v \<longrightarrow> owned u = Some i \<longrightarrow> owned v = Some i \<longrightarrow> x = y) \<and>
    (\<forall>k l r q i. raws k = Some r \<longrightarrow> raws l = Some q \<longrightarrow> raw_owned r = Some i \<longrightarrow> raw_owned q = Some i \<longrightarrow> k = l) \<and>
    (\<forall>x k v r. st x = Some v \<longrightarrow> raws k = Some r \<longrightarrow> set_option (owned v) \<inter> set_option (raw_owned r) = {}) \<and>
    held w \<subseteq> held w' \<and> (st = Map.empty \<longrightarrow> raws = Map.empty \<longrightarrow> held w' = held w)"
proof -
  have empty: "all_owners Map.empty Map.empty = Map.empty"
    by (auto simp: owners_def raw_owners_def split: sum.splits)
  then have "owns (held w) (all_owners Map.empty Map.empty) (held w)" by (simp add: owns_def)
  from raw_run_owns [OF this _ _ assms] obtain st raws w'
    where run: "raw_run C R ps (Map.empty, Map.empty, w) = Some (st, raws, w')"
      and own: "owns (held w) (all_owners st raws) (held w')"
    by auto
  have held: "set_option (all_owners st raws z) \<subseteq> held w'" for z using owns_subset [OF own] .
  have one: "y = z" if "all_owners st raws y = Some i" "all_owners st raws z = Some i" for y z i
    using own that unfolding owns_def by blast
  have held1: "set_option (owned v) \<subseteq> held w'" if "st x = Some v" for x v
    using held [of "Inl x"] that by simp
  have held2: "set_option (raw_owned r) \<subseteq> held w'" if "raws k = Some r" for k r
    using held [of "Inr k"] that by simp
  have one1: "x = y" if "st x = Some u" "st y = Some v" "owned u = Some i" "owned v = Some i" for x y u v i
    using one [of "Inl x" i "Inl y"] that by simp
  have one2: "k = l" if "raws k = Some r" "raws l = Some q" "raw_owned r = Some i" "raw_owned q = Some i"
    for k l r q i
    using one [of "Inr k" i "Inr l"] that by simp
  have apart: "set_option (owned v) \<inter> set_option (raw_owned r) = {}"
    if "st x = Some v" "raws k = Some r" for x k v r
    using one [of "Inl x" _ "Inr k"] that by auto
  have bounds: "held w \<subseteq> held w'" "st = Map.empty \<Longrightarrow> raws = Map.empty \<Longrightarrow> held w' = held w"
    using own by (auto simp: owns_def empty)
  show ?thesis
    by (intro exI [of _ st] exI [of _ raws] exI [of _ w'] conjI allI impI;
        (rule run bounds(1) | erule held1 held2 | erule (3) one1 one2 | erule (1) apart bounds(2)))
qed

end

end
