(* ===== verification/Evmc_Handles.thy ===== *)
theory Evmc_Handles
  imports Ownership Evmc
begin

text \<open>
  The resources behind the results and the VM instances of the EVMC interface
  (\<open>evmc/helpers.h\<close>, the classes \<open>Result\<close> and \<open>VM\<close> of \<open>evmc/evmc.hpp\<close>): the output of a
  result lies in memory from \<open>malloc\<close> that its release function frees, and a VM instance is
  destroyed through its own function. Both classes meet the contract of \<open>Ownership\<close>.
\<close>

subsection \<open>The heap\<close>

text \<open>
  The blocks from \<open>malloc\<close>, by address; address 0 is the null pointer. Addresses are used
  again once they are freed. Freeing anything but the null pointer or an allocated block is
  undefined.
\<close>

type_synonym heap = "(nat \<times> byte list) list"

definition allocated :: "heap \<Rightarrow> nat set" where
  "allocated h = fst ` set h - {0}"

definition fresh_address :: "(nat \<times> 'b) list \<Rightarrow> nat" where
  "fresh_address h = Suc (foldr max (map fst h) 0)"

definition c_malloc :: "(nat \<Rightarrow> bool) \<Rightarrow> nat \<Rightarrow> heap \<Rightarrow> nat \<times> heap" where
  "c_malloc ok n h = (if ok n then (fresh_address h, (fresh_address h, replicate n 0) # h) else (0, h))"

definition c_memcpy :: "nat \<Rightarrow> byte list \<Rightarrow> heap \<Rightarrow> heap" where
  "c_memcpy p bs h = map (\<lambda>(q, b). if q = p then (q, bs @ drop (length bs) b) else (q, b)) h"

definition c_free :: "nat \<Rightarrow> heap \<Rightarrow> heap option" where
  "c_free p h = (if p = 0 then Some h
     else if p \<in> fst ` set h then Some (filter (\<lambda>(q, _). q \<noteq> p) h) else None)"

lemma fresh_address: "p \<in> fst ` set h \<Longrightarrow> p < fresh_address h"
proof -
  have "x \<in> set xs \<Longrightarrow> x \<le> foldr max xs 0" for x and xs :: "nat list" by (induction xs) auto
  then show "p \<in> fst ` set h \<Longrightarrow> p < fresh_address h" by (simp add: fresh_address_def le_imp_less_Suc)
qed

lemma fresh_not_in: "fresh_address h \<notin> fst ` set h" "0 < fresh_address h"
  using fresh_address [of "fresh_address h" h] by (auto simp: fresh_address_def)

lemma c_free_ok: "p \<in> allocated h \<Longrightarrow> \<exists>h'. c_free p h = Some h' \<and> allocated h' = allocated h - {p}"
  by (auto simp: c_free_def allocated_def image_iff)

subsection \<open>Raw results\<close>

text \<open>
  \<open>struct evmc_result\<close>. The release function pointer is null or \<open>evmc_free_result_memory\<close>,
  the only release function of the sources.
\<close>

datatype release_fn = Null_release | Evmc_free_result_memory

record raw_result =
  raw_status_code :: evmc_status_code
  raw_gas_left :: int
  raw_gas_refund :: int
  raw_output_data :: nat
  raw_output_size :: nat
  raw_release :: release_fn
  raw_create_address :: evmc_address

definition evmc_free_result_memory :: "raw_result \<Rightarrow> heap \<Rightarrow> heap option" where
  "evmc_free_result_memory r h = c_free (raw_output_data r) h"

fun call_release :: "release_fn \<Rightarrow> raw_result \<Rightarrow> heap \<Rightarrow> heap option" where
  "call_release Null_release r h = None"
| "call_release Evmc_free_result_memory r h = evmc_free_result_memory r h"

definition evmc_make_result ::
  "(nat \<Rightarrow> bool) \<Rightarrow> evmc_status_code \<Rightarrow> int \<Rightarrow> int \<Rightarrow> byte list \<Rightarrow> heap \<Rightarrow> raw_result \<times> heap" where
  "evmc_make_result ok status_code gas_left gas_refund output_data h =
     (let result = \<lparr>raw_status_code = EVMC_SUCCESS, raw_gas_left = 0, raw_gas_refund = 0,
            raw_output_data = 0, raw_output_size = 0, raw_release = Null_release,
            raw_create_address = zero_address\<rparr>
      in if length output_data \<noteq> 0
         then let (buffer, h) = c_malloc ok (length output_data) h
              in if buffer = 0 then (result\<lparr>raw_status_code := EVMC_OUT_OF_MEMORY\<rparr>, h)
                 else (result\<lparr>raw_output_data := buffer, raw_output_size := length output_data,
                         raw_release := Evmc_free_result_memory, raw_status_code := status_code,
                         raw_gas_left := gas_left, raw_gas_refund := gas_refund\<rparr>,
                       c_memcpy buffer output_data h)
         else (result\<lparr>raw_status_code := status_code, raw_gas_left := gas_left,
                 raw_gas_refund := gas_refund\<rparr>, h))"

definition evmc_release_result :: "raw_result \<Rightarrow> heap \<Rightarrow> heap option" where
  "evmc_release_result r h =
     (if raw_release r \<noteq> Null_release then call_release (raw_release r) r h else Some h)"

subsection \<open>The class \<open>Result\<close>\<close>

text \<open>
  The public constructors that make a result, one argument list each; an object is its raw
  result. The converting constructor from a raw result is \<open>result_of_raw\<close>.
\<close>

datatype result_args =
    With_output "nat \<Rightarrow> bool" evmc_status_code int int "byte list"
  | Without_output evmc_status_code int int
  | Of_creation evmc_status_code int int evmc_address

fun result_make :: "result_args \<Rightarrow> heap \<Rightarrow> raw_result \<times> heap" where
  "result_make (With_output ok st gl gr out) h = evmc_make_result ok st gl gr out h"
| "result_make (Without_output st gl gr) h = evmc_make_result (\<lambda>_. True) st gl gr [] h"
| "result_make (Of_creation st gl gr addr) h =
     (let (r, h) = evmc_make_result (\<lambda>_. True) st gl gr [] h in (r\<lparr>raw_create_address := addr\<rparr>, h))"

definition result_of_raw :: "raw_result \<Rightarrow> raw_result" where
  "result_of_raw res = res"

definition result_destroy :: "raw_result \<Rightarrow> heap \<Rightarrow> heap option" where
  "result_destroy this h =
     (if raw_release this \<noteq> Null_release then call_release (raw_release this) this h else Some h)"

definition result_move :: "raw_result \<Rightarrow> raw_result \<times> raw_result" where
  "result_move other = (other, other\<lparr>raw_release := Null_release\<rparr>)"

definition result_assign ::
  "raw_result \<Rightarrow> raw_result \<Rightarrow> heap \<Rightarrow> (raw_result \<times> raw_result \<times> heap) option" where
  "result_assign this other h = do {
     h \<leftarrow> result_destroy this h;
     let this = other;
     Some (this, other\<lparr>raw_release := Null_release\<rparr>, h) }"

definition result_release_raw :: "raw_result \<Rightarrow> raw_result \<times> raw_result" where
  "result_release_raw this = (let out = this in (out, this\<lparr>raw_release := Null_release\<rparr>))"

definition result_class :: "(result_args, raw_result, heap) handle_class" where
  "result_class = \<lparr>hc_make = result_make, hc_move = result_move, hc_assign = result_assign,
     hc_destroy = result_destroy\<rparr>"

text \<open>
  Raw results are made by \<open>evmc_make_result\<close>, with the function \<open>ok\<close> that says which allocations
  succeed, and released by \<open>evmc_release_result\<close>. \<open>release_raw\<close> gives one up, as \<open>Host\<close> does for
  each call, and the converting constructor takes one over, as \<open>HostContext\<close> and \<open>VM\<close> do.
\<close>

datatype raw_args = Raw_args "nat \<Rightarrow> bool" evmc_status_code int int "byte list"

fun raw_make :: "raw_args \<Rightarrow> heap \<Rightarrow> raw_result \<times> heap" where
  "raw_make (Raw_args ok st gl gr out) h = evmc_make_result ok st gl gr out h"

definition result_raws :: "(raw_args, raw_result, raw_result, heap) raw_interface" where
  "result_raws = \<lparr>ri_make = raw_make, ri_free = evmc_release_result,
     ri_release_raw = result_release_raw, ri_of_raw = result_of_raw\<rparr>"

text \<open>The block an object or a raw result owns.\<close>

definition result_owned :: "raw_result \<Rightarrow> nat option" where
  "result_owned r = (if raw_release r = Null_release then None else Some (raw_output_data r))"

lemma result_owned_null [simp]: "result_owned (r\<lparr>raw_release := Null_release\<rparr>) = None"
  by (simp add: result_owned_def)

lemma allocated_memcpy [simp]: "allocated (c_memcpy p bs h) = allocated h"
proof -
  have "map fst (c_memcpy p bs h) = map fst h" by (induction h) (auto simp: c_memcpy_def)
  then show ?thesis by (simp only: allocated_def set_map [symmetric])
qed

lemma make_result_owns:
  assumes "evmc_make_result ok st gl gr out h = (r, h')"
  shows "set_option (result_owned r) \<inter> allocated h = {} \<and> allocated h' = allocated h \<union> set_option (result_owned r)"
  using assms fresh_not_in [of h]
  by (auto simp: evmc_make_result_def c_malloc_def result_owned_def Let_def split: if_splits)
    (auto simp: allocated_def)

lemma result_make_owns:
  assumes "result_make a h = (r, h')"
  shows "set_option (result_owned r) \<inter> allocated h = {} \<and> allocated h' = allocated h \<union> set_option (result_owned r)"
proof (cases a)
  case (Of_creation st gl gr addr)
  obtain r0 h0 where "evmc_make_result (\<lambda>_. True) st gl gr [] h = (r0, h0)" by force
  then show ?thesis
    using assms Of_creation make_result_owns [of "\<lambda>_. True" st gl gr "[]" h r0 h0]
    by (auto simp: result_owned_def)
qed (use assms make_result_owns in auto)

lemma result_destroy_owns:
  "set_option (result_owned r) \<subseteq> allocated h \<Longrightarrow>
   \<exists>h'. result_destroy r h = Some h' \<and> allocated h' = allocated h - set_option (result_owned r)"
  using c_free_ok [of "raw_output_data r" h]
  by (cases "raw_release r") (auto simp: result_destroy_def result_owned_def evmc_free_result_memory_def)

lemma raw_make_owns:
  "raw_make b h = (r, h') \<Longrightarrow>
   set_option (result_owned r) \<inter> allocated h = {} \<and> allocated h' = allocated h \<union> set_option (result_owned r)"
  by (cases b) (auto dest: make_result_owns)

lemma evmc_release_result_eq: "evmc_release_result = result_destroy"
  by (intro ext) (simp add: evmc_release_result_def result_destroy_def)

interpretation results: raw_class result_class result_owned allocated result_raws result_owned
proof unfold_locales
  fix u v :: raw_result and h :: heap
  assume "set_option (result_owned u) \<subseteq> allocated h"
  then show "\<exists>u' left w'. hc_assign result_class u v h = Some (u', left, w') \<and> result_owned u' = result_owned v \<and>
      result_owned left = None \<and> allocated w' = allocated h - set_option (result_owned u)"
    using result_destroy_owns [of u h]
    by (intro exI [of _ v] exI [of _ "v\<lparr>raw_release := Null_release\<rparr>"])
      (auto simp: result_class_def result_assign_def result_owned_def)
next
  fix b h r h'
  assume "ri_make result_raws b h = (r, h')"
  then show "set_option (result_owned r) \<inter> allocated h = {} \<and>
      allocated h' = allocated h \<union> set_option (result_owned r)"
    using raw_make_owns [of b h r h'] by (simp add: result_raws_def)
qed (use result_make_owns result_destroy_owns in \<open>auto simp: result_class_def result_raws_def result_move_def
    result_release_raw_def result_of_raw_def evmc_release_result_eq\<close>)

text \<open>
  The results of the interpreter, where the output is a list of bytes, are what is read through
  the pointer of a raw result.
\<close>

definition read_result :: "heap \<Rightarrow> raw_result \<Rightarrow> evmc_result option" where
  "read_result h r = do {
     out \<leftarrow> (if raw_output_size r = 0 then Some []
            else do { b \<leftarrow> map_of h (raw_output_data r); slice_opt b 0 (raw_output_size r) });
     Some \<lparr>res_status_code = raw_status_code r, res_gas_left = raw_gas_left r,
       res_gas_refund = raw_gas_refund r, res_output = out,
       res_create_address = raw_create_address r\<rparr> }"

fun args_result :: "result_args \<Rightarrow> evmc_result" where
  "args_result (With_output ok st gl gr out) = make_result ok st gl gr out"
| "args_result (Without_output st gl gr) = result_no_output st gl gr"
| "args_result (Of_creation st gl gr addr) = result_created st gl gr addr"

lemma make_result_read:
  "evmc_make_result ok st gl gr out h = (r, h') \<Longrightarrow> read_result h' r = Some (make_result ok st gl gr out)"
  using fresh_not_in [of h]
  by (auto simp: evmc_make_result_def c_malloc_def read_result_def make_result_def c_memcpy_def
      slice_opt_Some Let_def split: if_splits)

lemma result_make_read: "result_make a h = (r, h') \<Longrightarrow> read_result h' r = Some (args_result a)"
proof (induction a h rule: result_make.induct)
  case (3 st gl gr addr h)
  then show ?case
    by (auto simp: evmc_make_result_def read_result_def result_created_def make_result_def Let_def)
qed (auto simp: result_no_output_def dest: make_result_read)

text \<open>What another result reads is not touched by a new result or by the end of one.\<close>

lemma map_of_memcpy: "q \<noteq> p \<Longrightarrow> map_of (c_memcpy p bs h) q = map_of h q"
  by (induction h) (auto simp: c_memcpy_def)

lemma make_result_frame:
  assumes "evmc_make_result ok st gl gr out h = (r, h')" and "read_result h r' = Some v"
  shows "read_result h' r' = Some v"
proof -
  have "map_of h' q = map_of h q" if "map_of h q = Some b" for q b
  proof -
    have "q \<noteq> fresh_address h" using map_of_SomeD [OF that] fresh_not_in [of h] by force
    then show ?thesis
      using assms(1)
      by (auto simp: evmc_make_result_def c_malloc_def map_of_memcpy Let_def split: if_splits)
  qed
  then show ?thesis
    using assms(2) by (auto simp: read_result_def bind_eq_Some_conv split: if_splits)
qed

lemma result_make_frame:
  "result_make a h = (r, h') \<Longrightarrow> read_result h r' = Some v \<Longrightarrow> read_result h' r' = Some v"
  by (cases a) (auto split: prod.splits dest: make_result_frame)

lemma map_of_filter_key: "q \<noteq> p \<Longrightarrow> map_of (filter (\<lambda>(k, _). k \<noteq> p) h) q = map_of h q"
  by (induction h) auto

lemma result_destroy_frame:
  assumes "result_destroy r h = Some h'" and "read_result h r' = Some v"
    and "raw_output_size r' = 0 \<or> result_owned r \<noteq> Some (raw_output_data r')"
  shows "read_result h' r' = Some v"
  using assms
  by (cases "raw_release r")
    (auto simp: result_destroy_def result_owned_def evmc_free_result_memory_def c_free_def read_result_def
      map_of_filter_key split: if_splits)

subsection \<open>VM instances\<close>

text \<open>
  \<open>struct evmc_vm\<close> and its function pointers, over the VM's own state \<open>'w\<close>; \<open>'c\<close> is a host
  interface with its context, absent for precompiled contracts. Each function is passed the
  address of the instance. \<open>set_option\<close> may be a null pointer.
\<close>

datatype evmc_set_option_result =
  EVMC_SET_OPTION_SUCCESS | EVMC_SET_OPTION_INVALID_NAME | EVMC_SET_OPTION_INVALID_VALUE

definition EVMC_ABI_VERSION :: int where
  "EVMC_ABI_VERSION = 11"

datatype evmc_capabilities =
  EVMC_CAPABILITY_EVM1 | EVMC_CAPABILITY_EWASM | EVMC_CAPABILITY_PRECOMPILES

fun capability_flag :: "evmc_capabilities \<Rightarrow> u32" where
  "capability_flag EVMC_CAPABILITY_EVM1 = push_bit 0 1"
| "capability_flag EVMC_CAPABILITY_EWASM = push_bit 1 1"
| "capability_flag EVMC_CAPABILITY_PRECOMPILES = push_bit 2 1"

type_synonym evmc_capabilities_flagset = u32

type_synonym 'w evmc_destroy_fn = "nat \<Rightarrow> 'w \<Rightarrow> 'w"
type_synonym 'w evmc_set_option_fn = "nat \<Rightarrow> string \<Rightarrow> string \<Rightarrow> 'w \<Rightarrow> evmc_set_option_result \<times> 'w"
type_synonym ('c, 'w) evmc_execute_fn =
  "nat \<Rightarrow> 'c option \<Rightarrow> evmc_revision \<Rightarrow> evmc_message \<Rightarrow> byte list \<Rightarrow> 'w \<Rightarrow> raw_result \<times> 'w"
type_synonym 'w evmc_get_capabilities_fn = "nat \<Rightarrow> 'w \<Rightarrow> evmc_capabilities_flagset"

record ('c, 'w) evmc_vm =
  vm_abi_version :: int
  vm_name :: string
  vm_version :: string
  vm_destroy_fn :: "'w evmc_destroy_fn"
  vm_execute_fn :: "('c, 'w) evmc_execute_fn"
  vm_get_capabilities_fn :: "'w evmc_get_capabilities_fn"
  vm_set_option_fn :: "'w evmc_set_option_fn option"

text \<open>
  The instances that exist, by address; what the functions of the VM change. Using the null
  pointer or an instance that has been destroyed is undefined.
\<close>

record ('c, 'w) vm_world =
  vm_instances :: "(nat \<times> ('c, 'w) evmc_vm) list"
  vm_inner :: 'w

definition vm_deref :: "nat \<Rightarrow> ('c, 'w) vm_world \<Rightarrow> ('c, 'w) evmc_vm option" where
  "vm_deref vm w = (if vm = 0 then None else map_of (vm_instances w) vm)"

definition evmc_is_abi_compatible :: "nat \<Rightarrow> ('c, 'w) vm_world \<Rightarrow> bool option" where
  "evmc_is_abi_compatible vm w = map_option (\<lambda>v. vm_abi_version v = EVMC_ABI_VERSION) (vm_deref vm w)"

definition evmc_vm_name :: "nat \<Rightarrow> ('c, 'w) vm_world \<Rightarrow> string option" where
  "evmc_vm_name vm w = map_option vm_name (vm_deref vm w)"

definition evmc_vm_version :: "nat \<Rightarrow> ('c, 'w) vm_world \<Rightarrow> string option" where
  "evmc_vm_version vm w = map_option vm_version (vm_deref vm w)"

definition evmc_vm_has_capability :: "nat \<Rightarrow> evmc_capabilities \<Rightarrow> ('c, 'w) vm_world \<Rightarrow> bool option" where
  "evmc_vm_has_capability vm capability w = do {
     v \<leftarrow> vm_deref vm w;
     Some (vm_get_capabilities_fn v vm (vm_inner w) AND capability_flag capability \<noteq> 0) }"

definition evmc_destroy :: "nat \<Rightarrow> ('c, 'w) vm_world \<Rightarrow> ('c, 'w) vm_world option" where
  "evmc_destroy vm w = do {
     v \<leftarrow> vm_deref vm w;
     Some (w\<lparr>vm_instances := filter (\<lambda>(p, _). p \<noteq> vm) (vm_instances w),
             vm_inner := vm_destroy_fn v vm (vm_inner w)\<rparr>) }"

definition evmc_set_option ::
  "nat \<Rightarrow> string \<Rightarrow> string \<Rightarrow> ('c, 'w) vm_world \<Rightarrow> (evmc_set_option_result \<times> ('c, 'w) vm_world) option" where
  "evmc_set_option vm name val w = do {
     v \<leftarrow> vm_deref vm w;
     case vm_set_option_fn v of
       Some f \<Rightarrow> let (r, i) = f vm name val (vm_inner w) in Some (r, w\<lparr>vm_inner := i\<rparr>)
     | None \<Rightarrow> Some (EVMC_SET_OPTION_INVALID_NAME, w) }"

definition evmc_execute ::
  "nat \<Rightarrow> 'c option \<Rightarrow> evmc_revision \<Rightarrow> evmc_message \<Rightarrow> byte list \<Rightarrow> ('c, 'w) vm_world \<Rightarrow>
   (raw_result \<times> ('c, 'w) vm_world) option" where
  "evmc_execute vm host r message code w = do {
     v \<leftarrow> vm_deref vm w;
     let (res, i) = vm_execute_fn v vm host r message code (vm_inner w);
     Some (res, w\<lparr>vm_inner := i\<rparr>) }"

subsection \<open>The class \<open>VM\<close>\<close>

text \<open>
  An object is its pointer \<open>m_instance\<close>. It is made from a pointer: to a new instance that a VM
  has made, or the null pointer, with which a VM reports that it could not make one.
\<close>

definition new_instance :: "('c, 'w) evmc_vm option \<Rightarrow> ('c, 'w) vm_world \<Rightarrow> nat \<times> ('c, 'w) vm_world" where
  "new_instance v w = (case v of
     None \<Rightarrow> (0, w)
   | Some v \<Rightarrow> let p = fresh_address (vm_instances w)
               in (p, w\<lparr>vm_instances := (p, v) # vm_instances w\<rparr>))"

definition VM_of_pointer :: "nat \<Rightarrow> nat" where
  "VM_of_pointer vm = vm"

definition VM_make :: "('c, 'w) evmc_vm option \<Rightarrow> ('c, 'w) vm_world \<Rightarrow> nat \<times> ('c, 'w) vm_world" where
  "VM_make v w = (let (p, w) = new_instance v w in (VM_of_pointer p, w))"

definition VM_destroy :: "nat \<Rightarrow> ('c, 'w) vm_world \<Rightarrow> ('c, 'w) vm_world option" where
  "VM_destroy m_instance w = (if m_instance \<noteq> 0 then evmc_destroy m_instance w else Some w)"

definition VM_move :: "nat \<Rightarrow> nat \<times> nat" where
  "VM_move other = (other, 0)"

definition VM_assign :: "nat \<Rightarrow> nat \<Rightarrow> ('c, 'w) vm_world \<Rightarrow> (nat \<times> nat \<times> ('c, 'w) vm_world) option" where
  "VM_assign this other w = do {
     w \<leftarrow> VM_destroy this w;
     Some (other, 0, w) }"

text \<open>The constructor with options sets each in turn and ignores what \<open>set_option\<close> returns.\<close>

definition VM_set_option ::
  "nat \<Rightarrow> string \<Rightarrow> string \<Rightarrow> ('c, 'w) vm_world \<Rightarrow> (evmc_set_option_result \<times> ('c, 'w) vm_world) option" where
  "VM_set_option m_instance name val w = evmc_set_option m_instance name val w"

fun VM_with_options ::
  "nat \<Rightarrow> (string \<times> string) list \<Rightarrow> ('c, 'w) vm_world \<Rightarrow> (nat \<times> ('c, 'w) vm_world) option" where
  "VM_with_options vm [] w = Some (vm, w)"
| "VM_with_options vm ((name, val) # options) w = do {
     (_, w) \<leftarrow> VM_set_option vm name val w;
     VM_with_options vm options w }"

definition VM_is_valid :: "nat \<Rightarrow> bool" where
  "VM_is_valid m_instance \<longleftrightarrow> m_instance \<noteq> 0"

definition VM_is_abi_compatible :: "nat \<Rightarrow> ('c, 'w) vm_world \<Rightarrow> bool option" where
  "VM_is_abi_compatible m_instance w =
     map_option (\<lambda>v. vm_abi_version v = EVMC_ABI_VERSION) (vm_deref m_instance w)"

definition VM_name :: "nat \<Rightarrow> ('c, 'w) vm_world \<Rightarrow> string option" where
  "VM_name m_instance w = map_option vm_name (vm_deref m_instance w)"

definition VM_version :: "nat \<Rightarrow> ('c, 'w) vm_world \<Rightarrow> string option" where
  "VM_version m_instance w = map_option vm_version (vm_deref m_instance w)"

definition VM_get_capabilities :: "nat \<Rightarrow> ('c, 'w) vm_world \<Rightarrow> u32 option" where
  "VM_get_capabilities m_instance w =
     map_option (\<lambda>v. vm_get_capabilities_fn v m_instance (vm_inner w)) (vm_deref m_instance w)"

definition VM_has_capability :: "nat \<Rightarrow> evmc_capabilities \<Rightarrow> ('c, 'w) vm_world \<Rightarrow> bool option" where
  "VM_has_capability m_instance capability w = do {
     flags \<leftarrow> VM_get_capabilities m_instance w;
     Some (flags AND capability_flag capability \<noteq> 0) }"

definition VM_execute ::
  "nat \<Rightarrow> 'c option \<Rightarrow> evmc_revision \<Rightarrow> evmc_message \<Rightarrow> byte list \<Rightarrow> ('c, 'w) vm_world \<Rightarrow>
   (raw_result \<times> ('c, 'w) vm_world) option" where
  "VM_execute m_instance host r message code w = do {
     v \<leftarrow> vm_deref m_instance w;
     let (res, i) = vm_execute_fn v m_instance host r message code (vm_inner w);
     Some (result_of_raw res, w\<lparr>vm_inner := i\<rparr>) }"

definition VM_execute_without_host ::
  "nat \<Rightarrow> evmc_revision \<Rightarrow> evmc_message \<Rightarrow> byte list \<Rightarrow> ('c, 'w) vm_world \<Rightarrow>
   (raw_result \<times> ('c, 'w) vm_world) option" where
  "VM_execute_without_host m_instance r message code w = VM_execute m_instance None r message code w"

definition VM_class :: "(('c, 'w) evmc_vm option, nat, ('c, 'w) vm_world) handle_class" where
  "VM_class = \<lparr>hc_make = VM_make, hc_move = VM_move, hc_assign = VM_assign, hc_destroy = VM_destroy\<rparr>"

definition vm_owned :: "nat \<Rightarrow> nat option" where
  "vm_owned m_instance = (if m_instance = 0 then None else Some m_instance)"

definition vm_alive :: "('c, 'w) vm_world \<Rightarrow> nat set" where
  "vm_alive w = fst ` set (vm_instances w) - {0}"

lemma vm_owned_null [simp]: "vm_owned 0 = None"
  by (simp add: vm_owned_def)

lemma vm_deref_alive: "vm \<in> vm_alive w \<Longrightarrow> \<exists>v. vm_deref vm w = Some v"
  by (auto simp: vm_alive_def vm_deref_def weak_map_of_SomeI)

lemma vm_deref_alive_iff: "vm_deref vm w \<noteq> None \<longleftrightarrow> vm \<in> vm_alive w"
  using vm_deref_alive [of vm w] by (auto simp: vm_alive_def vm_deref_def rev_image_eqI dest!: map_of_SomeD split: if_splits)

lemma VM_make_owns:
  "VM_make v w = (p, w') \<Longrightarrow>
   set_option (vm_owned p) \<inter> vm_alive w = {} \<and> vm_alive w' = vm_alive w \<union> set_option (vm_owned p)"
  using fresh_not_in [of "vm_instances w"]
  by (auto simp: VM_make_def VM_of_pointer_def new_instance_def vm_owned_def vm_alive_def Let_def split: option.splits if_splits)

lemma VM_destroy_owns:
  "set_option (vm_owned p) \<subseteq> vm_alive w \<Longrightarrow>
   \<exists>w'. VM_destroy p w = Some w' \<and> vm_alive w' = vm_alive w - set_option (vm_owned p)"
  using vm_deref_alive [of p w]
  by (auto simp: VM_destroy_def evmc_destroy_def vm_owned_def) (auto simp: vm_alive_def rev_image_eqI)

interpretation vms: owning_class "VM_class :: (('c, 'w) evmc_vm option, nat, ('c, 'w) vm_world) handle_class"
  vm_owned vm_alive
proof unfold_locales
  fix u v :: nat and w :: "('c, 'w) vm_world"
  assume "set_option (vm_owned u) \<subseteq> vm_alive w"
  then show "\<exists>u' left w'. hc_assign VM_class u v w = Some (u', left, w') \<and> vm_owned u' = vm_owned v \<and>
      vm_owned left = None \<and> vm_alive w' = vm_alive w - set_option (vm_owned u)"
    using VM_destroy_owns [of u w]
    by (intro exI [of _ v] exI [of _ 0]) (auto simp: VM_class_def VM_assign_def)
qed (unfold VM_class_def handle_class.simps, (erule VM_make_owns VM_destroy_owns | simp add: VM_move_def)+)

text \<open>The methods of the class do what the helpers for C do.\<close>

lemma VM_methods_eq_helpers:
  "VM_is_abi_compatible m w = evmc_is_abi_compatible m w" "VM_name m w = evmc_vm_name m w"
  "VM_version m w = evmc_vm_version m w" "VM_has_capability m c w = evmc_vm_has_capability m c w"
  "VM_execute m host r message code w = evmc_execute m host r message code w"
  by (simp_all add: VM_is_abi_compatible_def evmc_is_abi_compatible_def VM_name_def evmc_vm_name_def
      VM_version_def evmc_vm_version_def VM_has_capability_def VM_get_capabilities_def
      evmc_vm_has_capability_def VM_execute_def evmc_execute_def result_of_raw_def
      bind_map_option comp_def)

text \<open>Without options any pointer will do; with some, the null pointer is undefined behaviour.\<close>

lemma VM_with_options_null: "VM_with_options 0 options w = (if options = [] then Some (0, w) else None)"
  by (cases options) (auto simp: VM_set_option_def evmc_set_option_def vm_deref_def)

lemma evmc_set_option_alive:
  assumes "vm \<in> vm_alive w"
  shows "\<exists>r w'. evmc_set_option vm name val w = Some (r, w') \<and> vm_instances w' = vm_instances w"
  using vm_deref_alive [OF assms]
  by (auto simp: evmc_set_option_def split: option.splits prod.splits)

lemma VM_with_options_alive:
  "vm \<in> vm_alive w \<Longrightarrow> \<exists>w'. VM_with_options vm options w = Some (vm, w') \<and> vm_instances w' = vm_instances w"
proof (induction options arbitrary: w)
  case Nil
  then show ?case by simp
next
  case (Cons p options)
  obtain r w' where w': "evmc_set_option vm (fst p) (snd p) w = Some (r, w')" "vm_instances w' = vm_instances w"
    using evmc_set_option_alive [OF Cons.prems] by blast
  then have "vm \<in> vm_alive w'" using Cons.prems by (simp add: vm_alive_def)
  from Cons.IH [OF this] show ?case using w' by (cases p) (auto simp: VM_set_option_def)
qed

end
