(* ===== verification/Memory_Block.thy ===== *)
theory Memory_Block
  imports Memory Evmc_Handles "HOL-Library.AList"
begin

text \<open>
  \<open>class Memory\<close> of \<open>evmone/execution_state.hpp\<close> as the code has it: a pointer to a block from
  \<open>realloc\<close> with the size in use and the size allocated. The interpreter is modelled with the
  list of the bytes in use (\<open>Memory\<close>); here the class on the heap is shown to implement it.

  \<open>realloc\<close> may move the block, and what it adds is indeterminate: \<open>junk\<close> gives those bytes.
\<close>

record mem_object =
  m_data :: nat
  m_size :: nat
  m_capacity :: nat

definition c_realloc ::
  "(nat \<Rightarrow> bool) \<Rightarrow> (nat \<Rightarrow> byte) \<Rightarrow> nat \<Rightarrow> nat \<Rightarrow> heap \<Rightarrow> (nat \<times> heap) option" where
  "c_realloc ok junk p n h =
     (if p \<noteq> 0 \<and> p \<notin> allocated h then None
      else if \<not> ok n then Some (0, h)
      else let old = (case map_of h p of None \<Rightarrow> [] | Some b \<Rightarrow> b);
               h = filter (\<lambda>(q, _). q \<noteq> p) h;
               q = fresh_address h
           in Some (q, (q, take n old @ map junk [length old..<n]) # h))"

text \<open>A write of bytes at \<open>p + i\<close>, undefined unless it stays inside the block at \<open>p\<close>.\<close>

definition c_store :: "nat \<Rightarrow> nat \<Rightarrow> byte list \<Rightarrow> heap \<Rightarrow> heap option" where
  "c_store p i bs h = do {
     b \<leftarrow> map_of h p;
     b \<leftarrow> splice_opt b i bs;
     Some (AList.update p b h) }"

definition c_load :: "nat \<Rightarrow> nat \<Rightarrow> nat \<Rightarrow> heap \<Rightarrow> byte list option" where
  "c_load p i n h = do {
     b \<leftarrow> map_of h p;
     slice_opt b i n }"

definition c_memset :: "nat \<Rightarrow> nat \<Rightarrow> byte \<Rightarrow> nat \<Rightarrow> heap \<Rightarrow> heap option" where
  "c_memset p i v n h = c_store p i (replicate n v) h"

subsection \<open>The class\<close>

text \<open>\<open>handle_out_of_memory\<close> ends the process.\<close>

definition obj_allocate_capacity ::
  "'a libs_scheme \<Rightarrow> (nat \<Rightarrow> byte) \<Rightarrow> mem_object \<Rightarrow> heap \<Rightarrow> (mem_object \<times> heap) option" where
  "obj_allocate_capacity L junk this h = do {
     (p, h) \<leftarrow> c_realloc (malloc_ok L) junk (m_data this) (m_capacity this) h;
     if p = 0 then None else Some (this\<lparr>m_data := p\<rparr>, h) }"

definition obj_new :: "'a libs_scheme \<Rightarrow> (nat \<Rightarrow> byte) \<Rightarrow> heap \<Rightarrow> (mem_object \<times> heap) option" where
  "obj_new L junk h = obj_allocate_capacity L junk \<lparr>m_data = 0, m_size = 0, m_capacity = page_size\<rparr> h"

definition obj_free :: "mem_object \<Rightarrow> heap \<Rightarrow> heap option" where
  "obj_free this h = c_free (m_data this) h"

definition obj_read :: "mem_object \<Rightarrow> nat \<Rightarrow> nat \<Rightarrow> heap \<Rightarrow> byte list option" where
  "obj_read this i n h = c_load (m_data this) i n h"

definition obj_write :: "mem_object \<Rightarrow> nat \<Rightarrow> byte list \<Rightarrow> heap \<Rightarrow> heap option" where
  "obj_write this i bs h = c_store (m_data this) i bs h"

definition obj_grow ::
  "'a libs_scheme \<Rightarrow> (nat \<Rightarrow> byte) \<Rightarrow> nat \<Rightarrow> mem_object \<Rightarrow> heap \<Rightarrow> (mem_object \<times> heap) option" where
  "obj_grow L junk new_size this h = do {
     _ \<leftarrow> cassert L (new_size mod 32 = 0);
     _ \<leftarrow> cassert L (new_size > m_size this);
     (this, h) \<leftarrow> (if new_size > m_capacity this
       then let this = this\<lparr>m_capacity := m_capacity this * 2\<rparr>;
                this = (if m_capacity this < new_size
                  then this\<lparr>m_capacity := ((new_size + (page_size - 1)) div page_size) * page_size\<rparr>
                  else this)
            in obj_allocate_capacity L junk this h
       else Some (this, h));
     if m_size this \<le> new_size
     then do {
       h \<leftarrow> c_memset (m_data this) (m_size this) 0 (new_size - m_size this) h;
       Some (this\<lparr>m_size := new_size\<rparr>, h) }
     else None }"

definition obj_clear :: "mem_object \<Rightarrow> mem_object" where
  "obj_clear this = this\<lparr>m_size := 0\<rparr>"

subsection \<open>Programs over one object\<close>

text \<open>The calls the interpreter makes between the constructor and the destructor.\<close>

datatype mem_call = Mem_grow nat | Mem_write nat "byte list" | Mem_clear

fun mem_step :: "'a libs_scheme \<Rightarrow> mem_call \<Rightarrow> memory \<Rightarrow> memory option" where
  "mem_step L (Mem_grow n) m = mem_grow L n m"
| "mem_step L (Mem_write i bs) m = mem_write m i bs"
| "mem_step L Mem_clear m = Some (mem_clear m)"

fun obj_step ::
  "'a libs_scheme \<Rightarrow> (nat \<Rightarrow> byte) \<Rightarrow> mem_call \<Rightarrow> mem_object \<times> heap \<Rightarrow> (mem_object \<times> heap) option" where
  "obj_step L junk (Mem_grow n) (this, h) = obj_grow L junk n this h"
| "obj_step L junk (Mem_write i bs) (this, h) = do { h \<leftarrow> obj_write this i bs h; Some (this, h) }"
| "obj_step L junk Mem_clear (this, h) = Some (obj_clear this, h)"

primrec mem_calls :: "'a libs_scheme \<Rightarrow> mem_call list \<Rightarrow> memory \<Rightarrow> memory option" where
  "mem_calls L [] m = Some m"
| "mem_calls L (c # cs) m = Option.bind (mem_step L c m) (mem_calls L cs)"

primrec obj_calls ::
  "'a libs_scheme \<Rightarrow> (nat \<Rightarrow> byte) \<Rightarrow> mem_call list \<Rightarrow> mem_object \<times> heap \<Rightarrow> (mem_object \<times> heap) option" where
  "obj_calls L junk [] s = Some s"
| "obj_calls L junk (c # cs) s = Option.bind (obj_step L junk c s) (obj_calls L junk cs)"

subsection \<open>The simulation\<close>

text \<open>The capacity after \<open>grow\<close> to more than the capacity \<open>c\<close>.\<close>

definition grown_capacity :: "nat \<Rightarrow> nat \<Rightarrow> nat" where
  "grown_capacity n c = (if c * 2 < n then (n + (page_size - 1)) div page_size * page_size else c * 2)"

lemma grown_capacity: "c < n \<Longrightarrow> n \<le> grown_capacity n c \<and> c \<le> grown_capacity n c"
proof -
  assume "c < n"
  have "n \<le> (n + 4095) div 4096 * 4096" by linarith
  with \<open>c < n\<close> show ?thesis by (auto simp: grown_capacity_def page_size_def)
qed

text \<open>
  \<open>implements h0 this h m\<close>: the object owns one block of its capacity besides the heap \<open>h0\<close> of
  all others, and the memory \<open>m\<close> is what lies at its front.
\<close>

definition implements :: "heap \<Rightarrow> mem_object \<Rightarrow> heap \<Rightarrow> memory \<Rightarrow> bool" where
  "implements h0 this h m \<longleftrightarrow> (\<exists>b. h = (m_data this, b) # h0 \<and> m_data this \<noteq> 0 \<and>
     m_data this \<notin> fst ` set h0 \<and> length b = m_capacity this \<and> m_size this \<le> m_capacity this \<and>
     mem_data m = take (m_size this) b \<and> mem_capacity m = m_capacity this)"

lemma filter_other [simp]: "p \<notin> fst ` set h \<Longrightarrow> filter (\<lambda>(q, _). q \<noteq> p) h = h"
  by (induction h) (auto simp: image_iff)

lemma realloc_block:
  assumes "p \<noteq> 0" and "p \<notin> fst ` set h0" and "ok n" and "length b \<le> n"
  shows "\<exists>q bs. c_realloc ok junk p n ((p, b) # h0) = Some (q, (q, b @ bs) # h0) \<and>
    q \<noteq> 0 \<and> q \<notin> fst ` set h0 \<and> length (b @ bs) = n"
  using assms fresh_not_in [of h0] by (auto simp: c_realloc_def allocated_def Let_def)

lemma realloc_first:
  assumes "0 \<notin> fst ` set h0" and "ok n"
  shows "\<exists>q bs. c_realloc ok junk 0 n h0 = Some (q, (q, bs) # h0) \<and>
    q \<noteq> 0 \<and> q \<notin> fst ` set h0 \<and> length bs = n"
  unfolding c_realloc_def Let_def filter_other [OF assms(1)]
  using assms fresh_not_in [of h0] by (simp add: map_of_eq_None_iff [THEN iffD2])

lemma implements_new:
  assumes "mem_new L = Some m" and "0 \<notin> fst ` set h0"
  shows "\<exists>this h. obj_new L junk h0 = Some (this, h) \<and> implements h0 this h m"
  using assms realloc_first [of h0 "malloc_ok L" page_size junk]
  by (auto simp: mem_new_def allocate_capacity_def obj_new_def obj_allocate_capacity_def implements_def
      split: if_splits)

lemma implements_clear: "implements h0 this h m \<Longrightarrow> implements h0 (obj_clear this) h (mem_clear m)"
  by (auto simp: implements_def obj_clear_def mem_clear_def)

lemma implements_read:
  "implements h0 this h m \<Longrightarrow> mem_read m i n = Some bs \<Longrightarrow> obj_read this i n h = Some bs"
  by (auto simp: implements_def obj_read_def c_load_def mem_read_def slice_opt_def take_drop min_def
      split: if_splits)

lemma splice_front:
  assumes "splice_opt (take k b) i bs = Some d" and "k \<le> length b"
  shows "\<exists>b'. splice_opt b i bs = Some b' \<and> take k b' = d \<and> length b' = length b"
  using assms by (auto simp: splice_opt_def drop_take split: if_splits)

lemma implements_write:
  assumes "implements h0 this h m" and "mem_write m i bs = Some m'"
  shows "\<exists>h'. obj_write this i bs h = Some h' \<and> implements h0 this h' m'"
proof -
  from assms(1) obtain b where b: "h = (m_data this, b) # h0" "length b = m_capacity this"
      "m_size this \<le> m_capacity this" "mem_data m = take (m_size this) b"
    by (auto simp: implements_def)
  from assms(2) obtain d where d: "splice_opt (mem_data m) i bs = Some d" "m' = m\<lparr>mem_data := d\<rparr>"
    by (auto simp: mem_write_def split: Option.bind_splits)
  from splice_front [of "m_size this" b i bs d] obtain b' where
    "splice_opt b i bs = Some b'" "take (m_size this) b' = d" "length b' = length b"
    using b d by auto
  then show ?thesis
    using assms(1) b d by (auto simp: obj_write_def c_store_def implements_def)
qed

lemma implements_extend:
  assumes "implements h0 this h m" and "m_size this \<le> n" and "n \<le> m_capacity this"
  shows "\<exists>h'. c_memset (m_data this) (m_size this) 0 (n - m_size this) h = Some h' \<and>
    implements h0 (this\<lparr>m_size := n\<rparr>) h' (m\<lparr>mem_data := mem_data m @ replicate (n - mem_size m) 0\<rparr>)"
  using assms by (auto simp: implements_def c_memset_def c_store_def mem_size_def min_def)

lemma implements_capacity:
  assumes "allocate_capacity L (m\<lparr>mem_capacity := c\<rparr>) = Some m'" and "implements h0 this h m"
    and "m_capacity this \<le> c"
  shows "\<exists>this' h'. obj_allocate_capacity L junk (this\<lparr>m_capacity := c\<rparr>) h = Some (this', h') \<and>
    implements h0 this' h' m' \<and> m_size this' = m_size this \<and> m_capacity this' = c"
proof -
  from assms(2) obtain b where b: "h = (m_data this, b) # h0" "m_data this \<noteq> 0" "m_data this \<notin> fst ` set h0"
      "length b = m_capacity this" "m_size this \<le> m_capacity this" "mem_data m = take (m_size this) b"
    by (auto simp: implements_def)
  from assms(1) have "malloc_ok L c" "m' = m\<lparr>mem_capacity := c\<rparr>"
    by (auto simp: allocate_capacity_def split: if_splits)
  with realloc_block [OF b(2,3), of "malloc_ok L" c b junk] show ?thesis
    using assms(3) b by (auto simp: obj_allocate_capacity_def implements_def)
qed

lemma mem_grow_alt:
  "mem_grow L n m = do {
     _ \<leftarrow> cassert L (n mod 32 = 0);
     _ \<leftarrow> cassert L (n > mem_size m);
     m \<leftarrow> (if n > mem_capacity m then allocate_capacity L (m\<lparr>mem_capacity := grown_capacity n (mem_capacity m)\<rparr>)
           else Some m);
     if mem_size m \<le> n then Some (m\<lparr>mem_data := mem_data m @ replicate (n - mem_size m) 0\<rparr>) else None }"
  by (simp add: mem_grow_def grown_capacity_def Let_def)

lemma obj_grow_alt:
  "obj_grow L junk n this h = do {
     _ \<leftarrow> cassert L (n mod 32 = 0);
     _ \<leftarrow> cassert L (n > m_size this);
     (this, h) \<leftarrow> (if n > m_capacity this
       then obj_allocate_capacity L junk (this\<lparr>m_capacity := grown_capacity n (m_capacity this)\<rparr>) h
       else Some (this, h));
     if m_size this \<le> n
     then do {
       h \<leftarrow> c_memset (m_data this) (m_size this) 0 (n - m_size this) h;
       Some (this\<lparr>m_size := n\<rparr>, h) }
     else None }"
  by (simp add: obj_grow_def grown_capacity_def Let_def cong: if_cong)

lemma implements_size: "implements h0 this h m \<Longrightarrow> mem_size m = m_size this \<and> mem_capacity m = m_capacity this"
  by (auto simp: implements_def mem_size_def)

lemma implements_grow:
  assumes "implements h0 this h m" and "mem_grow L n m = Some m'"
  shows "\<exists>this' h'. obj_grow L junk n this h = Some (this', h') \<and> implements h0 this' h' m'"
proof -
  let ?cap = "grown_capacity n (m_capacity this)"
  note size = implements_size [OF assms(1)]
  note run = assms(2) [unfolded mem_grow_alt]
  from run size have c: "cassert L (n mod 32 = 0) = Some ()" "cassert L (n > m_size this) = Some ()"
    by (auto split: Option.bind_splits)
  show ?thesis
  proof (cases "n > m_capacity this")
    case True
    with run size c obtain m1 where m1: "allocate_capacity L (m\<lparr>mem_capacity := ?cap\<rparr>) = Some m1"
        "m' = m1\<lparr>mem_data := mem_data m1 @ replicate (n - mem_size m1) 0\<rparr>"
      by (auto split: Option.bind_splits if_splits)
    obtain this1 h1 where this1: "obj_allocate_capacity L junk (this\<lparr>m_capacity := ?cap\<rparr>) h = Some (this1, h1)"
        "implements h0 this1 h1 m1" "m_size this1 = m_size this" "m_capacity this1 = ?cap"
      using implements_capacity [OF m1(1) assms(1)] grown_capacity [OF True] by blast
    have "m_size this \<le> n" using True assms(1) by (auto simp: implements_def)
    then show ?thesis
      using implements_extend [OF this1(2), of n] this1 m1(2) grown_capacity [OF True] c True
      by (auto simp: obj_grow_alt)
  next
    case False
    with run size c have "m_size this \<le> n" "m' = m\<lparr>mem_data := mem_data m @ replicate (n - mem_size m) 0\<rparr>"
      by (auto split: if_splits)
    then show ?thesis
      using implements_extend [OF assms(1), of n] False c by (auto simp: obj_grow_alt)
  qed
qed

lemma implements_step:
  assumes "implements h0 this h m" and "mem_step L c m = Some m'"
  shows "\<exists>this' h'. obj_step L junk c (this, h) = Some (this', h') \<and> implements h0 this' h' m'"
proof (cases c)
  case (Mem_write i bs)
  then show ?thesis using implements_write [OF assms(1), of i bs m'] assms(2) by auto
qed (use assms implements_grow [OF assms(1)] implements_clear [OF assms(1)] in auto)

lemma implements_calls:
  assumes "implements h0 this h m" and "mem_calls L cs m = Some m'"
  shows "\<exists>this' h'. obj_calls L junk cs (this, h) = Some (this', h') \<and> implements h0 this' h' m'"
  using assms
proof (induction cs arbitrary: this h m)
  case Nil
  then show ?case by simp
next
  case (Cons c cs)
  from Cons.prems(2) obtain m1 where m1: "mem_step L c m = Some m1" "mem_calls L cs m1 = Some m'"
    by (auto split: Option.bind_splits)
  have "\<exists>this' h'. obj_step L junk c (this, h) = Some (this', h') \<and> implements h0 this' h' m1"
    by (rule implements_step [OF Cons.prems(1) m1(1)])
  then show ?case using Cons.IH [OF _ m1(2)] by auto
qed

lemma implements_free: "implements h0 this h m \<Longrightarrow> obj_free this h = Some h0"
  by (auto simp: implements_def obj_free_def c_free_def)

end
