(* ===== verification/Rw_Operation.thy ===== *)
theory Rw_Operation
  imports Zkevm_Word "HOL-Library.Product_Lexorder"
begin

text \<open>
  One entry of the read/write trace (\<open>struct rw_operation\<close> of \<open>include/rw.hpp\<close>), its
  constructors and the order in which the read/write table lists the entries.
\<close>

record rw_operation =
  rw_op :: byte
  rw_call_id :: nat
  rw_address :: zkevm_word
  rw_field :: byte
  rw_storage_key :: zkevm_word
  rw_id :: nat
  rw_is_write :: bool
  rw_value :: zkevm_word
  rw_value_prev :: zkevm_word

abbreviation START_OP :: byte where "START_OP \<equiv> 0"
abbreviation STACK_OP :: byte where "STACK_OP \<equiv> 1"
abbreviation MEMORY_OP :: byte where "MEMORY_OP \<equiv> 2"
abbreviation STORAGE_OP :: byte where "STORAGE_OP \<equiv> 3"
abbreviation TRANSIENT_STORAGE_OP :: byte where "TRANSIENT_STORAGE_OP \<equiv> 4"
abbreviation CALL_CONTEXT_OP :: byte where "CALL_CONTEXT_OP \<equiv> 5"
abbreviation ACCOUNT_OP :: byte where "ACCOUNT_OP \<equiv> 6"
abbreviation TX_REFUND_OP :: byte where "TX_REFUND_OP \<equiv> 7"
abbreviation TX_ACCESS_LIST_ACCOUNT_OP :: byte where "TX_ACCESS_LIST_ACCOUNT_OP \<equiv> 8"
abbreviation TX_ACCESS_LIST_ACCOUNT_STORAGE_OP :: byte where
  "TX_ACCESS_LIST_ACCOUNT_STORAGE_OP \<equiv> 9"
abbreviation TX_LOG_OP :: byte where "TX_LOG_OP \<equiv> 10"
abbreviation TX_RECEIPT_OP :: byte where "TX_RECEIPT_OP \<equiv> 11"
abbreviation PADDING_OP :: byte where "PADDING_OP \<equiv> 12"

definition rw_options_amount :: nat where
  "rw_options_amount = 13"

definition rw_less :: "rw_operation \<Rightarrow> rw_operation \<Rightarrow> bool" where
  "rw_less a other =
     (if rw_op a \<noteq> rw_op other then rw_op a < rw_op other
      else if zw_ne (rw_address a) (rw_address other) then zw_lt (rw_address a) (rw_address other)
      else if rw_field a \<noteq> rw_field other then rw_field a < rw_field other
      else if zw_ne (rw_storage_key a) (rw_storage_key other)
        then zw_lt (rw_storage_key a) (rw_storage_key other)
      else if rw_id a \<noteq> rw_id other then rw_id a < rw_id other
      else False)"

subsection \<open>Constructors\<close>

definition start_operation :: rw_operation where
  "start_operation = \<lparr>rw_op = START_OP, rw_call_id = 0, rw_address = 0, rw_field = 0,
     rw_storage_key = 0, rw_id = 0, rw_is_write = False, rw_value = 0, rw_value_prev = 0\<rparr>"

definition max_call_id :: nat where
  "max_call_id = 2 ^ 28"

definition stack_operation ::
  "'a libs_scheme \<Rightarrow> nat \<Rightarrow> u16 \<Rightarrow> nat \<Rightarrow> bool \<Rightarrow> zkevm_word \<Rightarrow> rw_operation option" where
  "stack_operation L cid address rid is_write v = do {
     _ \<leftarrow> cassert L (cid < max_call_id);
     _ \<leftarrow> cassert L (address < 1024);
     Some \<lparr>rw_op = STACK_OP, rw_call_id = cid, rw_address = ucast address, rw_field = 0,
       rw_storage_key = 0, rw_id = rid, rw_is_write = is_write, rw_value = v,
       rw_value_prev = 0\<rparr> }"

definition memory_operation ::
  "'a libs_scheme \<Rightarrow> nat \<Rightarrow> zkevm_word \<Rightarrow> nat \<Rightarrow> bool \<Rightarrow> zkevm_word \<Rightarrow> rw_operation option" where
  "memory_operation L cid address rid is_write v = do {
     _ \<leftarrow> cassert L (cid < max_call_id);
     Some \<lparr>rw_op = MEMORY_OP, rw_call_id = cid, rw_address = address, rw_field = 0,
       rw_storage_key = 0, rw_id = rid, rw_is_write = is_write, rw_value = v,
       rw_value_prev = 0\<rparr> }"

definition storage_operation ::
  "nat \<Rightarrow> zkevm_word \<Rightarrow> zkevm_word \<Rightarrow> nat \<Rightarrow> bool \<Rightarrow> zkevm_word \<Rightarrow> zkevm_word \<Rightarrow> rw_operation" where
  "storage_operation cid address key rid is_write v v_prev =
     \<lparr>rw_op = STORAGE_OP, rw_call_id = cid, rw_address = address, rw_field = 0,
       rw_storage_key = key, rw_id = rid, rw_is_write = is_write, rw_value = v,
       rw_value_prev = v_prev\<rparr>"

definition padding_operation :: rw_operation where
  "padding_operation = \<lparr>rw_op = PADDING_OP, rw_call_id = 0, rw_address = 0, rw_field = 0,
     rw_storage_key = 0, rw_id = 0, rw_is_write = False, rw_value = 0, rw_value_prev = 0\<rparr>"

subsection \<open>The order of the table\<close>

text \<open>\<open>rw_less\<close> compares the tuple of the five fields it looks at lexicographically.\<close>

definition rw_key :: "rw_operation \<Rightarrow> byte \<times> zkevm_word \<times> byte \<times> zkevm_word \<times> nat" where
  "rw_key a = (rw_op a, rw_address a, rw_field a, rw_storage_key a, rw_id a)"

lemma rw_less_key: "rw_less a b \<longleftrightarrow> rw_key a < rw_key b"
  by (auto simp: rw_less_def rw_key_def less_prod_def' less_le)

lemma rw_less_irrefl [simp]: "\<not> rw_less a a"
  by (simp add: rw_less_def)

lemma rw_less_trans: "rw_less a b \<Longrightarrow> rw_less b c \<Longrightarrow> rw_less a c"
  by (simp add: rw_less_key)

lemma rw_less_asym: "rw_less a b \<Longrightarrow> \<not> rw_less b a"
  by (simp add: rw_less_key)

lemma rw_less_total: "rw_id a \<noteq> rw_id b \<Longrightarrow> rw_less a b \<or> rw_less b a"
proof -
  assume "rw_id a \<noteq> rw_id b"
  then have "rw_key a \<noteq> rw_key b" by (simp add: rw_key_def)
  then show ?thesis by (simp add: rw_less_key neq_iff)
qed

text \<open>The call identifier takes no part in the order.\<close>

lemma rw_less_call_id: "rw_less (a\<lparr>rw_call_id := i\<rparr>) b = rw_less a b"
  by (simp add: rw_less_def)

subsection \<open>Traces\<close>

text \<open>
  The identifiers of a trace are the positions of its entries: every handler numbers an
  entry by the length of the trace it extends.
\<close>

definition ids_ok :: "rw_operation list \<Rightarrow> bool" where
  "ids_ok tr \<longleftrightarrow> map rw_id tr = [0..<length tr]"

lemma ids_ok_Nil [simp]: "ids_ok []"
  by (simp add: ids_ok_def)

lemma ids_ok_snoc [simp]: "ids_ok (tr @ [e]) \<longleftrightarrow> ids_ok tr \<and> rw_id e = length tr"
  by (simp add: ids_ok_def)

lemma ids_ok_nth: "ids_ok tr \<Longrightarrow> k < length tr \<Longrightarrow> rw_id (tr ! k) = k"
  unfolding ids_ok_def by (metis add.left_neutral length_map nth_map nth_upt)

lemma ids_ok_distinct: "ids_ok tr \<Longrightarrow> distinct (map rw_id tr)"
  by (simp add: ids_ok_def)

end
