(* ===== verification/Opcodes.thy ===== *)
theory Opcodes
  imports Evmc
begin

text \<open>
  The instruction set as data: the opcode numbers (\<open>evmone/instructions_opcodes.hpp\<close>), the
  gas cost of every opcode in every revision and the traits of every opcode
  (\<open>evmone/instructions_traits.hpp\<close>), and the cost tables of the interpreter
  (\<open>evmone/baseline_instruction_table.cpp\<close>).

  A C++ table over the 256 opcodes is a function on bytes. \<open>assign t kvs\<close> performs the
  assignments \<open>t[k] = v\<close> in the order they are listed, so a later one wins, and
  \<open>assign_range\<close> is an assignment loop.
\<close>

definition assign :: "(byte \<Rightarrow> 'a) \<Rightarrow> (byte \<times> 'a) list \<Rightarrow> byte \<Rightarrow> 'a" where
  "assign t kvs = foldl (\<lambda>t (k, v). t(k := v)) t kvs"

definition assign_range :: "(byte \<Rightarrow> 'a) \<Rightarrow> byte \<Rightarrow> byte \<Rightarrow> (byte \<Rightarrow> 'a) \<Rightarrow> byte \<Rightarrow> 'a" where
  "assign_range t lo hi f = (\<lambda>op. if lo \<le> op \<and> op \<le> hi then f op else t op)"

lemma assign_Nil [simp]: "assign t [] = t"
  by (simp add: assign_def)

lemma assign_Cons [simp]: "assign t ((k, v) # kvs) = assign (t(k := v)) kvs"
  by (simp add: assign_def)

lemma assign_eq_map_of:
  "assign t kvs op = (case map_of (rev kvs) op of Some v \<Rightarrow> v | None \<Rightarrow> t op)"
  by (induction kvs arbitrary: t) (auto simp: map_add_def split: option.splits)

lemma assign_other: "op \<notin> fst ` set kvs \<Longrightarrow> assign t kvs op = t op"
  by (induction kvs arbitrary: t) auto

subsection \<open>Opcode numbers\<close>

abbreviation OP_STOP :: byte where "OP_STOP \<equiv> 0x00"
abbreviation OP_ADD :: byte where "OP_ADD \<equiv> 0x01"
abbreviation OP_MUL :: byte where "OP_MUL \<equiv> 0x02"
abbreviation OP_SUB :: byte where "OP_SUB \<equiv> 0x03"
abbreviation OP_DIV :: byte where "OP_DIV \<equiv> 0x04"
abbreviation OP_SDIV :: byte where "OP_SDIV \<equiv> 0x05"
abbreviation OP_MOD :: byte where "OP_MOD \<equiv> 0x06"
abbreviation OP_SMOD :: byte where "OP_SMOD \<equiv> 0x07"
abbreviation OP_ADDMOD :: byte where "OP_ADDMOD \<equiv> 0x08"
abbreviation OP_MULMOD :: byte where "OP_MULMOD \<equiv> 0x09"
abbreviation OP_EXP :: byte where "OP_EXP \<equiv> 0x0a"
abbreviation OP_SIGNEXTEND :: byte where "OP_SIGNEXTEND \<equiv> 0x0b"
abbreviation OP_LT :: byte where "OP_LT \<equiv> 0x10"
abbreviation OP_GT :: byte where "OP_GT \<equiv> 0x11"
abbreviation OP_SLT :: byte where "OP_SLT \<equiv> 0x12"
abbreviation OP_SGT :: byte where "OP_SGT \<equiv> 0x13"
abbreviation OP_EQ :: byte where "OP_EQ \<equiv> 0x14"
abbreviation OP_ISZERO :: byte where "OP_ISZERO \<equiv> 0x15"
abbreviation OP_AND :: byte where "OP_AND \<equiv> 0x16"
abbreviation OP_OR :: byte where "OP_OR \<equiv> 0x17"
abbreviation OP_XOR :: byte where "OP_XOR \<equiv> 0x18"
abbreviation OP_NOT :: byte where "OP_NOT \<equiv> 0x19"
abbreviation OP_BYTE :: byte where "OP_BYTE \<equiv> 0x1a"
abbreviation OP_SHL :: byte where "OP_SHL \<equiv> 0x1b"
abbreviation OP_SHR :: byte where "OP_SHR \<equiv> 0x1c"
abbreviation OP_SAR :: byte where "OP_SAR \<equiv> 0x1d"
abbreviation OP_KECCAK256 :: byte where "OP_KECCAK256 \<equiv> 0x20"
abbreviation OP_ADDRESS :: byte where "OP_ADDRESS \<equiv> 0x30"
abbreviation OP_BALANCE :: byte where "OP_BALANCE \<equiv> 0x31"
abbreviation OP_ORIGIN :: byte where "OP_ORIGIN \<equiv> 0x32"
abbreviation OP_CALLER :: byte where "OP_CALLER \<equiv> 0x33"
abbreviation OP_CALLVALUE :: byte where "OP_CALLVALUE \<equiv> 0x34"
abbreviation OP_CALLDATALOAD :: byte where "OP_CALLDATALOAD \<equiv> 0x35"
abbreviation OP_CALLDATASIZE :: byte where "OP_CALLDATASIZE \<equiv> 0x36"
abbreviation OP_CALLDATACOPY :: byte where "OP_CALLDATACOPY \<equiv> 0x37"
abbreviation OP_CODESIZE :: byte where "OP_CODESIZE \<equiv> 0x38"
abbreviation OP_CODECOPY :: byte where "OP_CODECOPY \<equiv> 0x39"
abbreviation OP_GASPRICE :: byte where "OP_GASPRICE \<equiv> 0x3a"
abbreviation OP_EXTCODESIZE :: byte where "OP_EXTCODESIZE \<equiv> 0x3b"
abbreviation OP_EXTCODECOPY :: byte where "OP_EXTCODECOPY \<equiv> 0x3c"
abbreviation OP_RETURNDATASIZE :: byte where "OP_RETURNDATASIZE \<equiv> 0x3d"
abbreviation OP_RETURNDATACOPY :: byte where "OP_RETURNDATACOPY \<equiv> 0x3e"
abbreviation OP_EXTCODEHASH :: byte where "OP_EXTCODEHASH \<equiv> 0x3f"
abbreviation OP_BLOCKHASH :: byte where "OP_BLOCKHASH \<equiv> 0x40"
abbreviation OP_COINBASE :: byte where "OP_COINBASE \<equiv> 0x41"
abbreviation OP_TIMESTAMP :: byte where "OP_TIMESTAMP \<equiv> 0x42"
abbreviation OP_NUMBER :: byte where "OP_NUMBER \<equiv> 0x43"
abbreviation OP_PREVRANDAO :: byte where "OP_PREVRANDAO \<equiv> 0x44"
abbreviation OP_GASLIMIT :: byte where "OP_GASLIMIT \<equiv> 0x45"
abbreviation OP_CHAINID :: byte where "OP_CHAINID \<equiv> 0x46"
abbreviation OP_SELFBALANCE :: byte where "OP_SELFBALANCE \<equiv> 0x47"
abbreviation OP_BASEFEE :: byte where "OP_BASEFEE \<equiv> 0x48"
abbreviation OP_BLOBHASH :: byte where "OP_BLOBHASH \<equiv> 0x49"
abbreviation OP_BLOBBASEFEE :: byte where "OP_BLOBBASEFEE \<equiv> 0x4a"
abbreviation OP_POP :: byte where "OP_POP \<equiv> 0x50"
abbreviation OP_MLOAD :: byte where "OP_MLOAD \<equiv> 0x51"
abbreviation OP_MSTORE :: byte where "OP_MSTORE \<equiv> 0x52"
abbreviation OP_MSTORE8 :: byte where "OP_MSTORE8 \<equiv> 0x53"
abbreviation OP_SLOAD :: byte where "OP_SLOAD \<equiv> 0x54"
abbreviation OP_SSTORE :: byte where "OP_SSTORE \<equiv> 0x55"
abbreviation OP_JUMP :: byte where "OP_JUMP \<equiv> 0x56"
abbreviation OP_JUMPI :: byte where "OP_JUMPI \<equiv> 0x57"
abbreviation OP_PC :: byte where "OP_PC \<equiv> 0x58"
abbreviation OP_MSIZE :: byte where "OP_MSIZE \<equiv> 0x59"
abbreviation OP_GAS :: byte where "OP_GAS \<equiv> 0x5a"
abbreviation OP_JUMPDEST :: byte where "OP_JUMPDEST \<equiv> 0x5b"
abbreviation OP_TLOAD :: byte where "OP_TLOAD \<equiv> 0x5c"
abbreviation OP_TSTORE :: byte where "OP_TSTORE \<equiv> 0x5d"
abbreviation OP_MCOPY :: byte where "OP_MCOPY \<equiv> 0x5e"
abbreviation OP_PUSH0 :: byte where "OP_PUSH0 \<equiv> 0x5f"
abbreviation OP_PUSH1 :: byte where "OP_PUSH1 \<equiv> 0x60"
abbreviation OP_PUSH2 :: byte where "OP_PUSH2 \<equiv> 0x61"
abbreviation OP_PUSH3 :: byte where "OP_PUSH3 \<equiv> 0x62"
abbreviation OP_PUSH4 :: byte where "OP_PUSH4 \<equiv> 0x63"
abbreviation OP_PUSH5 :: byte where "OP_PUSH5 \<equiv> 0x64"
abbreviation OP_PUSH6 :: byte where "OP_PUSH6 \<equiv> 0x65"
abbreviation OP_PUSH7 :: byte where "OP_PUSH7 \<equiv> 0x66"
abbreviation OP_PUSH8 :: byte where "OP_PUSH8 \<equiv> 0x67"
abbreviation OP_PUSH9 :: byte where "OP_PUSH9 \<equiv> 0x68"
abbreviation OP_PUSH10 :: byte where "OP_PUSH10 \<equiv> 0x69"
abbreviation OP_PUSH11 :: byte where "OP_PUSH11 \<equiv> 0x6a"
abbreviation OP_PUSH12 :: byte where "OP_PUSH12 \<equiv> 0x6b"
abbreviation OP_PUSH13 :: byte where "OP_PUSH13 \<equiv> 0x6c"
abbreviation OP_PUSH14 :: byte where "OP_PUSH14 \<equiv> 0x6d"
abbreviation OP_PUSH15 :: byte where "OP_PUSH15 \<equiv> 0x6e"
abbreviation OP_PUSH16 :: byte where "OP_PUSH16 \<equiv> 0x6f"
abbreviation OP_PUSH17 :: byte where "OP_PUSH17 \<equiv> 0x70"
abbreviation OP_PUSH18 :: byte where "OP_PUSH18 \<equiv> 0x71"
abbreviation OP_PUSH19 :: byte where "OP_PUSH19 \<equiv> 0x72"
abbreviation OP_PUSH20 :: byte where "OP_PUSH20 \<equiv> 0x73"
abbreviation OP_PUSH21 :: byte where "OP_PUSH21 \<equiv> 0x74"
abbreviation OP_PUSH22 :: byte where "OP_PUSH22 \<equiv> 0x75"
abbreviation OP_PUSH23 :: byte where "OP_PUSH23 \<equiv> 0x76"
abbreviation OP_PUSH24 :: byte where "OP_PUSH24 \<equiv> 0x77"
abbreviation OP_PUSH25 :: byte where "OP_PUSH25 \<equiv> 0x78"
abbreviation OP_PUSH26 :: byte where "OP_PUSH26 \<equiv> 0x79"
abbreviation OP_PUSH27 :: byte where "OP_PUSH27 \<equiv> 0x7a"
abbreviation OP_PUSH28 :: byte where "OP_PUSH28 \<equiv> 0x7b"
abbreviation OP_PUSH29 :: byte where "OP_PUSH29 \<equiv> 0x7c"
abbreviation OP_PUSH30 :: byte where "OP_PUSH30 \<equiv> 0x7d"
abbreviation OP_PUSH31 :: byte where "OP_PUSH31 \<equiv> 0x7e"
abbreviation OP_PUSH32 :: byte where "OP_PUSH32 \<equiv> 0x7f"
abbreviation OP_DUP1 :: byte where "OP_DUP1 \<equiv> 0x80"
abbreviation OP_DUP2 :: byte where "OP_DUP2 \<equiv> 0x81"
abbreviation OP_DUP3 :: byte where "OP_DUP3 \<equiv> 0x82"
abbreviation OP_DUP4 :: byte where "OP_DUP4 \<equiv> 0x83"
abbreviation OP_DUP5 :: byte where "OP_DUP5 \<equiv> 0x84"
abbreviation OP_DUP6 :: byte where "OP_DUP6 \<equiv> 0x85"
abbreviation OP_DUP7 :: byte where "OP_DUP7 \<equiv> 0x86"
abbreviation OP_DUP8 :: byte where "OP_DUP8 \<equiv> 0x87"
abbreviation OP_DUP9 :: byte where "OP_DUP9 \<equiv> 0x88"
abbreviation OP_DUP10 :: byte where "OP_DUP10 \<equiv> 0x89"
abbreviation OP_DUP11 :: byte where "OP_DUP11 \<equiv> 0x8a"
abbreviation OP_DUP12 :: byte where "OP_DUP12 \<equiv> 0x8b"
abbreviation OP_DUP13 :: byte where "OP_DUP13 \<equiv> 0x8c"
abbreviation OP_DUP14 :: byte where "OP_DUP14 \<equiv> 0x8d"
abbreviation OP_DUP15 :: byte where "OP_DUP15 \<equiv> 0x8e"
abbreviation OP_DUP16 :: byte where "OP_DUP16 \<equiv> 0x8f"
abbreviation OP_DUP :: byte where "OP_DUP \<equiv> 0xa7"
abbreviation OP_SWAP1 :: byte where "OP_SWAP1 \<equiv> 0x90"
abbreviation OP_SWAP2 :: byte where "OP_SWAP2 \<equiv> 0x91"
abbreviation OP_SWAP3 :: byte where "OP_SWAP3 \<equiv> 0x92"
abbreviation OP_SWAP4 :: byte where "OP_SWAP4 \<equiv> 0x93"
abbreviation OP_SWAP5 :: byte where "OP_SWAP5 \<equiv> 0x94"
abbreviation OP_SWAP6 :: byte where "OP_SWAP6 \<equiv> 0x95"
abbreviation OP_SWAP7 :: byte where "OP_SWAP7 \<equiv> 0x96"
abbreviation OP_SWAP8 :: byte where "OP_SWAP8 \<equiv> 0x97"
abbreviation OP_SWAP9 :: byte where "OP_SWAP9 \<equiv> 0x98"
abbreviation OP_SWAP10 :: byte where "OP_SWAP10 \<equiv> 0x99"
abbreviation OP_SWAP11 :: byte where "OP_SWAP11 \<equiv> 0x9a"
abbreviation OP_SWAP12 :: byte where "OP_SWAP12 \<equiv> 0x9b"
abbreviation OP_SWAP13 :: byte where "OP_SWAP13 \<equiv> 0x9c"
abbreviation OP_SWAP14 :: byte where "OP_SWAP14 \<equiv> 0x9d"
abbreviation OP_SWAP15 :: byte where "OP_SWAP15 \<equiv> 0x9e"
abbreviation OP_SWAP16 :: byte where "OP_SWAP16 \<equiv> 0x9f"
abbreviation OP_SWAP :: byte where "OP_SWAP \<equiv> 0xa6"
abbreviation OP_LOG0 :: byte where "OP_LOG0 \<equiv> 0xa0"
abbreviation OP_LOG1 :: byte where "OP_LOG1 \<equiv> 0xa1"
abbreviation OP_LOG2 :: byte where "OP_LOG2 \<equiv> 0xa2"
abbreviation OP_LOG3 :: byte where "OP_LOG3 \<equiv> 0xa3"
abbreviation OP_LOG4 :: byte where "OP_LOG4 \<equiv> 0xa4"
abbreviation OP_PRINTF :: byte where "OP_PRINTF \<equiv> 0xa5"
abbreviation OP_MSTORE16 :: byte where "OP_MSTORE16 \<equiv> 0xb0"
abbreviation OP_MSTORE32 :: byte where "OP_MSTORE32 \<equiv> 0xb1"
abbreviation OP_MSTORE64 :: byte where "OP_MSTORE64 \<equiv> 0xb2"
abbreviation OP_MLOAD8 :: byte where "OP_MLOAD8 \<equiv> 0xc0"
abbreviation OP_MLOAD16 :: byte where "OP_MLOAD16 \<equiv> 0xc1"
abbreviation OP_MLOAD32 :: byte where "OP_MLOAD32 \<equiv> 0xc2"
abbreviation OP_MLOAD64 :: byte where "OP_MLOAD64 \<equiv> 0xc3"
abbreviation OP_RJUMP :: byte where "OP_RJUMP \<equiv> 0xe0"
abbreviation OP_RJUMPI :: byte where "OP_RJUMPI \<equiv> 0xe1"
abbreviation OP_RJUMPV :: byte where "OP_RJUMPV \<equiv> 0xe2"
abbreviation OP_CALLF :: byte where "OP_CALLF \<equiv> 0xe3"
abbreviation OP_RETF :: byte where "OP_RETF \<equiv> 0xe4"
abbreviation OP_JUMPF :: byte where "OP_JUMPF \<equiv> 0xe5"
abbreviation OP_DUPN :: byte where "OP_DUPN \<equiv> 0xe6"
abbreviation OP_SWAPN :: byte where "OP_SWAPN \<equiv> 0xe7"
abbreviation OP_DATALOAD :: byte where "OP_DATALOAD \<equiv> 0xe8"
abbreviation OP_DATALOADN :: byte where "OP_DATALOADN \<equiv> 0xe9"
abbreviation OP_DATASIZE :: byte where "OP_DATASIZE \<equiv> 0xea"
abbreviation OP_DATACOPY :: byte where "OP_DATACOPY \<equiv> 0xeb"
abbreviation OP_CREATE :: byte where "OP_CREATE \<equiv> 0xf0"
abbreviation OP_CALL :: byte where "OP_CALL \<equiv> 0xf1"
abbreviation OP_CALLCODE :: byte where "OP_CALLCODE \<equiv> 0xf2"
abbreviation OP_RETURN :: byte where "OP_RETURN \<equiv> 0xf3"
abbreviation OP_DELEGATECALL :: byte where "OP_DELEGATECALL \<equiv> 0xf4"
abbreviation OP_CREATE2 :: byte where "OP_CREATE2 \<equiv> 0xf5"
abbreviation OP_STATICCALL :: byte where "OP_STATICCALL \<equiv> 0xfa"
abbreviation OP_REVERT :: byte where "OP_REVERT \<equiv> 0xfd"
abbreviation OP_INVALID :: byte where "OP_INVALID \<equiv> 0xfe"
abbreviation OP_SELFDESTRUCT :: byte where "OP_SELFDESTRUCT \<equiv> 0xff"

text \<open>\<open>enum Opcode\<close>, in the order of the declaration.\<close>

definition opcodes_to_push :: "byte list" where
  "opcodes_to_push =
     [OP_STOP, OP_ADD, OP_MUL, OP_SUB, OP_DIV,
      OP_SDIV, OP_MOD, OP_SMOD, OP_ADDMOD, OP_MULMOD,
      OP_EXP, OP_SIGNEXTEND, OP_LT, OP_GT, OP_SLT,
      OP_SGT, OP_EQ, OP_ISZERO, OP_AND, OP_OR,
      OP_XOR, OP_NOT, OP_BYTE, OP_SHL, OP_SHR,
      OP_SAR, OP_KECCAK256, OP_ADDRESS, OP_BALANCE, OP_ORIGIN,
      OP_CALLER, OP_CALLVALUE, OP_CALLDATALOAD, OP_CALLDATASIZE, OP_CALLDATACOPY,
      OP_CODESIZE, OP_CODECOPY, OP_GASPRICE, OP_EXTCODESIZE, OP_EXTCODECOPY,
      OP_RETURNDATASIZE, OP_RETURNDATACOPY, OP_EXTCODEHASH, OP_BLOCKHASH, OP_COINBASE,
      OP_TIMESTAMP, OP_NUMBER, OP_PREVRANDAO, OP_GASLIMIT, OP_CHAINID,
      OP_SELFBALANCE, OP_BASEFEE, OP_BLOBHASH, OP_BLOBBASEFEE, OP_POP,
      OP_MLOAD, OP_MSTORE, OP_MSTORE8, OP_SLOAD, OP_SSTORE,
      OP_JUMP, OP_JUMPI, OP_PC, OP_MSIZE, OP_GAS,
      OP_JUMPDEST, OP_TLOAD, OP_TSTORE, OP_MCOPY, OP_PUSH0,
      OP_PUSH1, OP_PUSH2, OP_PUSH3, OP_PUSH4, OP_PUSH5,
      OP_PUSH6, OP_PUSH7, OP_PUSH8, OP_PUSH9, OP_PUSH10,
      OP_PUSH11, OP_PUSH12, OP_PUSH13, OP_PUSH14, OP_PUSH15,
      OP_PUSH16, OP_PUSH17, OP_PUSH18, OP_PUSH19, OP_PUSH20,
      OP_PUSH21, OP_PUSH22, OP_PUSH23, OP_PUSH24, OP_PUSH25,
      OP_PUSH26, OP_PUSH27, OP_PUSH28, OP_PUSH29, OP_PUSH30,
      OP_PUSH31, OP_PUSH32]"

definition opcodes_from_dup :: "byte list" where
  "opcodes_from_dup =
     [OP_DUP1, OP_DUP2, OP_DUP3, OP_DUP4, OP_DUP5,
      OP_DUP6, OP_DUP7, OP_DUP8, OP_DUP9, OP_DUP10,
      OP_DUP11, OP_DUP12, OP_DUP13, OP_DUP14, OP_DUP15,
      OP_DUP16, OP_DUP, OP_SWAP1, OP_SWAP2, OP_SWAP3,
      OP_SWAP4, OP_SWAP5, OP_SWAP6, OP_SWAP7, OP_SWAP8,
      OP_SWAP9, OP_SWAP10, OP_SWAP11, OP_SWAP12, OP_SWAP13,
      OP_SWAP14, OP_SWAP15, OP_SWAP16, OP_SWAP, OP_LOG0,
      OP_LOG1, OP_LOG2, OP_LOG3, OP_LOG4, OP_PRINTF,
      OP_MSTORE16, OP_MSTORE32, OP_MSTORE64, OP_MLOAD8, OP_MLOAD16,
      OP_MLOAD32, OP_MLOAD64, OP_RJUMP, OP_RJUMPI, OP_RJUMPV,
      OP_CALLF, OP_RETF, OP_JUMPF, OP_DUPN, OP_SWAPN,
      OP_DATALOAD, OP_DATALOADN, OP_DATASIZE, OP_DATACOPY, OP_CREATE,
      OP_CALL, OP_CALLCODE, OP_RETURN, OP_DELEGATECALL, OP_CREATE2,
      OP_STATICCALL, OP_REVERT, OP_INVALID, OP_SELFDESTRUCT]"

definition opcodes :: "byte list" where
  "opcodes = opcodes_to_push @ opcodes_from_dup"

text \<open>Every value of the type \<open>uint8_t\<close>.\<close>

definition all_bytes :: "byte list" where
  "all_bytes = map word_of_nat [0..<256]"

lemma all_bytes_complete: "(b :: byte) \<in> set all_bytes"
  unfolding all_bytes_def set_map
  by (rule image_eqI [where x = "unat b"]) (simp_all add: unat_byte_less)

subsection \<open>Gas costs\<close>

definition undefined_cost :: int where
  "undefined_cost = - 1"

definition cold_sload_cost :: int where
  "cold_sload_cost = 2100"

definition cold_account_access_cost :: int where
  "cold_account_access_cost = 2600"

definition warm_storage_read_cost :: int where
  "warm_storage_read_cost = 100"

definition additional_cold_account_access_cost :: int where
  "additional_cold_account_access_cost = cold_account_access_cost - warm_storage_read_cost"

definition gas_costs_frontier :: "byte \<Rightarrow> int" where
  "gas_costs_frontier =
    (let t0 = (\<lambda>_. undefined_cost);
         t1 = assign t0
           [(OP_STOP, 0), (OP_ADD, 3), (OP_MUL, 5), (OP_SUB, 3),
            (OP_DIV, 5), (OP_SDIV, 5), (OP_MOD, 5), (OP_SMOD, 5),
            (OP_ADDMOD, 8), (OP_MULMOD, 8), (OP_EXP, 10), (OP_SIGNEXTEND, 5),
            (OP_LT, 3), (OP_GT, 3), (OP_SLT, 3), (OP_SGT, 3),
            (OP_EQ, 3), (OP_ISZERO, 3), (OP_AND, 3), (OP_OR, 3),
            (OP_XOR, 3), (OP_NOT, 3), (OP_BYTE, 3), (OP_KECCAK256, 30),
            (OP_ADDRESS, 2), (OP_BALANCE, 20), (OP_ORIGIN, 2), (OP_CALLER, 2),
            (OP_CALLVALUE, 2), (OP_CALLDATALOAD, 3), (OP_CALLDATASIZE, 2), (OP_CALLDATACOPY, 3),
            (OP_CODESIZE, 2), (OP_CODECOPY, 3), (OP_GASPRICE, 2), (OP_EXTCODESIZE, 20),
            (OP_EXTCODECOPY, 20), (OP_BLOCKHASH, 20), (OP_COINBASE, 2), (OP_TIMESTAMP, 2),
            (OP_NUMBER, 2), (OP_PREVRANDAO, 2), (OP_GASLIMIT, 2), (OP_POP, 2),
            (OP_MLOAD, 3), (OP_MLOAD8, 3), (OP_MLOAD16, 3), (OP_MLOAD32, 3),
            (OP_MLOAD64, 3), (OP_MSTORE, 3), (OP_MSTORE8, 3), (OP_MSTORE16, 3),
            (OP_MSTORE32, 3), (OP_MSTORE64, 3), (OP_SLOAD, 50), (OP_SSTORE, 0),
            (OP_JUMP, 8), (OP_JUMPI, 10), (OP_PC, 2), (OP_MSIZE, 2),
            (OP_GAS, 2), (OP_JUMPDEST, 1), (OP_SHR, 3), (OP_PUSH0, 2)];
         t2 = assign_range t1 OP_PUSH1 OP_PUSH32 (\<lambda>_. 3);
         t3 = assign_range t2 OP_DUP1 OP_DUP16 (\<lambda>_. 3);
         t4 = assign t3
           [(OP_DUP, 3)];
         t5 = assign_range t4 OP_SWAP1 OP_SWAP16 (\<lambda>_. 3);
         t6 = assign t5
           [(OP_SWAP, 3)];
         t7 = assign_range t6 OP_LOG0 OP_LOG4 (\<lambda>op. (uint op - uint OP_LOG0 + 1) * 375);
         t8 = assign t7
           [(OP_PRINTF, 3), (OP_CREATE, 32000), (OP_CALL, 40), (OP_CALLCODE, 40),
            (OP_RETURN, 0), (OP_INVALID, 0), (OP_SELFDESTRUCT, 0), (OP_LOG1, 0)]
     in t8)"

definition gas_costs_homestead :: "byte \<Rightarrow> int" where
  "gas_costs_homestead = assign gas_costs_frontier
     [(OP_DELEGATECALL, 40)]"

definition gas_costs_tangerine_whistle :: "byte \<Rightarrow> int" where
  "gas_costs_tangerine_whistle = assign gas_costs_homestead
     [(OP_BALANCE, 400), (OP_EXTCODESIZE, 700), (OP_EXTCODECOPY, 700),
      (OP_SLOAD, 200), (OP_CALL, 700), (OP_CALLCODE, 700),
      (OP_DELEGATECALL, 700), (OP_SELFDESTRUCT, 5000)]"

definition gas_costs_spurious_dragon :: "byte \<Rightarrow> int" where
  "gas_costs_spurious_dragon = gas_costs_tangerine_whistle"

definition gas_costs_byzantium :: "byte \<Rightarrow> int" where
  "gas_costs_byzantium = assign gas_costs_spurious_dragon
     [(OP_RETURNDATASIZE, 2), (OP_RETURNDATACOPY, 3), (OP_STATICCALL, 700),
      (OP_REVERT, 0)]"

definition gas_costs_constantinople :: "byte \<Rightarrow> int" where
  "gas_costs_constantinople = assign gas_costs_byzantium
     [(OP_SHL, 3), (OP_SHR, 3), (OP_SAR, 3),
      (OP_EXTCODEHASH, 400), (OP_CREATE2, 32000)]"

definition gas_costs_petersburg :: "byte \<Rightarrow> int" where
  "gas_costs_petersburg = gas_costs_constantinople"

definition gas_costs_istanbul :: "byte \<Rightarrow> int" where
  "gas_costs_istanbul = assign gas_costs_petersburg
     [(OP_BALANCE, 700), (OP_CHAINID, 2), (OP_EXTCODEHASH, 700),
      (OP_SELFBALANCE, 5), (OP_SLOAD, 800)]"

definition gas_costs_berlin :: "byte \<Rightarrow> int" where
  "gas_costs_berlin = assign gas_costs_istanbul
     [(OP_EXTCODESIZE, warm_storage_read_cost), (OP_EXTCODECOPY, warm_storage_read_cost), (OP_EXTCODEHASH, warm_storage_read_cost),
      (OP_BALANCE, warm_storage_read_cost), (OP_CALL, warm_storage_read_cost), (OP_CALLCODE, warm_storage_read_cost),
      (OP_DELEGATECALL, warm_storage_read_cost), (OP_STATICCALL, warm_storage_read_cost), (OP_SLOAD, warm_storage_read_cost)]"

definition gas_costs_london :: "byte \<Rightarrow> int" where
  "gas_costs_london = assign gas_costs_berlin
     [(OP_BASEFEE, 2)]"

definition gas_costs_paris :: "byte \<Rightarrow> int" where
  "gas_costs_paris = gas_costs_london"

definition gas_costs_shanghai :: "byte \<Rightarrow> int" where
  "gas_costs_shanghai = assign gas_costs_paris
     [(OP_PUSH0, 2)]"

definition gas_costs_cancun :: "byte \<Rightarrow> int" where
  "gas_costs_cancun = assign gas_costs_shanghai
     [(OP_BLOBHASH, 3), (OP_BLOBBASEFEE, 2), (OP_TLOAD, warm_storage_read_cost),
      (OP_TSTORE, warm_storage_read_cost), (OP_MCOPY, 3)]"

definition gas_costs_prague :: "byte \<Rightarrow> int" where
  "gas_costs_prague = assign gas_costs_cancun
     [(OP_DUPN, 3), (OP_SWAPN, 3), (OP_RJUMP, 2),
      (OP_RJUMPI, 4), (OP_RJUMPV, 4), (OP_CALLF, 5),
      (OP_RETF, 3), (OP_JUMPF, 5), (OP_DATALOAD, 4),
      (OP_DATALOADN, 3), (OP_DATASIZE, 2), (OP_DATACOPY, 3)]"

fun gas_costs :: "evmc_revision \<Rightarrow> byte \<Rightarrow> int" where
  "gas_costs EVMC_FRONTIER = gas_costs_frontier"
| "gas_costs EVMC_HOMESTEAD = gas_costs_homestead"
| "gas_costs EVMC_TANGERINE_WHISTLE = gas_costs_tangerine_whistle"
| "gas_costs EVMC_SPURIOUS_DRAGON = gas_costs_spurious_dragon"
| "gas_costs EVMC_BYZANTIUM = gas_costs_byzantium"
| "gas_costs EVMC_CONSTANTINOPLE = gas_costs_constantinople"
| "gas_costs EVMC_PETERSBURG = gas_costs_petersburg"
| "gas_costs EVMC_ISTANBUL = gas_costs_istanbul"
| "gas_costs EVMC_BERLIN = gas_costs_berlin"
| "gas_costs EVMC_LONDON = gas_costs_london"
| "gas_costs EVMC_PARIS = gas_costs_paris"
| "gas_costs EVMC_SHANGHAI = gas_costs_shanghai"
| "gas_costs EVMC_CANCUN = gas_costs_cancun"
| "gas_costs EVMC_PRAGUE = gas_costs_prague"

definition has_const_gas_cost :: "byte \<Rightarrow> bool" where
  "has_const_gas_cost op =
     (let g = gas_costs EVMC_FRONTIER op
      in list_all (\<lambda>r. gas_costs r op = g) (tl all_revisions))"

subsection \<open>Traits\<close>

record traits_entry =
  trait_name :: "string option"
  immediate_size :: nat
  is_terminating :: bool
  stack_height_required :: int
  stack_height_change :: int
  since :: "evmc_revision option"

definition no_traits :: traits_entry where
  "no_traits = \<lparr>trait_name = None, immediate_size = 0, is_terminating = False,
     stack_height_required = 0, stack_height_change = 0, since = None\<rparr>"

definition mk_traits ::
  "string \<Rightarrow> nat \<Rightarrow> bool \<Rightarrow> int \<Rightarrow> int \<Rightarrow> evmc_revision \<Rightarrow> traits_entry" where
  "mk_traits name imm term req change r = \<lparr>trait_name = Some name, immediate_size = imm,
     is_terminating = term, stack_height_required = req, stack_height_change = change,
     since = Some r\<rparr>"

definition traits_to_push0 :: "(byte \<times> traits_entry) list" where
  "traits_to_push0 =
     [(OP_STOP, mk_traits ''STOP'' 0 True 0 0 EVMC_FRONTIER),
      (OP_ADD, mk_traits ''ADD'' 0 False 2 (- 1) EVMC_FRONTIER),
      (OP_MUL, mk_traits ''MUL'' 0 False 2 (- 1) EVMC_FRONTIER),
      (OP_SUB, mk_traits ''SUB'' 0 False 2 (- 1) EVMC_FRONTIER),
      (OP_DIV, mk_traits ''DIV'' 0 False 2 (- 1) EVMC_FRONTIER),
      (OP_SDIV, mk_traits ''SDIV'' 0 False 2 (- 1) EVMC_FRONTIER),
      (OP_MOD, mk_traits ''MOD'' 0 False 2 (- 1) EVMC_FRONTIER),
      (OP_SMOD, mk_traits ''SMOD'' 0 False 2 (- 1) EVMC_FRONTIER),
      (OP_ADDMOD, mk_traits ''ADDMOD'' 0 False 3 (- 2) EVMC_FRONTIER),
      (OP_MULMOD, mk_traits ''MULMOD'' 0 False 3 (- 2) EVMC_FRONTIER),
      (OP_EXP, mk_traits ''EXP'' 0 False 2 (- 1) EVMC_FRONTIER),
      (OP_SIGNEXTEND, mk_traits ''SIGNEXTEND'' 0 False 2 (- 1) EVMC_FRONTIER),
      (OP_LT, mk_traits ''LT'' 0 False 2 (- 1) EVMC_FRONTIER),
      (OP_GT, mk_traits ''GT'' 0 False 2 (- 1) EVMC_FRONTIER),
      (OP_SLT, mk_traits ''SLT'' 0 False 2 (- 1) EVMC_FRONTIER),
      (OP_SGT, mk_traits ''SGT'' 0 False 2 (- 1) EVMC_FRONTIER),
      (OP_EQ, mk_traits ''EQ'' 0 False 2 (- 1) EVMC_FRONTIER),
      (OP_ISZERO, mk_traits ''ISZERO'' 0 False 1 0 EVMC_FRONTIER),
      (OP_AND, mk_traits ''AND'' 0 False 2 (- 1) EVMC_FRONTIER),
      (OP_OR, mk_traits ''OR'' 0 False 2 (- 1) EVMC_FRONTIER),
      (OP_XOR, mk_traits ''XOR'' 0 False 2 (- 1) EVMC_FRONTIER),
      (OP_NOT, mk_traits ''NOT'' 0 False 1 0 EVMC_FRONTIER),
      (OP_BYTE, mk_traits ''BYTE'' 0 False 2 (- 1) EVMC_FRONTIER),
      (OP_SHL, mk_traits ''SHL'' 0 False 2 (- 1) EVMC_CONSTANTINOPLE),
      (OP_SHR, mk_traits ''SHR'' 0 False 2 (- 1) EVMC_CONSTANTINOPLE),
      (OP_SAR, mk_traits ''SAR'' 0 False 2 (- 1) EVMC_CONSTANTINOPLE),
      (OP_KECCAK256, mk_traits ''KECCAK256'' 0 False 2 (- 1) EVMC_FRONTIER),
      (OP_ADDRESS, mk_traits ''ADDRESS'' 0 False 0 1 EVMC_FRONTIER),
      (OP_BALANCE, mk_traits ''BALANCE'' 0 False 1 0 EVMC_FRONTIER),
      (OP_ORIGIN, mk_traits ''ORIGIN'' 0 False 0 1 EVMC_FRONTIER),
      (OP_CALLER, mk_traits ''CALLER'' 0 False 0 1 EVMC_FRONTIER),
      (OP_CALLVALUE, mk_traits ''CALLVALUE'' 0 False 0 1 EVMC_FRONTIER),
      (OP_CALLDATALOAD, mk_traits ''CALLDATALOAD'' 0 False 1 0 EVMC_FRONTIER),
      (OP_CALLDATASIZE, mk_traits ''CALLDATASIZE'' 0 False 0 1 EVMC_FRONTIER),
      (OP_CALLDATACOPY, mk_traits ''CALLDATACOPY'' 0 False 3 (- 3) EVMC_FRONTIER),
      (OP_CODESIZE, mk_traits ''CODESIZE'' 0 False 0 1 EVMC_FRONTIER),
      (OP_CODECOPY, mk_traits ''CODECOPY'' 0 False 3 (- 3) EVMC_FRONTIER),
      (OP_GASPRICE, mk_traits ''GASPRICE'' 0 False 0 1 EVMC_FRONTIER),
      (OP_EXTCODESIZE, mk_traits ''EXTCODESIZE'' 0 False 1 0 EVMC_FRONTIER),
      (OP_EXTCODECOPY, mk_traits ''EXTCODECOPY'' 0 False 4 (- 4) EVMC_FRONTIER),
      (OP_RETURNDATASIZE, mk_traits ''RETURNDATASIZE'' 0 False 0 1 EVMC_BYZANTIUM),
      (OP_RETURNDATACOPY, mk_traits ''RETURNDATACOPY'' 0 False 3 (- 3) EVMC_BYZANTIUM),
      (OP_EXTCODEHASH, mk_traits ''EXTCODEHASH'' 0 False 1 0 EVMC_CONSTANTINOPLE),
      (OP_BLOCKHASH, mk_traits ''BLOCKHASH'' 0 False 1 0 EVMC_FRONTIER),
      (OP_COINBASE, mk_traits ''COINBASE'' 0 False 0 1 EVMC_FRONTIER),
      (OP_TIMESTAMP, mk_traits ''TIMESTAMP'' 0 False 0 1 EVMC_FRONTIER),
      (OP_NUMBER, mk_traits ''NUMBER'' 0 False 0 1 EVMC_FRONTIER),
      (OP_PREVRANDAO, mk_traits ''PREVRANDAO'' 0 False 0 1 EVMC_FRONTIER),
      (OP_GASLIMIT, mk_traits ''GASLIMIT'' 0 False 0 1 EVMC_FRONTIER),
      (OP_CHAINID, mk_traits ''CHAINID'' 0 False 0 1 EVMC_ISTANBUL),
      (OP_SELFBALANCE, mk_traits ''SELFBALANCE'' 0 False 0 1 EVMC_ISTANBUL),
      (OP_BASEFEE, mk_traits ''BASEFEE'' 0 False 0 1 EVMC_LONDON),
      (OP_BLOBHASH, mk_traits ''BLOBHASH'' 0 False 1 0 EVMC_CANCUN),
      (OP_BLOBBASEFEE, mk_traits ''BLOBBASEFEE'' 0 False 0 1 EVMC_CANCUN),
      (OP_POP, mk_traits ''POP'' 0 False 1 (- 1) EVMC_FRONTIER),
      (OP_MLOAD, mk_traits ''MLOAD'' 0 False 1 0 EVMC_FRONTIER),
      (OP_MLOAD8, mk_traits ''MLOAD8'' 0 False 1 0 EVMC_FRONTIER),
      (OP_MLOAD16, mk_traits ''MLOAD16'' 0 False 1 0 EVMC_FRONTIER),
      (OP_MLOAD32, mk_traits ''MLOAD32'' 0 False 1 0 EVMC_FRONTIER),
      (OP_MLOAD64, mk_traits ''MLOAD64'' 0 False 1 0 EVMC_FRONTIER),
      (OP_MSTORE, mk_traits ''MSTORE'' 0 False 2 (- 2) EVMC_FRONTIER),
      (OP_MSTORE8, mk_traits ''MSTORE8'' 0 False 2 (- 2) EVMC_FRONTIER),
      (OP_MSTORE16, mk_traits ''MSTORE16'' 0 False 2 (- 2) EVMC_FRONTIER),
      (OP_MSTORE32, mk_traits ''MSTORE32'' 0 False 2 (- 2) EVMC_FRONTIER),
      (OP_MSTORE64, mk_traits ''MSTORE64'' 0 False 2 (- 2) EVMC_FRONTIER),
      (OP_SLOAD, mk_traits ''SLOAD'' 0 False 1 0 EVMC_FRONTIER),
      (OP_SSTORE, mk_traits ''SSTORE'' 0 False 2 (- 2) EVMC_FRONTIER),
      (OP_JUMP, mk_traits ''JUMP'' 0 False 1 (- 1) EVMC_FRONTIER),
      (OP_JUMPI, mk_traits ''JUMPI'' 0 False 2 (- 2) EVMC_FRONTIER),
      (OP_PC, mk_traits ''PC'' 0 False 0 1 EVMC_FRONTIER),
      (OP_MSIZE, mk_traits ''MSIZE'' 0 False 0 1 EVMC_FRONTIER),
      (OP_GAS, mk_traits ''GAS'' 0 False 0 1 EVMC_FRONTIER),
      (OP_JUMPDEST, mk_traits ''JUMPDEST'' 0 False 0 0 EVMC_FRONTIER),
      (OP_RJUMP, mk_traits ''RJUMP'' 2 False 0 0 EVMC_PRAGUE),
      (OP_RJUMPI, mk_traits ''RJUMPI'' 2 False 1 (- 1) EVMC_PRAGUE),
      (OP_RJUMPV, mk_traits ''RJUMPV'' 1 False 1 (- 1) EVMC_PRAGUE),
      (OP_TLOAD, mk_traits ''TLOAD'' 0 False 1 0 EVMC_CANCUN),
      (OP_TSTORE, mk_traits ''TSTORE'' 0 False 2 (- 2) EVMC_CANCUN),
      (OP_PUSH0, mk_traits ''PUSH0'' 0 False 0 1 EVMC_SHANGHAI)]"

definition traits_from_push1 :: "(byte \<times> traits_entry) list" where
  "traits_from_push1 =
     [(OP_PUSH1, mk_traits ''PUSH1'' 1 False 0 1 EVMC_FRONTIER),
      (OP_PUSH2, mk_traits ''PUSH2'' 2 False 0 1 EVMC_FRONTIER),
      (OP_PUSH3, mk_traits ''PUSH3'' 3 False 0 1 EVMC_FRONTIER),
      (OP_PUSH4, mk_traits ''PUSH4'' 4 False 0 1 EVMC_FRONTIER),
      (OP_PUSH5, mk_traits ''PUSH5'' 5 False 0 1 EVMC_FRONTIER),
      (OP_PUSH6, mk_traits ''PUSH6'' 6 False 0 1 EVMC_FRONTIER),
      (OP_PUSH7, mk_traits ''PUSH7'' 7 False 0 1 EVMC_FRONTIER),
      (OP_PUSH8, mk_traits ''PUSH8'' 8 False 0 1 EVMC_FRONTIER),
      (OP_PUSH9, mk_traits ''PUSH9'' 9 False 0 1 EVMC_FRONTIER),
      (OP_PUSH10, mk_traits ''PUSH10'' 10 False 0 1 EVMC_FRONTIER),
      (OP_PUSH11, mk_traits ''PUSH11'' 11 False 0 1 EVMC_FRONTIER),
      (OP_PUSH12, mk_traits ''PUSH12'' 12 False 0 1 EVMC_FRONTIER),
      (OP_PUSH13, mk_traits ''PUSH13'' 13 False 0 1 EVMC_FRONTIER),
      (OP_PUSH14, mk_traits ''PUSH14'' 14 False 0 1 EVMC_FRONTIER),
      (OP_PUSH15, mk_traits ''PUSH15'' 15 False 0 1 EVMC_FRONTIER),
      (OP_PUSH16, mk_traits ''PUSH16'' 16 False 0 1 EVMC_FRONTIER),
      (OP_PUSH17, mk_traits ''PUSH17'' 17 False 0 1 EVMC_FRONTIER),
      (OP_PUSH18, mk_traits ''PUSH18'' 18 False 0 1 EVMC_FRONTIER),
      (OP_PUSH19, mk_traits ''PUSH19'' 19 False 0 1 EVMC_FRONTIER),
      (OP_PUSH20, mk_traits ''PUSH20'' 20 False 0 1 EVMC_FRONTIER),
      (OP_PUSH21, mk_traits ''PUSH21'' 21 False 0 1 EVMC_FRONTIER),
      (OP_PUSH22, mk_traits ''PUSH22'' 22 False 0 1 EVMC_FRONTIER),
      (OP_PUSH23, mk_traits ''PUSH23'' 23 False 0 1 EVMC_FRONTIER),
      (OP_PUSH24, mk_traits ''PUSH24'' 24 False 0 1 EVMC_FRONTIER),
      (OP_PUSH25, mk_traits ''PUSH25'' 25 False 0 1 EVMC_FRONTIER),
      (OP_PUSH26, mk_traits ''PUSH26'' 26 False 0 1 EVMC_FRONTIER),
      (OP_PUSH27, mk_traits ''PUSH27'' 27 False 0 1 EVMC_FRONTIER),
      (OP_PUSH28, mk_traits ''PUSH28'' 28 False 0 1 EVMC_FRONTIER),
      (OP_PUSH29, mk_traits ''PUSH29'' 29 False 0 1 EVMC_FRONTIER),
      (OP_PUSH30, mk_traits ''PUSH30'' 30 False 0 1 EVMC_FRONTIER),
      (OP_PUSH31, mk_traits ''PUSH31'' 31 False 0 1 EVMC_FRONTIER),
      (OP_PUSH32, mk_traits ''PUSH32'' 32 False 0 1 EVMC_FRONTIER),
      (OP_DUP1, mk_traits ''DUP1'' 0 False 1 1 EVMC_FRONTIER),
      (OP_DUP2, mk_traits ''DUP2'' 0 False 2 1 EVMC_FRONTIER),
      (OP_DUP3, mk_traits ''DUP3'' 0 False 3 1 EVMC_FRONTIER),
      (OP_DUP4, mk_traits ''DUP4'' 0 False 4 1 EVMC_FRONTIER),
      (OP_DUP5, mk_traits ''DUP5'' 0 False 5 1 EVMC_FRONTIER),
      (OP_DUP6, mk_traits ''DUP6'' 0 False 6 1 EVMC_FRONTIER),
      (OP_DUP7, mk_traits ''DUP7'' 0 False 7 1 EVMC_FRONTIER),
      (OP_DUP8, mk_traits ''DUP8'' 0 False 8 1 EVMC_FRONTIER),
      (OP_DUP9, mk_traits ''DUP9'' 0 False 9 1 EVMC_FRONTIER),
      (OP_DUP10, mk_traits ''DUP10'' 0 False 10 1 EVMC_FRONTIER),
      (OP_DUP11, mk_traits ''DUP11'' 0 False 11 1 EVMC_FRONTIER),
      (OP_DUP12, mk_traits ''DUP12'' 0 False 12 1 EVMC_FRONTIER),
      (OP_DUP13, mk_traits ''DUP13'' 0 False 13 1 EVMC_FRONTIER),
      (OP_DUP14, mk_traits ''DUP14'' 0 False 14 1 EVMC_FRONTIER),
      (OP_DUP15, mk_traits ''DUP15'' 0 False 15 1 EVMC_FRONTIER),
      (OP_DUP16, mk_traits ''DUP16'' 0 False 16 1 EVMC_FRONTIER),
      (OP_DUP, mk_traits ''DUP'' 0 False 1 0 EVMC_FRONTIER),
      (OP_SWAP1, mk_traits ''SWAP1'' 0 False 2 0 EVMC_FRONTIER),
      (OP_SWAP2, mk_traits ''SWAP2'' 0 False 3 0 EVMC_FRONTIER),
      (OP_SWAP3, mk_traits ''SWAP3'' 0 False 4 0 EVMC_FRONTIER),
      (OP_SWAP4, mk_traits ''SWAP4'' 0 False 5 0 EVMC_FRONTIER),
      (OP_SWAP5, mk_traits ''SWAP5'' 0 False 6 0 EVMC_FRONTIER),
      (OP_SWAP6, mk_traits ''SWAP6'' 0 False 7 0 EVMC_FRONTIER),
      (OP_SWAP7, mk_traits ''SWAP7'' 0 False 8 0 EVMC_FRONTIER),
      (OP_SWAP8, mk_traits ''SWAP8'' 0 False 9 0 EVMC_FRONTIER),
      (OP_SWAP9, mk_traits ''SWAP9'' 0 False 10 0 EVMC_FRONTIER),
      (OP_SWAP10, mk_traits ''SWAP10'' 0 False 11 0 EVMC_FRONTIER),
      (OP_SWAP11, mk_traits ''SWAP11'' 0 False 12 0 EVMC_FRONTIER),
      (OP_SWAP12, mk_traits ''SWAP12'' 0 False 13 0 EVMC_FRONTIER),
      (OP_SWAP13, mk_traits ''SWAP13'' 0 False 14 0 EVMC_FRONTIER),
      (OP_SWAP14, mk_traits ''SWAP14'' 0 False 15 0 EVMC_FRONTIER),
      (OP_SWAP15, mk_traits ''SWAP15'' 0 False 16 0 EVMC_FRONTIER),
      (OP_SWAP16, mk_traits ''SWAP16'' 0 False 17 0 EVMC_FRONTIER),
      (OP_SWAP, mk_traits ''SWAP'' 0 False 1 (- 1) EVMC_FRONTIER),
      (OP_LOG0, mk_traits ''LOG0'' 0 False 2 (- 2) EVMC_FRONTIER),
      (OP_LOG1, mk_traits ''LOG1'' 0 False 3 (- 3) EVMC_FRONTIER),
      (OP_LOG2, mk_traits ''LOG2'' 0 False 4 (- 4) EVMC_FRONTIER),
      (OP_LOG3, mk_traits ''LOG3'' 0 False 5 (- 5) EVMC_FRONTIER),
      (OP_LOG4, mk_traits ''LOG4'' 0 False 6 (- 6) EVMC_FRONTIER),
      (OP_PRINTF, mk_traits ''PRINTF'' 0 False 0 0 EVMC_FRONTIER),
      (OP_DUPN, mk_traits ''DUPN'' 1 False 0 1 EVMC_PRAGUE),
      (OP_SWAPN, mk_traits ''SWAPN'' 1 False 0 0 EVMC_PRAGUE),
      (OP_MCOPY, mk_traits ''MCOPY'' 0 False 3 (- 3) EVMC_CANCUN),
      (OP_DATALOAD, mk_traits ''DATALOAD'' 0 False 1 0 EVMC_PRAGUE),
      (OP_DATALOADN, mk_traits ''DATALOADN'' 2 False 0 1 EVMC_PRAGUE),
      (OP_DATASIZE, mk_traits ''DATASIZE'' 0 False 0 1 EVMC_PRAGUE),
      (OP_DATACOPY, mk_traits ''DATACOPY'' 0 False 3 (- 3) EVMC_PRAGUE),
      (OP_CREATE, mk_traits ''CREATE'' 0 False 3 (- 2) EVMC_FRONTIER),
      (OP_CALL, mk_traits ''CALL'' 0 False 7 (- 6) EVMC_FRONTIER),
      (OP_CALLCODE, mk_traits ''CALLCODE'' 0 False 7 (- 6) EVMC_FRONTIER),
      (OP_RETURN, mk_traits ''RETURN'' 0 True 2 (- 2) EVMC_FRONTIER),
      (OP_DELEGATECALL, mk_traits ''DELEGATECALL'' 0 False 6 (- 5) EVMC_HOMESTEAD),
      (OP_CREATE2, mk_traits ''CREATE2'' 0 False 4 (- 3) EVMC_CONSTANTINOPLE),
      (OP_STATICCALL, mk_traits ''STATICCALL'' 0 False 6 (- 5) EVMC_BYZANTIUM),
      (OP_CALLF, mk_traits ''CALLF'' 2 False 0 0 EVMC_PRAGUE),
      (OP_RETF, mk_traits ''RETF'' 0 True 0 0 EVMC_PRAGUE),
      (OP_JUMPF, mk_traits ''JUMPF'' 2 True 0 0 EVMC_PRAGUE),
      (OP_REVERT, mk_traits ''REVERT'' 0 True 2 (- 2) EVMC_BYZANTIUM),
      (OP_INVALID, mk_traits ''INVALID'' 0 True 0 0 EVMC_FRONTIER),
      (OP_SELFDESTRUCT, mk_traits ''SELFDESTRUCT'' 0 True 1 (- 1) EVMC_FRONTIER)]"

definition traits :: "byte \<Rightarrow> traits_entry" where
  "traits = assign (\<lambda>_. no_traits) (traits_to_push0 @ traits_from_push1)"

subsection \<open>The interpreter's cost tables\<close>

definition common_cost_tables :: "evmc_revision \<Rightarrow> byte \<Rightarrow> int" where
  "common_cost_tables r i = gas_costs r i"

definition legacy_cost_tables :: "evmc_revision \<Rightarrow> byte \<Rightarrow> int" where
  "legacy_cost_tables = common_cost_tables
     (EVMC_PRAGUE := assign (common_cost_tables EVMC_PRAGUE)
       [(OP_RJUMP, undefined_cost), (OP_RJUMPI, undefined_cost),
        (OP_RJUMPV, undefined_cost), (OP_CALLF, undefined_cost),
        (OP_RETF, undefined_cost), (OP_JUMPF, undefined_cost),
        (OP_DATALOAD, undefined_cost), (OP_DATALOADN, undefined_cost),
        (OP_DATASIZE, undefined_cost), (OP_DATACOPY, undefined_cost)])"

definition eof_cost_tables :: "evmc_revision \<Rightarrow> byte \<Rightarrow> int" where
  "eof_cost_tables = common_cost_tables
     (EVMC_PRAGUE := assign (common_cost_tables EVMC_PRAGUE)
       [(OP_JUMP, undefined_cost), (OP_JUMPI, undefined_cost),
        (OP_PC, undefined_cost), (OP_CALLCODE, undefined_cost),
        (OP_SELFDESTRUCT, undefined_cost)])"

definition get_baseline_cost_table :: "evmc_revision \<Rightarrow> byte \<Rightarrow> byte \<Rightarrow> int" where
  "get_baseline_cost_table r eof_version =
     (let tables = (if eof_version = 0 then legacy_cost_tables else eof_cost_tables)
      in tables r)"

subsection \<open>Facts of the tables\<close>

text \<open>Every instruction pushes at most one item and removes no more than it requires.\<close>

lemma assign_all:
  "(\<And>k. P (t k)) \<Longrightarrow> list_all (\<lambda>kv. P (snd kv)) kvs \<Longrightarrow> P (assign t kvs op)"
  by (induction kvs arbitrary: t) (auto simp: fun_upd_def)

lemma traits_heights:
  "0 \<le> stack_height_required (traits op) \<and> stack_height_change (traits op) \<le> 1 \<and>
   0 \<le> stack_height_required (traits op) + stack_height_change (traits op)"
  unfolding traits_def
  by (rule assign_all [where P = "\<lambda>e. 0 \<le> stack_height_required e \<and> stack_height_change e \<le> 1 \<and>
        0 \<le> stack_height_required e + stack_height_change e"])
    (simp_all add: no_traits_def mk_traits_def traits_to_push0_def traits_from_push1_def)

text \<open>No opcode is listed twice, so the traits of every opcode are those of its line.\<close>

lemma assign_distinct: "distinct (map fst kvs) \<Longrightarrow> (k, v) \<in> set kvs \<Longrightarrow> assign t kvs k = v"
  by (simp add: assign_eq_map_of map_of_eq_Some_iff distinct_rev rev_map [symmetric])

lemma distinct_traits: "distinct (map fst (traits_to_push0 @ traits_from_push1))"
proof (rule distinct_map [THEN iffD1, THEN conjunct1])
  show "distinct (map unat (map fst (traits_to_push0 @ traits_from_push1)))"
    unfolding traits_to_push0_def traits_from_push1_def by simp
qed

lemma op_traits: "list_all (\<lambda>(op, e). traits op = e) (traits_to_push0 @ traits_from_push1)"
  by (auto simp: list_all_iff traits_def assign_distinct [OF distinct_traits] simp del: set_append)

lemmas op_traits_facts = op_traits [unfolded traits_to_push0_def traits_from_push1_def
    append.simps list.pred_inject prod.case]

end
