(* ===== verification/Eof_Header.thy ===== *)
theory Eof_Header
  imports Opcodes Zkevm_Word
begin

text \<open>
  The EOF1 container format: the header structures of \<open>evmone/eof.hpp\<close> and, from
  \<open>evmone/eof.cpp\<close>, the recognition of a container and the reader of a header that is
  assumed valid. \<open>string_view::substr\<close> throws past the end, a vector index or an iterator
  past the end is undefined behaviour: all are \<open>None\<close>.
\<close>

subsection \<open>Structures\<close>

record eof_code_type =
  ty_inputs :: byte
  ty_outputs :: byte
  ty_max_stack_height :: u16

record eof1_header =
  eof_version :: byte
  code_sizes :: "u16 list"
  code_offsets :: "u16 list"
  data_size :: u16
  code_types :: "eof_code_type list"

definition legacy_header :: eof1_header where
  "legacy_header = \<lparr>eof_version = 0, code_sizes = [], code_offsets = [], data_size = 0,
     code_types = []\<rparr>"

definition substr :: "byte list \<Rightarrow> nat \<Rightarrow> nat \<Rightarrow> byte list option" where
  "substr s pos n = (if pos \<le> length s then Some (take n (drop pos s)) else None)"

definition last_opt :: "'a list \<Rightarrow> 'a option" where
  "last_opt xs = (if xs = [] then None else Some (last xs))"

definition get_code :: "'a libs_scheme \<Rightarrow> eof1_header \<Rightarrow> byte list \<Rightarrow> nat \<Rightarrow> byte list option" where
  "get_code L h container code_idx = do {
     _ \<leftarrow> cassert L (code_idx < length (code_offsets h));
     off \<leftarrow> nth_opt (code_offsets h) code_idx;
     sz \<leftarrow> nth_opt (code_sizes h) code_idx;
     substr container (unat off) (unat sz) }"

definition get_data :: "eof1_header \<Rightarrow> byte list \<Rightarrow> byte list option" where
  "get_data h container =
     (if data_size h = 0 then Some []
      else do {
        off \<leftarrow> last_opt (code_offsets h);
        sz \<leftarrow> last_opt (code_sizes h);
        substr container (unat off + unat sz) (unat (data_size h)) })"

subsection \<open>Constants and readers\<close>

definition MAGIC :: "byte list" where
  "MAGIC = [0xef, 0x00]"

abbreviation TERMINATOR :: byte where "TERMINATOR \<equiv> 0x00"
abbreviation TYPE_SECTION :: byte where "TYPE_SECTION \<equiv> 0x01"
abbreviation CODE_SECTION :: byte where "CODE_SECTION \<equiv> 0x02"
abbreviation DATA_SECTION :: byte where "DATA_SECTION \<equiv> 0x04"
abbreviation MAX_SECTION :: byte where "MAX_SECTION \<equiv> DATA_SECTION"
abbreviation NON_RETURNING_FUNCTION :: byte where "NON_RETURNING_FUNCTION \<equiv> 0x80"

definition read_uint16_be :: "byte list \<Rightarrow> nat \<Rightarrow> u16 option" where
  "read_uint16_be c i = do {
     h \<leftarrow> nth_opt c i;
     l \<leftarrow> nth_opt c (i + 1);
     Some (push_bit 8 (ucast h) OR ucast l) }"

definition read_int16_be :: "byte list \<Rightarrow> nat \<Rightarrow> int option" where
  "read_int16_be c i = do {
     h \<leftarrow> nth_opt c i;
     l \<leftarrow> nth_opt c (i + 1);
     Some (sint (push_bit 8 (ucast h) OR ucast l :: u16)) }"

definition is_eof_container :: "byte list \<Rightarrow> bool" where
  "is_eof_container container \<longleftrightarrow>
     length container > 1 \<and> container ! 0 = MAGIC ! 0 \<and> container ! 1 = MAGIC ! 1"

definition get_eof_version :: "byte list \<Rightarrow> byte" where
  "get_eof_version container =
     (if length container \<ge> 3 \<and> container ! 0 = MAGIC ! 0 \<and> container ! 1 = MAGIC ! 1
      then container ! 2 else 0)"

text \<open>\<open>EOFSectionHeaders\<close>: one vector of sizes for every section identifier up to \<open>MAX_SECTION\<close>.\<close>

type_synonym section_headers = "byte \<Rightarrow> u16 list"

definition no_sections :: section_headers where
  "no_sections = (\<lambda>_. [])"

definition eof_header_size :: "section_headers \<Rightarrow> nat" where
  "eof_header_size headers =
     (let non_code_section_count = 2;
          code_section_count = length (headers CODE_SECTION);
          non_code_section_header_size = 3;
          code_section_size_size = 2
      in 2 + 1 + non_code_section_count * non_code_section_header_size + 1 + 2 +
         code_section_count * code_section_size_size + 1)"

definition add_section_sizes ::
  "section_headers \<Rightarrow> byte \<Rightarrow> u16 list \<Rightarrow> section_headers option" where
  "add_section_sizes headers sid sizes =
     (if sid \<le> MAX_SECTION then Some (headers(sid := headers sid @ sizes)) else None)"

primrec read_sizes :: "byte list \<Rightarrow> nat \<Rightarrow> nat \<Rightarrow> u16 list option" where
  "read_sizes c i 0 = Some []"
| "read_sizes c i (Suc n) = do {
     s \<leftarrow> read_uint16_be c i;
     ss \<leftarrow> read_sizes c (i + 2) n;
     Some (s # ss) }"

subsection \<open>Reading a valid header\<close>

text \<open>The \<open>while\<close> loop of \<open>read_valid_eof1_header\<close>, from position \<open>i\<close>.\<close>

function read_sections :: "byte list \<Rightarrow> nat \<Rightarrow> section_headers \<Rightarrow> section_headers option" where
  "read_sections c i headers =
     (if length c \<le> i then None
      else if c ! i = TERMINATOR then Some headers
      else if c ! i = CODE_SECTION then do {
        num \<leftarrow> read_uint16_be c (i + 1);
        sizes \<leftarrow> read_sizes c (i + 3) (unat num);
        headers \<leftarrow> add_section_sizes headers (c ! i) sizes;
        read_sections c (i + 3 + 2 * unat num) headers }
      else do {
        s \<leftarrow> read_uint16_be c (i + 1);
        headers \<leftarrow> add_section_sizes headers (c ! i) [s];
        read_sections c (i + 3) headers })"
  by pat_completeness auto
termination by (relation "measure (\<lambda>(c, i, _). length c - i)") auto

declare read_sections.simps [simp del]

function read_types :: "byte list \<Rightarrow> nat \<Rightarrow> nat \<Rightarrow> eof_code_type list option" where
  "read_types c off end_off =
     (if off < end_off then do {
        inp \<leftarrow> nth_opt c off;
        outp \<leftarrow> nth_opt c (off + 1);
        h \<leftarrow> read_uint16_be c (off + 2);
        ts \<leftarrow> read_types c (off + 4) end_off;
        Some (\<lparr>ty_inputs = inp, ty_outputs = outp, ty_max_stack_height = h\<rparr> # ts) }
      else Some [])"
  by pat_completeness auto
termination by (relation "measure (\<lambda>(_, off, end_off). end_off - off)") auto

declare read_types.simps [simp del]

primrec section_offsets :: "'a libs_scheme \<Rightarrow> nat \<Rightarrow> u16 list \<Rightarrow> u16 list option" where
  "section_offsets L off [] = Some []"
| "section_offsets L off (s # ss) = do {
     _ \<leftarrow> cassert L (off \<le> 65535);
     os \<leftarrow> section_offsets L (off + unat s) ss;
     Some (word_of_nat off # os) }"

definition read_valid_eof1_header :: "'a libs_scheme \<Rightarrow> byte list \<Rightarrow> eof1_header option" where
  "read_valid_eof1_header L container = do {
     headers \<leftarrow> read_sections container 3 no_sections;
     let header_size = eof_header_size headers;
     version \<leftarrow> nth_opt container 2;
     type_size \<leftarrow> nth_opt (headers TYPE_SECTION) 0;
     types \<leftarrow> read_types container header_size (header_size + unat type_size);
     offsets \<leftarrow> section_offsets L (header_size + unat type_size) (headers CODE_SECTION);
     dsize \<leftarrow> nth_opt (headers DATA_SECTION) 0;
     Some \<lparr>eof_version = version, code_sizes = headers CODE_SECTION, code_offsets = offsets,
       data_size = dsize, code_types = types\<rparr> }"

subsection \<open>Basic facts\<close>

lemma read_uint16_be_Some: "i + 1 < length c \<Longrightarrow> \<exists>v. read_uint16_be c i = Some v"
  by (simp add: read_uint16_be_def)

lemma read_uint16_be_SomeD: "read_uint16_be c i = Some v \<Longrightarrow> i + 1 < length c"
  by (auto simp: read_uint16_be_def bind_eq_Some_conv dest: nth_opt_SomeD)

lemma unat_read_uint16_be:
  "read_uint16_be c i = Some v \<Longrightarrow> unat v = be_val (take 2 (drop i c))"
proof -
  assume eq: "read_uint16_be c i = Some v"
  then have "take 2 (drop i c) = [c ! i, c ! (i + 1)]"
    by (intro nth_equalityI) (auto simp: less_Suc_eq numeral_eq_Suc dest: read_uint16_be_SomeD)
  moreover have "v = foldl (\<lambda>x b. push_bit 8 x OR ucast b) 0 [c ! i, c ! (i + 1)]"
    using eq read_uint16_be_SomeD [OF eq] by (simp add: read_uint16_be_def)
  ultimately show ?thesis
    unfolding fold_shift_or by (simp add: unat_of_be_val)
qed

lemma length_section_offsets: "section_offsets L off ss = Some os \<Longrightarrow> length os = length ss"
  by (induction ss arbitrary: off os) (auto simp: bind_eq_Some_conv)

lemma length_read_sizes: "read_sizes c i n = Some ss \<Longrightarrow> length ss = n"
  by (induction n arbitrary: i ss) (auto simp: bind_eq_Some_conv)

lemma get_data_legacy [simp]: "get_data legacy_header c = Some []"
  by (simp add: get_data_def legacy_header_def)

end
