(* ===== verification/Eof_Validation.thy ===== *)
theory Eof_Validation
  imports Eof_Header
begin

text \<open>
  Validation of EOF containers (\<open>evmone/eof.cpp\<close>): the state machine over the section headers,
  the type section, the instructions, the relative jumps and the stack heights of every code
  section. A validator returns an error or its value; \<open>None\<close> is an access outside the
  container or a vector, or a failed assertion.

  The stack height validation is a worklist loop. It is given fuel, one round per byte of the
  code, and \<open>stack_height_loop_terminates\<close> proves that this is enough.
\<close>

datatype eof_validation_error =
    EOF_success | EOF_starts_with_format | EOF_invalid_prefix | EOF_eof_version_mismatch
  | EOF_eof_version_unknown | EOF_incomplete_section_size | EOF_incomplete_section_number
  | EOF_header_terminator_missing | EOF_type_section_missing | EOF_code_section_missing
  | EOF_data_section_missing | EOF_zero_section_size | EOF_section_headers_not_terminated
  | EOF_invalid_section_bodies_size | EOF_undefined_instruction | EOF_truncated_instruction
  | EOF_invalid_rjump_destination | EOF_too_many_code_sections | EOF_invalid_type_section_size
  | EOF_invalid_first_section_type | EOF_invalid_max_stack_height
  | EOF_no_terminating_instruction | EOF_stack_height_mismatch
  | EOF_stack_higher_than_outputs_required | EOF_max_stack_height_above_limit
  | EOF_inputs_outputs_num_above_limit | EOF_unreachable_instructions | EOF_stack_underflow
  | EOF_stack_overflow | EOF_invalid_code_section_index | EOF_invalid_dataloadn_index
  | EOF_jumpf_destination_incompatible_outputs | EOF_invalid_non_returning_flag
  | EOF_callf_to_non_returning_function | EOF_impossible

type_synonym 'a checked = "(eof_validation_error + 'a) option"

abbreviation eof_error :: "eof_validation_error \<Rightarrow> 'a checked" where
  "eof_error e \<equiv> Some (Inl e)"

definition checked_bind :: "'a checked \<Rightarrow> ('a \<Rightarrow> 'b checked) \<Rightarrow> 'b checked" where
  "checked_bind m f = (case m of None \<Rightarrow> None | Some (Inl e) \<Rightarrow> Some (Inl e) | Some (Inr x) \<Rightarrow> f x)"

definition CODE_SECTION_NUMBER_LIMIT :: nat where
  "CODE_SECTION_NUMBER_LIMIT = 1024"

definition MAX_STACK_HEIGHT :: nat where
  "MAX_STACK_HEIGHT = 0x03FF"

definition OUTPUTS_INPUTS_NUMBER_LIMIT :: byte where
  "OUTPUTS_INPUTS_NUMBER_LIMIT = 0x7F"

definition REL_OFFSET_SIZE :: nat where
  "REL_OFFSET_SIZE = 2"

definition STACK_SIZE_LIMIT :: int where
  "STACK_SIZE_LIMIT = 1024"

subsection \<open>Section headers\<close>

definition get_section_missing_error :: "byte \<Rightarrow> eof_validation_error" where
  "get_section_missing_error section_id =
     (if section_id = TERMINATOR then EOF_header_terminator_missing
      else if section_id = TYPE_SECTION then EOF_type_section_missing
      else if section_id = CODE_SECTION then EOF_code_section_missing
      else if section_id = DATA_SECTION then EOF_data_section_missing
      else EOF_impossible)"

datatype header_state = Section_id | Section_size | Terminated

text \<open>The loop over the sizes of the code sections.\<close>

primrec validate_code_sizes ::
  "byte list \<Rightarrow> nat \<Rightarrow> nat \<Rightarrow> section_headers \<Rightarrow> (section_headers \<times> nat) checked" where
  "validate_code_sizes c 0 it headers = Some (Inr (headers, it))"
| "validate_code_sizes c (Suc n) it headers =
     (if it + 1 \<ge> length c then eof_error EOF_incomplete_section_size
      else do {
        section_size \<leftarrow> read_uint16_be c it;
        if section_size = 0 then eof_error EOF_zero_section_size
        else do {
          headers \<leftarrow> add_section_sizes headers CODE_SECTION [section_size];
          validate_code_sizes c n (it + 2) headers } })"

lemma validate_code_sizes_it:
  "validate_code_sizes c n it headers = Some (Inr (headers', it')) \<Longrightarrow> it' = it + 2 * n"
  by (induction n arbitrary: it headers) (force simp: bind_eq_Some_conv split: if_splits)+

function validate_headers_loop ::
  "'a libs_scheme \<Rightarrow> byte list \<Rightarrow> header_state \<Rightarrow> byte \<Rightarrow> u16 \<Rightarrow> section_headers \<Rightarrow> nat \<Rightarrow> byte \<Rightarrow>
   (header_state \<times> section_headers \<times> nat) checked" where
  "validate_headers_loop L c st section_id section_num headers it expected =
     (if it < length c \<and> st \<noteq> Terminated then
        (if st = Section_id then
           let section_id = c ! it; it = it + 1
           in if section_id \<noteq> expected then eof_error (get_section_missing_error expected)
              else if section_id = TERMINATOR then
                validate_headers_loop L c Terminated section_id section_num headers it expected
              else if section_id = TYPE_SECTION then
                validate_headers_loop L c Section_size section_id section_num headers it CODE_SECTION
              else if section_id = CODE_SECTION then
                (if it + 1 \<ge> length c then eof_error EOF_incomplete_section_number
                 else do {
                   section_num \<leftarrow> read_uint16_be c it;
                   if section_num = 0 then eof_error EOF_zero_section_size
                   else if unat section_num > CODE_SECTION_NUMBER_LIMIT
                     then eof_error EOF_too_many_code_sections
                   else validate_headers_loop L c Section_size section_id section_num headers
                          (it + 2) DATA_SECTION })
              else if section_id = DATA_SECTION then
                validate_headers_loop L c Section_size section_id section_num headers it TERMINATOR
              else do {
                _ \<leftarrow> cassert L False;
                validate_headers_loop L c Section_id section_id section_num headers it expected }
         else if section_id = CODE_SECTION then do {
           _ \<leftarrow> cassert L (section_num > 0);
           r \<leftarrow> validate_code_sizes c (unat section_num) it headers;
           (case r of
              Inl e \<Rightarrow> eof_error e
            | Inr (headers, it') \<Rightarrow>
                validate_headers_loop L c Section_id section_id section_num headers
                  (it + 2 * unat section_num) expected) }
         else
           (if it + 1 \<ge> length c then eof_error EOF_incomplete_section_size
            else do {
              section_size \<leftarrow> read_uint16_be c it;
              if section_size = 0 \<and> section_id \<noteq> DATA_SECTION then eof_error EOF_zero_section_size
              else do {
                headers \<leftarrow> add_section_sizes headers section_id [section_size];
                validate_headers_loop L c Section_id section_id section_num headers (it + 2)
                  expected } }))
      else Some (Inr (st, headers, it)))"
  by pat_completeness auto
termination
  by (relation "measure (\<lambda>(_, c, st, _, _, _, it, _). 2 * (length c - it) +
      (if st = Section_id then 0 else 1))") auto

declare validate_headers_loop.simps [simp del]

definition validate_eof_headers :: "'a libs_scheme \<Rightarrow> byte list \<Rightarrow> section_headers checked" where
  "validate_eof_headers L c = do {
     r \<leftarrow> validate_headers_loop L c Section_id 0 0 no_sections 3 TYPE_SECTION;
     (case r of
        Inl e \<Rightarrow> eof_error e
      | Inr (st, headers, it) \<Rightarrow>
          if st \<noteq> Terminated then eof_error EOF_section_headers_not_terminated
          else do {
            type_size \<leftarrow> nth_opt (headers TYPE_SECTION) 0;
            data_size \<leftarrow> nth_opt (headers DATA_SECTION) 0;
            let section_bodies_size = unat type_size +
              sum_list (map unat (headers CODE_SECTION)) + unat data_size;
            let remaining_container_size = length c - it;
            if section_bodies_size \<noteq> remaining_container_size
            then eof_error EOF_invalid_section_bodies_size
            else if unat type_size \<noteq> length (headers CODE_SECTION) * 4
            then eof_error EOF_invalid_type_section_size
            else Some (Inr headers) }) }"

subsection \<open>The type section\<close>

primrec check_types :: "eof_code_type list \<Rightarrow> eof_validation_error option" where
  "check_types [] = None"
| "check_types (t # ts) =
     (if (ty_outputs t > OUTPUTS_INPUTS_NUMBER_LIMIT \<and> ty_outputs t \<noteq> NON_RETURNING_FUNCTION) \<or>
         ty_inputs t > OUTPUTS_INPUTS_NUMBER_LIMIT
      then Some EOF_inputs_outputs_num_above_limit
      else if unat (ty_max_stack_height t) > MAX_STACK_HEIGHT
      then Some EOF_max_stack_height_above_limit
      else check_types ts)"

definition validate_types ::
  "'a libs_scheme \<Rightarrow> byte list \<Rightarrow> nat \<Rightarrow> u16 \<Rightarrow> eof_code_type list checked" where
  "validate_types L c header_size type_section_size = do {
     _ \<leftarrow> cassert L (c \<noteq> []);
     _ \<leftarrow> cassert L (header_size + unat type_section_size < length c);
     types \<leftarrow> read_types c header_size (header_size + unat type_section_size);
     t0 \<leftarrow> nth_opt types 0;
     if ty_inputs t0 \<noteq> 0 \<or> ty_outputs t0 \<noteq> NON_RETURNING_FUNCTION
     then eof_error EOF_invalid_first_section_type
     else (case check_types types of Some e \<Rightarrow> eof_error e | None \<Rightarrow> Some (Inr types)) }"

subsection \<open>Instructions\<close>

text \<open>The loop of \<open>validate_instructions\<close>; its value is \<open>is_returning\<close>.\<close>

function validate_instructions_loop ::
  "(byte \<Rightarrow> int) \<Rightarrow> eof1_header \<Rightarrow> byte list \<Rightarrow> nat \<Rightarrow> bool \<Rightarrow> bool checked" where
  "validate_instructions_loop cost_table header code i is_returning =
     (if i < length code then
        let op = code ! i
        in if cost_table op = undefined_cost then eof_error EOF_undefined_instruction
           else if i + immediate_size (traits op) \<ge> length code
             then eof_error EOF_truncated_instruction
           else if op = OP_RJUMPV then do {
             b \<leftarrow> nth_opt code (i + 1);
             let count = unat b + 1;
             let i = i + (1 + count * 2);
             if i \<ge> length code then eof_error EOF_truncated_instruction
             else validate_instructions_loop cost_table header code (i + 1) is_returning }
           else if op = OP_CALLF then do {
             fid \<leftarrow> read_uint16_be code (i + 1);
             if unat fid \<ge> length (code_types header)
             then eof_error EOF_invalid_code_section_index
             else if ty_outputs (code_types header ! unat fid) = NON_RETURNING_FUNCTION
             then eof_error EOF_callf_to_non_returning_function
             else validate_instructions_loop cost_table header code (i + 2 + 1) is_returning }
           else if op = OP_RETF then
             validate_instructions_loop cost_table header code (i + 1) True
           else if op = OP_JUMPF then do {
             fid \<leftarrow> read_uint16_be code (i + 1);
             if unat fid \<ge> length (code_types header)
             then eof_error EOF_invalid_code_section_index
             else let is_returning =
                    (if ty_outputs (code_types header ! unat fid) \<noteq> NON_RETURNING_FUNCTION
                     then True else is_returning)
                  in validate_instructions_loop cost_table header code (i + 2 + 1) is_returning }
           else if op = OP_DATALOADN then do {
             index \<leftarrow> read_uint16_be code (i + 1);
             if unat (data_size header) < 32 \<or> unat index > unat (data_size header) - 32
             then eof_error EOF_invalid_dataloadn_index
             else validate_instructions_loop cost_table header code (i + 2 + 1) is_returning }
           else validate_instructions_loop cost_table header code
                  (i + immediate_size (traits op) + 1) is_returning
      else Some (Inr is_returning))"
  by pat_completeness auto
termination by (relation "measure (\<lambda>(_, _, code, i, _). length code - i)") auto

declare validate_instructions_loop.simps [simp del]

text \<open>\<open>validate_instructions\<close> returns \<open>success\<close> where the model returns \<open>Inr ()\<close>.\<close>

definition validate_instructions ::
  "'a libs_scheme \<Rightarrow> evmc_revision \<Rightarrow> eof1_header \<Rightarrow> nat \<Rightarrow> byte list \<Rightarrow> unit checked" where
  "validate_instructions L r header code_idx container = do {
     code \<leftarrow> get_code L header container code_idx;
     _ \<leftarrow> cassert L (code \<noteq> []);
     let cost_table = get_baseline_cost_table r 1;
     checked_bind (validate_instructions_loop cost_table header code 0 False) (\<lambda>is_returning. do {
       t \<leftarrow> nth_opt (code_types header) code_idx;
       let declared_returning = (ty_outputs t \<noteq> NON_RETURNING_FUNCTION);
       if is_returning \<noteq> declared_returning then eof_error EOF_invalid_non_returning_flag
       else Some (Inr ()) }) }"

subsection \<open>Relative jumps\<close>

text \<open>
  \<open>check_rjump_destination\<close>: the destination, or \<open>Inl ()\<close> for the \<open>false\<close> that ends the
  validation.
\<close>

definition check_rjump_destination ::
  "byte list \<Rightarrow> nat \<Rightarrow> nat \<Rightarrow> (unit + nat) option" where
  "check_rjump_destination code rel_offset_data post_pos = do {
     rel_offset \<leftarrow> read_int16_be code rel_offset_data;
     let jumpdest = sint (word_of_nat post_pos :: u32) + rel_offset;
     Some (if jumpdest < 0 \<or> nat jumpdest \<ge> length code then Inl () else Inr (nat jumpdest)) }"

text \<open>The \<open>n\<close> entries of the table of an \<open>RJUMPV\<close> at \<open>i\<close>, from the byte offset \<open>k\<close> on.\<close>

primrec check_rjumpv_table ::
  "byte list \<Rightarrow> nat \<Rightarrow> nat \<Rightarrow> nat \<Rightarrow> nat \<Rightarrow> nat list \<Rightarrow> (unit + nat list) option" where
  "check_rjumpv_table code i post_pos k 0 dests = Some (Inr dests)"
| "check_rjumpv_table code i post_pos k (Suc n) dests = do {
     r \<leftarrow> check_rjump_destination code (i + 1 + 1 + k mod 65536) post_pos;
     (case r of
        Inl _ \<Rightarrow> Some (Inl ())
      | Inr d \<Rightarrow> check_rjumpv_table code i post_pos (k + REL_OFFSET_SIZE) n (dests @ [d])) }"

function rjump_loop ::
  "byte list \<Rightarrow> nat \<Rightarrow> nat list \<Rightarrow> bool list \<Rightarrow> (unit + nat list \<times> bool list) option" where
  "rjump_loop code i dests immediate_map =
     (if i < length code then do {
        let op = code ! i;
        let imm_size = immediate_size (traits op);
        r \<leftarrow> (if op = OP_RJUMP \<or> op = OP_RJUMPI then do {
               d \<leftarrow> check_rjump_destination code (i + 1) (i + REL_OFFSET_SIZE + 1);
               Some (case d of Inl _ \<Rightarrow> Inl () | Inr d \<Rightarrow> Inr (dests @ [d], imm_size)) }
             else if op = OP_RJUMPV then do {
               b \<leftarrow> nth_opt code (i + 1);
               let count = unat b + 1;
               let imm_size = imm_size + count * REL_OFFSET_SIZE;
               let post_pos = i + 1 + imm_size;
               ds \<leftarrow> check_rjumpv_table code i post_pos 0 count dests;
               Some (case ds of Inl _ \<Rightarrow> Inl () | Inr ds \<Rightarrow> Inr (ds, imm_size)) }
             else Some (Inr (dests, imm_size)));
        (case r of
           Inl _ \<Rightarrow> Some (Inl ())
         | Inr (dests, imm_size) \<Rightarrow> do {
             immediate_map \<leftarrow> splice_opt immediate_map (i + 1) (replicate imm_size True);
             rjump_loop code (i + imm_size + 1) dests immediate_map }) }
      else Some (Inr (dests, immediate_map)))"
  by pat_completeness auto
termination by (relation "measure (\<lambda>(code, i, _, _). length code - i)") auto

declare rjump_loop.simps [simp del]

definition validate_rjump_destinations :: "byte list \<Rightarrow> bool option" where
  "validate_rjump_destinations code = do {
     r \<leftarrow> rjump_loop code 0 [] (replicate (length code) False);
     (case r of
        Inl _ \<Rightarrow> Some False
      | Inr (dests, immediate_map) \<Rightarrow> Some (\<forall>d \<in> set dests. \<not> immediate_map ! d)) }"

subsection \<open>Stack heights\<close>

abbreviation LOC_UNVISITED :: int where "LOC_UNVISITED \<equiv> - 1"
abbreviation LOC_IMMEDIATE :: int where "LOC_IMMEDIATE \<equiv> - 2"

definition int8_of :: "int \<Rightarrow> int" where
  "int8_of x = sint (word_of_int x :: byte)"

text \<open>
  The heights found so far and the worklist, its top first. \<open>validate_successor\<close> is the lambda
  of the same name: \<open>False\<close> for a height that differs from the expected one.
\<close>

type_synonym heights_state = "int list \<times> nat list"

definition validate_successor ::
  "int \<Rightarrow> int \<Rightarrow> heights_state \<Rightarrow> (bool \<times> heights_state) option" where
  "validate_successor successor_offset expected_stack_height hw =
     (let (heights, worklist) = hw
      in if successor_offset < 0 then None
         else do {
           h \<leftarrow> nth_opt heights (nat successor_offset);
           if h = LOC_UNVISITED
           then Some (True, heights[nat successor_offset := expected_stack_height],
                      nat successor_offset # worklist)
           else Some (h = expected_stack_height, heights, worklist) })"

text \<open>The stack height an instruction requires and its change of the height.\<close>

definition stack_effect ::
  "'a libs_scheme \<Rightarrow> byte list \<Rightarrow> nat \<Rightarrow> eof_code_type list \<Rightarrow> nat \<Rightarrow> int \<Rightarrow> (int \<times> int) checked" where
  "stack_effect L code func_index types i stack_height =
     (let opcode = code ! i;
          required = stack_height_required (traits opcode);
          change = stack_height_change (traits opcode)
      in if opcode = OP_CALLF then do {
           fid \<leftarrow> read_uint16_be code (i + 1);
           t \<leftarrow> nth_opt types (unat fid);
           let required = int8_of (uint (ty_inputs t));
           if stack_height + uint (ty_max_stack_height t) - required > STACK_SIZE_LIMIT
           then eof_error EOF_stack_overflow
           else do {
             _ \<leftarrow> cassert L (ty_outputs t \<noteq> NON_RETURNING_FUNCTION);
             Some (Inr (required, int8_of (uint (ty_outputs t) - required))) } }
         else if opcode = OP_JUMPF then do {
           fid \<leftarrow> read_uint16_be code (i + 1);
           t \<leftarrow> nth_opt types (unat fid);
           if stack_height + uint (ty_max_stack_height t) - uint (ty_inputs t) > STACK_SIZE_LIMIT
           then eof_error EOF_stack_overflow
           else if ty_outputs t = NON_RETURNING_FUNCTION
           then Some (Inr (int8_of (uint (ty_inputs t)), change))
           else do {
             f \<leftarrow> nth_opt types func_index;
             if ty_outputs f < ty_outputs t
             then eof_error EOF_jumpf_destination_incompatible_outputs
             else let required =
                    int8_of (uint (ty_outputs f) + uint (ty_inputs t) - uint (ty_outputs t))
                  in if stack_height > required
                     then eof_error EOF_stack_higher_than_outputs_required
                     else Some (Inr (required, change)) } }
         else if opcode = OP_RETF then do {
           f \<leftarrow> nth_opt types func_index;
           if stack_height > uint (ty_outputs f)
           then eof_error EOF_stack_higher_than_outputs_required
           else Some (Inr (int8_of (uint (ty_outputs f)), change)) }
         else Some (Inr (required, change)))"

text \<open>The table of an \<open>RJUMPV\<close> at \<open>i\<close>: the entries from the \<open>k\<close>-th on, \<open>n\<close> of them.\<close>

primrec rjumpv_successors ::
  "byte list \<Rightarrow> nat \<Rightarrow> nat \<Rightarrow> int \<Rightarrow> nat \<Rightarrow> nat \<Rightarrow> heights_state \<Rightarrow> (bool \<times> heights_state) option" where
  "rjumpv_successors code i next_pos h k 0 hw = Some (True, hw)"
| "rjumpv_successors code i next_pos h k (Suc n) hw = do {
     off \<leftarrow> read_int16_be code (i + k * REL_OFFSET_SIZE + 2);
     let target = sint (word_of_nat next_pos :: u32) + off;
     (ok, hw) \<leftarrow> validate_successor target h hw;
     if ok then rjumpv_successors code i next_pos h (k + 1) n hw else Some (False, hw) }"

definition jump_successors ::
  "byte list \<Rightarrow> nat \<Rightarrow> nat \<Rightarrow> int \<Rightarrow> heights_state \<Rightarrow> (bool \<times> heights_state) option" where
  "jump_successors code i next_pos h hw =
     (let opcode = code ! i
      in if opcode = OP_RJUMP \<or> opcode = OP_RJUMPI then do {
           off \<leftarrow> read_int16_be code (i + 1);
           let target = sint (word_of_nat i :: u32) + off + 3;
           validate_successor target h hw }
         else if opcode = OP_RJUMPV then do {
           max_index \<leftarrow> nth_opt code (i + 1);
           rjumpv_successors code i next_pos h 0 (unat max_index + 1) hw }
         else Some (True, hw))"

text \<open>One round of the loop, for the instruction at \<open>i\<close>.\<close>

definition stack_height_step ::
  "'a libs_scheme \<Rightarrow> byte list \<Rightarrow> nat \<Rightarrow> eof_code_type list \<Rightarrow> nat \<Rightarrow> heights_state \<Rightarrow>
   heights_state checked" where
  "stack_height_step L code func_index types i hw = do {
     opcode \<leftarrow> nth_opt code i;
     let (heights, worklist) = hw;
     stack_height \<leftarrow> nth_opt heights i;
     _ \<leftarrow> cassert L (stack_height \<noteq> LOC_UNVISITED);
     checked_bind (stack_effect L code func_index types i stack_height) (\<lambda>(required, change).
       if stack_height < required then eof_error EOF_stack_underflow
       else do {
         let stack_height = stack_height + change;
         imm_size \<leftarrow> (if opcode = OP_RJUMPV then do {
             b \<leftarrow> nth_opt code (i + 1);
             Some (1 + (unat b + 1) * REL_OFFSET_SIZE) }
           else Some (immediate_size (traits opcode)));
         heights \<leftarrow> splice_opt heights (i + 1) (replicate imm_size LOC_IMMEDIATE);
         let next_pos = i + imm_size + 1;
         let falls_through = (\<not> is_terminating (traits opcode) \<and> opcode \<noteq> OP_RJUMP);
         if falls_through \<and> next_pos \<ge> length code then eof_error EOF_no_terminating_instruction
         else do {
           (ok, hw) \<leftarrow> (if falls_through
             then validate_successor (int next_pos) stack_height (heights, worklist)
             else Some (True, heights, worklist));
           if \<not> ok then eof_error EOF_stack_height_mismatch
           else do {
             (ok, hw) \<leftarrow> jump_successors code i next_pos stack_height hw;
             if \<not> ok then eof_error EOF_stack_height_mismatch else Some (Inr hw) } } }) }"

text \<open>The loop; \<open>Out_of_fuel\<close> cannot happen with the fuel that \<open>validate_max_stack_height\<close> gives.\<close>

datatype 'a loop_result = Finished "'a checked" | No_fuel

fun stack_height_loop ::
  "nat \<Rightarrow> 'a libs_scheme \<Rightarrow> byte list \<Rightarrow> nat \<Rightarrow> eof_code_type list \<Rightarrow> heights_state \<Rightarrow>
   int list loop_result" where
  "stack_height_loop fuel L code func_index types (heights, []) = Finished (Some (Inr heights))"
| "stack_height_loop 0 L code func_index types (heights, i # worklist) = No_fuel"
| "stack_height_loop (Suc fuel) L code func_index types (heights, i # worklist) =
     (case stack_height_step L code func_index types i (heights, worklist) of
        None \<Rightarrow> Finished None
      | Some (Inl e) \<Rightarrow> Finished (eof_error e)
      | Some (Inr hw) \<Rightarrow> stack_height_loop fuel L code func_index types hw)"

definition validate_max_stack_height ::
  "'a libs_scheme \<Rightarrow> byte list \<Rightarrow> nat \<Rightarrow> eof_code_type list \<Rightarrow> int checked" where
  "validate_max_stack_height L code func_index types = do {
     _ \<leftarrow> cassert L (code \<noteq> []);
     if code = [] then None else do {
       f \<leftarrow> nth_opt types func_index;
       let heights = (replicate (length code) LOC_UNVISITED)[0 := uint (ty_inputs f)];
       case stack_height_loop (length code) L code func_index types (heights, [0]) of
         No_fuel \<Rightarrow> None
       | Finished r \<Rightarrow> checked_bind r (\<lambda>heights.
           if LOC_UNVISITED \<in> set heights then eof_error EOF_unreachable_instructions
           else Some (Inr (Max (set heights)))) } }"

subsection \<open>Containers\<close>

text \<open>The loop over the code sections, from \<open>code_idx\<close> on.\<close>

primrec validate_sections ::
  "'a libs_scheme \<Rightarrow> evmc_revision \<Rightarrow> eof1_header \<Rightarrow> byte list \<Rightarrow> nat \<Rightarrow> nat \<Rightarrow> unit checked" where
  "validate_sections L r header container code_idx 0 = Some (Inr ())"
| "validate_sections L r header container code_idx (Suc n) =
     checked_bind (validate_instructions L r header code_idx container) (\<lambda>_. do {
       code \<leftarrow> get_code L header container code_idx;
       ok \<leftarrow> validate_rjump_destinations code;
       if \<not> ok then eof_error EOF_invalid_rjump_destination
       else checked_bind (validate_max_stack_height L code code_idx (code_types header)) (\<lambda>msh. do {
         t \<leftarrow> nth_opt (code_types header) code_idx;
         if msh \<noteq> uint (ty_max_stack_height t) then eof_error EOF_invalid_max_stack_height
         else validate_sections L r header container (code_idx + 1) n }) })"

definition validate_eof1 ::
  "'a libs_scheme \<Rightarrow> evmc_revision \<Rightarrow> byte list \<Rightarrow> eof1_header checked" where
  "validate_eof1 L r container =
     checked_bind (validate_eof_headers L container) (\<lambda>headers. do {
       data_sz \<leftarrow> nth_opt (headers DATA_SECTION) 0;
       let header_size = eof_header_size headers;
       type_section_size \<leftarrow> nth_opt (headers TYPE_SECTION) 0;
       checked_bind (validate_types L container header_size type_section_size) (\<lambda>types. do {
         offsets \<leftarrow> section_offsets L (header_size + unat type_section_size) (headers CODE_SECTION);
         version \<leftarrow> nth_opt container 2;
         let header = \<lparr>eof_version = version, code_sizes = headers CODE_SECTION,
           code_offsets = offsets, data_size = data_sz, code_types = types\<rparr>;
         checked_bind (validate_sections L r header container 0 (length (code_sizes header)))
           (\<lambda>_. Some (Inr header)) }) })"

definition validate_eof ::
  "'a libs_scheme \<Rightarrow> evmc_revision \<Rightarrow> byte list \<Rightarrow> eof_validation_error option" where
  "validate_eof L r container =
     (if \<not> is_eof_container container then Some EOF_invalid_prefix
      else if get_eof_version container = 1 then
        (if r < EVMC_PRAGUE then Some EOF_eof_version_unknown
         else do {
           res \<leftarrow> validate_eof1 L r container;
           Some (case res of Inl e \<Rightarrow> e | Inr _ \<Rightarrow> EOF_success) })
      else Some EOF_eof_version_unknown)"

fun get_error_message :: "eof_validation_error \<Rightarrow> string" where
  "get_error_message EOF_success = ''success''"
| "get_error_message EOF_starts_with_format = ''starts_with_format''"
| "get_error_message EOF_invalid_prefix = ''invalid_prefix''"
| "get_error_message EOF_eof_version_mismatch = ''eof_version_mismatch''"
| "get_error_message EOF_eof_version_unknown = ''eof_version_unknown''"
| "get_error_message EOF_incomplete_section_size = ''incomplete_section_size''"
| "get_error_message EOF_incomplete_section_number = ''incomplete_section_number''"
| "get_error_message EOF_header_terminator_missing = ''header_terminator_missing''"
| "get_error_message EOF_type_section_missing = ''type_section_missing''"
| "get_error_message EOF_code_section_missing = ''code_section_missing''"
| "get_error_message EOF_data_section_missing = ''data_section_missing''"
| "get_error_message EOF_zero_section_size = ''zero_section_size''"
| "get_error_message EOF_section_headers_not_terminated = ''section_headers_not_terminated''"
| "get_error_message EOF_invalid_section_bodies_size = ''invalid_section_bodies_size''"
| "get_error_message EOF_undefined_instruction = ''undefined_instruction''"
| "get_error_message EOF_truncated_instruction = ''truncated_instruction''"
| "get_error_message EOF_invalid_rjump_destination = ''invalid_rjump_destination''"
| "get_error_message EOF_too_many_code_sections = ''too_many_code_sections''"
| "get_error_message EOF_invalid_type_section_size = ''invalid_type_section_size''"
| "get_error_message EOF_invalid_first_section_type = ''invalid_first_section_type''"
| "get_error_message EOF_invalid_max_stack_height = ''invalid_max_stack_height''"
| "get_error_message EOF_max_stack_height_above_limit = ''max_stack_height_above_limit''"
| "get_error_message EOF_inputs_outputs_num_above_limit = ''inputs_outputs_num_above_limit''"
| "get_error_message EOF_no_terminating_instruction = ''no_terminating_instruction''"
| "get_error_message EOF_stack_height_mismatch = ''stack_height_mismatch''"
| "get_error_message EOF_stack_higher_than_outputs_required = ''stack_higher_than_outputs_required''"
| "get_error_message EOF_unreachable_instructions = ''unreachable_instructions''"
| "get_error_message EOF_stack_underflow = ''stack_underflow''"
| "get_error_message EOF_stack_overflow = ''stack_overflow''"
| "get_error_message EOF_invalid_code_section_index = ''invalid_code_section_index''"
| "get_error_message EOF_invalid_dataloadn_index = ''invalid_dataloadn_index''"
| "get_error_message EOF_jumpf_destination_incompatible_outputs = ''jumpf_destination_incompatible_outputs''"
| "get_error_message EOF_invalid_non_returning_flag = ''invalid_non_returning_flag''"
| "get_error_message EOF_callf_to_non_returning_function = ''callf_to_non_returning_function''"
| "get_error_message EOF_impossible = ''impossible''"

end
