(* ===== verification/Printing.thy ===== *)
theory Printing
  imports Rw_Operation Eof_Validation
begin

text \<open>
  The operators that write values of the program to a stream: a \<open>zkevm_word\<close>
  (\<open>include/zkevm_word.hpp\<close>), an entry of the trace (\<open>include/rw.hpp\<close>), a status code, a
  revision (\<open>evmc/evmc.hpp\<close>) and an error of the EOF validation (\<open>evmone/eof.cpp\<close>).

  A stream is the text written so far with the base its numbers are written in, which
  \<open>std::hex\<close> and \<open>std::dec\<close> change. The other format flags keep their defaults: no code
  under \<open>src/\<close> that writes these values sets them.
\<close>

record ostream =
  os_text :: string
  os_base :: nat

definition digit_char :: "nat \<Rightarrow> char" where
  "digit_char d = (if d < 10 then char_of (48 + d) else char_of (87 + d))"

text \<open>The digits of a number in base \<open>b\<close>, which is 10 or 16 here; other bases end at once.\<close>

function nat_text :: "nat \<Rightarrow> nat \<Rightarrow> string" where
  "nat_text b n = (if n < b \<or> b < 2 then [digit_char n] else nat_text b (n div b) @ [digit_char (n mod b)])"
  by pat_completeness auto
termination by (relation "measure snd") auto

declare nat_text.simps [simp del]

definition put_text :: "string \<Rightarrow> ostream \<Rightarrow> ostream" where
  "put_text t os = os\<lparr>os_text := os_text os @ t\<rparr>"

definition put_nat :: "nat \<Rightarrow> ostream \<Rightarrow> ostream" where
  "put_nat n os = put_text (nat_text (os_base os) n) os"

definition put_hex :: "ostream \<Rightarrow> ostream" where
  "put_hex os = os\<lparr>os_base := 16\<rparr>"

definition put_dec :: "ostream \<Rightarrow> ostream" where
  "put_dec os = os\<lparr>os_base := 10\<rparr>"

subsection \<open>The operators\<close>

text \<open>The loop over the bytes of a word, which are written as numbers with a space behind each.\<close>

fun put_bytes :: "byte list \<Rightarrow> ostream \<Rightarrow> ostream" where
  "put_bytes [] os = os"
| "put_bytes (b # bs) os = put_bytes bs (put_text '' '' (put_nat (unat b) os))"

definition put_word :: "'a libs_scheme \<Rightarrow> zkevm_word \<Rightarrow> ostream \<Rightarrow> ostream" where
  "put_word L obj os = put_bytes (to_uint256be L obj) os"

text \<open>The \<open>if\<close> chain over the operation; an operation outside the list writes no label.\<close>

definition op_label :: "byte \<Rightarrow> string" where
  "op_label op =
     (if op = START_OP then ''START: ''
      else if op = STACK_OP then ''STACK: ''
      else if op = MEMORY_OP then ''MEMORY: ''
      else if op = STORAGE_OP then ''STORAGE: ''
      else if op = TRANSIENT_STORAGE_OP then ''TRANSIENT_STORAGE: ''
      else if op = CALL_CONTEXT_OP then ''CALL_CONTEXT_OP: ''
      else if op = ACCOUNT_OP then ''ACCOUNT_OP: ''
      else if op = TX_REFUND_OP then ''TX_REFUND_OP: ''
      else if op = TX_ACCESS_LIST_ACCOUNT_OP then ''TX_ACCESS_LIST_ACCOUNT_OP: ''
      else if op = TX_ACCESS_LIST_ACCOUNT_STORAGE_OP then ''TX_ACCESS_LIST_ACCOUNT_STORAGE_OP: ''
      else if op = TX_LOG_OP then ''TX_LOG_OP: ''
      else if op = TX_RECEIPT_OP then ''TX_RECEIPT_OP: ''
      else if op = PADDING_OP then ''PADDING_OP: ''
      else '''')"

definition put_rw :: "'a libs_scheme \<Rightarrow> rw_operation \<Rightarrow> ostream \<Rightarrow> ostream" where
  "put_rw L obj os =
     (let os = put_text (op_label (rw_op obj)) os;
          os = put_dec (put_word L (rw_address obj) (put_hex (put_text '', addr ='' (put_nat (rw_id obj) os))));
          os = (if rw_op obj = STORAGE_OP \<or> rw_op obj = TRANSIENT_STORAGE_OP
                then put_word L (rw_storage_key obj) (put_text '' storage_key = '' os) else os);
          os = (if rw_is_write obj then put_text '' W '' os else put_text '' R '' os);
          os = put_text ''] => '' (put_dec (put_word L (rw_value_prev obj) (put_hex (put_text ''['' os))));
          os = put_text '']'' (put_dec (put_word L (rw_value obj) (put_hex (put_text ''['' os))))
      in os)"

definition to_string_status :: "evmc_status_code \<Rightarrow> string" where
  "to_string_status status_code = evmc_status_code_to_string status_code"

definition to_string_revision :: "evmc_revision \<Rightarrow> string" where
  "to_string_revision r = evmc_revision_to_string r"

definition put_status :: "evmc_status_code \<Rightarrow> ostream \<Rightarrow> ostream" where
  "put_status status_code os = put_text (to_string_status status_code) os"

definition put_revision :: "evmc_revision \<Rightarrow> ostream \<Rightarrow> ostream" where
  "put_revision r os = put_text (to_string_revision r) os"

definition put_eof_error :: "eof_validation_error \<Rightarrow> ostream \<Rightarrow> ostream" where
  "put_eof_error err os = put_text (get_error_message err) os"

subsection \<open>What is written\<close>

primrec bytes_text :: "nat \<Rightarrow> byte list \<Rightarrow> string" where
  "bytes_text b [] = []"
| "bytes_text b (x # xs) = nat_text b (unat x) @ '' '' @ bytes_text b xs"

definition word_text :: "'a libs_scheme \<Rightarrow> nat \<Rightarrow> zkevm_word \<Rightarrow> string" where
  "word_text L b v = bytes_text b (to_uint256be L v)"

definition storage_op :: "byte \<Rightarrow> bool" where
  "storage_op op \<longleftrightarrow> op = STORAGE_OP \<or> op = TRANSIENT_STORAGE_OP"

definition rw_text :: "'a libs_scheme \<Rightarrow> nat \<Rightarrow> rw_operation \<Rightarrow> string" where
  "rw_text L b x = op_label (rw_op x) @ nat_text b (rw_id x) @ '', addr ='' @ word_text L 16 (rw_address x) @
     (if storage_op (rw_op x) then '' storage_key = '' @ word_text L 10 (rw_storage_key x) else []) @
     (if rw_is_write x then '' W '' else '' R '') @
     ''['' @ word_text L 16 (rw_value_prev x) @ ''] => ['' @ word_text L 16 (rw_value x) @ '']''"

lemma put_simps [simp]:
  "put_text t \<lparr>os_text = u, os_base = b\<rparr> = \<lparr>os_text = u @ t, os_base = b\<rparr>"
  "put_nat n \<lparr>os_text = u, os_base = b\<rparr> = \<lparr>os_text = u @ nat_text b n, os_base = b\<rparr>"
  "put_hex \<lparr>os_text = u, os_base = b\<rparr> = \<lparr>os_text = u, os_base = 16\<rparr>"
  "put_dec \<lparr>os_text = u, os_base = b\<rparr> = \<lparr>os_text = u, os_base = 10\<rparr>"
  by (simp_all add: put_text_def put_nat_def put_hex_def put_dec_def)

lemma put_bytes_text [simp]:
  "put_bytes bs \<lparr>os_text = u, os_base = b\<rparr> = \<lparr>os_text = u @ bytes_text b bs, os_base = b\<rparr>"
  by (induction bs arbitrary: u) simp_all

lemma put_word_text [simp]:
  "put_word L v \<lparr>os_text = u, os_base = b\<rparr> = \<lparr>os_text = u @ word_text L b v, os_base = b\<rparr>"
  by (simp add: put_word_def word_text_def)

lemma put_rw_text: "put_rw L x \<lparr>os_text = u, os_base = b\<rparr> = \<lparr>os_text = u @ rw_text L b x, os_base = 10\<rparr>"
  by (simp add: put_rw_def rw_text_def storage_op_def)

subsection \<open>Reading a number back\<close>

text \<open>The number whose digits a text starts with, as \<open>strtoul\<close> would read it, and the rest.\<close>

definition char_digit :: "nat \<Rightarrow> char \<Rightarrow> nat option" where
  "char_digit b c = (let k = of_char c :: nat
     in if 48 \<le> k \<and> k < 58 \<and> k - 48 < b then Some (k - 48)
        else if 97 \<le> k \<and> k < 103 \<and> k - 87 < b then Some (k - 87) else None)"

fun read_nat :: "nat \<Rightarrow> nat \<Rightarrow> string \<Rightarrow> nat \<times> string" where
  "read_nat b acc [] = (acc, [])"
| "read_nat b acc (c # cs) = (case char_digit b c of
     None \<Rightarrow> (acc, c # cs) | Some d \<Rightarrow> read_nat b (acc * b + d) cs)"

lemma char_digit_digit: "d < b \<Longrightarrow> b \<le> 16 \<Longrightarrow> char_digit b (digit_char d) = Some d"
  by (simp add: char_digit_def digit_char_def Let_def)

lemma read_nat_text:
  assumes "2 \<le> b" and "b \<le> 16"
  shows "\<exists>k. \<forall>acc cs. read_nat b acc (nat_text b n @ cs) = read_nat b (acc * k + n) cs"
  using assms
proof (induction b n rule: nat_text.induct)
  case (1 b n)
  show ?case
  proof (cases "n < b")
    case True
    then show ?thesis
      using 1(3) by (auto simp: nat_text.simps [of b n] char_digit_digit intro!: exI [of _ b])
  next
    case False
    then obtain k where k: "\<forall>acc cs. read_nat b acc (nat_text b (n div b) @ cs) = read_nat b (acc * k + n div b) cs"
      using 1 by auto
    have "(acc * k + n div b) * b + n mod b = acc * (k * b) + n" for acc
      by (simp add: algebra_simps)
    then have "\<forall>acc cs. read_nat b acc (nat_text b n @ cs) = read_nat b (acc * (k * b) + n) cs"
      using False 1(2,3) k by (simp add: nat_text.simps [of b n] char_digit_digit)
    then show ?thesis by blast
  qed
qed

definition stops_number :: "nat \<Rightarrow> string \<Rightarrow> bool" where
  "stops_number b cs \<longleftrightarrow> (case cs of [] \<Rightarrow> True | c # _ \<Rightarrow> char_digit b c = None)"

lemma stops_number_Cons [simp]: "stops_number b (c # cs) \<longleftrightarrow> char_digit b c = None"
  by (simp add: stops_number_def)

lemma read_printed:
  assumes "2 \<le> b" and "b \<le> 16" and "stops_number b cs"
  shows "read_nat b 0 (nat_text b n @ cs) = (n, cs)"
proof -
  obtain k where "read_nat b 0 (nat_text b n @ cs) = read_nat b (0 * k + n) cs"
    using read_nat_text [OF assms(1,2)] by blast
  then show ?thesis using assms(3) by (cases cs) (simp_all add: stops_number_def)
qed

text \<open>A number, the bytes of a word, a word and a label are the only ones their text starts with.\<close>

lemma nat_text_cancel:
  assumes "2 \<le> b" and "b \<le> 16" and "stops_number b cs" and "stops_number b cs'"
  shows "nat_text b n @ cs = nat_text b n' @ cs' \<longleftrightarrow> n = n' \<and> cs = cs'"
  using read_printed [OF assms(1,2,3), of n] read_printed [OF assms(1,2,4), of n']
  by (metis prod.inject)

lemma char_digit_space [simp]: "char_digit b CHR '' '' = None" "char_digit b CHR '','' = None"
  by (simp_all add: char_digit_def)

lemma bytes_text_cancel:
  assumes "2 \<le> b" and "b \<le> 16"
  shows "length xs = length ys \<Longrightarrow> bytes_text b xs @ u = bytes_text b ys @ v \<longleftrightarrow> xs = ys \<and> u = v"
proof (induction xs ys rule: list_induct2)
  case Nil
  then show ?case by simp
next
  case (Cons x xs y ys)
  then show ?case using nat_text_cancel [OF assms] by (simp add: word_unat_eq_iff)
qed

lemma known_op: "op < 13 \<Longrightarrow> op \<in> {0, 1, 2, 3, 4, 5, 6, 7, 8, 9, 10, 11, 12 :: byte}"
proof -
  assume "op < 13"
  then have "unat op < 13" by (simp add: word_less_nat_alt)
  then have "unat op \<in> {0, 1, 2, 3, 4, 5, 6, 7, 8, 9, 10, 11, 12}"
    unfolding insert_iff empty_iff by presburger
  then have "(word_of_nat (unat op) :: byte) \<in> word_of_nat ` {0, 1, 2, 3, 4, 5, 6, 7, 8, 9, 10, 11, 12 :: nat}" by (rule imageI)
  then show ?thesis by simp
qed

lemma op_label_cancel:
  assumes "op < 13" and "op' < 13"
  shows "op_label op @ u = op_label op' @ v \<longleftrightarrow> op = op' \<and> u = v"
  using known_op [OF assms(1)] known_op [OF assms(2)] by (elim insertE emptyE; simp add: op_label_def)

context intx_api
begin

lemma word_text_cancel:
  assumes "2 \<le> b" and "b \<le> 16"
  shows "word_text L b v @ u = word_text L b w @ t \<longleftrightarrow> v = w \<and> u = t"
proof -
  have "to_uint256be L v = to_uint256be L w \<longleftrightarrow> v = w"
    using load_store [of v] load_store [of w] by metis
  moreover have "length (to_uint256be L v) = length (to_uint256be L w)"
    using is_bytes32_to_uint256be [of v] is_bytes32_to_uint256be [of w] by (simp add: is_bytes32_def)
  ultimately show ?thesis
    unfolding word_text_def by (simp add: bytes_text_cancel [OF assms])
qed

lemma word_text_inj:
  assumes "2 \<le> b" and "b \<le> 16"
  shows "word_text L b v = word_text L b w \<longleftrightarrow> v = w"
  using word_text_cancel [OF assms, of v "[]" w "[]"] by simp

lemma rw_text_cancel:
  assumes "2 \<le> b" and "b \<le> 16" and "rw_op x < 13" and "rw_op y < 13"
  shows "rw_text L b x = rw_text L b y \<longleftrightarrow> rw_op x = rw_op y \<and> rw_id x = rw_id y \<and> rw_address x = rw_address y \<and>
    (storage_op (rw_op x) \<longrightarrow> rw_storage_key x = rw_storage_key y) \<and> rw_is_write x = rw_is_write y \<and>
    rw_value_prev x = rw_value_prev y \<and> rw_value x = rw_value y"
  unfolding rw_text_def
  by (auto simp: op_label_cancel [OF assms(3,4)] nat_text_cancel [OF assms(1,2)] word_text_cancel
      word_text_inj)

end

end
