(* ===== verification/Data_Properties.thy ===== *)
theory Data_Properties
  imports Evmc_Operators Memory_Block Printing
begin

text \<open>
  Properties of the data types of the interpreter: hexadecimal text, addresses and hashes,
  the 256-bit word, the memory, and the order of the read/write trace. A property with a
  hypothesis is followed by a witness that applies it to concrete data.
\<close>

subsection \<open>Hexadecimal text\<close>

text \<open>
  C26. The loop of \<open>from_hex\<close> is equivalent to the reference decoder: a text is accepted, by
  \<open>validate_hex\<close> as by \<open>from_hex\<close>, exactly when, without one optional \<open>0x\<close>, it consists of pairs of
  the digits \<open>0\<close> to \<open>9\<close>, \<open>a\<close> to \<open>f\<close> and \<open>A\<close> to \<open>F\<close>, and then it yields one byte per pair, the high
  digit first. The value of each digit is given by the table \<open>digit_values\<close>, not by the code's
  arithmetic on character codes.
\<close>

theorem from_hex_decodes:
  "from_hex s = decode_pairs (strip_0x s) \<and> (validate_hex s \<longleftrightarrow> decode_pairs (strip_0x s) \<noteq> None)"
  by (simp add: from_hex_pairs)

text \<open>
  C27. Decoding is a left inverse of encoding: any text that becomes \<open>hex(bs)\<close> when its white
  space is dropped, also white space between the two digits of a byte, is read back by
  \<open>from_spaced_hex\<close> as exactly the bytes \<open>bs\<close>.
\<close>

theorem hex_round_trip:
  assumes "filter is_not_space s = hex_bytes bs"
  shows "from_spaced_hex s = Some bs"
  using assms by (simp add: from_spaced_hex_eq from_hex_hex_bytes)

theorem hex_round_trip_witness: "from_spaced_hex ''0 fa0'' = Some [0x0f, 0xa0]"
  using hex_round_trip [of "''0 fa0''" "[0x0f, 0xa0]"]
  by (simp add: hex_byte_def hex_digit_def is_not_space_def isspace_def)

text \<open>
  \<open>from_hex<T>\<close> never writes outside the object and never leaves a byte of it unset:
  whatever the text, an accepted result has exactly the size of \<open>T\<close>.
\<close>

theorem from_hex_fixed_size: "from_hex_fixed n s = Some bs \<Longrightarrow> length bs = n"
  by (rule from_hex_fixed_length)

theorem from_hex_fixed_size_witness:
  "from_hex_fixed 2 ''0x7f'' = Some [0, 0x7f] \<and> length [0, 0x7f :: byte] = 2"
proof -
  have "from_hex_fixed 2 ''0x7f'' = Some [0, 0x7f]" by code_simp
  with from_hex_fixed_size [OF this] show ?thesis by blast
qed

text \<open>
  \<open>from_hex<T>\<close> strips the prefix and the loop it calls skips it once more, so a text with
  two prefixes is accepted, and its bytes end up in the wrong place: \<open>0x0x12\<close> as a two-byte
  object is \<open>1200\<close>, while \<open>0x12\<close> is \<open>0012\<close> and the run-time \<open>from_hex\<close> rejects it.
\<close>

theorem from_hex_fixed_double_prefix:
  "from_hex_fixed 2 ''0x0x12'' = Some [0x12, 0] \<and> from_hex_fixed 2 ''0x12'' = Some [0, 0x12] \<and>
   from_hex ''0x0x12'' = None"
  by code_simp

subsection \<open>Addresses and hashes\<close>

text \<open>
  The comparisons of \<open>evmc::address\<close>, which load limbs of 8 and 4 bytes, are the numeric
  comparisons of the big-endian values, all six operators, so addresses are linearly ordered,
  \<open>==\<close> is equality of all bytes, and an address converts to \<open>false\<close> only if it is zero.
\<close>

theorem address_order:
  assumes "is_address a" and "is_address b"
  shows "(address_less a b \<longleftrightarrow> be_val a < be_val b) \<and> (address_eq a b \<longleftrightarrow> a = b) \<and>
     (address_ne a b \<longleftrightarrow> a \<noteq> b) \<and> (address_greater a b \<longleftrightarrow> be_val b < be_val a) \<and>
     (address_le a b \<longleftrightarrow> be_val a \<le> be_val b) \<and> (address_ge a b \<longleftrightarrow> be_val b \<le> be_val a) \<and>
     (address_less a b \<or> a = b \<or> address_less b a) \<and> (address_bool a \<longleftrightarrow> a \<noteq> zero_address)"
proof -
  have less: "address_less x y \<longleftrightarrow> be_val x < be_val y" if "is_address x" "is_address y" for x y
    using that be_val_cut20_less [of x y] by (simp add: is_address_def)
  have eq: "address_eq x y \<longleftrightarrow> x = y" if "is_address x" "is_address y" for x y
    using that by (simp add: is_address_def address_eq_iff)
  have "be_val a = be_val b \<Longrightarrow> a = b"
    using assms be_val_inj [of a b] by (simp add: is_address_def)
  then show ?thesis using assms less eq by (auto simp: address_operators)
qed

theorem address_order_witness:
  "address_less (replicate 19 0 @ [5]) (1 # replicate 19 0)"
  using address_order [of "replicate 19 0 @ [5]" "1 # replicate 19 0"]
    be_val_zeros [of 19 "[]"]
  by (simp add: is_address_def be_val_Cons)

text \<open>The same for \<open>evmc::bytes32\<close>, with its four limbs of 8 bytes.\<close>

theorem bytes32_order:
  assumes "is_bytes32 a" and "is_bytes32 b"
  shows "(bytes32_less a b \<longleftrightarrow> be_val a < be_val b) \<and> (bytes32_eq a b \<longleftrightarrow> a = b) \<and>
     (bytes32_ne a b \<longleftrightarrow> a \<noteq> b) \<and> (bytes32_greater a b \<longleftrightarrow> be_val b < be_val a) \<and>
     (bytes32_le a b \<longleftrightarrow> be_val a \<le> be_val b) \<and> (bytes32_ge a b \<longleftrightarrow> be_val b \<le> be_val a) \<and>
     (bytes32_less a b \<or> a = b \<or> bytes32_less b a) \<and> (bytes32_bool a \<longleftrightarrow> a \<noteq> zero_bytes32)"
proof -
  have less: "bytes32_less x y \<longleftrightarrow> be_val x < be_val y" if "is_bytes32 x" "is_bytes32 y" for x y
    using that be_val_cut32_less [of x y] by (simp add: is_bytes32_def)
  have eq: "bytes32_eq x y \<longleftrightarrow> x = y" if "is_bytes32 x" "is_bytes32 y" for x y
    using that by (simp add: is_bytes32_def bytes32_eq_iff)
  have "be_val a = be_val b \<Longrightarrow> a = b"
    using assms be_val_inj [of a b] by (simp add: is_bytes32_def)
  then show ?thesis using assms less eq by (auto simp: bytes32_operators)
qed

theorem bytes32_order_witness:
  "bytes32_less (replicate 31 0 @ [5]) (1 # replicate 31 0)"
  using bytes32_order [of "replicate 31 0 @ [5]" "1 # replicate 31 0"]
    be_val_zeros [of 31 "[]"]
  by (simp add: is_bytes32_def be_val_Cons)

subsection \<open>Words\<close>

text \<open>
  The conversions between a stack word and its byte forms lose nothing: a word is read
  back from its 32 bytes, 32 bytes and 20-byte addresses are read back from their words, and
  an address taken from a word is the word modulo \<open>2 ^ 160\<close>.
\<close>

theorem word_round_trip:
  assumes "intx_api L" and "is_bytes32 b" and "is_address a"
  shows "word_of_uint256be L (to_uint256be L v) = v \<and>
     to_uint256be L (word_of_uint256be L b) = b \<and>
     to_address L (word_of_address L a) = a \<and>
     unat (word_of_address L (to_address L v)) = unat v mod 2 ^ 160"
  using assms
  by (simp add: intx_api.load_store intx_api.store_load intx_api.address_load
      intx_api.address_of_word)

theorem word_round_trip_witness:
  "to_address reference_libs (word_of_address reference_libs (replicate 20 7)) = replicate 20 7"
  using word_round_trip [of reference_libs "replicate 32 1" "replicate 20 7" 0]
  by (simp add: ref.intx_api_axioms is_bytes32_def is_address_def)

subsection \<open>Order of the trace\<close>

text \<open>
  C28. The order of the read/write table is a strict order that compares the operation, the
  address, the field, the storage key and the identifier in this order, and it is total on
  entries with different identifiers; the call identifier takes no part in it, although the
  table lists its chunks among the sorting columns.
\<close>

theorem rw_order:
  "(rw_less a b \<longleftrightarrow> rw_key a < rw_key b) \<and> \<not> rw_less a a \<and>
   (rw_less a b \<and> rw_less b c \<longrightarrow> rw_less a c) \<and>
   (rw_id a \<noteq> rw_id b \<longrightarrow> rw_less a b \<or> rw_less b a) \<and>
   rw_less (a\<lparr>rw_call_id := i\<rparr>) b = rw_less a b"
  using rw_less_trans [of a b c] rw_less_total [of a b]
  by (auto simp: rw_less_key rw_less_call_id rw_key_def)

theorem rw_order_witness:
  "rw_less start_operation padding_operation \<and>
   \<not> rw_less (padding_operation\<lparr>rw_call_id := 9\<rparr>) start_operation"
proof -
  have "rw_key start_operation < rw_key padding_operation"
    by (simp add: rw_key_def start_operation_def padding_operation_def)
  then show ?thesis
    using rw_order [of start_operation padding_operation start_operation 0]
      rw_order [of padding_operation start_operation padding_operation 9]
    by blast
qed

subsection \<open>Memory\<close>

text \<open>
  C15. The memory check that every memory instruction makes. From a well-formed memory it always
  has a result. If it allows the access, the accessed range lies inside the grown memory,
  which is the old one followed by zeros up to a whole number of words, the gas is not
  negative and it has dropped by the difference of the quadratic memory costs; otherwise
  the memory is as before.
\<close>

theorem memory_check:
  assumes "mem_wf m" and "sz \<le> max_buffer_size" and "0 \<le> g" and "\<forall>k. malloc_ok L k"
  shows "total (check_memory L g m offset sz) (\<lambda>(ok, g', m').
     mem_wf m' \<and> g' \<le> g \<and>
     (ok \<longrightarrow> 0 \<le> g' \<and> lo64 offset \<le> max_buffer_size \<and> lo64 offset + sz \<le> mem_size m' \<and>
        extended_to m (32 * words_for (lo64 offset + sz)) m' \<and>
        g' = g - (memory_cost (mem_size m' div 32) - memory_cost (mem_size m div 32))) \<and>
     (\<not> ok \<longrightarrow> m' = m))"
  using assms by (intro check_memory_total) auto

theorem memory_check_witness:
  "\<exists>g' m'. check_memory reference_libs 10 \<lparr>mem_data = [], mem_capacity = 4096\<rparr> 1 32 = Some (True, g', m') \<and>
     mem_size m' = 64 \<and> g' = 4"
proof -
  let ?m = "\<lparr>mem_data = [], mem_capacity = 4096\<rparr>"
  have run: "check_memory reference_libs 10 ?m 1 32 =
      Some (True, 4, \<lparr>mem_data = replicate 64 0, mem_capacity = 4096\<rparr>)"
    by (simp add: check_memory_def grow_memory_def mem_grow_def num_words_def word_size_def
        max_buffer_size_def mem_size_def to_uint64_def reference_libs_def cassert_def)
  have "mem_wf ?m" "\<forall>k. malloc_ok reference_libs k"
    by (simp_all add: mem_wf_def mem_size_def page_size_def reference_libs_def)
  then have "lo64 1 + 32 \<le> mem_size \<lparr>mem_data = replicate 64 0, mem_capacity = 4096\<rparr>"
    using memory_check [of ?m 32 10 reference_libs 1]
    by (simp add: run max_buffer_size_def)
  with run show ?thesis by (simp add: mem_size_def)
qed

text \<open>
  The check with a size from the stack, for any pair of stack words: if it allows the
  access and the size is not zero, the range given by the low limbs of the two words lies
  inside the memory, which stays well formed; a refused access changes nothing.
\<close>

theorem memory_check_copy:
  assumes "mem_wf m" and "0 \<le> g" and "\<forall>k. malloc_ok L k"
  shows "total (check_memory_copy L g m offset sz) (\<lambda>(ok, g', m').
     mem_wf m' \<and> g' \<le> g \<and> (ok \<longrightarrow> 0 \<le> g' \<and> range_ok m' (lo64 offset) (lo64 sz)) \<and>
     (\<not> ok \<longrightarrow> m' = m))"
  using assms by (intro check_memory_copy_total) auto

theorem memory_check_copy_witness:
  "\<exists>g' m'. check_memory_copy reference_libs 10 \<lparr>mem_data = [], mem_capacity = 4096\<rparr> 1 32 = Some (True, g', m') \<and>
     range_ok m' 1 32"
proof -
  let ?m = "\<lparr>mem_data = [], mem_capacity = 4096\<rparr>"
  have run: "check_memory_copy reference_libs 10 ?m 1 32 =
      Some (True, 4, \<lparr>mem_data = replicate 64 0, mem_capacity = 4096\<rparr>)"
    by (simp add: check_memory_copy_def check_memory_def grow_memory_def mem_grow_def
        num_words_def word_size_def max_buffer_size_def mem_size_def to_uint64_def
        reference_libs_def cassert_def)
  have "mem_wf ?m" "\<forall>k. malloc_ok reference_libs k"
    by (simp_all add: mem_wf_def mem_size_def page_size_def reference_libs_def)
  with memory_check_copy [of ?m 10 reference_libs 1 32] run show ?thesis
    by (simp add: to_uint64_def)
qed

text \<open>
  Writing through \<open>&memory[i]\<close> inside the memory always succeeds, keeps the memory well
  formed and of the same size, is read back unchanged, and no byte outside the written
  range changes.
\<close>

theorem memory_write_read:
  assumes "mem_wf m" and "i + length bs \<le> mem_size m"
  shows "total (mem_write m i bs) (\<lambda>m'. mem_wf m' \<and> mem_size m' = mem_size m \<and>
     mem_read m' i (length bs) = Some bs \<and>
     (\<forall>k < mem_size m. k < i \<or> i + length bs \<le> k \<longrightarrow> mem_get m' k = mem_get m k))"
proof -
  have fit: "i + length bs \<le> length (mem_data m)" using assms(2) by (simp add: mem_size_def)
  then obtain d where d: "splice_opt (mem_data m) i bs = Some d" by simp
  have len: "length d = length (mem_data m)" by (rule splice_opt_length [OF d])
  have nth: "d ! k = (if i \<le> k \<and> k < i + length bs then bs ! (k - i) else mem_data m ! k)"
    if "k < length (mem_data m)" for k
    by (rule splice_opt_nth [OF d that])
  have "take (length bs) (drop i d) = bs"
    by (rule nth_equalityI) (use fit len nth in simp_all)
  moreover have "mem_get (m\<lparr>mem_data := d\<rparr>) k = mem_get m k"
    if "k < length (mem_data m)" "k < i \<or> i + length bs \<le> k" for k
    using nth [OF that(1)] that len by (auto simp: mem_get_def)
  ultimately show ?thesis
    using assms(1) fit len
    by (simp add: mem_write_def d mem_read_def mem_wf_def mem_size_def del: splice_opt_Some)
qed

theorem memory_write_read_witness:
  "total (mem_write \<lparr>mem_data = replicate 32 0, mem_capacity = 4096\<rparr> 1 [7, 8])
     (\<lambda>m'. mem_read m' 1 (length [7 :: byte, 8]) = Some [7, 8])"
  by (rule total_mono [OF memory_write_read])
    (simp_all add: mem_wf_def mem_size_def page_size_def)

text \<open>
  C16. The class \<open>Memory\<close> on the heap does what the list of bytes the interpreter is modelled with
  does: whatever is grown, written and cleared between construction and destruction, if the
  list has a result, the object is never used outside its block, every range that can be
  read from the list is read with the same bytes through the pointer of the object, although
  \<open>realloc\<close> may move the block and fills what it adds with anything, and the destructor leaves
  the heap exactly as it was before the constructor. No address in the heap is null.
\<close>

theorem memory_objects_refine:
  assumes "mem_new L = Some m0" and "mem_calls L cs m0 = Some m" and "0 \<notin> fst ` set h"
  shows "\<exists>this h'. Option.bind (obj_new L junk h) (obj_calls L junk cs) = Some (this, h') \<and>
    m_size this = mem_size m \<and> (\<forall>i n bs. mem_read m i n = Some bs \<longrightarrow> obj_read this i n h' = Some bs) \<and>
    obj_free this h' = Some h"
proof -
  obtain this1 h1 where start: "obj_new L junk h = Some (this1, h1)" "implements h this1 h1 m0"
    using implements_new [OF assms(1,3)] by blast
  from implements_calls [OF start(2) assms(2)] obtain this' h' where
    "obj_calls L junk cs (this1, h1) = Some (this', h')" and impl: "implements h this' h' m"
    by blast
  then show ?thesis
    using start(1) implements_size [OF impl] implements_read [OF impl] implements_free [OF impl] by auto
qed

text \<open>The heap holds another block, and the bytes of the allocation are \<open>0xcc\<close>.\<close>

theorem memory_objects_refine_witness:
  "\<exists>this h'. Option.bind (obj_new reference_libs (\<lambda>_. 0xcc) [(1, [9])])
      (obj_calls reference_libs (\<lambda>_. 0xcc) [Mem_grow 64, Mem_write 3 [1, 2]]) = Some (this, h') \<and>
    obj_read this 2 4 h' = Some [0, 1, 2, 0] \<and> obj_free this h' = Some [(1, [9])]"
proof -
  let ?m = "\<lparr>mem_data = [0, 0, 0, 1, 2] @ replicate 59 0, mem_capacity = 4096\<rparr>"
  have start: "mem_new reference_libs = Some \<lparr>mem_data = [], mem_capacity = 4096\<rparr>"
    by (simp add: mem_new_def allocate_capacity_def reference_libs_def page_size_def)
  have grow: "mem_grow reference_libs 64 \<lparr>mem_data = [], mem_capacity = 4096\<rparr> =
      Some \<lparr>mem_data = replicate 64 0, mem_capacity = 4096\<rparr>"
    by (simp add: mem_grow_def mem_size_def reference_libs_def cassert_def)
  have "replicate 64 (0 :: byte) = [0, 0, 0, 0, 0] @ replicate 59 0" by (simp add: numeral_eq_Suc)
  then have "mem_write \<lparr>mem_data = replicate 64 0, mem_capacity = 4096\<rparr> 3 [1, 2] = Some ?m"
    by (simp add: mem_write_def eval_nat_numeral)
  then have "mem_calls reference_libs [Mem_grow 64, Mem_write 3 [1, 2]] \<lparr>mem_data = [], mem_capacity = 4096\<rparr> = Some ?m"
    by (simp add: grow)
  moreover have "mem_read ?m 2 4 = Some [0, 1, 2, 0]"
    by (simp add: mem_read_def numeral_eq_Suc)
  ultimately show ?thesis
    using memory_objects_refine [OF start, of "[Mem_grow 64, Mem_write 3 [1, 2]]" ?m "[(1, [9])]" "\<lambda>_. 0xcc"]
    by fastforce
qed

subsection \<open>Printed entries\<close>

text \<open>
  C29. The line that is written for an entry of the trace determines the entry up to its call
  identifier, its field and, unless it is a storage operation, its key: whichever of the two
  bases the stream is in, the lines of two entries are the same exactly when the operations,
  identifiers, addresses, directions and both values agree, and for storage operations also
  the keys. Afterwards the stream is in base 10.
\<close>

theorem printed_entries:
  assumes "intx_api L" and "os_base os = 10 \<or> os_base os = 16" and "rw_op x < 13" and "rw_op y < 13"
  shows "os_base (put_rw L x os) = 10 \<and> (put_rw L x os = put_rw L y os \<longleftrightarrow>
    rw_op x = rw_op y \<and> rw_id x = rw_id y \<and> rw_address x = rw_address y \<and>
    (storage_op (rw_op x) \<longrightarrow> rw_storage_key x = rw_storage_key y) \<and> rw_is_write x = rw_is_write y \<and>
    rw_value_prev x = rw_value_prev y \<and> rw_value x = rw_value y)"
proof -
  have b: "2 \<le> os_base os" "os_base os \<le> 16" using assms(2) by auto
  have "put_rw L z os = \<lparr>os_text = os_text os @ rw_text L (os_base os) z, os_base = 10\<rparr>" for z
    using put_rw_text [of L z "os_text os" "os_base os"] by (cases os) (simp only: ostream.simps)
  then show ?thesis by (simp add: intx_api.rw_text_cancel [OF assms(1) b assms(3,4)])
qed

text \<open>Two calls write the same line for their padding, and another one than the start entry.\<close>

theorem printed_entries_witness:
  "put_rw reference_libs (padding_operation\<lparr>rw_call_id := 7\<rparr>) \<lparr>os_text = [], os_base = 10\<rparr> =
     put_rw reference_libs padding_operation \<lparr>os_text = [], os_base = 10\<rparr> \<and>
   put_rw reference_libs start_operation \<lparr>os_text = [], os_base = 10\<rparr> \<noteq>
     put_rw reference_libs padding_operation \<lparr>os_text = [], os_base = 10\<rparr>"
  using printed_entries [OF ref.intx_api_axioms, of "\<lparr>os_text = [], os_base = 10\<rparr>"]
  by (simp add: padding_operation_def start_operation_def)

end
