(* ===== verification/State.thy ===== *)
theory State
  imports Memory Rw_Operation Eof_Header
begin

text \<open>
  The state of a running contract (\<open>class ExecutionState\<close> and \<open>StackSpace\<close> of
  \<open>evmone/execution_state.hpp\<close>, \<open>CodeAnalysis\<close> of \<open>evmone/baseline.hpp\<close>), access to the
  stack through \<open>StackTop\<close> (\<open>evmone/instructions.hpp\<close>), the calls of \<open>evmc::HostContext\<close>
  and the entries that the handlers append to the read/write trace.

  A pointer into the stack is the index of the slot it points to, so the bottom pointer is
  \<open>- 1\<close> and the stack height is the top pointer plus one. A pointer into the code is its
  distance from \<open>executable_code.data()\<close>. Shared ownership plays no part: the analysis and
  the message are never changed while the contract runs.

  The third-party functions and the host callbacks are one parameter, the environment.
\<close>

record 'h env = libs +
  hif :: "'h host_interface"

record code_analysis =
  code_buffer :: "byte list"
  executable_offset :: nat
  executable_size :: nat
  jumpdest_map :: "bool list"
  analysis_header :: eof1_header

record 'h exec_state =
  gas_refund :: int
  memory :: memory
  msg :: evmc_message
  host :: 'h
  revision :: evmc_revision
  return_data :: "byte list"
  original_code :: "byte list"
  state_data :: "byte list"
  status :: evmc_status_code
  output_offset :: nat
  output_size :: nat
  call_id :: nat
  rw_trace :: "rw_operation list"
  m_tx :: evmc_tx_context
  analysis :: code_analysis
  call_stack :: "int list"
  stack_space :: "zkevm_word list"

definition stack_limit :: nat where
  "stack_limit = 1024"

abbreviation stack_bottom :: int where
  "stack_bottom \<equiv> - 1"

text \<open>The constructor. The stack slots are zero words.\<close>

definition exec_state_init ::
  "'h env \<Rightarrow> evmc_message \<Rightarrow> evmc_revision \<Rightarrow> 'h \<Rightarrow> byte list \<Rightarrow> byte list \<Rightarrow> nat \<Rightarrow>
   code_analysis \<Rightarrow> 'h exec_state option" where
  "exec_state_init E message r ctx code data cid an = do {
     mem \<leftarrow> mem_new E;
     Some \<lparr>gas_refund = 0, memory = mem, msg = message, host = ctx, revision = r,
       return_data = [], original_code = code, state_data = data, status = EVMC_SUCCESS,
       output_offset = 0, output_size = 0, call_id = cid, rw_trace = [],
       m_tx = zero_tx_context, analysis = an, call_stack = [],
       stack_space = replicate stack_limit 0\<rparr> }"

definition exec_state_reset ::
  "evmc_message \<Rightarrow> evmc_revision \<Rightarrow> 'h \<Rightarrow> byte list \<Rightarrow> byte list \<Rightarrow> 'h exec_state \<Rightarrow> 'h exec_state" where
  "exec_state_reset message r ctx code data s =
     s\<lparr>gas_refund := 0, memory := mem_clear (memory s), msg := message, host := ctx,
       revision := r, return_data := [], original_code := code, state_data := data,
       status := EVMC_SUCCESS, output_offset := 0, output_size := 0,
       m_tx := zero_tx_context\<rparr>"

definition in_static_mode :: "'h exec_state \<Rightarrow> bool" where
  "in_static_mode s \<longleftrightarrow> msg_flags (msg s) AND EVMC_STATIC \<noteq> 0"

definition get_tx_context :: "'h env \<Rightarrow> 'h exec_state \<Rightarrow> evmc_tx_context \<times> 'h exec_state" where
  "get_tx_context E s =
     (let s = (if block_timestamp (m_tx s) = 0
               then s\<lparr>m_tx := get_tx_context_fn (hif E) (host s)\<rparr> else s)
      in (m_tx s, s))"

subsection \<open>Stack\<close>

definition stack_at :: "'h exec_state \<Rightarrow> int \<Rightarrow> int \<Rightarrow> zkevm_word option" where
  "stack_at s tp index =
     (if 0 \<le> tp - index then nth_opt (stack_space s) (nat (tp - index)) else None)"

definition stack_set :: "'h exec_state \<Rightarrow> int \<Rightarrow> int \<Rightarrow> zkevm_word \<Rightarrow> 'h exec_state option" where
  "stack_set s tp index v =
     (if 0 \<le> tp - index \<and> nat (tp - index) < length (stack_space s)
      then Some (s\<lparr>stack_space := (stack_space s)[nat (tp - index) := v]\<rparr>) else None)"

text \<open>\<open>push\<close> stores above the top; the moved top pointer is returned with the state.\<close>

definition stack_push :: "'h exec_state \<Rightarrow> int \<Rightarrow> zkevm_word \<Rightarrow> (int \<times> 'h exec_state) option" where
  "stack_push s tp v = do {
     s \<leftarrow> stack_set s (tp + 1) 0 v;
     Some (tp + 1, s) }"

definition stack_size :: "int \<Rightarrow> u16" where
  "stack_size tp = (if tp > stack_bottom then word_of_int (tp - stack_bottom) else 0)"

subsection \<open>Code\<close>

definition code_byte :: "'h exec_state \<Rightarrow> int \<Rightarrow> byte option" where
  "code_byte s pos =
     (let i = int (executable_offset (analysis s)) + pos
      in if 0 \<le> i then nth_opt (code_buffer (analysis s)) (nat i) else None)"

subsection \<open>Trace entries\<close>

text \<open>
  \<open>state.rw_trace.push_back(stack_operation(state.call_id, stack.size(bottom) - k,
  state.rw_trace.size(), is_write, v))\<close>; the difference is an \<open>int\<close> that the parameter
  narrows to 16 bits.
\<close>

definition log_stack ::
  "'h env \<Rightarrow> 'h exec_state \<Rightarrow> int \<Rightarrow> int \<Rightarrow> bool \<Rightarrow> zkevm_word \<Rightarrow> 'h exec_state option" where
  "log_stack E s tp k is_write v = do {
     e \<leftarrow> stack_operation E (call_id s) (word_of_int (uint (stack_size tp) - k))
           (length (rw_trace s)) is_write v;
     Some (s\<lparr>rw_trace := rw_trace s @ [e]\<rparr>) }"

text \<open>The same with the value read from \<open>stack[i]\<close>.\<close>

definition log_stack_at ::
  "'h env \<Rightarrow> 'h exec_state \<Rightarrow> int \<Rightarrow> int \<Rightarrow> bool \<Rightarrow> int \<Rightarrow> 'h exec_state option" where
  "log_stack_at E s tp k is_write i = do {
     v \<leftarrow> stack_at s tp i;
     log_stack E s tp k is_write v }"

definition log_memory ::
  "'h env \<Rightarrow> 'h exec_state \<Rightarrow> zkevm_word \<Rightarrow> bool \<Rightarrow> zkevm_word \<Rightarrow> 'h exec_state option" where
  "log_memory E s address is_write v = do {
     e \<leftarrow> memory_operation E (call_id s) address (length (rw_trace s)) is_write v;
     Some (s\<lparr>rw_trace := rw_trace s @ [e]\<rparr>) }"

definition log_storage ::
  "'h exec_state \<Rightarrow> zkevm_word \<Rightarrow> zkevm_word \<Rightarrow> bool \<Rightarrow> zkevm_word \<Rightarrow> zkevm_word \<Rightarrow> 'h exec_state" where
  "log_storage s address key is_write v v_prev =
     s\<lparr>rw_trace := rw_trace s @
         [storage_operation (call_id s) address key (length (rw_trace s)) is_write v v_prev]\<rparr>"

subsection \<open>Host calls\<close>

definition host_account_exists :: "'h env \<Rightarrow> 'h exec_state \<Rightarrow> evmc_address \<Rightarrow> bool \<times> 'h exec_state" where
  "host_account_exists E s a =
     (let (r, h) = account_exists_fn (hif E) (host s) a in (r, s\<lparr>host := h\<rparr>))"

definition host_get_storage ::
  "'h env \<Rightarrow> 'h exec_state \<Rightarrow> evmc_address \<Rightarrow> evmc_bytes32 \<Rightarrow> evmc_bytes32 \<times> 'h exec_state" where
  "host_get_storage E s a k =
     (let (r, h) = get_storage_fn (hif E) (host s) a k in (r, s\<lparr>host := h\<rparr>))"

definition host_set_storage ::
  "'h env \<Rightarrow> 'h exec_state \<Rightarrow> evmc_address \<Rightarrow> evmc_bytes32 \<Rightarrow> evmc_bytes32 \<Rightarrow>
   evmc_storage_status \<times> 'h exec_state" where
  "host_set_storage E s a k v =
     (let (r, h) = set_storage_fn (hif E) (host s) a k v in (r, s\<lparr>host := h\<rparr>))"

definition host_get_balance :: "'h env \<Rightarrow> 'h exec_state \<Rightarrow> evmc_address \<Rightarrow> evmc_bytes32 \<times> 'h exec_state" where
  "host_get_balance E s a =
     (let (r, h) = get_balance_fn (hif E) (host s) a in (r, s\<lparr>host := h\<rparr>))"

definition host_get_code_size :: "'h env \<Rightarrow> 'h exec_state \<Rightarrow> evmc_address \<Rightarrow> nat \<times> 'h exec_state" where
  "host_get_code_size E s a =
     (let (r, h) = get_code_size_fn (hif E) (host s) a in (r, s\<lparr>host := h\<rparr>))"

definition host_get_code_hash :: "'h env \<Rightarrow> 'h exec_state \<Rightarrow> evmc_address \<Rightarrow> evmc_bytes32 \<times> 'h exec_state" where
  "host_get_code_hash E s a =
     (let (r, h) = get_code_hash_fn (hif E) (host s) a in (r, s\<lparr>host := h\<rparr>))"

definition host_copy_code ::
  "'h env \<Rightarrow> 'h exec_state \<Rightarrow> evmc_address \<Rightarrow> nat \<Rightarrow> nat \<Rightarrow> byte list \<times> 'h exec_state" where
  "host_copy_code E s a off n =
     (let (r, h) = copy_code_fn (hif E) (host s) a off n in (r, s\<lparr>host := h\<rparr>))"

definition host_selfdestruct ::
  "'h env \<Rightarrow> 'h exec_state \<Rightarrow> evmc_address \<Rightarrow> evmc_address \<Rightarrow> bool \<times> 'h exec_state" where
  "host_selfdestruct E s a b =
     (let (r, h) = selfdestruct_fn (hif E) (host s) a b in (r, s\<lparr>host := h\<rparr>))"

definition host_call :: "'h env \<Rightarrow> 'h exec_state \<Rightarrow> evmc_message \<Rightarrow> (evmc_result \<times> 'h exec_state) option" where
  "host_call E s m = do {
     (r, h) \<leftarrow> call_fn (hif E) (host s) m;
     Some (r, s\<lparr>host := h\<rparr>) }"

definition host_get_block_hash :: "'h env \<Rightarrow> 'h exec_state \<Rightarrow> int \<Rightarrow> evmc_bytes32" where
  "host_get_block_hash E s n = get_block_hash_fn (hif E) (host s) n"

definition host_emit_log ::
  "'h env \<Rightarrow> 'h exec_state \<Rightarrow> evmc_address \<Rightarrow> byte list \<Rightarrow> evmc_bytes32 list \<Rightarrow> 'h exec_state" where
  "host_emit_log E s a log_data topics = s\<lparr>host := emit_log_fn (hif E) (host s) a log_data topics\<rparr>"

definition host_access_account ::
  "'h env \<Rightarrow> 'h exec_state \<Rightarrow> evmc_address \<Rightarrow> evmc_access_status \<times> 'h exec_state" where
  "host_access_account E s a =
     (let (r, h) = access_account_fn (hif E) (host s) a in (r, s\<lparr>host := h\<rparr>))"

definition host_access_storage ::
  "'h env \<Rightarrow> 'h exec_state \<Rightarrow> evmc_address \<Rightarrow> evmc_bytes32 \<Rightarrow> evmc_access_status \<times> 'h exec_state" where
  "host_access_storage E s a k =
     (let (r, h) = access_storage_fn (hif E) (host s) a k in (r, s\<lparr>host := h\<rparr>))"

definition host_get_transient_storage ::
  "'h env \<Rightarrow> 'h exec_state \<Rightarrow> evmc_address \<Rightarrow> evmc_bytes32 \<Rightarrow> evmc_bytes32 \<times> 'h exec_state" where
  "host_get_transient_storage E s a k =
     (let (r, h) = get_transient_storage_fn (hif E) (host s) a k in (r, s\<lparr>host := h\<rparr>))"

definition host_set_transient_storage ::
  "'h env \<Rightarrow> 'h exec_state \<Rightarrow> evmc_address \<Rightarrow> evmc_bytes32 \<Rightarrow> evmc_bytes32 \<Rightarrow> 'h exec_state" where
  "host_set_transient_storage E s a k v =
     s\<lparr>host := set_transient_storage_fn (hif E) (host s) a k v\<rparr>"

lemmas host_defs = host_account_exists_def host_get_storage_def host_set_storage_def
  host_get_balance_def host_get_code_size_def host_get_code_hash_def host_copy_code_def
  host_selfdestruct_def host_access_account_def host_access_storage_def
  host_get_transient_storage_def host_set_transient_storage_def

subsection \<open>What every operation leaves alone\<close>

text \<open>
  \<open>appended c tr tr'\<close>: \<open>tr'\<close> is \<open>tr\<close> followed by entries of call \<open>c\<close> that are numbered by their
  positions. \<open>frame s s'\<close>: between the two states the trace was only appended to, the call,
  its message, revision and code are the same, the stack area has its size and a well-formed
  memory stayed well formed.
\<close>

definition appended :: "nat \<Rightarrow> rw_operation list \<Rightarrow> rw_operation list \<Rightarrow> bool" where
  "appended c tr tr' \<longleftrightarrow> (\<exists>es. tr' = tr @ es \<and> map rw_id es = [length tr..<length tr'] \<and>
     (\<forall>e \<in> set es. rw_call_id e = c))"

text \<open>The output of a call is a range of its memory.\<close>

definition output_in :: "'h exec_state \<Rightarrow> bool" where
  "output_in s \<longleftrightarrow> range_ok (memory s) (output_offset s) (output_size s)"

lemma output_in_memory: "output_in s \<Longrightarrow> mem_kept (memory s) m \<Longrightarrow> output_in (s\<lparr>memory := m\<rparr>)"
  by (auto simp: output_in_def range_ok_def mem_kept_def)

definition frame :: "'h exec_state \<Rightarrow> 'h exec_state \<Rightarrow> bool" where
  "frame s s' \<longleftrightarrow>
     appended (call_id s) (rw_trace s) (rw_trace s') \<and> call_id s' = call_id s \<and>
     msg s' = msg s \<and> revision s' = revision s \<and> analysis s' = analysis s \<and>
     original_code s' = original_code s \<and> state_data s' = state_data s \<and>
     length (stack_space s') = length (stack_space s) \<and>
     mem_kept (memory s) (memory s') \<and> (output_in s \<longrightarrow> output_in s')"

lemma appended_refl [simp]: "appended c tr tr"
  by (simp add: appended_def)

lemma appended_trans: "appended c tr tr' \<Longrightarrow> appended c tr' tr'' \<Longrightarrow> appended c tr tr''"
proof -
  assume "appended c tr tr'" and "appended c tr' tr''"
  then obtain es fs where *: "tr' = tr @ es" "map rw_id es = [length tr..<length tr']"
      "\<forall>e \<in> set es. rw_call_id e = c" "tr'' = tr' @ fs"
      "map rw_id fs = [length tr'..<length tr'']" "\<forall>e \<in> set fs. rw_call_id e = c"
    by (auto simp: appended_def)
  have "map rw_id (es @ fs) = [length tr..<length tr'']"
    using * upt_add_eq_append [of "length tr" "length tr'" "length fs"] by (simp add: add.assoc)
  with * show ?thesis
    by (auto simp: appended_def intro!: exI [of _ "es @ fs"])
qed

lemma appended_snoc:
  "appended c tr tr' \<Longrightarrow> rw_id e = length tr' \<Longrightarrow> rw_call_id e = c \<Longrightarrow> appended c tr (tr' @ [e])"
  by (rule appended_trans [of c tr tr']) (auto simp: appended_def)

lemma appended_ids_ok: "appended c tr tr' \<Longrightarrow> ids_ok tr \<Longrightarrow> ids_ok tr'"
proof -
  assume "appended c tr tr'" and "ids_ok tr"
  then obtain es where "tr' = tr @ es" "map rw_id es = [length tr..<length tr']"
    by (auto simp: appended_def)
  with \<open>ids_ok tr\<close> show ?thesis
    unfolding ids_ok_def using upt_add_eq_append [of 0 "length tr" "length es"] by simp
qed

lemma frame_refl [simp, intro]: "frame s s"
  by (simp add: frame_def)

lemma frame_trans: "frame s s' \<Longrightarrow> frame s' s'' \<Longrightarrow> frame s s''"
  by (auto simp: frame_def intro: appended_trans mem_kept_trans)

lemma frame_updates [frame_simps]:
  "frame s0 (s\<lparr>gas_refund := g\<rparr>) = frame s0 s"
  "frame s0 (s\<lparr>host := h\<rparr>) = frame s0 s"
  "frame s0 (s\<lparr>return_data := r\<rparr>) = frame s0 s"
  "frame s0 (s\<lparr>status := st\<rparr>) = frame s0 s"
  "frame s0 (s\<lparr>m_tx := t\<rparr>) = frame s0 s"
  "frame s0 (s\<lparr>call_stack := c\<rparr>) = frame s0 s"
  by (simp_all add: frame_def output_in_def)

declare frame_updates [simp]

lemma frame_memory:
  "frame s0 s \<Longrightarrow> mem_kept (memory s) m \<Longrightarrow> frame s0 (s\<lparr>memory := m\<rparr>)"
  using mem_kept_trans [of "memory s0" "memory s" m] by (auto simp: frame_def output_in_memory)

text \<open>An output whose range the memory check has allowed.\<close>

lemma frame_allowed_output:
  assumes "frame s0 s" and "mem_kept (memory s) m" and "range_ok m i n"
  shows "frame s0 (s\<lparr>memory := m, output_size := n, output_offset := i\<rparr>)"
    and "n = 0 \<Longrightarrow> frame s0 (s\<lparr>memory := m, output_size := n\<rparr>)"
  using frame_memory [OF assms(1,2)] assms(3) by (simp_all add: frame_def output_in_def range_ok_def)

lemma frame_stack_set [trace_intros]: "frame s0 s \<Longrightarrow> post (stack_set s tp i v) (frame s0)"
  by (simp add: stack_set_def frame_def output_in_def)

lemma frame_stack_push [trace_intros]:
  "frame s0 s \<Longrightarrow> post (stack_push s tp v) (\<lambda>(_, s'). frame s0 s')"
  by (auto simp: stack_push_def post_bind intro: post_mono [OF frame_stack_set])

lemma frame_stack_at [trace_intros]: "post (stack_at s tp i) (\<lambda>_. True)"
  by (cases "stack_at s tp i") simp_all

lemma frame_log_stack [trace_intros]: "frame s0 s \<Longrightarrow> post (log_stack E s tp k w v) (frame s0)"
  by (simp add: log_stack_def stack_operation_def post_rules frame_def output_in_def appended_snoc)

lemma frame_log_stack_at [trace_intros]:
  "frame s0 s \<Longrightarrow> post (log_stack_at E s tp k w i) (frame s0)"
  unfolding log_stack_at_def by (intro post_bindI [OF frame_stack_at] frame_log_stack)

lemma frame_log_memory [trace_intros]: "frame s0 s \<Longrightarrow> post (log_memory E s a w v) (frame s0)"
  by (simp add: log_memory_def memory_operation_def post_rules frame_def output_in_def appended_snoc)

lemma frame_log_storage [trace_intros]: "frame s0 s \<Longrightarrow> frame s0 (log_storage s a k w v v')"
  by (simp add: log_storage_def storage_operation_def frame_def output_in_def appended_snoc)

lemma frame_get_tx_context [trace_intros]:
  "frame s0 s \<Longrightarrow> frame s0 (snd (get_tx_context E s))"
  by (simp add: get_tx_context_def Let_def)

lemma frame_host_snd [trace_intros]:
  "frame s0 s \<Longrightarrow> frame s0 (snd (host_account_exists E s a))"
  "frame s0 s \<Longrightarrow> frame s0 (snd (host_get_storage E s a k))"
  "frame s0 s \<Longrightarrow> frame s0 (snd (host_set_storage E s a k v))"
  "frame s0 s \<Longrightarrow> frame s0 (snd (host_get_balance E s a))"
  "frame s0 s \<Longrightarrow> frame s0 (snd (host_get_code_size E s a))"
  "frame s0 s \<Longrightarrow> frame s0 (snd (host_get_code_hash E s a))"
  "frame s0 s \<Longrightarrow> frame s0 (snd (host_copy_code E s a n n'))"
  "frame s0 s \<Longrightarrow> frame s0 (snd (host_selfdestruct E s a b))"
  "frame s0 s \<Longrightarrow> frame s0 (snd (host_access_account E s a))"
  "frame s0 s \<Longrightarrow> frame s0 (snd (host_access_storage E s a k))"
  "frame s0 s \<Longrightarrow> frame s0 (snd (host_get_transient_storage E s a k))"
  "frame s0 s \<Longrightarrow> frame s0 (host_set_transient_storage E s a k v)"
  by (simp_all add: host_defs split: prod.split)

lemma frame_host_call [trace_intros]:
  "frame s0 s \<Longrightarrow> post (host_call E s m) (\<lambda>(_, s'). frame s0 s')"
  by (auto simp: host_call_def bind_eq_Some_conv intro!: postI)

text \<open>
  The rules with which a handler's frame is derived: a step that yields a state carries the
  frame on, a step that only reads a value is skipped. They are told apart by their types.
\<close>

lemma frame_bind:
  fixes m :: "'h exec_state option" and s :: "'h exec_state"
  assumes "post m (frame s)" and "\<And>s'. frame s s' \<Longrightarrow> post (f s') Q"
  shows "post (Option.bind m f) Q"
  using assms by (rule post_bindI)

lemma frame_bind_push:
  assumes "frame s s1" and "\<And>tp' s'. frame s s' \<Longrightarrow> post (f tp' s') Q"
  shows "post (Option.bind (stack_push s1 tp v) (\<lambda>(tp', s'). f tp' s')) Q"
  using assms by (auto intro: post_bindI [OF frame_stack_push])

lemma frame_bind_call:
  assumes "frame s s1" and "\<And>r s'. frame s s' \<Longrightarrow> post (f r s') Q"
  shows "post (Option.bind (host_call E s1 m) (\<lambda>(r, s'). f r s')) Q"
  using assms by (auto intro: post_bindI [OF frame_host_call])

lemma frame_bind_check:
  assumes "\<And>ok g' m'. mem_kept m m' \<Longrightarrow> post (f ok g' m') Q"
  shows "post (Option.bind (check_memory L g m off n) (\<lambda>(ok, g', m'). f ok g' m')) Q"
    and "post (Option.bind (check_memory_copy L g m off k) (\<lambda>(ok, g', m'). f ok g' m')) Q"
  using assms by (auto intro: post_bindI [OF check_memory_post] post_bindI [OF check_memory_copy_post])

lemma frame_bind_write:
  assumes "\<And>m'. mem_kept m m' \<Longrightarrow> post (f m') Q"
  shows "post (Option.bind (mem_write m i bs) f) Q"
  using assms by (auto intro: post_bindI [OF mem_write_post])

lemma value_bind_word: "(\<And>x. post (f x) Q) \<Longrightarrow> post (Option.bind (m :: zkevm_word option) f) Q"
  by (rule post_skip)

lemma value_bind_bytes: "(\<And>x. post (f x) Q) \<Longrightarrow> post (Option.bind (m :: byte list option) f) Q"
  by (rule post_skip)

lemma value_bind_byte: "(\<And>x. post (f x) Q) \<Longrightarrow> post (Option.bind (m :: byte option) f) Q"
  by (rule post_skip)

lemma value_bind_unit: "(\<And>x. post (f x) Q) \<Longrightarrow> post (Option.bind (m :: unit option) f) Q"
  by (rule post_skip)

lemma value_bind_int: "(\<And>x. post (f x) Q) \<Longrightarrow> post (Option.bind (m :: int option) f) Q"
  by (rule post_skip)

lemma value_bind_u16: "(\<And>x. post (f x) Q) \<Longrightarrow> post (Option.bind (m :: u16 option) f) Q"
  by (rule post_skip)

lemma value_bind_bool: "(\<And>x. post (f x) Q) \<Longrightarrow> post (Option.bind (m :: bool option) f) Q"
  by (rule post_skip)

lemma value_bind_nat: "(\<And>x. post (f x) Q) \<Longrightarrow> post (Option.bind (m :: nat option) f) Q"
  by (rule post_skip)

lemmas value_binds = value_bind_word value_bind_bytes value_bind_byte value_bind_unit value_bind_int value_bind_u16 value_bind_bool value_bind_nat

lemma frame_Some: "frame s s' \<Longrightarrow> post (Some s') (frame s)"
  by simp

lemma frame_result: "frame s s' \<Longrightarrow> post (Some (st, g, s')) (\<lambda>(_, _, s'). frame s s')"
  by simp

lemma frame_pair:
  fixes p :: "'x \<times> 'h exec_state"
  assumes "frame s (snd p)" and "\<And>r s'. frame s s' \<Longrightarrow> post (f r s') Q"
  shows "post (case p of (r, s') \<Rightarrow> f r s') Q"
  using assms by (cases p) simp

lemma frame_triple:
  fixes p :: "'x \<times> 'y \<times> 'h exec_state"
  assumes "frame s (snd (snd p))" and "\<And>a b s'. frame s s' \<Longrightarrow> post (f a b s') Q"
  shows "post (case p of (a, b, s') \<Rightarrow> f a b s') Q"
  using assms by (cases p) simp

lemma value_pair: "(\<And>a b. post (f a b) Q) \<Longrightarrow> post (case (p :: nat \<times> nat) of (a, b) \<Rightarrow> f a b) Q"
  by (cases p) simp

lemma bind_ifI:
  "(c \<Longrightarrow> post (Option.bind m1 f) Q) \<Longrightarrow> (\<not> c \<Longrightarrow> post (Option.bind m2 f) Q) \<Longrightarrow>
   post (Option.bind (if c then m1 else m2) f) Q"
  by simp

lemma bind_SomeI: "post (f x) Q \<Longrightarrow> post (Option.bind (Some x) f) Q"
  by simp

lemma bind_NoneI: "post (Option.bind None f) Q"
  by simp

lemma frame_sndI:
  "frame s s' \<Longrightarrow> frame s (snd (x, s'))"
  "frame s s' \<Longrightarrow> frame s (snd (snd (x, y, s')))"
  by simp_all

lemmas frame_steps = frame_bind frame_bind_push frame_bind_call frame_pair frame_triple

lemmas frame_rules = frame_bind_check frame_bind_write value_binds value_pair bind_ifI bind_SomeI
  bind_NoneI frame_sndI post_ifI frame_Some frame_result frame_memory

end
