(* ===== verification/Stack_Trace.thy ===== *)
theory Stack_Trace
  imports State
begin

text \<open>
  What the stack entries of a trace say about the stack. The read/write circuit checks a trace
  by replaying it: a read must return the value last written to its address. \<open>shadow\<close> is the
  stack such a replay rebuilds, \<open>reads_ok\<close> says that every read of the trace agrees with
  it, and \<open>synced s n\<close> that it also agrees with the lowest \<open>n\<close> slots of the real stack.

  \<open>stack_ready\<close> is what a handler may assume of the stack after \<open>check_requirements\<close>, and the
  lemmas give the stack primitives in closed form under it.
\<close>

definition stack_entry :: "nat \<Rightarrow> nat \<Rightarrow> nat \<Rightarrow> bool \<Rightarrow> zkevm_word \<Rightarrow> rw_operation" where
  "stack_entry c slot rid w v =
     \<lparr>rw_op = STACK_OP, rw_call_id = c, rw_address = word_of_nat slot, rw_field = 0,
      rw_storage_key = 0, rw_id = rid, rw_is_write = w, rw_value = v, rw_value_prev = 0\<rparr>"

definition stack_ready :: "'h exec_state \<Rightarrow> int \<Rightarrow> nat \<Rightarrow> bool" where
  "stack_ready s tp n \<longleftrightarrow> call_id s < max_call_id \<and> length (stack_space s) = stack_limit \<and>
     int n \<le> tp + 1 \<and> tp < int stack_limit"

subsection \<open>The primitives in closed form\<close>

lemma uint_u16: "0 \<le> x \<Longrightarrow> x < 65536 \<Longrightarrow> uint (word_of_int x :: u16) = x"
  by (simp add: unsigned_of_int take_bit_int_eq_self)

lemma uint_stack_size: "- 1 \<le> tp \<Longrightarrow> tp < 1024 \<Longrightarrow> uint (stack_size tp) = tp + 1"
  using uint_u16 [of "tp + 1"] by (simp add: stack_size_def)

lemma log_stack_eq:
  assumes "call_id s < max_call_id" "- 1 \<le> tp" "tp < 1024" "0 \<le> tp + 1 - k" "tp + 1 - k < 1024"
  shows "log_stack E s tp k w v = Some (s\<lparr>rw_trace := rw_trace s @
     [stack_entry (call_id s) (nat (tp + 1 - k)) (length (rw_trace s)) w v]\<rparr>)"
proof -
  let ?a = "word_of_int (tp + 1 - k) :: u16"
  have "uint ?a = tp + 1 - k"
    using assms by (intro uint_u16) simp_all
  then have "?a < 1024" and "(ucast ?a :: zkevm_word) = word_of_nat (nat (tp + 1 - k))"
    using assms by (simp_all add: word_less_def ucast_eq)
  then show ?thesis
    using assms by (simp add: log_stack_def stack_operation_def uint_stack_size stack_entry_def)
qed

lemma stack_at_eq:
  "0 \<le> tp - i \<Longrightarrow> tp - i < int (length (stack_space s)) \<Longrightarrow>
   stack_at s tp i = Some (stack_space s ! nat (tp - i))"
  by (simp add: stack_at_def nat_less_iff)

lemma stack_set_eq:
  "0 \<le> tp - i \<Longrightarrow> tp - i < int (length (stack_space s)) \<Longrightarrow>
   stack_set s tp i v = Some (s\<lparr>stack_space := (stack_space s)[nat (tp - i) := v]\<rparr>)"
  by (simp add: stack_set_def nat_less_iff)

lemmas stack_prims = log_stack_eq stack_at_eq stack_set_eq log_stack_at_def stack_push_def

subsection \<open>Replay\<close>

text \<open>The replay of the entries of one operation, \<open>op\<close>, from the values \<open>m\<close> of its addresses.\<close>

definition replay_step :: "byte \<Rightarrow> rw_operation \<Rightarrow> (nat \<Rightarrow> zkevm_word) \<Rightarrow> nat \<Rightarrow> zkevm_word" where
  "replay_step op e m = (if rw_op e = op \<and> rw_is_write e
     then m(unat (rw_address e) := rw_value e) else m)"

primrec replay :: "byte \<Rightarrow> (nat \<Rightarrow> zkevm_word) \<Rightarrow> rw_operation list \<Rightarrow> nat \<Rightarrow> zkevm_word" where
  "replay op m [] = m"
| "replay op m (e # es) = replay op (replay_step op e m) es"

primrec replay_reads :: "byte \<Rightarrow> (nat \<Rightarrow> zkevm_word) \<Rightarrow> rw_operation list \<Rightarrow> bool" where
  "replay_reads op m [] = True"
| "replay_reads op m (e # es) =
     ((rw_op e = op \<and> \<not> rw_is_write e \<longrightarrow> m (unat (rw_address e)) = rw_value e) \<and>
      replay_reads op (replay_step op e m) es)"

lemma replay_append [simp]: "replay op m (xs @ ys) = replay op (replay op m xs) ys"
  by (induction xs arbitrary: m) simp_all

lemma replay_reads_append [simp]:
  "replay_reads op m (xs @ ys) \<longleftrightarrow> replay_reads op m xs \<and> replay_reads op (replay op m xs) ys"
  by (induction xs arbitrary: m) auto

abbreviation shadow :: "(nat \<Rightarrow> zkevm_word) \<Rightarrow> rw_operation list \<Rightarrow> nat \<Rightarrow> zkevm_word" where
  "shadow \<equiv> replay STACK_OP"

abbreviation reads_ok :: "(nat \<Rightarrow> zkevm_word) \<Rightarrow> rw_operation list \<Rightarrow> bool" where
  "reads_ok \<equiv> replay_reads STACK_OP"

definition zero_stack :: "nat \<Rightarrow> zkevm_word" where
  "zero_stack = (\<lambda>_. 0)"

definition synced :: "'h exec_state \<Rightarrow> nat \<Rightarrow> bool" where
  "synced s n \<longleftrightarrow> reads_ok zero_stack (rw_trace s) \<and>
     (\<forall>i < n. shadow zero_stack (rw_trace s) i = stack_space s ! i)"

lemma unat_slot: "slot < 1024 \<Longrightarrow> unat (word_of_nat slot :: zkevm_word) = slot"
  by (simp add: unat_of_nat)

lemma stack_entry_simps [simp]:
  "rw_op (stack_entry c i r w v) = STACK_OP" "rw_is_write (stack_entry c i r w v) = w"
  "rw_value (stack_entry c i r w v) = v" "rw_id (stack_entry c i r w v) = r"
  "rw_call_id (stack_entry c i r w v) = c" "rw_address (stack_entry c i r w v) = word_of_nat i"
  by (simp_all add: stack_entry_def)

lemma replay_step_entry:
  "i < 1024 \<Longrightarrow> replay_step STACK_OP (stack_entry c i r w v) m = (if w then m(i := v) else m)"
  by (simp add: replay_step_def unat_slot)

lemmas replay_simps = replay_step_entry unat_slot synced_def stack_limit_def

lemma synced_mono: "synced s n \<Longrightarrow> k \<le> n \<Longrightarrow> synced s k"
  by (simp add: synced_def)

end
