(* ===== verification/Instr_Arith.thy ===== *)
theory Instr_Arith
  imports Stack_Trace
begin

text \<open>
  The arithmetic, comparison, bitwise and shift instructions of
  \<open>evmone/instructions.hpp\<close>. A handler gets the environment, the top pointer and the state.
  The value that the code computes for the stack is a definition of its own, so that the
  lemmas can speak about it; \<open>arith1\<close> and \<open>arith2\<close> are the statements the handlers of one
  and of two operands have in common: log the operands, pop, store the value, log it.
\<close>

subsection \<open>Common parts\<close>

text \<open>\<open>struct Result\<close>, with the state the handler changed.\<close>

type_synonym 'h result = "(evmc_status_code \<times> int \<times> 'h exec_state) option"

definition arith1 ::
  "(zkevm_word \<Rightarrow> zkevm_word) \<Rightarrow> 'h env \<Rightarrow> int \<Rightarrow> 'h exec_state \<Rightarrow> 'h exec_state option" where
  "arith1 f E tp s = do {
     s \<leftarrow> log_stack_at E s tp 1 False 0;
     x \<leftarrow> stack_at s tp 0;
     s \<leftarrow> stack_set s tp 0 (f x);
     log_stack_at E s tp 1 True 0 }"

definition arith2 ::
  "(zkevm_word \<Rightarrow> zkevm_word \<Rightarrow> zkevm_word) \<Rightarrow> 'h env \<Rightarrow> int \<Rightarrow> 'h exec_state \<Rightarrow>
   'h exec_state option" where
  "arith2 f E tp s = do {
     s \<leftarrow> log_stack_at E s tp 2 False 1;
     s \<leftarrow> log_stack_at E s tp 1 False 0;
     x \<leftarrow> stack_at s tp 0;
     let tp = tp - 1;
     y \<leftarrow> stack_at s tp 0;
     s \<leftarrow> stack_set s tp 0 (f x y);
     log_stack_at E s tp 1 True 0 }"

subsection \<open>Arithmetic\<close>

definition i_add :: "'h env \<Rightarrow> int \<Rightarrow> 'h exec_state \<Rightarrow> 'h exec_state option" where
  "i_add = arith2 (\<lambda>x y. zw_add y x)"

definition i_mul :: "'h env \<Rightarrow> int \<Rightarrow> 'h exec_state \<Rightarrow> 'h exec_state option" where
  "i_mul = arith2 (\<lambda>x y. zw_mul y x)"

definition i_sub :: "'h env \<Rightarrow> int \<Rightarrow> 'h exec_state \<Rightarrow> 'h exec_state option" where
  "i_sub = arith2 (\<lambda>x y. zw_sub x y)"

definition i_div :: "'h env \<Rightarrow> int \<Rightarrow> 'h exec_state \<Rightarrow> 'h exec_state option" where
  "i_div = arith2 (\<lambda>x v. if zw_ne_int v 0 then zw_div x v else 0)"

definition i_sdiv :: "'h env \<Rightarrow> int \<Rightarrow> 'h exec_state \<Rightarrow> 'h exec_state option" where
  "i_sdiv E = arith2 (\<lambda>x v. zw_sdiv E x v) E"

definition i_mod :: "'h env \<Rightarrow> int \<Rightarrow> 'h exec_state \<Rightarrow> 'h exec_state option" where
  "i_mod = arith2 (\<lambda>x v. if zw_ne_int v 0 then zw_mod x v else 0)"

definition i_smod :: "'h env \<Rightarrow> int \<Rightarrow> 'h exec_state \<Rightarrow> 'h exec_state option" where
  "i_smod E = arith2 (\<lambda>x v. zw_smod E x v) E"

definition i_addmod :: "'h env \<Rightarrow> int \<Rightarrow> 'h exec_state \<Rightarrow> 'h exec_state option" where
  "i_addmod E tp s = do {
     s \<leftarrow> log_stack_at E s tp 3 False 2;
     s \<leftarrow> log_stack_at E s tp 2 False 1;
     s \<leftarrow> log_stack_at E s tp 1 False 0;
     x \<leftarrow> stack_at s tp 0;
     let tp = tp - 1;
     y \<leftarrow> stack_at s tp 0;
     let tp = tp - 1;
     m \<leftarrow> stack_at s tp 0;
     s \<leftarrow> stack_set s tp 0 (zw_addmod E x y m);
     log_stack_at E s tp 1 True 0 }"

text \<open>\<open>mulmod\<close> reads through \<open>stack[i]\<close> and never pops, so it logs the unchanged top as written.\<close>

definition i_mulmod :: "'h env \<Rightarrow> int \<Rightarrow> 'h exec_state \<Rightarrow> 'h exec_state option" where
  "i_mulmod E tp s = do {
     s \<leftarrow> log_stack_at E s tp 3 False 2;
     s \<leftarrow> log_stack_at E s tp 2 False 1;
     s \<leftarrow> log_stack_at E s tp 1 False 0;
     x \<leftarrow> stack_at s tp 0;
     y \<leftarrow> stack_at s tp 1;
     m \<leftarrow> stack_at s tp 2;
     s \<leftarrow> stack_set s tp 2 (zw_mulmod E x y m);
     log_stack_at E s tp 1 True 0 }"

definition i_exp :: "'h env \<Rightarrow> int \<Rightarrow> int \<Rightarrow> 'h exec_state \<Rightarrow> 'h result" where
  "i_exp E tp gas_left s = do {
     s \<leftarrow> log_stack_at E s tp 2 False 1;
     s \<leftarrow> log_stack_at E s tp 1 False 0;
     base \<leftarrow> stack_at s tp 0;
     let tp = tp - 1;
     exponent \<leftarrow> stack_at s tp 0;
     let exponent_significant_bytes = zw_count_significant_bytes E exponent;
     let exponent_cost = (if revision s \<ge> EVMC_SPURIOUS_DRAGON then 50 else 10);
     let additional_cost = int (exponent_significant_bytes * exponent_cost);
     let gas_left = gas_left - additional_cost;
     if gas_left < 0 then Some (EVMC_OUT_OF_GAS, gas_left, s)
     else do {
       s \<leftarrow> stack_set s tp 0 (zw_exp E base exponent);
       s \<leftarrow> log_stack_at E s tp 1 True 0;
       Some (EVMC_SUCCESS, gas_left, s) } }"

subsection \<open>Sign extension\<close>

primrec set_words_down :: "u64 \<Rightarrow> nat \<Rightarrow> nat \<Rightarrow> zkevm_word \<Rightarrow> zkevm_word" where
  "set_words_down v index 0 x = x"
| "set_words_down v index (Suc i) x =
     (if Suc i > index then set_words_down v index i (set_val x v (Suc i)) else x)"

text \<open>
  The combined \<open>sign_word\<close> is a local variable of the code that nothing reads again.
\<close>

definition signextend_word :: "zkevm_word \<Rightarrow> zkevm_word \<Rightarrow> zkevm_word" where
  "signextend_word ext x =
     (if zw_lt_int ext 31 then
        let e = to_uint64 ext 0;
            sign_word_index = unat (e div 8);
            sign_byte_index = e mod 8;
            sign_word = to_uint64 x sign_word_index;
            sign_byte_offset = unat (sign_byte_index * 8);
            sign_byte = drop_bit sign_byte_offset sign_word;
            sext_byte = (scast (ucast sign_byte :: byte) :: u64);
            sext = push_bit sign_byte_offset sext_byte;
            sign_mask = push_bit sign_byte_offset (NOT 0);
            v = sign_word AND NOT sign_mask;
            sign_word = sext OR v;
            sign_ex = signed_drop_bit 8 sext_byte
        in set_words_down sign_ex sign_word_index 3 x
      else x)"

definition i_signextend :: "'h env \<Rightarrow> int \<Rightarrow> 'h exec_state \<Rightarrow> 'h exec_state option" where
  "i_signextend = arith2 signextend_word"

subsection \<open>Comparison\<close>

definition i_lt :: "'h env \<Rightarrow> int \<Rightarrow> 'h exec_state \<Rightarrow> 'h exec_state option" where
  "i_lt = arith2 (\<lambda>x y. word_of_bool (zw_lt x y))"

definition i_gt :: "'h env \<Rightarrow> int \<Rightarrow> 'h exec_state \<Rightarrow> 'h exec_state option" where
  "i_gt = arith2 (\<lambda>x y. word_of_bool (zw_lt y x))"

definition i_slt :: "'h env \<Rightarrow> int \<Rightarrow> 'h exec_state \<Rightarrow> 'h exec_state option" where
  "i_slt E = arith2 (\<lambda>x y. word_of_bool (zw_slt E x y)) E"

definition i_sgt :: "'h env \<Rightarrow> int \<Rightarrow> 'h exec_state \<Rightarrow> 'h exec_state option" where
  "i_sgt E = arith2 (\<lambda>x y. word_of_bool (zw_slt E y x)) E"

definition i_eq :: "'h env \<Rightarrow> int \<Rightarrow> 'h exec_state \<Rightarrow> 'h exec_state option" where
  "i_eq = arith2 (\<lambda>x y. word_of_bool (zw_eq y x))"

definition i_iszero :: "'h env \<Rightarrow> int \<Rightarrow> 'h exec_state \<Rightarrow> 'h exec_state option" where
  "i_iszero = arith1 (\<lambda>x. word_of_bool (zw_eq x (word_of_int64 0)))"

subsection \<open>Bits\<close>

definition i_and :: "'h env \<Rightarrow> int \<Rightarrow> 'h exec_state \<Rightarrow> 'h exec_state option" where
  "i_and = arith2 (\<lambda>x y. zw_and y x)"

definition i_or :: "'h env \<Rightarrow> int \<Rightarrow> 'h exec_state \<Rightarrow> 'h exec_state option" where
  "i_or = arith2 (\<lambda>x y. zw_or y x)"

definition i_xor :: "'h env \<Rightarrow> int \<Rightarrow> 'h exec_state \<Rightarrow> 'h exec_state option" where
  "i_xor = arith2 (\<lambda>x y. zw_xor y x)"

definition i_not :: "'h env \<Rightarrow> int \<Rightarrow> 'h exec_state \<Rightarrow> 'h exec_state option" where
  "i_not = arith1 (\<lambda>x. zw_not x)"

definition byte_word :: "zkevm_word \<Rightarrow> zkevm_word \<Rightarrow> zkevm_word" where
  "byte_word n x =
     (let n_valid = zw_lt_int n 32;
          byte_mask = (if n_valid then 0xff else 0 :: u64);
          index = 31 - lo64 n mod 32;
          w = to_uint64 x (index div 8);
          byte_index = index mod 8;
          b = drop_bit (byte_index * 8) w AND byte_mask
      in word_of_uint64 b)"

definition i_byte :: "'h env \<Rightarrow> int \<Rightarrow> 'h exec_state \<Rightarrow> 'h exec_state option" where
  "i_byte = arith2 byte_word"

definition i_shl :: "'h env \<Rightarrow> int \<Rightarrow> 'h exec_state \<Rightarrow> 'h exec_state option" where
  "i_shl = arith2 (\<lambda>x y. zw_shl y x)"

definition i_shr :: "'h env \<Rightarrow> int \<Rightarrow> 'h exec_state \<Rightarrow> 'h exec_state option" where
  "i_shr = arith2 (\<lambda>x y. zw_shr y x)"

text \<open>\<open>is_neg\<close> compares an unsigned limb with 0.\<close>

definition sar_word :: "zkevm_word \<Rightarrow> zkevm_word \<Rightarrow> zkevm_word" where
  "sar_word y x =
     (let is_neg = (to_uint64 x 3 < 0);
          sign_mask = word_of_int64 (if is_neg then 1 else 0);
          mask_shift = (if zw_lt_int y 256 then 256 - to_uint64 y 0 else 0)
      in zw_or (zw_shr x y) (zw_shl64 sign_mask mask_shift))"

definition i_sar :: "'h env \<Rightarrow> int \<Rightarrow> 'h exec_state \<Rightarrow> 'h exec_state option" where
  "i_sar = arith2 sar_word"

lemmas arith2_handlers = i_add_def i_mul_def i_sub_def i_div_def i_sdiv_def i_mod_def i_smod_def
  i_signextend_def i_lt_def i_gt_def i_slt_def i_sgt_def i_eq_def i_and_def i_or_def i_xor_def
  i_byte_def i_shl_def i_shr_def i_sar_def

subsection \<open>Frames\<close>

lemma frame_arith2 [trace_intros]: "frame s0 s \<Longrightarrow> post (arith2 f E tp s) (frame s0)"
  unfolding arith2_def Let_def by (intro frame_steps [where s = s0] frame_rules trace_intros)

lemma frame_arith1 [trace_intros]: "frame s0 s \<Longrightarrow> post (arith1 f E tp s) (frame s0)"
  unfolding arith1_def Let_def by (intro frame_steps [where s = s0] frame_rules trace_intros)

lemma frame_addmod [trace_intros]: "frame s0 s \<Longrightarrow> post (i_addmod E tp s) (frame s0)"
  unfolding i_addmod_def Let_def by (intro frame_steps [where s = s0] frame_rules trace_intros)

lemma frame_mulmod [trace_intros]: "frame s0 s \<Longrightarrow> post (i_mulmod E tp s) (frame s0)"
  unfolding i_mulmod_def Let_def by (intro frame_steps [where s = s0] frame_rules trace_intros)

lemma frame_exp [trace_intros]: "frame s0 s \<Longrightarrow> post (i_exp E tp g s) (\<lambda>(_, _, s'). frame s0 s')"
  unfolding i_exp_def Let_def
  by (intro frame_steps [where s = s0] frame_rules trace_intros)

subsection \<open>The contract of the operand handlers\<close>

text \<open>
  \<open>operand_result n v tp s\<close> is the state a handler of \<open>n\<close> operands must leave: the operands
  logged as reads, deepest first, and the result \<open>v\<close> in the slot of the deepest one, logged as
  a write. A handler that meets this contract keeps the trace in agreement with the stack.
\<close>

definition operand_slot :: "nat \<Rightarrow> int \<Rightarrow> nat" where
  "operand_slot n tp = nat (tp + 1) - n"

definition operand_reads :: "nat \<Rightarrow> int \<Rightarrow> 'h exec_state \<Rightarrow> rw_operation list" where
  "operand_reads n tp s = map (\<lambda>j. stack_entry (call_id s) (operand_slot n tp + j)
     (length (rw_trace s) + j) False (stack_space s ! (operand_slot n tp + j))) [0..<n]"

definition operand_result :: "nat \<Rightarrow> zkevm_word \<Rightarrow> int \<Rightarrow> 'h exec_state \<Rightarrow> 'h exec_state" where
  "operand_result n v tp s =
     s\<lparr>stack_space := (stack_space s)[operand_slot n tp := v],
       rw_trace := rw_trace s @ operand_reads n tp s @
         [stack_entry (call_id s) (operand_slot n tp) (length (rw_trace s) + n) True v]\<rparr>"

lemma shadow_reads:
  "(\<And>j. j \<in> set js \<Longrightarrow> a j < 1024) \<Longrightarrow>
   shadow m (map (\<lambda>j. stack_entry c (a j) (r j) False (v j)) js) = m"
  by (induction js) (simp_all add: replay_step_entry)

lemma reads_ok_reads:
  "(\<And>j. j \<in> set js \<Longrightarrow> a j < 1024) \<Longrightarrow>
   reads_ok m (map (\<lambda>j. stack_entry c (a j) (r j) False (v j)) js) \<longleftrightarrow> (\<forall>j \<in> set js. m (a j) = v j)"
  by (induction js) (auto simp: replay_step_entry unat_slot)

lemma operand_slot_less: "stack_ready s tp n \<Longrightarrow> j < n \<Longrightarrow> operand_slot n tp + j < 1024"
  by (auto simp: stack_ready_def operand_slot_def stack_limit_def)

lemma synced_operand_result:
  assumes ready: "stack_ready s tp n" and n: "0 < n" and sync: "synced s (nat (tp + 1))"
  shows "synced (operand_result n v tp s) (operand_slot n tp + 1)"
proof -
  let ?k = "operand_slot n tp"
  have slots: "?k + j < nat (tp + 1)" if "j < n" for j
    using ready that by (auto simp: operand_slot_def stack_ready_def)
  have small: "?k + j < 1024" if "j < n" for j
    using operand_slot_less [OF ready that] .
  have len: "?k < length (stack_space s)"
    using small [OF n] ready by (simp add: stack_ready_def stack_limit_def)
  have shadow: "shadow m (operand_reads n tp s) = m" for m
    unfolding operand_reads_def by (rule shadow_reads) (simp add: small)
  have "reads_ok (shadow zero_stack (rw_trace s)) (operand_reads n tp s)"
    unfolding operand_reads_def
    by (subst reads_ok_reads) (use sync slots small in \<open>auto simp: synced_def\<close>)
  moreover have "(shadow zero_stack (rw_trace s)) i = stack_space s ! i" if "i < ?k" for i
    using sync slots [OF n] that by (simp add: synced_def)
  ultimately show ?thesis
    using sync len small [OF n]
    by (auto simp: synced_def operand_result_def shadow replay_step_entry less_Suc_eq)
qed

lemma operand_result_simps [simp]:
  "memory (operand_result n v tp s) = memory s"
  "host (operand_result n v tp s) = host s"
  "length (stack_space (operand_result n v tp s)) = length (stack_space s)"
  "length (rw_trace (operand_result n v tp s)) = length (rw_trace s) + n + 1"
  by (simp_all add: operand_result_def operand_reads_def)

locale operand_handler =
  fixes run :: "int \<Rightarrow> 'h exec_state \<Rightarrow> 'h exec_state option"
    and n :: nat
    and result :: "zkevm_word list \<Rightarrow> zkevm_word"
  assumes operands: "0 < n"
    and run_ready: "stack_ready s tp n \<Longrightarrow>
      run tp s = Some (operand_result n
        (result (map (\<lambda>i. stack_space s ! (nat tp - i)) [0..<n])) tp s)"
begin

lemma run_total: "stack_ready s tp n \<Longrightarrow> \<exists>s'. run tp s = Some s'"
  by (simp add: run_ready)

lemma run_synced:
  assumes "stack_ready s tp n" and "synced s (nat (tp + 1))"
  shows "total (run tp s) (\<lambda>s'. synced s' (operand_slot n tp + 1))"
  using assms synced_operand_result [OF assms(1) operands assms(2)] by (simp add: run_ready)

lemma run_value:
  assumes "stack_ready s tp n"
  shows "total (run tp s) (\<lambda>s'. stack_space s' ! operand_slot n tp =
    result (map (\<lambda>i. stack_space s ! (nat tp - i)) [0..<n]))"
proof -
  have "operand_slot n tp < length (stack_space s)"
    using operand_slot_less [OF assms operands] assms
    by (simp add: stack_ready_def stack_limit_def)
  then show ?thesis
    using assms by (simp add: run_ready operand_result_def)
qed

lemma run_below:
  assumes "stack_ready s tp n" and "i < operand_slot n tp"
  shows "total (run tp s) (\<lambda>s'. stack_space s' ! i = stack_space s ! i)"
  using assms by (simp add: run_ready operand_result_def)

end

lemma arith2_ready:
  assumes "stack_ready s tp 2"
  shows "arith2 f E tp s =
    Some (operand_result 2 (f (stack_space s ! nat tp) (stack_space s ! (nat tp - 1))) tp s)"
proof -
  obtain k where tp: "tp = int k + 1" and k: "k < 1023"
    using assms by (auto simp: stack_ready_def stack_limit_def intro: that [of "nat (tp - 1)"])
  show ?thesis
    using assms k
    by (simp add: tp arith2_def stack_prims stack_ready_def stack_limit_def operand_result_def
        operand_reads_def operand_slot_def nat_add_distrib upt_rec)
qed

lemma arith1_ready:
  assumes "stack_ready s tp 1"
  shows "arith1 f E tp s = Some (operand_result 1 (f (stack_space s ! nat tp)) tp s)"
proof -
  obtain k where tp: "tp = int k" and k: "k < 1024"
    using assms by (auto simp: stack_ready_def stack_limit_def intro: that [of "nat tp"])
  show ?thesis
    using assms k
    by (simp add: tp arith1_def stack_prims stack_ready_def stack_limit_def operand_result_def
        operand_reads_def operand_slot_def nat_add_distrib)
qed

lemma arith2_contract:
  "operand_handler (arith2 f E) 2 (\<lambda>xs. f (xs ! 0) (xs ! 1))"
  by unfold_locales (simp_all add: arith2_ready upt_rec)

lemma arith1_contract: "operand_handler (arith1 f E) 1 (\<lambda>xs. f (xs ! 0))"
  by unfold_locales (simp_all add: arith1_ready)

lemma addmod_ready:
  assumes "stack_ready s tp 3"
  shows "i_addmod E tp s = Some (operand_result 3
    (zw_addmod E (stack_space s ! nat tp) (stack_space s ! (nat tp - 1)) (stack_space s ! (nat tp - Suc (Suc 0)))) tp s)"
proof -
  obtain k where tp: "tp = int k + 2" and k: "k < 1022"
    using assms by (auto simp: stack_ready_def stack_limit_def intro: that [of "nat (tp - 2)"])
  show ?thesis
    using assms k
    by (simp add: tp i_addmod_def stack_prims stack_ready_def stack_limit_def operand_result_def
        operand_reads_def operand_slot_def nat_add_distrib upt_rec numeral_3_eq_3)
qed

interpretation add: operand_handler "i_add E" 2 "\<lambda>xs. zw_add (xs ! 1) (xs ! 0)" for E
  unfolding i_add_def by (rule arith2_contract)

interpretation mul: operand_handler "i_mul E" 2 "\<lambda>xs. zw_mul (xs ! 1) (xs ! 0)" for E
  unfolding i_mul_def by (rule arith2_contract)

interpretation sub: operand_handler "i_sub E" 2 "\<lambda>xs. zw_sub (xs ! 0) (xs ! 1)" for E
  unfolding i_sub_def by (rule arith2_contract)

interpretation addmod: operand_handler "i_addmod E" 3 "\<lambda>xs. zw_addmod E (xs ! 0) (xs ! 1) (xs ! 2)"
  for E
  by unfold_locales (simp_all add: addmod_ready upt_rec numeral_3_eq_3)

interpretation iszero: operand_handler "i_iszero E" 1 "\<lambda>xs. word_of_bool (zw_eq (xs ! 0) (word_of_int64 0))" for E
  unfolding i_iszero_def by (rule arith1_contract)

interpretation sgn: operand_handler "i_signextend E" 2 "\<lambda>xs. signextend_word (xs ! 0) (xs ! 1)" for E
  unfolding i_signextend_def by (rule arith2_contract)

subsection \<open>The values\<close>

text \<open>\<open>BYTE\<close>: the byte of \<open>x\<close> that is the \<open>n\<close>-th from the most significant one, 0 past the end.\<close>

lemma unat_byte_word:
  "unat (byte_word n x) =
     (if unat n < 32 then unat x div 256 ^ (31 - unat n) mod 256 else 0)"
proof (cases "unat n < 32")
  case False
  then have "\<not> n < 32" by (simp add: word_less_nat_alt)
  then show ?thesis using False by (simp add: byte_word_def word_of_uint64_def)
next
  case True
  then have n: "n < 32" by (simp add: word_less_nat_alt)
  have lo: "lo64 n = unat n" using True by (intro to_uint64_small) simp
  define k where "k = 31 - unat n"
  have k: "k < 32" by (simp add: k_def)
  have mask: "(255 :: u64) = mask 8" by (simp add: mask_eq_exp_minus_1)
  have "bit (byte_word n x) i = bit (take_bit 8 (drop_bit (8 * k) x)) i" if "i < 256" for i
  proof -
    have *: "64 * (k div 8) + (8 * (k mod 8) + i) = 8 * k + i"
      using div_mult_mod_eq [of k 8] by linarith
    have lt: "i < 8 \<Longrightarrow> 8 * (k mod 8) + i < 64"
      using mod_less_divisor [of 8 k] by linarith
    have "bit (byte_word n x) i \<longleftrightarrow> i < 8 \<and> bit x (64 * (k div 8) + (8 * (k mod 8) + i))"
      using n True that lt
      by (auto simp: byte_word_def lo mask word_of_uint64_def bit_simps mult.commute [of _ 8]
          simp flip: k_def)
    then show ?thesis
      using that unfolding * by (auto simp: bit_simps)
  qed
  then have "byte_word n x = take_bit 8 (drop_bit (8 * k) x)"
    by (intro bit_word_eqI) simp
  then show ?thesis
    using True
    by (simp add: unsigned_take_bit_eq unat_drop_bit_u256 take_bit_eq_mod [where 'a = nat]
        k_def power_mult)
qed

text \<open>\<open>SHL\<close> and \<open>SHR\<close>.\<close>

lemma unat_zw_shr: "unat (zw_shr x y) = unat x div 2 ^ unat y"
proof (cases "y < 256")
  case True
  then show ?thesis
    by (simp add: zw_shr_def unat_drop_bit_u256)
next
  case False
  then have "256 \<le> unat y" by (simp add: word_less_nat_alt)
  then have "(2::nat) ^ 256 \<le> 2 ^ unat y" by (intro power_increasing) simp_all
  moreover have "unat x < 2 ^ LENGTH(256)" by (rule unsigned_less)
  ultimately have "unat x < 2 ^ unat y" by simp
  then show ?thesis using False by (simp add: zw_shr_def)
qed

lemma zw_shl_eq: "zw_shl x y = word_of_nat (unat x * 2 ^ unat y)"
proof (cases "y < 256")
  case True
  then show ?thesis by (simp add: zw_shl_def push_bit_eq_mult)
next
  case False
  then have "256 \<le> unat y" by (simp add: word_less_nat_alt)
  then show ?thesis using False by (simp add: zw_shl_def exp_beyond_u256)
qed

text \<open>
  \<open>SAR\<close> is not an arithmetic shift: the sign is never seen, so it equals \<open>SHR\<close>.
\<close>

lemma sar_word_shr: "sar_word y x = zw_shr x y"
  by (simp add: sar_word_def Let_def word_of_int64_def word_of_uint64_def zw_shl64_def)

text \<open>
  \<open>SIGNEXTEND\<close> fills the limbs above the one that holds the sign byte and leaves that limb
  as it was.
\<close>

lemma to_uint64_set_words_down:
  "m < 4 \<Longrightarrow> i < 4 \<Longrightarrow>
   to_uint64 (set_words_down v index m x) i = (if index < i \<and> i \<le> m then v else to_uint64 x i)"
  by (induction m arbitrary: x) (auto simp: to_uint64_set_val le_Suc_eq)

lemma to_uint64_signextend:
  assumes "i < 4"
  shows "to_uint64 (signextend_word ext x) i =
    (if ext < 31 \<and> unat ext div 8 < i
     then (if bit x (8 * unat ext + 7) then - 1 else 0) else to_uint64 x i)"
proof (cases "ext < 31")
  case False
  then show ?thesis by (simp add: signextend_word_def)
next
  case True
  then have e: "unat ext < 31" by (simp add: word_less_nat_alt)
  then have lo: "lo64 ext = unat ext" by (intro to_uint64_small) simp
  let ?e = "to_uint64 ext 0"
  have d: "unat (?e div 8) = unat ext div 8" by (simp add: unat_div lo)
  have m: "unat (?e mod 8 * 8) = unat ext mod 8 * 8"
  proof -
    have "unat (?e mod 8) = unat ext mod 8" by (simp add: unat_mod lo)
    then show ?thesis by (subst unat_mult_lem [THEN iffD1]) simp_all
  qed
  let ?b = "drop_bit (unat ext mod 8 * 8) (to_uint64 x (unat ext div 8))"
  have bitb: "bit ?b 7 = bit x (8 * unat ext + 7)"
  proof -
    have "64 * (unat ext div 8) + (unat ext mod 8 * 8 + 7) = 8 * unat ext + 7"
      using div_mult_mod_eq [of "unat ext" 8] by linarith
    moreover have "unat ext mod 8 * 8 + 7 < 64"
      using mod_less_divisor [of 8 "unat ext"] by linarith
    then have "bit ?b 7 = bit x (64 * (unat ext div 8) + (unat ext mod 8 * 8 + 7))"
      by (simp add: bit_simps)
    ultimately show ?thesis by (simp only:)
  qed
  have "signed_drop_bit 8 (scast (ucast ?b :: byte) :: u64) = (if bit ?b 7 then - 1 else 0)"
    by (rule bit_word_eqI) (auto simp: bit_simps)
  then show ?thesis
    using True e assms
    by (auto simp: signextend_word_def Let_def d m bitb to_uint64_set_words_down)
qed

end
