(* ===== verification/Instr_Env.thy ===== *)
theory Instr_Env
  imports Instr_Arith
begin

text \<open>
  The instructions of \<open>evmone/instructions.hpp\<close> that put information about the message, the
  transaction, the block, the code and other accounts on the stack or into memory.
\<close>

subsection \<open>Common parts\<close>

text \<open>\<open>stack.push(v)\<close> followed by the entry that logs \<open>stack[0]\<close> as written.\<close>

definition push_logged ::
  "'h env \<Rightarrow> int \<Rightarrow> zkevm_word \<Rightarrow> 'h exec_state \<Rightarrow> 'h exec_state option" where
  "push_logged E tp v s = do {
     (tp, s) \<leftarrow> stack_push s tp v;
     log_stack_at E s tp 1 True 0 }"

text \<open>
  \<open>if (state.rev >= EVMC_BERLIN && state.host.access_account(addr) == EVMC_ACCESS_COLD)\<close> with
  the subtraction in its body: whether the gas ran out, the gas and the state.
\<close>

definition charge_cold_account ::
  "'h env \<Rightarrow> 'h exec_state \<Rightarrow> evmc_address \<Rightarrow> int \<Rightarrow> int \<Rightarrow> bool \<times> int \<times> 'h exec_state" where
  "charge_cold_account E s addr cost gas_left =
     (if revision s \<ge> EVMC_BERLIN
      then let (acc, s) = host_access_account E s addr
           in if acc = EVMC_ACCESS_COLD
              then (gas_left - cost < 0, gas_left - cost, s) else (False, gas_left, s)
      else (False, gas_left, s))"

text \<open>
  The loop that appends one memory entry per byte: byte \<open>base + j\<close> at address \<open>addr j\<close>, for
  the \<open>n\<close> values from \<open>j\<close> on.
\<close>

primrec log_mem_loop ::
  "'h env \<Rightarrow> (nat \<Rightarrow> zkevm_word) \<Rightarrow> nat \<Rightarrow> bool \<Rightarrow> nat \<Rightarrow> nat \<Rightarrow> 'h exec_state \<Rightarrow>
   'h exec_state option" where
  "log_mem_loop E addr base w 0 j s = Some s"
| "log_mem_loop E addr base w (Suc n) j s = do {
     b \<leftarrow> mem_get (memory s) (base + j);
     s \<leftarrow> log_memory E s (addr j) w (word_of_uint64 (ucast b));
     log_mem_loop E addr base w n (Suc j) s }"

text \<open>
  The body that \<open>CALLDATACOPY\<close>, \<open>CODECOPY\<close> and, but for its log, \<open>DATACOPY\<close> share, after
  the operands have been popped: \<open>source\<close> is the input they copy from.
\<close>

definition copy_source_bounds :: "byte list \<Rightarrow> zkevm_word \<Rightarrow> zkevm_word \<Rightarrow> nat \<times> nat" where
  "copy_source_bounds source index size_word =
     (let index_uint64 = lo64 index;
          src = (if length source < index_uint64 then length source else index_uint64);
          s = lo64 size_word
      in (src, min s (length source - src)))"

definition copy_input ::
  "'h env \<Rightarrow> int \<Rightarrow> byte list \<Rightarrow> int \<Rightarrow> 'h exec_state \<Rightarrow> 'h result" where
  "copy_input E tp source gas_left s = do {
     s \<leftarrow> log_stack_at E s tp 3 False 2;
     s \<leftarrow> log_stack_at E s tp 2 False 1;
     s \<leftarrow> log_stack_at E s tp 1 False 0;
     mem_index \<leftarrow> stack_at s tp 0;
     input_index \<leftarrow> stack_at s (tp - 1) 0;
     size_word \<leftarrow> stack_at s (tp - 2) 0;
     (ok, gas_left, m) \<leftarrow> check_memory_copy E gas_left (memory s) mem_index size_word;
     let s = s\<lparr>memory := m\<rparr>;
     if \<not> ok then Some (EVMC_OUT_OF_GAS, gas_left, s)
     else do {
       let dst = lo64 mem_index;
       let (src, copy_size) = copy_source_bounds source input_index size_word;
       let n = lo64 size_word;
       let gas_left = gas_left - copy_cost n;
       if gas_left < 0 then Some (EVMC_OUT_OF_GAS, gas_left, s)
       else do {
         m \<leftarrow> (if copy_size > 0 then mem_write (memory s) dst (take copy_size (drop src source))
              else Some (memory s));
         m \<leftarrow> (if n - copy_size > 0
              then mem_write m (dst + copy_size) (replicate (n - copy_size) 0) else Some m);
         s \<leftarrow> log_mem_loop E (\<lambda>j. zw_add mem_index (word_of_size j)) dst True copy_size 0
               (s\<lparr>memory := m\<rparr>);
         Some (EVMC_SUCCESS, gas_left, s) } } }"

subsection \<open>Message\<close>

definition i_address :: "'h env \<Rightarrow> int \<Rightarrow> 'h exec_state \<Rightarrow> 'h exec_state option" where
  "i_address E tp s = push_logged E tp (word_of_address E (msg_recipient (msg s))) s"

definition i_caller :: "'h env \<Rightarrow> int \<Rightarrow> 'h exec_state \<Rightarrow> 'h exec_state option" where
  "i_caller E tp s = push_logged E tp (word_of_address E (msg_sender (msg s))) s"

definition i_callvalue :: "'h env \<Rightarrow> int \<Rightarrow> 'h exec_state \<Rightarrow> 'h exec_state option" where
  "i_callvalue E tp s = push_logged E tp (word_of_uint256be E (msg_value (msg s))) s"

definition i_calldataload :: "'h env \<Rightarrow> int \<Rightarrow> 'h exec_state \<Rightarrow> 'h exec_state option" where
  "i_calldataload E tp s = do {
     s \<leftarrow> log_stack_at E s tp 1 False 0;
     index \<leftarrow> stack_at s tp 0;
     let input = msg_input (msg s);
     s \<leftarrow> (if length input < lo64 index then stack_set s tp 0 0
          else do {
            let start = lo64 index;
            let end_pos = min (start + 32) (length input);
            let data = take (end_pos - start) (drop start input) @ replicate (32 - (end_pos - start)) 0;
            w \<leftarrow> word_of_data E data;
            stack_set s tp 0 w });
     log_stack_at E s tp 1 True 0 }"

definition i_calldatasize :: "'h env \<Rightarrow> int \<Rightarrow> 'h exec_state \<Rightarrow> 'h exec_state option" where
  "i_calldatasize E tp s = push_logged E tp (word_of_size (length (msg_input (msg s)))) s"

definition i_calldatacopy :: "'h env \<Rightarrow> int \<Rightarrow> int \<Rightarrow> 'h exec_state \<Rightarrow> 'h result" where
  "i_calldatacopy E tp gas_left s = copy_input E tp (msg_input (msg s)) gas_left s"

definition i_codesize :: "'h env \<Rightarrow> int \<Rightarrow> 'h exec_state \<Rightarrow> 'h exec_state option" where
  "i_codesize E tp s = push_logged E tp (word_of_size (length (original_code s))) s"

definition i_codecopy :: "'h env \<Rightarrow> int \<Rightarrow> int \<Rightarrow> 'h exec_state \<Rightarrow> 'h result" where
  "i_codecopy E tp gas_left s = copy_input E tp (original_code s) gas_left s"

subsection \<open>Transaction and block\<close>

definition push_tx ::
  "'h env \<Rightarrow> int \<Rightarrow> (evmc_tx_context \<Rightarrow> zkevm_word) \<Rightarrow> 'h exec_state \<Rightarrow> 'h exec_state option" where
  "push_tx E tp f s = (let (tx, s) = get_tx_context E s in push_logged E tp (f tx) s)"

definition i_origin :: "'h env \<Rightarrow> int \<Rightarrow> 'h exec_state \<Rightarrow> 'h exec_state option" where
  "i_origin E tp s = push_tx E tp (\<lambda>tx. word_of_address E (tx_origin tx)) s"

definition i_gasprice :: "'h env \<Rightarrow> int \<Rightarrow> 'h exec_state \<Rightarrow> 'h exec_state option" where
  "i_gasprice E tp s = push_tx E tp (\<lambda>tx. word_of_uint256be E (tx_gas_price tx)) s"

definition i_basefee :: "'h env \<Rightarrow> int \<Rightarrow> 'h exec_state \<Rightarrow> 'h exec_state option" where
  "i_basefee E tp s = push_tx E tp (\<lambda>tx. word_of_uint256be E (block_base_fee tx)) s"

definition i_blobhash :: "'h env \<Rightarrow> int \<Rightarrow> 'h exec_state \<Rightarrow> 'h exec_state option" where
  "i_blobhash E tp s = do {
     s \<leftarrow> log_stack_at E s tp 1 False 0;
     index \<leftarrow> stack_at s tp 0;
     let (tx, s) = get_tx_context E s;
     s \<leftarrow> stack_set s tp 0
       (if lo64 index < length (blob_hashes tx)
        then word_of_uint256be E (blob_hashes tx ! lo64 index) else 0);
     log_stack_at E s tp 1 True 0 }"

definition i_blobbasefee :: "'h env \<Rightarrow> int \<Rightarrow> 'h exec_state \<Rightarrow> 'h exec_state option" where
  "i_blobbasefee E tp s = push_tx E tp (\<lambda>tx. word_of_uint256be E (blob_base_fee tx)) s"

definition i_blockhash :: "'h env \<Rightarrow> int \<Rightarrow> 'h exec_state \<Rightarrow> 'h exec_state option" where
  "i_blockhash E tp s = do {
     s \<leftarrow> log_stack_at E s tp 1 False 0;
     number \<leftarrow> stack_at s tp 0;
     let (tx, s) = get_tx_context E s;
     let upper_bound = block_number tx;
     let lower_bound = max (upper_bound - 256) 0;
     let n = sint (to_uint64 number 0);
     let header = (if n < upper_bound \<and> n \<ge> lower_bound
                   then host_get_block_hash E s n else zero_bytes32);
     s \<leftarrow> stack_set s tp 0 (word_of_uint256be E header);
     log_stack_at E s tp 1 True 0 }"

definition i_coinbase :: "'h env \<Rightarrow> int \<Rightarrow> 'h exec_state \<Rightarrow> 'h exec_state option" where
  "i_coinbase E tp s = push_tx E tp (\<lambda>tx. word_of_address E (block_coinbase tx)) s"

definition i_timestamp :: "'h env \<Rightarrow> int \<Rightarrow> 'h exec_state \<Rightarrow> 'h exec_state option" where
  "i_timestamp E tp s = push_tx E tp (\<lambda>tx. word_of_uint64 (word_of_int (block_timestamp tx))) s"

definition i_number :: "'h env \<Rightarrow> int \<Rightarrow> 'h exec_state \<Rightarrow> 'h exec_state option" where
  "i_number E tp s = push_tx E tp (\<lambda>tx. word_of_uint64 (word_of_int (block_number tx))) s"

definition i_prevrandao :: "'h env \<Rightarrow> int \<Rightarrow> 'h exec_state \<Rightarrow> 'h exec_state option" where
  "i_prevrandao E tp s = push_tx E tp (\<lambda>tx. word_of_uint256be E (block_prev_randao tx)) s"

definition i_gaslimit :: "'h env \<Rightarrow> int \<Rightarrow> 'h exec_state \<Rightarrow> 'h exec_state option" where
  "i_gaslimit E tp s = push_tx E tp (\<lambda>tx. word_of_uint64 (word_of_int (block_gas_limit tx))) s"

definition i_chainid :: "'h env \<Rightarrow> int \<Rightarrow> 'h exec_state \<Rightarrow> 'h exec_state option" where
  "i_chainid E tp s = push_tx E tp (\<lambda>tx. word_of_uint256be E (chain_id tx)) s"

subsection \<open>Accounts\<close>

text \<open>\<open>BALANCE\<close>, \<open>EXTCODESIZE\<close> and \<open>EXTCODEHASH\<close> differ in the host call that gives the value.\<close>

definition account_query ::
  "'h env \<Rightarrow> int \<Rightarrow> ('h exec_state \<Rightarrow> evmc_address \<Rightarrow> zkevm_word \<times> 'h exec_state) \<Rightarrow> int \<Rightarrow>
   'h exec_state \<Rightarrow> 'h result" where
  "account_query E tp query gas_left s = do {
     s \<leftarrow> log_stack_at E s tp 1 False 0;
     x \<leftarrow> stack_at s tp 0;
     let addr = to_address E x;
     let (oog, gas_left, s) =
       charge_cold_account E s addr additional_cold_account_access_cost gas_left;
     if oog then Some (EVMC_OUT_OF_GAS, gas_left, s)
     else do {
       let (v, s) = query s addr;
       s \<leftarrow> stack_set s tp 0 v;
       s \<leftarrow> log_stack_at E s tp 1 True 0;
       Some (EVMC_SUCCESS, gas_left, s) } }"

definition i_balance :: "'h env \<Rightarrow> int \<Rightarrow> int \<Rightarrow> 'h exec_state \<Rightarrow> 'h result" where
  "i_balance E tp gas_left s = account_query E tp
     (\<lambda>s addr. let (r, s) = host_get_balance E s addr in (word_of_uint256be E r, s)) gas_left s"

definition i_extcodesize :: "'h env \<Rightarrow> int \<Rightarrow> int \<Rightarrow> 'h exec_state \<Rightarrow> 'h result" where
  "i_extcodesize E tp gas_left s = account_query E tp
     (\<lambda>s addr. let (r, s) = host_get_code_size E s addr in (word_of_size r, s)) gas_left s"

definition i_extcodehash :: "'h env \<Rightarrow> int \<Rightarrow> int \<Rightarrow> 'h exec_state \<Rightarrow> 'h result" where
  "i_extcodehash E tp gas_left s = account_query E tp
     (\<lambda>s addr. let (r, s) = host_get_code_hash E s addr in (word_of_uint256be E r, s)) gas_left s"

definition i_selfbalance :: "'h env \<Rightarrow> int \<Rightarrow> 'h exec_state \<Rightarrow> 'h exec_state option" where
  "i_selfbalance E tp s =
     (let (r, s) = host_get_balance E s (msg_recipient (msg s))
      in push_logged E tp (word_of_uint256be E r) s)"

text \<open>
  \<open>copy_code\<close> is given the destination; a host that reports more bytes than it was asked for
  makes the length of the clearing \<open>memset\<close> wrap around.
\<close>

definition i_extcodecopy :: "'h env \<Rightarrow> int \<Rightarrow> int \<Rightarrow> 'h exec_state \<Rightarrow> 'h result" where
  "i_extcodecopy E tp gas_left s = do {
     s \<leftarrow> log_stack_at E s tp 4 False 3;
     s \<leftarrow> log_stack_at E s tp 3 False 2;
     s \<leftarrow> log_stack_at E s tp 2 False 1;
     s \<leftarrow> log_stack_at E s tp 1 False 0;
     a \<leftarrow> stack_at s tp 0;
     let addr = to_address E a;
     mem_index \<leftarrow> stack_at s (tp - 1) 0;
     input_index \<leftarrow> stack_at s (tp - 2) 0;
     size_word \<leftarrow> stack_at s (tp - 3) 0;
     (ok, gas_left, m) \<leftarrow> check_memory_copy E gas_left (memory s) mem_index size_word;
     let s = s\<lparr>memory := m\<rparr>;
     if \<not> ok then Some (EVMC_OUT_OF_GAS, gas_left, s)
     else do {
       let n = lo64 size_word;
       let gas_left = gas_left - copy_cost n;
       if gas_left < 0 then Some (EVMC_OUT_OF_GAS, gas_left, s)
       else do {
         let (oog, gas_left, s) =
           charge_cold_account E s addr additional_cold_account_access_cost gas_left;
         if oog then Some (EVMC_OUT_OF_GAS, gas_left, s)
         else if n > 0 then do {
           let src = (if max_buffer_size < lo64 input_index then max_buffer_size else lo64 input_index);
           let dst = lo64 mem_index;
           let (bs, s) = host_copy_code E s addr src n;
           m \<leftarrow> mem_write (memory s) dst bs;
           m \<leftarrow> (if length bs \<le> n
                then mem_write m (dst + length bs) (replicate (n - length bs) 0) else None);
           Some (EVMC_SUCCESS, gas_left, s\<lparr>memory := m\<rparr>) }
         else Some (EVMC_SUCCESS, gas_left, s) } } }"

subsection \<open>Return data\<close>

definition i_returndatasize :: "'h env \<Rightarrow> int \<Rightarrow> 'h exec_state \<Rightarrow> 'h exec_state option" where
  "i_returndatasize E tp s = push_logged E tp (word_of_size (length (return_data s))) s"

definition i_returndatacopy :: "'h env \<Rightarrow> int \<Rightarrow> int \<Rightarrow> 'h exec_state \<Rightarrow> 'h result" where
  "i_returndatacopy E tp gas_left s = do {
     s \<leftarrow> log_stack_at E s tp 3 False 2;
     s \<leftarrow> log_stack_at E s tp 2 False 1;
     s \<leftarrow> log_stack_at E s tp 1 False 0;
     mem_index \<leftarrow> stack_at s tp 0;
     input_index \<leftarrow> stack_at s (tp - 1) 0;
     size_word \<leftarrow> stack_at s (tp - 2) 0;
     (ok, gas_left, m) \<leftarrow> check_memory_copy E gas_left (memory s) mem_index size_word;
     let s = s\<lparr>memory := m\<rparr>;
     if \<not> ok then Some (EVMC_OUT_OF_GAS, gas_left, s)
     else do {
       let dst = lo64 mem_index;
       let n = lo64 size_word;
       let src = lo64 input_index;
       if length (return_data s) < src then Some (EVMC_INVALID_MEMORY_ACCESS, gas_left, s)
       else if (src + n) mod 2 ^ 64 > length (return_data s)
         then Some (EVMC_INVALID_MEMORY_ACCESS, gas_left, s)
       else do {
         let gas_left = gas_left - copy_cost n;
         if gas_left < 0 then Some (EVMC_OUT_OF_GAS, gas_left, s)
         else if n > 0 then do {
           bs \<leftarrow> slice_opt (return_data s) src n;
           m \<leftarrow> mem_write (memory s) dst bs;
           s \<leftarrow> log_mem_loop E (\<lambda>j. word_of_size (dst + j)) dst True n 0 (s\<lparr>memory := m\<rparr>);
           Some (EVMC_SUCCESS, gas_left, s) }
         else Some (EVMC_SUCCESS, gas_left, s) } } }"

subsection \<open>Frames\<close>

lemma frame_push_logged [trace_intros]: "frame s0 s \<Longrightarrow> post (push_logged E tp v s) (frame s0)"
  unfolding push_logged_def by (intro frame_steps [where s = s0] frame_rules trace_intros; auto)

lemma frame_charge_cold [trace_intros]:
  assumes "frame s0 s"
  shows "frame s0 (snd (snd (charge_cold_account E s a c g)))"
  using frame_host_snd(9) [OF assms, of E a] assms
  by (cases "host_access_account E s a") (simp add: charge_cold_account_def)

lemma frame_log_mem_loop [trace_intros]:
  "frame s0 s \<Longrightarrow> post (log_mem_loop E addr base w n j s) (frame s0)"
proof (induction n arbitrary: j s)
  case 0
  then show ?case by simp
next
  case (Suc n)
  then show ?case
    unfolding log_mem_loop.simps by (intro frame_steps [where s = s0] frame_rules trace_intros)
qed

lemma frame_copy_input [trace_intros]:
  "frame s0 s \<Longrightarrow> post (copy_input E tp src g s) (\<lambda>(_, _, s'). frame s0 s')"
  unfolding copy_input_def Let_def
  by (intro frame_steps [where s = s0] frame_rules trace_intros; auto intro: mem_kept_trans)

lemma frame_push_tx [trace_intros]: "frame s0 s \<Longrightarrow> post (push_tx E tp f s) (frame s0)"
  unfolding push_tx_def Let_def by (intro frame_steps [where s = s0] frame_rules trace_intros; auto)

lemma frame_account_query [trace_intros]:
  assumes "frame s0 s" and "\<And>s a. frame s0 s \<Longrightarrow> frame s0 (snd (query s a))"
  shows "post (account_query E tp query g s) (\<lambda>(_, _, s'). frame s0 s')"
  unfolding account_query_def Let_def using assms(1)
  by (intro frame_steps [where s = s0] frame_rules trace_intros assms(2); blast)

lemma frame_case_pair:
  fixes p :: "'x \<times> 'h exec_state"
  shows "frame s0 (snd p) \<Longrightarrow> frame s0 (snd (case p of (r, s) \<Rightarrow> (f r, s)))"
  by (cases p) simp

lemma frame_env_void [trace_intros]:
  assumes "frame s0 s"
  shows "post (i_address E tp s) (frame s0)" "post (i_caller E tp s) (frame s0)"
    "post (i_callvalue E tp s) (frame s0)" "post (i_calldatasize E tp s) (frame s0)"
    "post (i_codesize E tp s) (frame s0)" "post (i_origin E tp s) (frame s0)"
    "post (i_gasprice E tp s) (frame s0)" "post (i_basefee E tp s) (frame s0)"
    "post (i_blobbasefee E tp s) (frame s0)" "post (i_coinbase E tp s) (frame s0)"
    "post (i_timestamp E tp s) (frame s0)" "post (i_number E tp s) (frame s0)"
    "post (i_prevrandao E tp s) (frame s0)" "post (i_gaslimit E tp s) (frame s0)"
    "post (i_chainid E tp s) (frame s0)" "post (i_returndatasize E tp s) (frame s0)"
  using assms
  by (simp_all add: i_address_def i_caller_def i_callvalue_def i_calldatasize_def i_codesize_def
      i_origin_def i_gasprice_def i_basefee_def i_blobbasefee_def i_coinbase_def i_timestamp_def
      i_number_def i_prevrandao_def i_gaslimit_def i_chainid_def i_returndatasize_def
      frame_push_logged frame_push_tx)

lemma frame_calldataload [trace_intros]: "frame s0 s \<Longrightarrow> post (i_calldataload E tp s) (frame s0)"
  unfolding i_calldataload_def Let_def by (intro frame_steps [where s = s0] frame_rules trace_intros; auto)

lemma frame_blobhash [trace_intros]: "frame s0 s \<Longrightarrow> post (i_blobhash E tp s) (frame s0)"
  unfolding i_blobhash_def Let_def by (intro frame_steps [where s = s0] frame_rules trace_intros; auto)

lemma frame_blockhash [trace_intros]: "frame s0 s \<Longrightarrow> post (i_blockhash E tp s) (frame s0)"
  unfolding i_blockhash_def Let_def by (intro frame_steps [where s = s0] frame_rules trace_intros; auto)

lemma frame_selfbalance [trace_intros]: "frame s0 s \<Longrightarrow> post (i_selfbalance E tp s) (frame s0)"
  unfolding i_selfbalance_def Let_def by (intro frame_steps [where s = s0] frame_rules trace_intros; auto)

lemma frame_env_result [trace_intros]:
  assumes "frame s0 s"
  shows "post (i_calldatacopy E tp g s) (\<lambda>(_, _, s'). frame s0 s')"
    and "post (i_codecopy E tp g s) (\<lambda>(_, _, s'). frame s0 s')"
    and "post (i_balance E tp g s) (\<lambda>(_, _, s'). frame s0 s')"
    and "post (i_extcodesize E tp g s) (\<lambda>(_, _, s'). frame s0 s')"
    and "post (i_extcodehash E tp g s) (\<lambda>(_, _, s'). frame s0 s')"
  unfolding i_calldatacopy_def i_codecopy_def i_balance_def i_extcodesize_def i_extcodehash_def
    Let_def using assms
  by (intro trace_intros frame_case_pair; blast)+

lemma frame_extcodecopy [trace_intros]:
  "frame s0 s \<Longrightarrow> post (i_extcodecopy E tp g s) (\<lambda>(_, _, s'). frame s0 s')"
  unfolding i_extcodecopy_def Let_def
  by (intro frame_steps [where s = s0] frame_rules trace_intros; auto intro: mem_kept_trans)

lemma frame_returndatacopy [trace_intros]:
  "frame s0 s \<Longrightarrow> post (i_returndatacopy E tp g s) (\<lambda>(_, _, s'). frame s0 s')"
  unfolding i_returndatacopy_def Let_def by (intro frame_steps [where s = s0] frame_rules trace_intros; auto)

end
