(* ===== verification/Instr_Mem.thy ===== *)
theory Instr_Mem
  imports Instr_Env
begin

text \<open>
  The instructions of \<open>evmone/instructions.hpp\<close> on memory, storage, transient storage and the
  EOF data section, with the gas schedule of \<open>SSTORE\<close>.
\<close>

subsection \<open>Gas schedule of storage\<close>

record storage_cost =
  net_cost :: bool
  warm_access :: int
  set_cost :: int
  reset_cost :: int
  clear_refund :: int

definition mk_storage_cost :: "bool \<Rightarrow> int \<Rightarrow> int \<Rightarrow> int \<Rightarrow> int \<Rightarrow> storage_cost" where
  "mk_storage_cost n w a r c = \<lparr>net_cost = n, warm_access = w, set_cost = a, reset_cost = r,
     clear_refund = c\<rparr>"

definition storage_cost_spec :: "evmc_revision \<Rightarrow> storage_cost" where
  "storage_cost_spec r =
     (let london = mk_storage_cost True warm_storage_read_cost 20000 (5000 - cold_sload_cost) 4800
      in case r of
        EVMC_FRONTIER \<Rightarrow> mk_storage_cost False 200 20000 5000 15000
      | EVMC_HOMESTEAD \<Rightarrow> mk_storage_cost False 200 20000 5000 15000
      | EVMC_TANGERINE_WHISTLE \<Rightarrow> mk_storage_cost False 200 20000 5000 15000
      | EVMC_SPURIOUS_DRAGON \<Rightarrow> mk_storage_cost False 200 20000 5000 15000
      | EVMC_BYZANTIUM \<Rightarrow> mk_storage_cost False 200 20000 5000 15000
      | EVMC_PETERSBURG \<Rightarrow> mk_storage_cost False 200 20000 5000 15000
      | EVMC_CONSTANTINOPLE \<Rightarrow> mk_storage_cost True 200 20000 5000 15000
      | EVMC_ISTANBUL \<Rightarrow> mk_storage_cost True 800 20000 5000 15000
      | EVMC_BERLIN \<Rightarrow>
          mk_storage_cost True warm_storage_read_cost 20000 (5000 - cold_sload_cost) 15000
      | EVMC_LONDON \<Rightarrow> london
      | EVMC_PARIS \<Rightarrow> london
      | EVMC_SHANGHAI \<Rightarrow> london
      | EVMC_CANCUN \<Rightarrow> london
      | EVMC_PRAGUE \<Rightarrow> london)"

text \<open>The cost and the refund of an update, by its status.\<close>

definition sstore_costs :: "evmc_revision \<Rightarrow> evmc_storage_status \<Rightarrow> int \<times> int" where
  "sstore_costs r st =
     (let c = storage_cost_spec r
      in if \<not> net_cost c then
           (case st of
              EVMC_STORAGE_ADDED \<Rightarrow> (set_cost c, 0)
            | EVMC_STORAGE_DELETED \<Rightarrow> (reset_cost c, clear_refund c)
            | EVMC_STORAGE_MODIFIED \<Rightarrow> (reset_cost c, 0)
            | EVMC_STORAGE_ASSIGNED \<Rightarrow> (reset_cost c, 0)
            | EVMC_STORAGE_DELETED_ADDED \<Rightarrow> (set_cost c, 0)
            | EVMC_STORAGE_MODIFIED_DELETED \<Rightarrow> (reset_cost c, clear_refund c)
            | EVMC_STORAGE_DELETED_RESTORED \<Rightarrow> (set_cost c, 0)
            | EVMC_STORAGE_ADDED_DELETED \<Rightarrow> (reset_cost c, clear_refund c)
            | EVMC_STORAGE_MODIFIED_RESTORED \<Rightarrow> (reset_cost c, 0))
         else
           (case st of
              EVMC_STORAGE_ASSIGNED \<Rightarrow> (warm_access c, 0)
            | EVMC_STORAGE_ADDED \<Rightarrow> (set_cost c, 0)
            | EVMC_STORAGE_DELETED \<Rightarrow> (reset_cost c, clear_refund c)
            | EVMC_STORAGE_MODIFIED \<Rightarrow> (reset_cost c, 0)
            | EVMC_STORAGE_DELETED_ADDED \<Rightarrow> (warm_access c, - clear_refund c)
            | EVMC_STORAGE_MODIFIED_DELETED \<Rightarrow> (warm_access c, clear_refund c)
            | EVMC_STORAGE_DELETED_RESTORED \<Rightarrow>
                (warm_access c, reset_cost c - warm_access c - clear_refund c)
            | EVMC_STORAGE_ADDED_DELETED \<Rightarrow> (warm_access c, set_cost c - warm_access c)
            | EVMC_STORAGE_MODIFIED_RESTORED \<Rightarrow> (warm_access c, reset_cost c - warm_access c)))"

subsection \<open>Memory\<close>

text \<open>
  \<open>KECCAK256\<close> logs 32 bytes from the start of the hashed range, whatever the size is.
\<close>

definition i_keccak256 :: "'h env \<Rightarrow> int \<Rightarrow> int \<Rightarrow> 'h exec_state \<Rightarrow> 'h result" where
  "i_keccak256 E tp gas_left s = do {
     s \<leftarrow> log_stack_at E s tp 2 False 1;
     s \<leftarrow> log_stack_at E s tp 1 False 0;
     index \<leftarrow> stack_at s tp 0;
     let tp = tp - 1;
     size_word \<leftarrow> stack_at s tp 0;
     (ok, gas_left, m) \<leftarrow> check_memory_copy E gas_left (memory s) index size_word;
     let s = s\<lparr>memory := m\<rparr>;
     if \<not> ok then Some (EVMC_OUT_OF_GAS, gas_left, s)
     else do {
       let i = lo64 index;
       let n = lo64 size_word;
       let cost = num_words n * 6;
       let gas_left = gas_left - cost;
       if gas_left < 0 then Some (EVMC_OUT_OF_GAS, gas_left, s)
       else do {
         s \<leftarrow> (if n \<noteq> 0
              then log_mem_loop E (\<lambda>j. zw_add index (word_of_size j)) i False 32 0 s
              else Some s);
         data \<leftarrow> (if n \<noteq> 0 then mem_read (memory s) i n else Some []);
         s \<leftarrow> stack_set s tp 0 (word_of_hash E (keccak256 E data));
         s \<leftarrow> log_stack_at E s tp 1 True 0;
         Some (EVMC_SUCCESS, gas_left, s) } } }"

definition zkevm_word_size :: nat where
  "zkevm_word_size = 32"

text \<open>\<open>mload<T>\<close> does not use \<open>T\<close>: every \<open>MLOAD\<close> opcode loads a full word.\<close>

definition i_mload :: "'h env \<Rightarrow> int \<Rightarrow> int \<Rightarrow> 'h exec_state \<Rightarrow> 'h result" where
  "i_mload E tp gas_left s = do {
     s \<leftarrow> log_stack_at E s tp 1 False 0;
     index \<leftarrow> stack_at s tp 0;
     (ok, gas_left, m) \<leftarrow> check_memory E gas_left (memory s) index zkevm_word_size;
     let s = s\<lparr>memory := m\<rparr>;
     if \<not> ok then Some (EVMC_OUT_OF_GAS, gas_left, s)
     else do {
       let addr = lo64 index;
       bs \<leftarrow> mem_read (memory s) addr zkevm_word_size;
       w \<leftarrow> word_of_data E bs;
       s \<leftarrow> stack_set s tp 0 w;
       s \<leftarrow> log_mem_loop E (\<lambda>j. word_of_size (addr + j)) addr False zkevm_word_size 0 s;
       s \<leftarrow> log_stack_at E s tp 1 True 0;
       Some (EVMC_SUCCESS, gas_left, s) } }"

text \<open>
  \<open>mstore<T>\<close> with \<open>sizeof(T)\<close> bytes: the memory check and the log are those of a full word.
\<close>

definition i_mstore :: "nat \<Rightarrow> 'h env \<Rightarrow> int \<Rightarrow> int \<Rightarrow> 'h exec_state \<Rightarrow> 'h result" where
  "i_mstore size_T E tp gas_left s = do {
     s \<leftarrow> log_stack_at E s tp 2 False 1;
     s \<leftarrow> log_stack_at E s tp 1 False 0;
     index \<leftarrow> stack_at s tp 0;
     v \<leftarrow> stack_at s (tp - 1) 0;
     (ok, gas_left, m) \<leftarrow> check_memory E gas_left (memory s) index zkevm_word_size;
     let s = s\<lparr>memory := m\<rparr>;
     if \<not> ok then Some (EVMC_OUT_OF_GAS, gas_left, s)
     else do {
       let addr = lo64 index;
       m \<leftarrow> mem_write (memory s) addr (word_store E size_T v);
       s \<leftarrow> log_mem_loop E (\<lambda>j. word_of_size (addr + j)) addr True zkevm_word_size 0
             (s\<lparr>memory := m\<rparr>);
       Some (EVMC_SUCCESS, gas_left, s) } }"

text \<open>
  \<open>mstore8\<close>, which no opcode is mapped to. The address is narrowed to \<open>int\<close>; a negative one
  indexes the allocation far outside.
\<close>

definition i_mstore8 :: "'h env \<Rightarrow> int \<Rightarrow> int \<Rightarrow> 'h exec_state \<Rightarrow> 'h result" where
  "i_mstore8 E tp gas_left s = do {
     s \<leftarrow> log_stack_at E s tp 2 False 1;
     s \<leftarrow> log_stack_at E s tp 1 False 0;
     index \<leftarrow> stack_at s tp 0;
     v \<leftarrow> stack_at s (tp - 1) 0;
     (ok, gas_left, m) \<leftarrow> check_memory E gas_left (memory s) index 1;
     let s = s\<lparr>memory := m\<rparr>;
     if \<not> ok then Some (EVMC_OUT_OF_GAS, gas_left, s)
     else do {
       let addr = sint (ucast (to_uint64 index 0) :: u32);
       if addr < 0 then None
       else do {
         m \<leftarrow> mem_write (memory s) (nat addr) [ucast (to_uint64 v 0)];
         s \<leftarrow> log_mem_loop E (\<lambda>j. word_of_size (nat addr + j)) (nat addr) True 8 0
               (s\<lparr>memory := m\<rparr>);
         Some (EVMC_SUCCESS, gas_left, s) } } }"

definition i_msize :: "'h env \<Rightarrow> int \<Rightarrow> 'h exec_state \<Rightarrow> 'h exec_state option" where
  "i_msize E tp s = push_logged E tp (word_of_size (mem_size (memory s))) s"

definition i_mcopy :: "'h env \<Rightarrow> int \<Rightarrow> int \<Rightarrow> 'h exec_state \<Rightarrow> 'h result" where
  "i_mcopy E tp gas_left s = do {
     s \<leftarrow> log_stack_at E s tp 3 False 2;
     s \<leftarrow> log_stack_at E s tp 2 False 1;
     s \<leftarrow> log_stack_at E s tp 1 False 0;
     dst_u256 \<leftarrow> stack_at s tp 0;
     src_u256 \<leftarrow> stack_at s (tp - 1) 0;
     size_u256 \<leftarrow> stack_at s (tp - 2) 0;
     (ok, gas_left, m) \<leftarrow>
       check_memory_copy E gas_left (memory s) (max dst_u256 src_u256) size_u256;
     let s = s\<lparr>memory := m\<rparr>;
     if \<not> ok then Some (EVMC_OUT_OF_GAS, gas_left, s)
     else do {
       let dst = lo64 dst_u256;
       let src = lo64 src_u256;
       let n = lo64 size_u256;
       let gas_left = gas_left - copy_cost n;
       if gas_left < 0 then Some (EVMC_OUT_OF_GAS, gas_left, s)
       else if n > 0 then do {
         bs \<leftarrow> mem_read (memory s) src n;
         m \<leftarrow> mem_write (memory s) dst bs;
         Some (EVMC_SUCCESS, gas_left, s\<lparr>memory := m\<rparr>) }
       else Some (EVMC_SUCCESS, gas_left, s) } }"

subsection \<open>Storage\<close>

definition i_sload :: "'h env \<Rightarrow> int \<Rightarrow> int \<Rightarrow> 'h exec_state \<Rightarrow> 'h result" where
  "i_sload E tp gas_left s = do {
     s \<leftarrow> log_stack_at E s tp 1 False 0;
     x \<leftarrow> stack_at s tp 0;
     let key = to_uint256be E x;
     let recipient = msg_recipient (msg s);
     let (cold, s) = (if revision s \<ge> EVMC_BERLIN
       then let (acc, s) = host_access_storage E s recipient key in (acc = EVMC_ACCESS_COLD, s)
       else (False, s));
     let additional_cold_sload_cost = cold_sload_cost - warm_storage_read_cost;
     let gas_left = (if cold then gas_left - additional_cold_sload_cost else gas_left);
     if cold \<and> gas_left < 0 then Some (EVMC_OUT_OF_GAS, gas_left, s)
     else do {
       let (r, s) = host_get_storage E s recipient key;
       let v = word_of_uint256be E r;
       let s = log_storage s (word_of_address E recipient) x False v v;
       s \<leftarrow> stack_set s tp 0 v;
       s \<leftarrow> log_stack_at E s tp 1 True 0;
       Some (EVMC_SUCCESS, gas_left, s) } }"

definition i_sstore :: "'h env \<Rightarrow> int \<Rightarrow> int \<Rightarrow> 'h exec_state \<Rightarrow> 'h result" where
  "i_sstore E tp gas_left s =
     (if in_static_mode s then Some (EVMC_STATIC_MODE_VIOLATION, gas_left, s)
      else if revision s \<ge> EVMC_ISTANBUL \<and> gas_left \<le> 2300
        then Some (EVMC_OUT_OF_GAS, gas_left, s)
      else do {
        s \<leftarrow> log_stack_at E s tp 2 False 1;
        s \<leftarrow> log_stack_at E s tp 1 False 0;
        key \<leftarrow> stack_at s tp 0;
        v \<leftarrow> stack_at s (tp - 1) 0;
        let key_be = to_uint256be E key;
        let value_be = to_uint256be E v;
        let recipient = msg_recipient (msg s);
        let (cold, s) = (if revision s \<ge> EVMC_BERLIN
          then let (acc, s) = host_access_storage E s recipient key_be
               in (acc = EVMC_ACCESS_COLD, s)
          else (False, s));
        let gas_cost_cold = (if cold then cold_sload_cost else 0);
        let (prev, s) = host_get_storage E s recipient key_be;
        let s = log_storage s (word_of_address E recipient) key True v (word_of_uint256be E prev);
        let (st, s) = host_set_storage E s recipient key_be value_be;
        let (gas_cost_warm, refund) = sstore_costs (revision s) st;
        let gas_cost = gas_cost_warm + gas_cost_cold;
        let gas_left = gas_left - gas_cost;
        if gas_left < 0 then Some (EVMC_OUT_OF_GAS, gas_left, s)
        else Some (EVMC_SUCCESS, gas_left, s\<lparr>gas_refund := gas_refund s + refund\<rparr>) })"

definition i_tload :: "'h env \<Rightarrow> int \<Rightarrow> 'h exec_state \<Rightarrow> 'h exec_state option" where
  "i_tload E tp s = do {
     s \<leftarrow> log_stack_at E s tp 1 False 0;
     x \<leftarrow> stack_at s tp 0;
     let key = to_uint256be E x;
     let (v, s) = host_get_transient_storage E s (msg_recipient (msg s)) key;
     s \<leftarrow> stack_set s tp 0 (word_of_uint256be E v);
     log_stack_at E s tp 1 True 0 }"

definition i_tstore :: "'h env \<Rightarrow> int \<Rightarrow> int \<Rightarrow> 'h exec_state \<Rightarrow> 'h result" where
  "i_tstore E tp gas_left s =
     (if in_static_mode s then Some (EVMC_STATIC_MODE_VIOLATION, 0, s)
      else do {
        s \<leftarrow> log_stack_at E s tp 2 False 1;
        s \<leftarrow> log_stack_at E s tp 1 False 0;
        k \<leftarrow> stack_at s tp 0;
        v \<leftarrow> stack_at s (tp - 1) 0;
        let s = host_set_transient_storage E s (msg_recipient (msg s)) (to_uint256be E k)
                  (to_uint256be E v);
        Some (EVMC_SUCCESS, gas_left, s) })"

subsection \<open>The EOF data section\<close>

text \<open>
  \<open>DATALOAD\<close> gives the constructor only the bytes that exist, so a load over the end of the
  section is not padded on the right; and only the branch that loads logs the result.
\<close>

definition i_dataload :: "'h env \<Rightarrow> int \<Rightarrow> 'h exec_state \<Rightarrow> 'h exec_state option" where
  "i_dataload E tp s = do {
     s \<leftarrow> log_stack_at E s tp 1 False 0;
     index \<leftarrow> stack_at s tp 0;
     if length (state_data s) < lo64 index then stack_set s tp 0 0
     else do {
       let start = lo64 index;
       let end_pos = min (start + 32) (length (state_data s));
       w \<leftarrow> word_of_data E (take (end_pos - start) (drop start (state_data s)));
       s \<leftarrow> stack_set s tp 0 w;
       log_stack_at E s tp 1 True 0 } }"

definition i_datasize :: "'h env \<Rightarrow> int \<Rightarrow> 'h exec_state \<Rightarrow> 'h exec_state option" where
  "i_datasize E tp s = push_logged E tp (word_of_size (length (state_data s))) s"

text \<open>The two bytes after the opcode, unsigned and signed.\<close>

definition code_uint16_be :: "'h exec_state \<Rightarrow> int \<Rightarrow> u16 option" where
  "code_uint16_be s pos = do {
     h \<leftarrow> code_byte s pos;
     l \<leftarrow> code_byte s (pos + 1);
     Some (push_bit 8 (ucast h) OR ucast l) }"

definition code_int16_be :: "'h exec_state \<Rightarrow> int \<Rightarrow> int option" where
  "code_int16_be s pos = do {
     w \<leftarrow> code_uint16_be s pos;
     Some (sint w) }"

definition i_dataloadn ::
  "'h env \<Rightarrow> int \<Rightarrow> 'h exec_state \<Rightarrow> int \<Rightarrow> (int option \<times> 'h exec_state) option" where
  "i_dataloadn E tp s pos = do {
     index \<leftarrow> code_uint16_be s (pos + 1);
     bs \<leftarrow> slice_opt (state_data s) (unat index) zkevm_word_size;
     w \<leftarrow> word_of_data E bs;
     s \<leftarrow> push_logged E tp w s;
     Some (Some (pos + 3), s) }"

text \<open>The bytes cleared at the end of the range are logged at the addresses of its start.\<close>

primrec log_zero_loop :: "'h env \<Rightarrow> nat \<Rightarrow> nat \<Rightarrow> nat \<Rightarrow> 'h exec_state \<Rightarrow> 'h exec_state option" where
  "log_zero_loop E dst 0 j s = Some s"
| "log_zero_loop E dst (Suc n) j s = do {
     s \<leftarrow> log_memory E s (word_of_size (dst + j)) True 0;
     log_zero_loop E dst n (Suc j) s }"

definition i_datacopy :: "'h env \<Rightarrow> int \<Rightarrow> int \<Rightarrow> 'h exec_state \<Rightarrow> 'h result" where
  "i_datacopy E tp gas_left s = do {
     s \<leftarrow> log_stack_at E s tp 3 False 2;
     s \<leftarrow> log_stack_at E s tp 2 False 1;
     s \<leftarrow> log_stack_at E s tp 1 False 0;
     mem_index \<leftarrow> stack_at s tp 0;
     data_index \<leftarrow> stack_at s (tp - 1) 0;
     size_word \<leftarrow> stack_at s (tp - 2) 0;
     (ok, gas_left, m) \<leftarrow> check_memory_copy E gas_left (memory s) mem_index size_word;
     let s = s\<lparr>memory := m\<rparr>;
     if \<not> ok then Some (EVMC_OUT_OF_GAS, gas_left, s)
     else do {
       let dst = lo64 mem_index;
       let (src, copy_size) = copy_source_bounds (state_data s) data_index size_word;
       let n = lo64 size_word;
       let gas_left = gas_left - copy_cost n;
       if gas_left < 0 then Some (EVMC_OUT_OF_GAS, gas_left, s)
       else do {
         s \<leftarrow> (if copy_size > 0 then do {
                m \<leftarrow> mem_write (memory s) dst (take copy_size (drop src (state_data s)));
                log_mem_loop E (\<lambda>j. word_of_size (dst + j)) dst True copy_size 0 (s\<lparr>memory := m\<rparr>) }
              else Some s);
         s \<leftarrow> (if n - copy_size > 0 then do {
                m \<leftarrow> mem_write (memory s) (dst + copy_size) (replicate (n - copy_size) 0);
                log_zero_loop E dst (n - copy_size) 0 (s\<lparr>memory := m\<rparr>) }
              else Some s);
         Some (EVMC_SUCCESS, gas_left, s) } } }"

subsection \<open>Frames\<close>

lemma frame_keccak256 [trace_intros]:
  "frame s0 s \<Longrightarrow> post (i_keccak256 E tp g s) (\<lambda>(_, _, s'). frame s0 s')"
  unfolding i_keccak256_def Let_def
  by (intro frame_steps [where s = s0] frame_rules trace_intros; auto)

lemma frame_mload [trace_intros]:
  "frame s0 s \<Longrightarrow> post (i_mload E tp g s) (\<lambda>(_, _, s'). frame s0 s')"
  unfolding i_mload_def Let_def
  by (intro frame_steps [where s = s0] frame_rules trace_intros; auto)

lemma frame_mstore [trace_intros]:
  "frame s0 s \<Longrightarrow> post (i_mstore n E tp g s) (\<lambda>(_, _, s'). frame s0 s')"
  unfolding i_mstore_def Let_def
  by (intro frame_steps [where s = s0] frame_rules trace_intros; auto)

lemma frame_mstore8 [trace_intros]:
  "frame s0 s \<Longrightarrow> post (i_mstore8 E tp g s) (\<lambda>(_, _, s'). frame s0 s')"
  unfolding i_mstore8_def Let_def
  by (intro frame_steps [where s = s0] frame_rules trace_intros post_None; auto)

lemma frame_mcopy [trace_intros]:
  "frame s0 s \<Longrightarrow> post (i_mcopy E tp g s) (\<lambda>(_, _, s'). frame s0 s')"
  unfolding i_mcopy_def Let_def
  by (intro frame_steps [where s = s0] frame_rules trace_intros; auto)

lemma frame_cold_storage [trace_intros]:
  assumes "frame s0 s"
  shows "frame s0 (snd (if c then case host_access_storage E s a k of (acc, s) \<Rightarrow> (f acc, s)
    else (d, s)))"
  using frame_host_snd(10) [OF assms, of E a k] assms
  by (cases "host_access_storage E s a k") simp

lemma frame_sload [trace_intros]:
  "frame s0 s \<Longrightarrow> post (i_sload E tp g s) (\<lambda>(_, _, s'). frame s0 s')"
  unfolding i_sload_def Let_def
  by (intro frame_steps [where s = s0] frame_rules trace_intros; auto)

lemma value_pair_int: "(\<And>a b. post (f a b) Q) \<Longrightarrow> post (case (p :: int \<times> int) of (a, b) \<Rightarrow> f a b) Q"
  by (cases p) simp

lemma frame_sstore [trace_intros]:
  "frame s0 s \<Longrightarrow> post (i_sstore E tp g s) (\<lambda>(_, _, s'). frame s0 s')"
  unfolding i_sstore_def Let_def
  by (intro frame_steps [where s = s0] frame_rules trace_intros value_pair_int; auto)

lemma frame_tload [trace_intros]: "frame s0 s \<Longrightarrow> post (i_tload E tp s) (frame s0)"
  unfolding i_tload_def Let_def
  by (intro frame_steps [where s = s0] frame_rules trace_intros; auto)

lemma frame_tstore [trace_intros]:
  "frame s0 s \<Longrightarrow> post (i_tstore E tp g s) (\<lambda>(_, _, s'). frame s0 s')"
  unfolding i_tstore_def Let_def
  by (intro frame_steps [where s = s0] frame_rules trace_intros; auto)

lemma frame_dataload [trace_intros]: "frame s0 s \<Longrightarrow> post (i_dataload E tp s) (frame s0)"
  unfolding i_dataload_def Let_def
  by (intro frame_steps [where s = s0] frame_rules trace_intros; auto)

lemma frame_size_pushes [trace_intros]:
  "frame s0 s \<Longrightarrow> post (i_msize E tp s) (frame s0)"
  "frame s0 s \<Longrightarrow> post (i_datasize E tp s) (frame s0)"
  by (simp_all add: i_msize_def i_datasize_def frame_push_logged)

lemma frame_dataloadn [trace_intros]:
  "frame s0 s \<Longrightarrow> post (i_dataloadn E tp s pos) (\<lambda>(_, s'). frame s0 s')"
  unfolding i_dataloadn_def Let_def
  by (intro frame_steps [where s = s0] frame_rules trace_intros; auto)

lemma frame_log_zero_loop [trace_intros]:
  "frame s0 s \<Longrightarrow> post (log_zero_loop E dst n j s) (frame s0)"
proof (induction n arbitrary: j s)
  case 0
  then show ?case by simp
next
  case (Suc n)
  then show ?case
    unfolding log_zero_loop.simps by (intro frame_steps [where s = s0] frame_rules trace_intros)
qed

lemma frame_datacopy [trace_intros]:
  "frame s0 s \<Longrightarrow> post (i_datacopy E tp g s) (\<lambda>(_, _, s'). frame s0 s')"
  unfolding i_datacopy_def Let_def
  by (intro frame_steps [where s = s0] frame_rules trace_intros; auto)

end
