(* ===== verification/Instr_Stack.thy ===== *)
theory Instr_Stack
  imports Instr_Mem
begin

text \<open>
  The stack instructions of \<open>evmone/instructions.hpp\<close>: \<open>POP\<close>, \<open>PUSH\<close>, \<open>DUP\<close>, \<open>SWAP\<close>, their EOF
  variants and \<open>LOG1\<close>. A handler that also moves the code position returns it, \<open>None\<close> for the
  null pointer that ends the run.
\<close>

type_synonym 'h jump_result = "(int option \<times> 'h exec_state) option"

subsection \<open>Handlers that only see the stack pointer\<close>

definition i_noop :: "int \<Rightarrow> unit" where
  "i_noop tp = ()"

definition i_pop :: "int \<Rightarrow> unit" where
  "i_pop tp = ()"

definition i_jumpdest :: "int \<Rightarrow> unit" where
  "i_jumpdest tp = ()"

definition i_log :: "'h env \<Rightarrow> int \<Rightarrow> 'h exec_state \<Rightarrow> 'h exec_state option" where
  "i_log E tp s = Some s"

subsection \<open>PUSH\<close>

definition i_push0 :: "'h env \<Rightarrow> int \<Rightarrow> 'h exec_state \<Rightarrow> 'h exec_state option" where
  "i_push0 E tp s = push_logged E tp 0 s"

text \<open>The loop over the full words, the most significant one first.\<close>

primrec load_full_words ::
  "'a libs_scheme \<Rightarrow> byte list \<Rightarrow> nat \<Rightarrow> nat \<Rightarrow> zkevm_word \<Rightarrow> zkevm_word option" where
  "load_full_words L buf data 0 r = Some r"
| "load_full_words L buf data (Suc m) r = do {
     r \<leftarrow> load_partial_data L r buf data 8 m;
     load_full_words L buf (data + 8) m r }"

definition push_value :: "'a libs_scheme \<Rightarrow> byte list \<Rightarrow> nat \<Rightarrow> nat \<Rightarrow> zkevm_word option" where
  "push_value L buf data len =
     (let num_full_words = len div 8;
          num_partial_bytes = len mod 8
      in do {
        r \<leftarrow> (if num_partial_bytes \<noteq> 0
             then load_partial_data L 0 buf data num_partial_bytes num_full_words else Some 0);
        load_full_words L buf (data + num_partial_bytes) num_full_words r })"

text \<open>One entry per value of \<open>i\<close>: slot \<open>i\<close> below the top, at the address of that slot.\<close>

primrec log_push_loop ::
  "'h env \<Rightarrow> int \<Rightarrow> nat \<Rightarrow> int \<Rightarrow> 'h exec_state \<Rightarrow> 'h exec_state option" where
  "log_push_loop E tp 0 i s = Some s"
| "log_push_loop E tp (Suc n) i s = do {
     s \<leftarrow> log_stack_at E s tp (1 + i) True i;
     log_push_loop E tp n (i + 1) s }"

definition push_num_words :: "nat \<Rightarrow> nat" where
  "push_num_words len = len div zkevm_word_size + len mod zkevm_word_size"

definition i_push :: "nat \<Rightarrow> 'h env \<Rightarrow> int \<Rightarrow> 'h exec_state \<Rightarrow> int \<Rightarrow> 'h jump_result" where
  "i_push len E tp s pos = do {
     let data = int (executable_offset (analysis s)) + pos + 1;
     (tp, s) \<leftarrow> stack_push s tp 0;
     r \<leftarrow> (if data < 0 then None
          else push_value E (code_buffer (analysis s)) (nat data) len);
     s \<leftarrow> stack_set s tp 0 r;
     s \<leftarrow> log_push_loop E tp (push_num_words len) 0 s;
     Some (Some (pos + int len + 1), s) }"

subsection \<open>DUP and SWAP\<close>

definition i_dup :: "nat \<Rightarrow> 'h env \<Rightarrow> int \<Rightarrow> 'h exec_state \<Rightarrow> 'h exec_state option" where
  "i_dup n E tp s =
     (if n = 0 then do {
        s \<leftarrow> log_stack_at E s tp 1 False 0;
        index \<leftarrow> stack_at s tp 0;
        let tp = tp - 1;
        let addr = sint (ucast (to_uint64 index 0) :: u32);
        _ \<leftarrow> cassert E (addr < 2 ^ 31 - 1);
        s \<leftarrow> log_stack_at E s tp addr False (addr - 1);
        v \<leftarrow> stack_at s tp (addr - 1);
        push_logged E tp v s }
      else do {
        s \<leftarrow> log_stack_at E s tp (int n) False (int n - 1);
        v \<leftarrow> stack_at s tp (int n - 1);
        push_logged E tp v s })"

text \<open>
  The exchange through four limbs, and the two entries that log it. The second entry is
  one slot too high: it logs \<open>stack[addr - 1]\<close> at the address of that slot.
\<close>

definition swap_body :: "'h env \<Rightarrow> int \<Rightarrow> int \<Rightarrow> 'h exec_state \<Rightarrow> 'h exec_state option" where
  "swap_body E tp addr s = do {
     s \<leftarrow> log_stack_at E s tp (addr + 1) False addr;
     s \<leftarrow> log_stack_at E s tp 1 False 0;
     t \<leftarrow> stack_at s tp 0;
     let t0 = to_uint64 t 0;
     let t1 = to_uint64 t 1;
     let t2 = to_uint64 t 2;
     let t3 = to_uint64 t 3;
     a \<leftarrow> stack_at s tp addr;
     s \<leftarrow> stack_set s tp 0 a;
     a \<leftarrow> stack_at s tp addr;
     s \<leftarrow> stack_set s tp addr (set_val (set_val (set_val (set_val a t0 0) t1 1) t2 2) t3 3);
     s \<leftarrow> log_stack_at E s tp 1 True 0;
     log_stack_at E s tp addr True (addr - 1) }"

definition i_swap :: "nat \<Rightarrow> 'h env \<Rightarrow> int \<Rightarrow> 'h exec_state \<Rightarrow> 'h exec_state option" where
  "i_swap n E tp s =
     (if n = 0 then do {
        s \<leftarrow> log_stack_at E s tp 1 False 0;
        index \<leftarrow> stack_at s tp 0;
        let tp = tp - 1;
        _ \<leftarrow> cassert E (index < 2 ^ 31 - 1);
        let addr = uint (ucast (to_uint64 index 0) :: u16);
        swap_body E tp addr s }
      else swap_body E tp (int n) s)"

text \<open>The 16-bit stack height that \<open>dupn\<close> computes, and the full-width one of \<open>swapn\<close>.\<close>

definition i_dupn :: "'h env \<Rightarrow> int \<Rightarrow> 'h exec_state \<Rightarrow> int \<Rightarrow> 'h jump_result" where
  "i_dupn E tp s pos = do {
     b \<leftarrow> code_byte s (pos + 1);
     let n = uint b + 1;
     let height = uint (word_of_int (tp - stack_bottom) :: u16);
     if height < n then Some (None, s\<lparr>status := EVMC_STACK_UNDERFLOW\<rparr>)
     else do {
       s \<leftarrow> log_stack_at E s tp n False (n - 1);
       v \<leftarrow> stack_at s tp (n - 1);
       s \<leftarrow> push_logged E tp v s;
       Some (Some (pos + 2), s) } }"

definition i_swapn :: "'h env \<Rightarrow> int \<Rightarrow> 'h exec_state \<Rightarrow> int \<Rightarrow> 'h jump_result" where
  "i_swapn E tp s pos = do {
     b \<leftarrow> code_byte s (pos + 1);
     let n = uint b + 1;
     let height = tp - stack_bottom;
     if height \<le> n then Some (None, s\<lparr>status := EVMC_STACK_UNDERFLOW\<rparr>)
     else do {
       s \<leftarrow> log_stack_at E s tp (n + 1) False n;
       s \<leftarrow> log_stack_at E s tp 1 False 0;
       t \<leftarrow> stack_at s tp 0;
       a \<leftarrow> stack_at s tp n;
       s \<leftarrow> stack_set s tp 0 a;
       s \<leftarrow> stack_set s tp n t;
       s \<leftarrow> log_stack_at E s tp 1 True 0;
       s \<leftarrow> log_stack_at E s tp (n + 1) True n;
       Some (Some (pos + 2), s) } }"

subsection \<open>Frames\<close>

lemma frame_push0 [trace_intros]: "frame s0 s \<Longrightarrow> post (i_push0 E tp s) (frame s0)"
  by (simp add: i_push0_def frame_push_logged)

lemma frame_log [trace_intros]: "frame s0 s \<Longrightarrow> post (i_log E tp s) (frame s0)"
  by (simp add: i_log_def)

lemma frame_log_push_loop [trace_intros]:
  "frame s0 s \<Longrightarrow> post (log_push_loop E tp n i s) (frame s0)"
proof (induction n arbitrary: i s)
  case 0
  then show ?case by simp
next
  case (Suc n)
  then show ?case
    unfolding log_push_loop.simps by (intro frame_steps [where s = s0] frame_rules trace_intros)
qed

lemma frame_push [trace_intros]:
  "frame s0 s \<Longrightarrow> post (i_push len E tp s pos) (\<lambda>(_, s'). frame s0 s')"
  unfolding i_push_def Let_def
  by (intro frame_steps [where s = s0] frame_rules trace_intros; auto)

lemma frame_dup [trace_intros]: "frame s0 s \<Longrightarrow> post (i_dup n E tp s) (frame s0)"
  unfolding i_dup_def Let_def
  by (intro frame_steps [where s = s0] frame_rules trace_intros; auto)

lemma frame_swap_body [trace_intros]: "frame s0 s \<Longrightarrow> post (swap_body E tp a s) (frame s0)"
  unfolding swap_body_def Let_def
  by (intro frame_steps [where s = s0] frame_rules trace_intros; auto)

lemma frame_swap [trace_intros]: "frame s0 s \<Longrightarrow> post (i_swap n E tp s) (frame s0)"
  unfolding i_swap_def Let_def
  by (intro frame_steps [where s = s0] frame_rules trace_intros; auto)

lemma frame_dupn [trace_intros]:
  "frame s0 s \<Longrightarrow> post (i_dupn E tp s pos) (\<lambda>(_, s'). frame s0 s')"
  unfolding i_dupn_def Let_def
  by (intro frame_steps [where s = s0] frame_rules trace_intros; auto)

lemma frame_swapn [trace_intros]:
  "frame s0 s \<Longrightarrow> post (i_swapn E tp s pos) (\<lambda>(_, s'). frame s0 s')"
  unfolding i_swapn_def Let_def
  by (intro frame_steps [where s = s0] frame_rules trace_intros; auto)

end
