(* ===== verification/Instr_Flow.thy ===== *)
theory Instr_Flow
  imports Instr_Stack
begin

text \<open>
  The control-flow instructions of \<open>evmone/instructions.hpp\<close>: jumps, EOF functions, and the
  instructions that end the run.
\<close>

subsection \<open>Stop\<close>

definition stop_impl ::
  "int \<Rightarrow> int \<Rightarrow> 'h exec_state \<Rightarrow> evmc_status_code \<Rightarrow> 'h result" where
  "stop_impl tp gas_left s st = Some (st, gas_left, s)"

definition i_stop :: "'h env \<Rightarrow> int \<Rightarrow> int \<Rightarrow> 'h exec_state \<Rightarrow> 'h result" where
  "i_stop E tp gas_left s = stop_impl tp gas_left s EVMC_SUCCESS"

definition i_invalid :: "'h env \<Rightarrow> int \<Rightarrow> int \<Rightarrow> 'h exec_state \<Rightarrow> 'h result" where
  "i_invalid E tp gas_left s = stop_impl tp gas_left s EVMC_INVALID_INSTRUCTION"

definition return_impl ::
  "'h env \<Rightarrow> int \<Rightarrow> int \<Rightarrow> 'h exec_state \<Rightarrow> evmc_status_code \<Rightarrow> 'h result" where
  "return_impl E tp gas_left s st = do {
     s \<leftarrow> log_stack_at E s tp 2 False 1;
     s \<leftarrow> log_stack_at E s tp 1 False 0;
     offset \<leftarrow> stack_at s tp 0;
     size_word \<leftarrow> stack_at s tp 1;
     (ok, gas_left, m) \<leftarrow> check_memory_copy E gas_left (memory s) offset size_word;
     let s = s\<lparr>memory := m\<rparr>;
     if \<not> ok then Some (EVMC_OUT_OF_GAS, gas_left, s)
     else do {
       let s = s\<lparr>output_size := lo64 size_word\<rparr>;
       let s = (if output_size s \<noteq> 0 then s\<lparr>output_offset := lo64 offset\<rparr> else s);
       Some (st, gas_left, s) } }"

definition i_return :: "'h env \<Rightarrow> int \<Rightarrow> int \<Rightarrow> 'h exec_state \<Rightarrow> 'h result" where
  "i_return E tp gas_left s = return_impl E tp gas_left s EVMC_SUCCESS"

definition i_revert :: "'h env \<Rightarrow> int \<Rightarrow> int \<Rightarrow> 'h exec_state \<Rightarrow> 'h result" where
  "i_revert E tp gas_left s = return_impl E tp gas_left s EVMC_REVERT"

text \<open>
  The balance is asked for in every revision after \<open>TANGERINE_WHISTLE\<close> and the account only
  if the balance (or the revision) calls for it.
\<close>

definition selfdestruct_charge ::
  "'h env \<Rightarrow> evmc_address \<Rightarrow> int \<Rightarrow> 'h exec_state \<Rightarrow> bool \<times> int \<times> 'h exec_state" where
  "selfdestruct_charge E beneficiary gas_left s =
     (if revision s \<ge> EVMC_TANGERINE_WHISTLE then
        let (due, s) = (if revision s = EVMC_TANGERINE_WHISTLE then (True, s)
              else let (b, s) = host_get_balance E s (msg_recipient (msg s))
                   in (\<not> is_zero_bytes32 b, s))
        in if due then
             let (ex, s) = host_account_exists E s beneficiary
             in if \<not> ex then (gas_left - 25000 < 0, gas_left - 25000, s)
                else (False, gas_left, s)
           else (False, gas_left, s)
      else (False, gas_left, s))"

definition i_selfdestruct :: "'h env \<Rightarrow> int \<Rightarrow> int \<Rightarrow> 'h exec_state \<Rightarrow> 'h result" where
  "i_selfdestruct E tp gas_left s =
     (if in_static_mode s then Some (EVMC_STATIC_MODE_VIOLATION, gas_left, s)
      else do {
        s \<leftarrow> log_stack_at E s tp 1 False 0;
        b \<leftarrow> stack_at s tp 0;
        let beneficiary = to_address E b;
        let (oog, gas_left, s) =
          charge_cold_account E s beneficiary cold_account_access_cost gas_left;
        if oog then Some (EVMC_OUT_OF_GAS, gas_left, s)
        else do {
          let (oog, gas_left, s) = selfdestruct_charge E beneficiary gas_left s;
          if oog then Some (EVMC_OUT_OF_GAS, gas_left, s)
          else do {
            let (done_first, s) = host_selfdestruct E s (msg_recipient (msg s)) beneficiary;
            let s = (if done_first \<and> revision s < EVMC_LONDON
                     then s\<lparr>gas_refund := gas_refund s + 24000\<rparr> else s);
            Some (EVMC_SUCCESS, gas_left, s) } } })"

subsection \<open>Jumps\<close>

definition jump_impl :: "'h exec_state \<Rightarrow> zkevm_word \<Rightarrow> int option \<times> 'h exec_state" where
  "jump_impl s dst =
     (let jm = jumpdest_map (analysis s);
          dst_uint64 = lo64 dst
      in if dst_uint64 \<ge> length jm \<or> \<not> jm ! dst_uint64
         then (None, s\<lparr>status := EVMC_BAD_JUMP_DESTINATION\<rparr>)
         else (Some (int dst_uint64), s))"

definition i_jump :: "'h env \<Rightarrow> int \<Rightarrow> 'h exec_state \<Rightarrow> int \<Rightarrow> 'h jump_result" where
  "i_jump E tp s pos = do {
     s \<leftarrow> log_stack_at E s tp 1 False 0;
     dst \<leftarrow> stack_at s tp 0;
     Some (jump_impl s dst) }"

definition i_jumpi :: "'h env \<Rightarrow> int \<Rightarrow> 'h exec_state \<Rightarrow> int \<Rightarrow> 'h jump_result" where
  "i_jumpi E tp s pos = do {
     s \<leftarrow> log_stack_at E s tp 2 False 1;
     s \<leftarrow> log_stack_at E s tp 1 False 0;
     dst \<leftarrow> stack_at s tp 0;
     cond \<leftarrow> stack_at s (tp - 1) 0;
     Some (if lo64 cond > 0 then jump_impl s dst else (Some (pos + 1), s)) }"

definition i_rjump :: "'h env \<Rightarrow> int \<Rightarrow> 'h exec_state \<Rightarrow> int \<Rightarrow> 'h jump_result" where
  "i_rjump E tp s pc = do {
     offset \<leftarrow> code_int16_be s (pc + 1);
     Some (Some (pc + 3 + offset), s) }"

definition i_rjumpi :: "'h env \<Rightarrow> int \<Rightarrow> 'h exec_state \<Rightarrow> int \<Rightarrow> 'h jump_result" where
  "i_rjumpi E tp s pc = do {
     s \<leftarrow> log_stack_at E s tp 1 False 0;
     cond \<leftarrow> stack_at s tp 0;
     if lo64 cond > 0 then i_rjump E (tp - 1) s pc else Some (Some (pc + 3), s) }"

definition i_rjumpv :: "'h env \<Rightarrow> int \<Rightarrow> 'h exec_state \<Rightarrow> int \<Rightarrow> 'h jump_result" where
  "i_rjumpv E tp s pc = do {
     s \<leftarrow> log_stack_at E s tp 1 False 0;
     case_word \<leftarrow> stack_at s tp 0;
     max_index \<leftarrow> code_byte s (pc + 1);
     let pc_post = pc + 1 + 1 + (uint max_index + 1) * 2;
     if lo64 case_word > unat max_index then Some (Some pc_post, s)
     else do {
       rel_offset \<leftarrow> code_int16_be s (pc + 2 + uint (ucast (to_uint64 case_word 0) :: u16) * 2);
       Some (Some (pc_post + rel_offset), s) } }"

definition i_pc :: "'h env \<Rightarrow> int \<Rightarrow> 'h exec_state \<Rightarrow> int \<Rightarrow> 'h jump_result" where
  "i_pc E tp s pos = do {
     s \<leftarrow> push_logged E tp (word_of_uint64 (word_of_int pos)) s;
     Some (Some (pos + 1), s) }"

definition i_gas :: "'h env \<Rightarrow> int \<Rightarrow> int \<Rightarrow> 'h exec_state \<Rightarrow> 'h result" where
  "i_gas E tp gas_left s = do {
     s \<leftarrow> push_logged E tp (word_of_int64 gas_left) s;
     Some (EVMC_SUCCESS, gas_left, s) }"

subsection \<open>EOF functions\<close>

text \<open>
  The test that \<open>callf\<close> and \<open>jumpf\<close> share: the stack room the callee may need, and where its
  code starts relative to the first section.
\<close>

definition callee_check :: "'h exec_state \<Rightarrow> int \<Rightarrow> u16 \<Rightarrow> bool option" where
  "callee_check s tp index = do {
     t \<leftarrow> nth_opt (code_types (analysis_header (analysis s))) (unat index);
     let height = tp - stack_bottom;
     let callee_required_stack_size = uint (ty_max_stack_height t) - uint (ty_inputs t);
     Some (height + callee_required_stack_size > int stack_limit) }"

definition callee_start :: "'h exec_state \<Rightarrow> u16 \<Rightarrow> int option" where
  "callee_start s index = do {
     off \<leftarrow> nth_opt (code_offsets (analysis_header (analysis s))) (unat index);
     off0 \<leftarrow> nth_opt (code_offsets (analysis_header (analysis s))) 0;
     Some (uint off - uint off0) }"

definition i_callf :: "'h env \<Rightarrow> int \<Rightarrow> 'h exec_state \<Rightarrow> int \<Rightarrow> 'h jump_result" where
  "i_callf E tp s pos = do {
     index \<leftarrow> code_uint16_be s (pos + 1);
     over \<leftarrow> callee_check s tp index;
     if over then Some (None, s\<lparr>status := EVMC_STACK_OVERFLOW\<rparr>)
     else if length (call_stack s) \<ge> stack_limit
       then Some (None, s\<lparr>status := EVMC_STACK_OVERFLOW\<rparr>)
     else do {
       let s = s\<lparr>call_stack := call_stack s @ [pos + 3]\<rparr>;
       offset \<leftarrow> callee_start s index;
       Some (Some offset, s) } }"

definition i_retf :: "'h env \<Rightarrow> int \<Rightarrow> 'h exec_state \<Rightarrow> int \<Rightarrow> 'h jump_result" where
  "i_retf E tp s pos = do {
     p \<leftarrow> last_opt (call_stack s);
     Some (Some p, s\<lparr>call_stack := butlast (call_stack s)\<rparr>) }"

definition i_jumpf :: "'h env \<Rightarrow> int \<Rightarrow> 'h exec_state \<Rightarrow> int \<Rightarrow> 'h jump_result" where
  "i_jumpf E tp s pos = do {
     index \<leftarrow> code_uint16_be s (pos + 1);
     over \<leftarrow> callee_check s tp index;
     if over then Some (None, s\<lparr>status := EVMC_STACK_OVERFLOW\<rparr>)
     else do {
       offset \<leftarrow> callee_start s index;
       Some (Some offset, s) } }"

subsection \<open>Frames\<close>

lemma frame_stop_impl [trace_intros]:
  "frame s0 s \<Longrightarrow> post (i_stop E tp g s) (\<lambda>(_, _, s'). frame s0 s')"
  "frame s0 s \<Longrightarrow> post (i_invalid E tp g s) (\<lambda>(_, _, s'). frame s0 s')"
  by (simp_all add: i_stop_def i_invalid_def stop_impl_def)

lemma bind_allowed_output:
  assumes "\<And>ok g' m'. mem_kept m m' \<Longrightarrow> (ok \<Longrightarrow> range_ok m' (lo64 off) (lo64 k)) \<Longrightarrow> post (f ok g' m') Q"
  shows "post (Option.bind (check_memory_copy L g m off k) (\<lambda>(ok, g', m'). f ok g' m')) Q"
  by (rule post_bindI [OF check_memory_copy_range]) (use assms in auto)

lemma frame_return_impl [trace_intros]:
  "frame s0 s \<Longrightarrow> post (return_impl E tp g s st) (\<lambda>(_, _, s'). frame s0 s')"
  unfolding return_impl_def Let_def
  by (intro frame_steps [where s = s0] value_binds bind_allowed_output trace_intros)
    (auto intro: frame_memory frame_allowed_output)

lemma frame_return [trace_intros]:
  "frame s0 s \<Longrightarrow> post (i_return E tp g s) (\<lambda>(_, _, s'). frame s0 s')"
  "frame s0 s \<Longrightarrow> post (i_revert E tp g s) (\<lambda>(_, _, s'). frame s0 s')"
  by (simp_all add: i_return_def i_revert_def frame_return_impl)

lemma frame_selfdestruct_charge [trace_intros]:
  "frame s0 s \<Longrightarrow> frame s0 (snd (snd (selfdestruct_charge E b g s)))"
  by (auto simp: selfdestruct_charge_def host_defs Let_def split: prod.split)

lemma frame_selfdestruct [trace_intros]:
  "frame s0 s \<Longrightarrow> post (i_selfdestruct E tp g s) (\<lambda>(_, _, s'). frame s0 s')"
  unfolding i_selfdestruct_def Let_def
  by (intro frame_steps [where s = s0] frame_rules trace_intros; auto)

lemma frame_jump_impl [trace_intros]: "frame s0 s \<Longrightarrow> frame s0 (snd (jump_impl s d))"
  by (simp add: jump_impl_def Let_def)

lemma frame_jump_result: "frame s (snd p) \<Longrightarrow> post (Some p) (\<lambda>(_, s'). frame s s')"
  by (cases p) simp

lemma frame_jumps [trace_intros]:
  "frame s0 s \<Longrightarrow> post (i_jump E tp s pos) (\<lambda>(_, s'). frame s0 s')"
  unfolding i_jump_def
  by (intro frame_steps [where s = s0] frame_rules trace_intros frame_jump_result; auto)

lemma frame_jumpi [trace_intros]:
  "frame s0 s \<Longrightarrow> post (i_jumpi E tp s pos) (\<lambda>(_, s'). frame s0 s')"
  unfolding i_jumpi_def
  by (intro frame_steps [where s = s0] frame_rules trace_intros frame_jump_result;
      simp add: frame_jump_impl)

lemma frame_rjump [trace_intros]:
  "frame s0 s \<Longrightarrow> post (i_rjump E tp s pos) (\<lambda>(_, s'). frame s0 s')"
  unfolding i_rjump_def by (intro frame_steps [where s = s0] frame_rules trace_intros; auto)

lemma frame_rjumpi [trace_intros]:
  "frame s0 s \<Longrightarrow> post (i_rjumpi E tp s pos) (\<lambda>(_, s'). frame s0 s')"
  unfolding i_rjumpi_def by (intro frame_steps [where s = s0] frame_rules trace_intros; auto)

lemma frame_rjumpv [trace_intros]:
  "frame s0 s \<Longrightarrow> post (i_rjumpv E tp s pos) (\<lambda>(_, s'). frame s0 s')"
  unfolding i_rjumpv_def Let_def
  by (intro frame_steps [where s = s0] frame_rules trace_intros; auto)

lemma frame_pc [trace_intros]:
  "frame s0 s \<Longrightarrow> post (i_pc E tp s pos) (\<lambda>(_, s'). frame s0 s')"
  unfolding i_pc_def by (intro frame_steps [where s = s0] frame_rules trace_intros; auto)

lemma frame_gas [trace_intros]:
  "frame s0 s \<Longrightarrow> post (i_gas E tp g s) (\<lambda>(_, _, s'). frame s0 s')"
  unfolding i_gas_def by (intro frame_steps [where s = s0] frame_rules trace_intros; auto)

lemma frame_functions [trace_intros]:
  assumes "frame s0 s"
  shows "post (i_callf E tp s pos) (\<lambda>(_, s'). frame s0 s')"
    and "post (i_retf E tp s pos) (\<lambda>(_, s'). frame s0 s')"
    and "post (i_jumpf E tp s pos) (\<lambda>(_, s'). frame s0 s')"
  unfolding i_callf_def i_retf_def i_jumpf_def Let_def using assms
  by (intro frame_steps [where s = s0] frame_rules trace_intros; auto)+

end
