(* ===== verification/Instr_Call.thy ===== *)
theory Instr_Call
  imports Instr_Flow
begin

text \<open>
  The instructions that run another contract: the call family (\<open>call_impl\<close>) and contract
  creation (\<open>create_impl\<close>) of \<open>evmone/instructions.hpp\<close>. The callee runs behind the host
  callback \<open>call\<close>. The gas arithmetic after the call is on \<open>int64_t\<close> values that the code does
  not bound, so an overflow is \<open>None\<close>.
\<close>

definition int64_min :: int where
  "int64_min = - (2 ^ 63)"

definition int64_max :: int where
  "int64_max = 2 ^ 63 - 1"

definition int64_result :: "int \<Rightarrow> int option" where
  "int64_result x = (if int64_min \<le> x \<and> x \<le> int64_max then Some x else None)"

text \<open>The entries for the operands: slot \<open>i\<close> below the top, from the top downwards.\<close>

primrec log_reads_loop ::
  "'h env \<Rightarrow> int \<Rightarrow> nat \<Rightarrow> int \<Rightarrow> 'h exec_state \<Rightarrow> 'h exec_state option" where
  "log_reads_loop E tp 0 i s = Some s"
| "log_reads_loop E tp (Suc n) i s = do {
     s \<leftarrow> log_stack_at E s tp (i + 1) False i;
     log_reads_loop E tp n (i + 1) s }"

subsection \<open>Calls\<close>

datatype call_op = CALL_OP | CALLCODE_OP | DELEGATECALL_OP | STATICCALL_OP

record call_operands =
  op_gas :: zkevm_word
  op_dst :: evmc_address
  op_value :: zkevm_word
  op_input_offset :: zkevm_word
  op_input_size :: zkevm_word
  op_output_offset :: zkevm_word
  op_output_size :: zkevm_word

text \<open>The pops: the operands and the top pointer below them.\<close>

definition pop_call_operands ::
  "'h env \<Rightarrow> call_op \<Rightarrow> int \<Rightarrow> 'h exec_state \<Rightarrow> (call_operands \<times> int) option" where
  "pop_call_operands E opc tp s = do {
     gas \<leftarrow> stack_at s tp 0;
     dst \<leftarrow> stack_at s (tp - 1) 0;
     let tp = tp - 2;
     (v, tp) \<leftarrow> (if opc = STATICCALL_OP \<or> opc = DELEGATECALL_OP then Some (0, tp)
                else do { v \<leftarrow> stack_at s tp 0; Some (v, tp - 1) });
     input_offset \<leftarrow> stack_at s tp 0;
     input_size \<leftarrow> stack_at s (tp - 1) 0;
     out_offset \<leftarrow> stack_at s (tp - 2) 0;
     out_size \<leftarrow> stack_at s (tp - 3) 0;
     Some (\<lparr>op_gas = gas, op_dst = to_address E dst, op_value = v, op_input_offset = input_offset,
       op_input_size = input_size, op_output_offset = out_offset, op_output_size = out_size\<rparr>,
       tp - 4) }"

definition call_message ::
  "'h env \<Rightarrow> call_op \<Rightarrow> call_operands \<Rightarrow> 'h exec_state \<Rightarrow> byte list \<Rightarrow> evmc_message" where
  "call_message E opc ops s input =
     zero_message\<lparr>
       msg_kind := (if opc = DELEGATECALL_OP then EVMC_DELEGATECALL
                    else if opc = CALLCODE_OP then EVMC_CALLCODE else EVMC_CALL),
       msg_flags := (if opc = STATICCALL_OP then EVMC_STATIC else msg_flags (msg s)),
       msg_depth := msg_depth (msg s) + 1,
       msg_recipient := (if opc = CALL_OP \<or> opc = STATICCALL_OP then op_dst ops
                         else msg_recipient (msg s)),
       msg_code_address := op_dst ops,
       msg_sender := (if opc = DELEGATECALL_OP then msg_sender (msg s)
                      else msg_recipient (msg s)),
       msg_value := (if opc = DELEGATECALL_OP then msg_value (msg s)
                     else to_uint256be E (op_value ops)),
       msg_input := input\<rparr>"

text \<open>
  The gas of the callee before the stipend: the smaller of the requested gas, read as
  \<open>int64_t\<close>, and all but one 64th of what is left; \<open>None\<close> where the older rule runs out of gas.
\<close>

definition call_gas :: "evmc_revision \<Rightarrow> zkevm_word \<Rightarrow> int \<Rightarrow> int option" where
  "call_gas r requested gas_left =
     (let gas_int64 = sint (to_uint64 requested 0);
          g = (if gas_int64 < int64_max then gas_int64 else int64_max)
      in if r \<ge> EVMC_TANGERINE_WHISTLE then Some (min g (gas_left - gas_left div 64))
         else if g > gas_left then None else Some g)"

text \<open>
  \<open>DELEGATECALL\<close> from an EOF contract to code that is not EOF is refused. The host is asked
  for two bytes of the code; if it returned more, the buffer would overflow.
\<close>

definition delegate_allowed ::
  "'h env \<Rightarrow> call_op \<Rightarrow> evmc_address \<Rightarrow> 'h exec_state \<Rightarrow> (bool \<times> 'h exec_state) option" where
  "delegate_allowed E opc code_address s =
     (if opc = DELEGATECALL_OP \<and> revision s \<ge> EVMC_PRAGUE \<and> is_eof_container (original_code s)
      then let (bs, s) = host_copy_code E s code_address 0 2
           in if length bs \<le> 2 then Some (is_eof_container bs, s) else None
      else Some (True, s))"

text \<open>Running the callee and taking over its result; \<open>tp\<close> points to the slot of the result.\<close>

definition run_call ::
  "'h env \<Rightarrow> int \<Rightarrow> evmc_message \<Rightarrow> nat \<Rightarrow> nat \<Rightarrow> int \<Rightarrow> 'h exec_state \<Rightarrow> 'h result" where
  "run_call E tp m output_off output_sz gas_left s = do {
     (result, s) \<leftarrow> host_call E s m;
     let s = s\<lparr>return_data := res_output result\<rparr>;
     s \<leftarrow> stack_set s tp 0 (word_of_bool (res_status_code result = EVMC_SUCCESS));
     s \<leftarrow> log_stack_at E s tp 1 True 0;
     let copy_size = min output_sz (length (res_output result));
     mem \<leftarrow> (if copy_size > 0
            then mem_write (memory s) output_off (take copy_size (res_output result))
            else Some (memory s));
     let s = s\<lparr>memory := mem\<rparr>;
     gas_used \<leftarrow> int64_result (msg_gas m - res_gas_left result);
     gas_left \<leftarrow> int64_result (gas_left - gas_used);
     refund \<leftarrow> int64_result (gas_refund s + res_gas_refund result);
     Some (EVMC_SUCCESS, gas_left, s\<lparr>gas_refund := refund\<rparr>) }"

text \<open>
  The part of \<open>call_impl\<close> after the memory checks, with the operands, the input bytes and the
  pointer to the slot of the result.
\<close>

definition call_checked ::
  "'h env \<Rightarrow> call_op \<Rightarrow> call_operands \<Rightarrow> byte list \<Rightarrow> int \<Rightarrow> int \<Rightarrow> 'h exec_state \<Rightarrow> 'h result" where
  "call_checked E opc ops input tp gas_left s =
     (let has_value = (op_value ops \<noteq> 0);
          m = call_message E opc ops s input;
          cost = (if has_value then 9000 else 0)
      in if opc = CALL_OP \<and> has_value \<and> in_static_mode s
         then Some (EVMC_STATIC_MODE_VIOLATION, gas_left, s)
         else let (ex, s) = (if opc = CALL_OP \<and> (has_value \<or> revision s < EVMC_SPURIOUS_DRAGON)
                             then host_account_exists E s (op_dst ops) else (True, s));
                  cost = (if ex then cost else cost + 25000);
                  gas_left = gas_left - cost
         in if gas_left < 0 then Some (EVMC_OUT_OF_GAS, gas_left, s)
         else case call_gas (revision s) (op_gas ops) gas_left of
           None \<Rightarrow> Some (EVMC_OUT_OF_GAS, gas_left, s)
         | Some g \<Rightarrow>
             let m = m\<lparr>msg_gas := (if has_value then g + 2300 else g)\<rparr>;
                 gas_left = (if has_value then gas_left + 2300 else gas_left)
             in if msg_depth (msg s) \<ge> 1024 then Some (EVMC_SUCCESS, gas_left, s)
             else let (poor, s) = (if has_value
                    then let (b, s) = host_get_balance E s (msg_recipient (msg s))
                         in (word_of_uint256be E b < op_value ops, s)
                    else (False, s))
             in if poor then Some (EVMC_SUCCESS, gas_left, s)
             else do {
               (allowed, s) \<leftarrow> delegate_allowed E opc (msg_code_address m) s;
               if \<not> allowed then Some (EVMC_SUCCESS, gas_left, s)
               else run_call E tp m (lo64 (op_output_offset ops)) (lo64 (op_output_size ops))
                      gas_left s })"

definition call_impl ::
  "'h env \<Rightarrow> call_op \<Rightarrow> int \<Rightarrow> int \<Rightarrow> 'h exec_state \<Rightarrow> 'h result" where
  "call_impl E opc tp gas_left s = do {
     let num_stack_read = (if opc = STATICCALL_OP \<or> opc = DELEGATECALL_OP then 6 else 7);
     s \<leftarrow> log_reads_loop E tp num_stack_read 0 s;
     (ops, tp) \<leftarrow> pop_call_operands E opc tp s;
     (tp, s) \<leftarrow> stack_push s tp 0;
     let s = s\<lparr>return_data := []\<rparr>;
     let (oog, gas_left, s) =
       charge_cold_account E s (op_dst ops) additional_cold_account_access_cost gas_left;
     if oog then Some (EVMC_OUT_OF_GAS, gas_left, s)
     else do {
       (ok, gas_left, mem) \<leftarrow>
         check_memory_copy E gas_left (memory s) (op_input_offset ops) (op_input_size ops);
       let s = s\<lparr>memory := mem\<rparr>;
       if \<not> ok then Some (EVMC_OUT_OF_GAS, gas_left, s)
       else do {
         (ok, gas_left, mem) \<leftarrow>
           check_memory_copy E gas_left (memory s) (op_output_offset ops) (op_output_size ops);
         let s = s\<lparr>memory := mem\<rparr>;
         if \<not> ok then Some (EVMC_OUT_OF_GAS, gas_left, s)
         else do {
           input \<leftarrow> (if lo64 (op_input_size ops) > 0
                    then mem_read (memory s) (lo64 (op_input_offset ops)) (lo64 (op_input_size ops))
                    else Some []);
           call_checked E opc ops input tp gas_left s } } } }"

definition i_call :: "'h env \<Rightarrow> int \<Rightarrow> int \<Rightarrow> 'h exec_state \<Rightarrow> 'h result" where
  "i_call E tp gas_left s = call_impl E CALL_OP tp gas_left s"

definition i_callcode :: "'h env \<Rightarrow> int \<Rightarrow> int \<Rightarrow> 'h exec_state \<Rightarrow> 'h result" where
  "i_callcode E tp gas_left s = call_impl E CALLCODE_OP tp gas_left s"

definition i_delegatecall :: "'h env \<Rightarrow> int \<Rightarrow> int \<Rightarrow> 'h exec_state \<Rightarrow> 'h result" where
  "i_delegatecall E tp gas_left s = call_impl E DELEGATECALL_OP tp gas_left s"

definition i_staticcall :: "'h env \<Rightarrow> int \<Rightarrow> int \<Rightarrow> 'h exec_state \<Rightarrow> 'h result" where
  "i_staticcall E tp gas_left s = call_impl E STATICCALL_OP tp gas_left s"

subsection \<open>Creation\<close>

datatype create_op = CREATE_OP | CREATE2_OP

definition create_message ::
  "'h env \<Rightarrow> create_op \<Rightarrow> zkevm_word \<Rightarrow> zkevm_word \<Rightarrow> byte list \<Rightarrow> int \<Rightarrow> 'h exec_state \<Rightarrow>
   evmc_message" where
  "create_message E opc endowment salt input gas_left s =
     zero_message\<lparr>
       msg_gas := (if revision s \<ge> EVMC_TANGERINE_WHISTLE then gas_left - gas_left div 64
                   else gas_left),
       msg_kind := (if opc = CREATE_OP then EVMC_CREATE else EVMC_CREATE2),
       msg_input := input,
       msg_sender := msg_recipient (msg s),
       msg_depth := msg_depth (msg s) + 1,
       msg_create2_salt := to_uint256be E salt,
       msg_value := to_uint256be E endowment\<rparr>"

definition run_create :: "'h env \<Rightarrow> int \<Rightarrow> evmc_message \<Rightarrow> int \<Rightarrow> 'h exec_state \<Rightarrow> 'h result" where
  "run_create E tp m gas_left s = do {
     (result, s) \<leftarrow> host_call E s m;
     gas_used \<leftarrow> int64_result (msg_gas m - res_gas_left result);
     gas_left \<leftarrow> int64_result (gas_left - gas_used);
     refund \<leftarrow> int64_result (gas_refund s + res_gas_refund result);
     let s = s\<lparr>gas_refund := refund, return_data := res_output result\<rparr>;
     s \<leftarrow> (if res_status_code result = EVMC_SUCCESS
          then stack_set s tp 0 (word_of_address E (res_create_address result)) else Some s);
     s \<leftarrow> log_stack_at E s tp 1 True 0;
     Some (EVMC_SUCCESS, gas_left, s) }"

text \<open>The part of \<open>create_impl\<close> after the memory check.\<close>

definition create_checked ::
  "'h env \<Rightarrow> create_op \<Rightarrow> zkevm_word \<Rightarrow> zkevm_word \<Rightarrow> zkevm_word \<Rightarrow> zkevm_word \<Rightarrow> int \<Rightarrow> int \<Rightarrow>
   'h exec_state \<Rightarrow> 'h result" where
  "create_checked E opc endowment salt off_word size_word tp gas_left s =
     (let init_code_offset = lo64 off_word;
          init_code_size = lo64 size_word
      in if revision s \<ge> EVMC_SHANGHAI \<and> init_code_size > 0xC000
         then Some (EVMC_OUT_OF_GAS, gas_left, s)
         else let init_code_word_cost = 6 * (if opc = CREATE2_OP then 1 else 0) +
                    2 * (if revision s \<ge> EVMC_SHANGHAI then 1 else 0);
                  init_code_cost = num_words init_code_size * init_code_word_cost;
                  gas_left = gas_left - init_code_cost
         in if gas_left < 0 then Some (EVMC_OUT_OF_GAS, gas_left, s)
         else if msg_depth (msg s) \<ge> 1024 then Some (EVMC_SUCCESS, gas_left, s)
         else let (poor, s) = (if endowment \<noteq> 0
                then let (b, s) = host_get_balance E s (msg_recipient (msg s))
                     in (word_of_uint256be E b < endowment, s)
                else (False, s))
         in if poor then Some (EVMC_SUCCESS, gas_left, s)
         else do {
           input \<leftarrow> (if init_code_size > 0
                    then mem_read (memory s) init_code_offset init_code_size else Some []);
           run_create E tp (create_message E opc endowment salt input gas_left s) gas_left s })"

definition create_impl ::
  "'h env \<Rightarrow> create_op \<Rightarrow> int \<Rightarrow> int \<Rightarrow> 'h exec_state \<Rightarrow> 'h result" where
  "create_impl E opc tp gas_left s =
     (if in_static_mode s then Some (EVMC_STATIC_MODE_VIOLATION, gas_left, s)
      else do {
        s \<leftarrow> log_reads_loop E tp (if opc = CREATE2_OP then 4 else 3) 0 s;
        endowment \<leftarrow> stack_at s tp 0;
        off_word \<leftarrow> stack_at s (tp - 1) 0;
        size_word \<leftarrow> stack_at s (tp - 2) 0;
        salt \<leftarrow> (if opc = CREATE2_OP then stack_at s (tp - 3) 0 else Some 0);
        let tp = (if opc = CREATE2_OP then tp - 4 else tp - 3);
        (tp, s) \<leftarrow> stack_push s tp 0;
        let s = s\<lparr>return_data := []\<rparr>;
        (ok, gas_left, mem) \<leftarrow> check_memory_copy E gas_left (memory s) off_word size_word;
        let s = s\<lparr>memory := mem\<rparr>;
        if \<not> ok then Some (EVMC_OUT_OF_GAS, gas_left, s)
        else create_checked E opc endowment salt off_word size_word tp gas_left s })"

definition i_create :: "'h env \<Rightarrow> int \<Rightarrow> int \<Rightarrow> 'h exec_state \<Rightarrow> 'h result" where
  "i_create E tp gas_left s = create_impl E CREATE_OP tp gas_left s"

definition i_create2 :: "'h env \<Rightarrow> int \<Rightarrow> int \<Rightarrow> 'h exec_state \<Rightarrow> 'h result" where
  "i_create2 E tp gas_left s = create_impl E CREATE2_OP tp gas_left s"

subsection \<open>Frames\<close>

lemma frame_log_reads_loop [trace_intros]:
  "frame s0 s \<Longrightarrow> post (log_reads_loop E tp n i s) (frame s0)"
proof (induction n arbitrary: i s)
  case 0
  then show ?case by simp
next
  case (Suc n)
  then show ?case
    unfolding log_reads_loop.simps by (intro frame_steps [where s = s0] frame_rules trace_intros)
qed

lemma frame_run_call [trace_intros]:
  "frame s0 s \<Longrightarrow> post (run_call E tp m n k g s) (\<lambda>(_, _, s'). frame s0 s')"
  unfolding run_call_def Let_def
  by (intro frame_steps [where s = s0] frame_rules trace_intros; auto intro: frame_memory)

lemma frame_run_create [trace_intros]:
  "frame s0 s \<Longrightarrow> post (run_create E tp m g s) (\<lambda>(_, _, s'). frame s0 s')"
  unfolding run_create_def Let_def
  by (intro frame_steps [where s = s0] frame_rules trace_intros; auto)

lemma frame_delegate_allowed [trace_intros]:
  assumes "frame s0 s"
  shows "post (delegate_allowed E opc a s) (\<lambda>(_, s'). frame s0 s')"
  using frame_host_snd(7) [OF assms, of E a 0 2] assms
  by (cases "host_copy_code E s a 0 2") (simp add: delegate_allowed_def)

lemma frame_balance_check [trace_intros]:
  assumes "frame s0 s"
  shows "frame s0 (snd (if c then case host_get_balance E s a of (b, s) \<Rightarrow> (f b, s) else (d, s)))"
  using frame_host_snd(4) [OF assms, of E a] assms
  by (cases "host_get_balance E s a") simp

lemma frame_exists_check [trace_intros]:
  assumes "frame s0 s"
  shows "frame s0 (snd (if c then host_account_exists E s a else (d, s)))"
  using frame_host_snd(1) [OF assms, of E a] assms by simp

lemma frame_bind_pair:
  fixes m :: "('x \<times> 'h exec_state) option"
  assumes "post m (\<lambda>(_, s'). frame s s')" and "\<And>r s'. frame s s' \<Longrightarrow> post (f r s') Q"
  shows "post (Option.bind m (\<lambda>(r, s'). f r s')) Q"
  using assms(1) by (rule post_bindI) (use assms(2) in auto)

lemma post_option_case:
  "post a Q \<Longrightarrow> (\<And>x. post (b x) Q) \<Longrightarrow> post (case k of None \<Rightarrow> a | Some x \<Rightarrow> b x) Q"
  by (cases k) simp_all

lemma frame_call_checked [trace_intros]:
  "frame s0 s \<Longrightarrow> post (call_checked E opc ops input tp g s) (\<lambda>(_, _, s'). frame s0 s')"
  unfolding call_checked_def Let_def
  by (intro frame_bind_pair [where s = s0] frame_steps [where s = s0] frame_rules trace_intros
      post_option_case; auto)

lemma value_bind_operands:
  "(\<And>x y. post (f x y) Q) \<Longrightarrow>
   post (Option.bind (m :: (call_operands \<times> int) option) (\<lambda>(x, y). f x y)) Q"
  by (rule post_skip) auto

lemma frame_call_impl [trace_intros]:
  "frame s0 s \<Longrightarrow> post (call_impl E opc tp g s) (\<lambda>(_, _, s'). frame s0 s')"
  unfolding call_impl_def Let_def
  by (intro frame_steps [where s = s0] frame_rules trace_intros value_bind_operands; auto)

lemma frame_create_checked [trace_intros]:
  "frame s0 s \<Longrightarrow> post (create_checked E opc v salt a b tp g s) (\<lambda>(_, _, s'). frame s0 s')"
  unfolding create_checked_def Let_def
  by (intro frame_steps [where s = s0] frame_rules trace_intros; auto)

lemma frame_create_impl [trace_intros]:
  "frame s0 s \<Longrightarrow> post (create_impl E opc tp g s) (\<lambda>(_, _, s'). frame s0 s')"
  unfolding create_impl_def Let_def
  by (intro frame_steps [where s = s0] frame_rules trace_intros; auto)

lemma frame_calls [trace_intros]:
  "frame s0 s \<Longrightarrow> post (i_call E tp g s) (\<lambda>(_, _, s'). frame s0 s')"
  "frame s0 s \<Longrightarrow> post (i_callcode E tp g s) (\<lambda>(_, _, s'). frame s0 s')"
  "frame s0 s \<Longrightarrow> post (i_delegatecall E tp g s) (\<lambda>(_, _, s'). frame s0 s')"
  "frame s0 s \<Longrightarrow> post (i_staticcall E tp g s) (\<lambda>(_, _, s'). frame s0 s')"
  "frame s0 s \<Longrightarrow> post (i_create E tp g s) (\<lambda>(_, _, s'). frame s0 s')"
  "frame s0 s \<Longrightarrow> post (i_create2 E tp g s) (\<lambda>(_, _, s'). frame s0 s')"
  by (simp_all add: i_call_def i_callcode_def i_delegatecall_def i_staticcall_def i_create_def
      i_create2_def frame_call_impl frame_create_impl)

end
