(* ===== verification/Dispatch.thy ===== *)
theory Dispatch
  imports Instr_Call
begin

text \<open>
  The interpreter loop (\<open>check_requirements\<close>, \<open>invoke\<close> and \<open>dispatch\<close> of
  \<open>evmone/baseline.hpp\<close>) over the instruction list of \<open>evmone/instructions_xmacro.hpp\<close>.

  The overloads of \<open>invoke\<close> are chosen by the C++ type of the handler; here the type is the
  constructor of \<open>instr_fn\<close>. The loop has fuel: \<open>Done\<close> is the return of \<open>dispatch\<close>, \<open>Fault\<close> a
  behaviour the language does not determine, \<open>Out_of_fuel\<close> a run that is not over.
\<close>

datatype 'h instr_fn =
    Fn_void "int \<Rightarrow> unit"
  | Fn_state "'h env \<Rightarrow> int \<Rightarrow> 'h exec_state \<Rightarrow> 'h exec_state option"
  | Fn_result "'h env \<Rightarrow> int \<Rightarrow> int \<Rightarrow> 'h exec_state \<Rightarrow> 'h result"
  | Fn_jump "'h env \<Rightarrow> int \<Rightarrow> 'h exec_state \<Rightarrow> int \<Rightarrow> 'h jump_result"
  | Fn_term "'h env \<Rightarrow> int \<Rightarrow> int \<Rightarrow> 'h exec_state \<Rightarrow> 'h result"

subsection \<open>The instruction list\<close>

definition map_opcodes_to_push0 :: "(byte \<times> 'h instr_fn) list" where
  "map_opcodes_to_push0 =
     [(OP_STOP, Fn_term i_stop), (OP_ADD, Fn_state i_add), (OP_MUL, Fn_state i_mul),
      (OP_SUB, Fn_state i_sub), (OP_DIV, Fn_state i_div), (OP_SDIV, Fn_state i_sdiv),
      (OP_MOD, Fn_state i_mod), (OP_SMOD, Fn_state i_smod), (OP_ADDMOD, Fn_state i_addmod),
      (OP_MULMOD, Fn_state i_mulmod), (OP_EXP, Fn_result i_exp),
      (OP_SIGNEXTEND, Fn_state i_signextend), (OP_LT, Fn_state i_lt), (OP_GT, Fn_state i_gt),
      (OP_SLT, Fn_state i_slt), (OP_SGT, Fn_state i_sgt), (OP_EQ, Fn_state i_eq),
      (OP_ISZERO, Fn_state i_iszero), (OP_AND, Fn_state i_and), (OP_OR, Fn_state i_or),
      (OP_XOR, Fn_state i_xor), (OP_NOT, Fn_state i_not), (OP_BYTE, Fn_state i_byte),
      (OP_SHL, Fn_state i_shl), (OP_SHR, Fn_state i_shr), (OP_SAR, Fn_state i_sar),
      (OP_KECCAK256, Fn_result i_keccak256), (OP_ADDRESS, Fn_state i_address),
      (OP_BALANCE, Fn_result i_balance), (OP_ORIGIN, Fn_state i_origin),
      (OP_CALLER, Fn_state i_caller), (OP_CALLVALUE, Fn_state i_callvalue),
      (OP_CALLDATALOAD, Fn_state i_calldataload), (OP_CALLDATASIZE, Fn_state i_calldatasize),
      (OP_CALLDATACOPY, Fn_result i_calldatacopy), (OP_CODESIZE, Fn_state i_codesize),
      (OP_CODECOPY, Fn_result i_codecopy), (OP_GASPRICE, Fn_state i_gasprice),
      (OP_EXTCODESIZE, Fn_result i_extcodesize), (OP_EXTCODECOPY, Fn_result i_extcodecopy),
      (OP_RETURNDATASIZE, Fn_state i_returndatasize),
      (OP_RETURNDATACOPY, Fn_result i_returndatacopy), (OP_EXTCODEHASH, Fn_result i_extcodehash),
      (OP_BLOCKHASH, Fn_state i_blockhash), (OP_COINBASE, Fn_state i_coinbase),
      (OP_TIMESTAMP, Fn_state i_timestamp), (OP_NUMBER, Fn_state i_number),
      (OP_PREVRANDAO, Fn_state i_prevrandao), (OP_GASLIMIT, Fn_state i_gaslimit),
      (OP_CHAINID, Fn_state i_chainid), (OP_SELFBALANCE, Fn_state i_selfbalance),
      (OP_BASEFEE, Fn_state i_basefee), (OP_BLOBHASH, Fn_state i_blobhash),
      (OP_BLOBBASEFEE, Fn_state i_blobbasefee), (OP_POP, Fn_void i_pop),
      (OP_MLOAD, Fn_result i_mload), (OP_MLOAD8, Fn_result i_mload),
      (OP_MLOAD16, Fn_result i_mload), (OP_MLOAD32, Fn_result i_mload),
      (OP_MLOAD64, Fn_result i_mload), (OP_MSTORE, Fn_result (i_mstore 32)),
      (OP_MSTORE8, Fn_result (i_mstore 1)), (OP_MSTORE16, Fn_result (i_mstore 2)),
      (OP_MSTORE32, Fn_result (i_mstore 4)), (OP_MSTORE64, Fn_result (i_mstore 8)),
      (OP_SLOAD, Fn_result i_sload), (OP_SSTORE, Fn_result i_sstore), (OP_JUMP, Fn_jump i_jump),
      (OP_JUMPI, Fn_jump i_jumpi), (OP_PC, Fn_jump i_pc), (OP_MSIZE, Fn_state i_msize),
      (OP_GAS, Fn_result i_gas), (OP_JUMPDEST, Fn_void i_jumpdest), (OP_TLOAD, Fn_state i_tload),
      (OP_TSTORE, Fn_result i_tstore), (OP_MCOPY, Fn_result i_mcopy), (OP_PUSH0, Fn_state i_push0)]"

definition map_opcodes_from_push1 :: "(byte \<times> 'h instr_fn) list" where
  "map_opcodes_from_push1 =
     [(OP_PUSH1, Fn_jump (i_push 1)), (OP_PUSH2, Fn_jump (i_push 2)),
      (OP_PUSH3, Fn_jump (i_push 3)), (OP_PUSH4, Fn_jump (i_push 4)),
      (OP_PUSH5, Fn_jump (i_push 5)), (OP_PUSH6, Fn_jump (i_push 6)),
      (OP_PUSH7, Fn_jump (i_push 7)), (OP_PUSH8, Fn_jump (i_push 8)),
      (OP_PUSH9, Fn_jump (i_push 9)), (OP_PUSH10, Fn_jump (i_push 10)),
      (OP_PUSH11, Fn_jump (i_push 11)), (OP_PUSH12, Fn_jump (i_push 12)),
      (OP_PUSH13, Fn_jump (i_push 13)), (OP_PUSH14, Fn_jump (i_push 14)),
      (OP_PUSH15, Fn_jump (i_push 15)), (OP_PUSH16, Fn_jump (i_push 16)),
      (OP_PUSH17, Fn_jump (i_push 17)), (OP_PUSH18, Fn_jump (i_push 18)),
      (OP_PUSH19, Fn_jump (i_push 19)), (OP_PUSH20, Fn_jump (i_push 20)),
      (OP_PUSH21, Fn_jump (i_push 21)), (OP_PUSH22, Fn_jump (i_push 22)),
      (OP_PUSH23, Fn_jump (i_push 23)), (OP_PUSH24, Fn_jump (i_push 24)),
      (OP_PUSH25, Fn_jump (i_push 25)), (OP_PUSH26, Fn_jump (i_push 26)),
      (OP_PUSH27, Fn_jump (i_push 27)), (OP_PUSH28, Fn_jump (i_push 28)),
      (OP_PUSH29, Fn_jump (i_push 29)), (OP_PUSH30, Fn_jump (i_push 30)),
      (OP_PUSH31, Fn_jump (i_push 31)), (OP_PUSH32, Fn_jump (i_push 32)),
      (OP_DUP1, Fn_state (i_dup 1)), (OP_DUP2, Fn_state (i_dup 2)), (OP_DUP3, Fn_state (i_dup 3)),
      (OP_DUP4, Fn_state (i_dup 4)), (OP_DUP5, Fn_state (i_dup 5)), (OP_DUP6, Fn_state (i_dup 6)),
      (OP_DUP7, Fn_state (i_dup 7)), (OP_DUP8, Fn_state (i_dup 8)), (OP_DUP9, Fn_state (i_dup 9)),
      (OP_DUP10, Fn_state (i_dup 10)), (OP_DUP11, Fn_state (i_dup 11)),
      (OP_DUP12, Fn_state (i_dup 12)), (OP_DUP13, Fn_state (i_dup 13)),
      (OP_DUP14, Fn_state (i_dup 14)), (OP_DUP15, Fn_state (i_dup 15)),
      (OP_DUP16, Fn_state (i_dup 16)), (OP_SWAP1, Fn_state (i_swap 1)),
      (OP_SWAP2, Fn_state (i_swap 2)), (OP_SWAP3, Fn_state (i_swap 3)),
      (OP_SWAP4, Fn_state (i_swap 4)), (OP_SWAP5, Fn_state (i_swap 5)),
      (OP_SWAP6, Fn_state (i_swap 6)), (OP_SWAP7, Fn_state (i_swap 7)),
      (OP_SWAP8, Fn_state (i_swap 8)), (OP_SWAP9, Fn_state (i_swap 9)),
      (OP_SWAP10, Fn_state (i_swap 10)), (OP_SWAP11, Fn_state (i_swap 11)),
      (OP_SWAP12, Fn_state (i_swap 12)), (OP_SWAP13, Fn_state (i_swap 13)),
      (OP_SWAP14, Fn_state (i_swap 14)), (OP_SWAP15, Fn_state (i_swap 15)),
      (OP_SWAP16, Fn_state (i_swap 16)), (OP_SWAP, Fn_state (i_swap 0)),
      (OP_DUP, Fn_state (i_dup 0)), (OP_LOG1, Fn_state i_log), (OP_RJUMP, Fn_jump i_rjump),
      (OP_RJUMPI, Fn_jump i_rjumpi), (OP_RJUMPV, Fn_jump i_rjumpv), (OP_CALLF, Fn_jump i_callf),
      (OP_RETF, Fn_jump i_retf), (OP_JUMPF, Fn_jump i_jumpf), (OP_DUPN, Fn_jump i_dupn),
      (OP_SWAPN, Fn_jump i_swapn), (OP_DATALOAD, Fn_state i_dataload),
      (OP_DATALOADN, Fn_jump i_dataloadn), (OP_DATASIZE, Fn_state i_datasize),
      (OP_DATACOPY, Fn_result i_datacopy), (OP_CREATE, Fn_result i_create),
      (OP_CALL, Fn_result i_call), (OP_CALLCODE, Fn_result i_callcode),
      (OP_RETURN, Fn_term i_return), (OP_DELEGATECALL, Fn_result i_delegatecall),
      (OP_CREATE2, Fn_result i_create2), (OP_STATICCALL, Fn_result i_staticcall),
      (OP_REVERT, Fn_term i_revert), (OP_INVALID, Fn_term i_invalid),
      (OP_SELFDESTRUCT, Fn_term i_selfdestruct)]"

definition map_opcodes :: "(byte \<times> 'h instr_fn) list" where
  "map_opcodes = map_opcodes_to_push0 @ map_opcodes_from_push1"

subsection \<open>Requirements\<close>

definition check_requirements ::
  "'a libs_scheme \<Rightarrow> (byte \<Rightarrow> int) \<Rightarrow> int \<Rightarrow> int \<Rightarrow> byte \<Rightarrow> (evmc_status_code \<times> int) option" where
  "check_requirements L cost_table gas_left tp op = do {
     _ \<leftarrow> cassert L (\<not> has_const_gas_cost op \<or> gas_costs EVMC_FRONTIER op \<noteq> undefined_cost);
     let gas_cost = (if \<not> has_const_gas_cost op then cost_table op else gas_costs EVMC_FRONTIER op);
     if \<not> has_const_gas_cost op \<and> gas_cost < 0 then Some (EVMC_UNDEFINED_INSTRUCTION, gas_left)
     else do {
       _ \<leftarrow> (if stack_height_change (traits op) > 0
            then cassert L (stack_height_change (traits op) = 1) else Some ());
       if stack_height_change (traits op) > 0 \<and> tp = stack_bottom + int stack_limit
       then Some (EVMC_STACK_OVERFLOW, gas_left)
       else if stack_height_required (traits op) > 0 \<and>
               tp \<le> stack_bottom + (stack_height_required (traits op) - 1)
       then Some (EVMC_STACK_UNDERFLOW, gas_left)
       else let gas_left = gas_left - gas_cost
            in if gas_left < 0 then Some (EVMC_OUT_OF_GAS, gas_left)
               else Some (EVMC_SUCCESS, gas_left) } }"

subsection \<open>Invocation\<close>

fun invoke_fn ::
  "'h env \<Rightarrow> 'h instr_fn \<Rightarrow> int \<Rightarrow> int \<Rightarrow> int \<Rightarrow> 'h exec_state \<Rightarrow>
   (int option \<times> int \<times> 'h exec_state) option" where
  "invoke_fn E (Fn_void f) pos tp gas s = (let _ = f tp in Some (Some (pos + 1), gas, s))"
| "invoke_fn E (Fn_state f) pos tp gas s = do {
     s \<leftarrow> f E tp s;
     Some (Some (pos + 1), gas, s) }"
| "invoke_fn E (Fn_result f) pos tp gas s = do {
     (st, gas, s) \<leftarrow> f E tp gas s;
     if st \<noteq> EVMC_SUCCESS then Some (None, gas, s\<lparr>status := st\<rparr>)
     else Some (Some (pos + 1), gas, s) }"
| "invoke_fn E (Fn_jump f) pos tp gas s = do {
     (p, s) \<leftarrow> f E tp s pos;
     Some (p, gas, s) }"
| "invoke_fn E (Fn_term f) pos tp gas s = do {
     (st, gas, s) \<leftarrow> f E tp gas s;
     Some (None, gas, s\<lparr>status := st\<rparr>) }"

definition invoke ::
  "'h env \<Rightarrow> (byte \<Rightarrow> int) \<Rightarrow> int \<Rightarrow> int \<Rightarrow> int \<Rightarrow> 'h exec_state \<Rightarrow> byte \<Rightarrow>
   (int option \<times> int \<times> int \<times> 'h exec_state) option" where
  "invoke E cost_table pos tp gas s op = do {
     (st, gas) \<leftarrow> check_requirements E cost_table gas tp op;
     if st \<noteq> EVMC_SUCCESS then Some (None, tp, gas, s\<lparr>status := st\<rparr>)
     else case map_of map_opcodes op of
       None \<Rightarrow> Some (None, tp, gas, s\<lparr>status := EVMC_UNDEFINED_INSTRUCTION\<rparr>)
     | Some fn \<Rightarrow> do {
         (new_pos, gas, s) \<leftarrow> invoke_fn E fn pos tp gas s;
         Some (new_pos, tp + stack_height_change (traits op), gas, s) } }"

subsection \<open>The loop\<close>

datatype 'a run = Done 'a | Fault | Out_of_fuel

fun dispatch_loop ::
  "nat \<Rightarrow> 'h env \<Rightarrow> (byte \<Rightarrow> int) \<Rightarrow> int \<Rightarrow> int \<Rightarrow> int \<Rightarrow> 'h exec_state \<Rightarrow>
   (int \<times> 'h exec_state) run" where
  "dispatch_loop 0 E cost_table pos tp gas s = Out_of_fuel"
| "dispatch_loop (Suc n) E cost_table pos tp gas s =
     (case code_byte s pos of
        None \<Rightarrow> Fault
      | Some op \<Rightarrow>
          (case invoke E cost_table pos tp gas s op of
             None \<Rightarrow> Fault
           | Some (None, _, gas, s) \<Rightarrow> Done (gas, s)
           | Some (Some pos, tp, gas, s) \<Rightarrow> dispatch_loop n E cost_table pos tp gas s))"

definition dispatch ::
  "nat \<Rightarrow> 'h env \<Rightarrow> (byte \<Rightarrow> int) \<Rightarrow> 'h exec_state \<Rightarrow> int \<Rightarrow> (int \<times> 'h exec_state) run" where
  "dispatch fuel E cost_table s gas = dispatch_loop fuel E cost_table 0 stack_bottom gas s"

subsection \<open>Every instruction keeps the frame\<close>

definition fn_frame :: "'h instr_fn \<Rightarrow> bool" where
  "fn_frame fn \<longleftrightarrow> (\<forall>E pos tp g s0 s. frame s0 s \<longrightarrow>
     post (invoke_fn E fn pos tp g s) (\<lambda>(_, _, s'). frame s0 s'))"

lemma fn_frame_void: "fn_frame (Fn_void f)"
  by (simp add: fn_frame_def)

lemma fn_frame_state:
  "(\<And>E tp s0 s. frame s0 s \<Longrightarrow> post (f E tp s) (frame s0)) \<Longrightarrow> fn_frame (Fn_state f)"
  by (auto simp: fn_frame_def post_bind elim!: post_mono)

lemma fn_frame_result:
  "(\<And>E tp g s0 s. frame s0 s \<Longrightarrow> post (f E tp g s) (\<lambda>(_, _, s'). frame s0 s')) \<Longrightarrow>
   fn_frame (Fn_result f)"
  by (fastforce simp: fn_frame_def post_bind elim!: post_mono)

lemma fn_frame_jump:
  "(\<And>E tp s0 s pos. frame s0 s \<Longrightarrow> post (f E tp s pos) (\<lambda>(_, s'). frame s0 s')) \<Longrightarrow>
   fn_frame (Fn_jump f)"
  by (fastforce simp: fn_frame_def post_bind elim!: post_mono)

lemma fn_frame_term:
  "(\<And>E tp g s0 s. frame s0 s \<Longrightarrow> post (f E tp g s) (\<lambda>(_, _, s'). frame s0 s')) \<Longrightarrow>
   fn_frame (Fn_term f)"
  by (fastforce simp: fn_frame_def post_bind elim!: post_mono)

lemma frame_arith2_handlers [trace_intros]:
  assumes "frame s0 s"
  shows "post (i_add E tp s) (frame s0)" "post (i_mul E tp s) (frame s0)"
    "post (i_sub E tp s) (frame s0)" "post (i_div E tp s) (frame s0)"
    "post (i_sdiv E tp s) (frame s0)" "post (i_mod E tp s) (frame s0)"
    "post (i_smod E tp s) (frame s0)" "post (i_signextend E tp s) (frame s0)"
    "post (i_lt E tp s) (frame s0)" "post (i_gt E tp s) (frame s0)"
    "post (i_slt E tp s) (frame s0)" "post (i_sgt E tp s) (frame s0)"
    "post (i_eq E tp s) (frame s0)" "post (i_and E tp s) (frame s0)"
    "post (i_or E tp s) (frame s0)" "post (i_xor E tp s) (frame s0)"
    "post (i_byte E tp s) (frame s0)" "post (i_shl E tp s) (frame s0)"
    "post (i_shr E tp s) (frame s0)" "post (i_sar E tp s) (frame s0)"
    "post (i_iszero E tp s) (frame s0)" "post (i_not E tp s) (frame s0)"
  using assms
  by (simp_all add: arith2_handlers i_iszero_def i_not_def frame_arith2 frame_arith1)

lemmas fn_frame_intros = fn_frame_void fn_frame_state fn_frame_result fn_frame_jump fn_frame_term

lemma map_opcodes_frame: "list_all (\<lambda>(_, fn). fn_frame fn) map_opcodes"
  unfolding map_opcodes_def map_opcodes_to_push0_def map_opcodes_from_push1_def
    append.simps list.pred_inject prod.case
  by (intro conjI fn_frame_intros trace_intros) (assumption | simp)+

lemma map_of_all: "list_all (\<lambda>(_, fn). P fn) xs \<Longrightarrow> map_of xs k = Some fn \<Longrightarrow> P fn"
  by (auto simp: list_all_iff dest!: map_of_SomeD)

lemma frame_invoke: "post (invoke E ct pos tp g s op) (\<lambda>(_, _, _, s'). frame s s')"
proof -
  have "post (case map_of map_opcodes op of
       None \<Rightarrow> Some (None, tp, g, s\<lparr>status := EVMC_UNDEFINED_INSTRUCTION\<rparr>)
     | Some fn \<Rightarrow> do {
         (p, g, s) \<leftarrow> invoke_fn E fn pos tp g s;
         Some (p, tp + stack_height_change (traits op), g, s) }) (\<lambda>(_, _, _, s'). frame s s')" for g
  proof (cases "map_of map_opcodes op :: 'a instr_fn option")
    case None
    then show ?thesis by simp
  next
    case (Some fn)
    then have "fn_frame fn" by (rule map_of_all [OF map_opcodes_frame])
    then have "post (invoke_fn E fn pos tp g s) (\<lambda>(_, _, s'). frame s s')"
      by (simp add: fn_frame_def)
    then show ?thesis
      using Some by (auto simp: post_bind elim!: post_mono)
  qed
  then show ?thesis
    unfolding invoke_def by (intro post_skip) (auto simp: Let_def)
qed

lemma frame_dispatch_loop:
  "dispatch_loop n E ct pos tp g s = Done (g', s') \<Longrightarrow> frame s s'"
proof (induction n arbitrary: pos tp g s)
  case 0
  then show ?case by simp
next
  case (Suc n)
  then obtain op where op: "code_byte s pos = Some op" by (auto split: option.splits)
  with Suc.prems obtain r where r: "invoke E ct pos tp g s op = Some r"
    by (auto split: option.splits)
  obtain p tp1 g1 s1 where eq: "r = (p, tp1, g1, s1)" by (cases r) auto
  have "frame s s1" using frame_invoke [of E ct pos tp g s op] r eq by simp
  with Suc op r eq show ?case
    by (cases p) (auto intro: frame_trans)
qed

end
