(* ===== verification/Analysis.thy ===== *)
theory Analysis
  imports Dispatch
begin

text \<open>
  The analysis of the code before it runs (\<open>evmone/baseline.cpp\<close>): the padded copy of legacy
  code, the bitmap of valid jump destinations, and the code sections of an EOF container.
\<close>

text \<open>
  The scan, from position \<open>i\<close> with the bitmap \<open>m\<close>. \<open>static_cast<int8_t>(op) >= OP_PUSH1\<close> holds
  for the opcodes from \<open>OP_PUSH1\<close> to \<open>OP_PUSH32\<close>, whose data is skipped.
\<close>

function scan_jumpdests :: "byte list \<Rightarrow> nat \<Rightarrow> bool list \<Rightarrow> bool list" where
  "scan_jumpdests code i m =
     (if i < length code then
        let op = code ! i
        in if sint op \<ge> sint (OP_PUSH1)
           then scan_jumpdests code (i + (unat op - unat (OP_PUSH1 - 1)) + 1) m
           else if op = OP_JUMPDEST then scan_jumpdests code (i + 1) (m[i := True])
           else scan_jumpdests code (i + 1) m
      else m)"
  by pat_completeness auto
termination by (relation "measure (\<lambda>(code, i, _). length code - i)") auto

declare scan_jumpdests.simps [simp del]

definition analyze_jumpdests :: "byte list \<Rightarrow> bool list" where
  "analyze_jumpdests code = scan_jumpdests code 0 (replicate (length code) False)"

definition code_padding :: nat where
  "code_padding = 32 + 1"

definition pad_code :: "byte list \<Rightarrow> byte list" where
  "pad_code code = code @ replicate code_padding OP_STOP"

text \<open>
  The constructors of \<open>CodeAnalysis\<close>: from padded code, which the object owns, with the length
  of the code and its bitmap, and from a view of a container with its header.
\<close>

definition CodeAnalysis_padded :: "byte list \<Rightarrow> nat \<Rightarrow> bool list \<Rightarrow> code_analysis" where
  [simp]: "CodeAnalysis_padded padded_code code_size jumpdests = \<lparr>code_buffer = padded_code,
     executable_offset = 0, executable_size = code_size, jumpdest_map = jumpdests,
     analysis_header = legacy_header\<rparr>"

definition CodeAnalysis_view :: "byte list \<Rightarrow> nat \<Rightarrow> nat \<Rightarrow> eof1_header \<Rightarrow> code_analysis" where
  [simp]: "CodeAnalysis_view buffer offset code_size header = \<lparr>code_buffer = buffer,
     executable_offset = offset, executable_size = code_size, jumpdest_map = [],
     analysis_header = header\<rparr>"

definition analyze_legacy :: "byte list \<Rightarrow> code_analysis" where
  "analyze_legacy code = CodeAnalysis_padded (pad_code code) (length code) (analyze_jumpdests code)"

definition analyze_eof1 :: "'a libs_scheme \<Rightarrow> byte list \<Rightarrow> code_analysis option" where
  "analyze_eof1 L container = do {
     header \<leftarrow> read_valid_eof1_header L container;
     code_sections_offset \<leftarrow> nth_opt (code_offsets header) 0;
     last_offset \<leftarrow> last_opt (code_offsets header);
     last_size \<leftarrow> last_opt (code_sizes header);
     let code_sections_end = unat last_offset + unat last_size;
     let n = (code_sections_end + 2 ^ 64 - unat code_sections_offset) mod 2 ^ 64;
     executable \<leftarrow> substr container (unat code_sections_offset) n;
     Some (CodeAnalysis_view container (unat code_sections_offset) (length executable) header) }"

definition analyze :: "'a libs_scheme \<Rightarrow> evmc_revision \<Rightarrow> byte list \<Rightarrow> code_analysis option" where
  "analyze L r code =
     (if r < EVMC_PRAGUE \<or> \<not> is_eof_container code then Some (analyze_legacy code)
      else analyze_eof1 L code)"

subsection \<open>Reference: instruction boundaries\<close>

text \<open>
  The length of the instruction at a byte, and the positions an instruction of legacy code
  starts at. A destination is valid when it is a \<open>JUMPDEST\<close> at such a position.
\<close>

definition instr_length :: "byte \<Rightarrow> nat" where
  "instr_length op = (if OP_PUSH1 \<le> op \<and> op \<le> OP_PUSH32 then unat op - 0x5f + 1 else 1)"

inductive instr_start :: "byte list \<Rightarrow> nat \<Rightarrow> nat \<Rightarrow> bool" for code where
  here: "instr_start code i i"
| step: "i < length code \<Longrightarrow> instr_start code (i + instr_length (code ! i)) j \<Longrightarrow> instr_start code i j"

inductive_cases instr_start_cases: "instr_start code i j"

definition valid_jumpdest :: "byte list \<Rightarrow> nat \<Rightarrow> bool" where
  "valid_jumpdest code d \<longleftrightarrow> d < length code \<and> code ! d = OP_JUMPDEST \<and> instr_start code 0 d"

lemma instr_length_pos [simp]: "0 < instr_length op"
  by (simp add: instr_length_def)

lemma instr_start_le: "instr_start code i j \<Longrightarrow> i \<le> j"
proof (induction rule: instr_start.induct)
  case (step i j)
  then show ?case using instr_length_pos [of "code ! i"] by linarith
qed simp

lemma instr_start_iff:
  "i < length code \<Longrightarrow> instr_start code i j \<longleftrightarrow> j = i \<or> instr_start code (i + instr_length (code ! i)) j"
  by (auto intro: instr_start.intros elim: instr_start_cases)

lemma mod_256_shift:
  fixes x :: int
  assumes "0 \<le> x" and "x < 256"
  shows "(x + 128) mod 256 = (if x < 128 then x + 128 else x - 128)"
proof (cases "x < 128")
  case True
  then show ?thesis using assms by (simp add: mod_pos_pos_trivial)
next
  case False
  have "x + 128 = x - 128 + 256" by simp
  then have "(x + 128) mod 256 = (x - 128 + 256) mod 256" by (simp only:)
  also have "\<dots> = (x - 128) mod 256" by (rule mod_add_self2)
  also have "\<dots> = x - 128" using assms False by (intro mod_pos_pos_trivial) simp_all
  finally show ?thesis using False by simp
qed

lemma sint_byte: "sint (op :: byte) = (if uint op < 128 then uint op else uint op - 256)"
proof -
  have "uint op < 256" using uint_lt2p [of op] by simp
  then have "take_bit 8 (uint op + 128) = (if uint op < 128 then uint op + 128 else uint op - 128)"
    by (simp add: take_bit_eq_mod [where 'a = int] mod_256_shift)
  then show ?thesis
    by (simp add: sint_uint signed_take_bit_eq_take_bit_shift)
qed

lemma sint_push: "sint op \<ge> sint (OP_PUSH1) \<longleftrightarrow> OP_PUSH1 \<le> op \<and> op \<le> OP_PUSH32"
proof -
  have "uint op < 256" using uint_lt2p [of op] by simp
  then show ?thesis by (simp add: word_le_def sint_byte)
qed

lemma push_skip:
  "OP_PUSH1 \<le> op \<Longrightarrow> op \<le> OP_PUSH32 \<Longrightarrow> unat op - unat (OP_PUSH1 - 1) + 1 = instr_length op"
  by (simp add: instr_length_def)

lemma length_scan [simp]: "length (scan_jumpdests code i m) = length m"
proof (induction code i m rule: scan_jumpdests.induct)
  case (1 code i m)
  then show ?case
    unfolding scan_jumpdests.simps [of code i m] by (simp add: Let_def)
qed

lemma scan_jumpdests_step:
  assumes "i < length code"
  shows "scan_jumpdests code i m =
     scan_jumpdests code (i + instr_length (code ! i))
       (if code ! i = OP_JUMPDEST then m[i := True] else m)"
proof (cases "OP_PUSH1 \<le> code ! i \<and> code ! i \<le> OP_PUSH32")
  case True
  then have "code ! i \<noteq> OP_JUMPDEST" by auto
  moreover have "i + (unat (code ! i) - unat (OP_PUSH1 - 1)) + 1 = i + instr_length (code ! i)"
    using True push_skip [of "code ! i"] by linarith
  ultimately show ?thesis
    using assms True unfolding scan_jumpdests.simps [of code i m] Let_def sint_push
    by (simp only: if_True if_False simp_thms)
next
  case False
  then have "instr_length (code ! i) = 1" by (auto simp: instr_length_def)
  then show ?thesis
    using assms False
    unfolding scan_jumpdests.simps [of code i m] Let_def sint_push by auto
qed

lemma scan_jumpdests_iff:
  assumes "length m = length code" and "d < length code"
  shows "scan_jumpdests code i m ! d \<longleftrightarrow> m ! d \<or> (code ! d = OP_JUMPDEST \<and> instr_start code i d)"
  using assms
proof (induction "length code - i" arbitrary: i m rule: less_induct)
  case less
  show ?case
  proof (cases "i < length code")
    case False
    then have "\<not> instr_start code i d"
      using less.prems instr_start_le [of code i d] by auto
    then show ?thesis using False by (subst scan_jumpdests.simps) simp
  next
    case True
    let ?j = "i + instr_length (code ! i)" and ?m = "if code ! i = OP_JUMPDEST then m[i := True] else m"
    have "length code - ?j < length code - i"
      using True instr_length_pos [of "code ! i"] by linarith
    then have "scan_jumpdests code ?j ?m ! d \<longleftrightarrow>
        ?m ! d \<or> (code ! d = OP_JUMPDEST \<and> instr_start code ?j d)"
      using less.prems by (intro less.hyps) simp_all
    then show ?thesis
      using True less.prems
      by (auto simp: scan_jumpdests_step [OF True] instr_start_iff [OF True] nth_list_update)
  qed
qed

lemma analyze_jumpdests_valid:
  "d < length code \<Longrightarrow> analyze_jumpdests code ! d \<longleftrightarrow> valid_jumpdest code d"
  by (simp add: analyze_jumpdests_def scan_jumpdests_iff valid_jumpdest_def)

lemma length_analyze_jumpdests [simp]: "length (analyze_jumpdests code) = length code"
  by (simp add: analyze_jumpdests_def)

end
