(* ===== verification/Samples.thy ===== *)
theory Samples
  imports Analysis
begin

text \<open>
  Concrete data for the witnesses: a host whose callbacks never change anything, an environment
  with the reference library functions, and the state in which the interpreter starts on a
  given legacy code, with given stack slots.
\<close>

definition sample_interface :: "unit host_interface" where
  "sample_interface = \<lparr>
     account_exists_fn = (\<lambda>h a. (True, h)),
     get_storage_fn = (\<lambda>h a k. (zero_bytes32, h)),
     set_storage_fn = (\<lambda>h a k v. (EVMC_STORAGE_ASSIGNED, h)),
     get_balance_fn = (\<lambda>h a. (zero_bytes32, h)),
     get_code_size_fn = (\<lambda>h a. (0, h)),
     get_code_hash_fn = (\<lambda>h a. (zero_bytes32, h)),
     copy_code_fn = (\<lambda>h a off n. ([], h)),
     selfdestruct_fn = (\<lambda>h a b. (False, h)),
     call_fn = (\<lambda>h m. Some (result_no_output EVMC_SUCCESS (msg_gas m) 0, h)),
     get_tx_context_fn = (\<lambda>h. zero_tx_context),
     get_block_hash_fn = (\<lambda>h n. zero_bytes32),
     emit_log_fn = (\<lambda>h a d t. h),
     access_account_fn = (\<lambda>h a. (EVMC_ACCESS_COLD, h)),
     access_storage_fn = (\<lambda>h a k. (EVMC_ACCESS_COLD, h)),
     get_transient_storage_fn = (\<lambda>h a k. (zero_bytes32, h)),
     set_transient_storage_fn = (\<lambda>h a k v. h)\<rparr>"

definition sample_env :: "unit env" where
  "sample_env = libs.extend reference_libs (env.fields sample_interface)"

definition sample_state :: "byte list \<Rightarrow> zkevm_word list \<Rightarrow> unit exec_state" where
  "sample_state code stack = \<lparr>gas_refund = 0, memory = \<lparr>mem_data = [], mem_capacity = page_size\<rparr>,
     msg = zero_message, host = (), revision = EVMC_LATEST_STABLE_REVISION, return_data = [],
     original_code = code, state_data = [], status = EVMC_SUCCESS, output_offset = 0,
     output_size = 0, call_id = 0, rw_trace = [], m_tx = zero_tx_context,
     analysis = analyze_legacy code, call_stack = [],
     stack_space = stack @ replicate (stack_limit - length stack) 0\<rparr>"

lemma sample_env_simps [simp]:
  "ndebug sample_env = True" "malloc_ok sample_env = (\<lambda>_. True)"
  "hif sample_env = sample_interface"
  by (simp_all add: sample_env_def reference_libs_def libs.defs env.defs)

lemma api_extend [simp]:
  "intx_api (libs.extend L x) = intx_api L" "wide_integral (libs.extend L x) = wide_integral L"
  by (simp_all add: intx_api_def wide_integral_def wide_integral_axioms_def libs.defs)

lemma sample_api [simp]: "intx_api sample_env" "wide_integral sample_env"
  by (simp_all add: sample_env_def ref.intx_api_axioms ref.wide_integral_axioms)

lemma sample_state_simps [simp]:
  "rw_trace (sample_state code stack) = []" "call_id (sample_state code stack) = 0"
  "mem_wf (memory (sample_state code stack))"
  "length stack \<le> 1024 \<Longrightarrow> length (stack_space (sample_state code stack)) = stack_limit"
  "i < length stack \<Longrightarrow> stack_space (sample_state code stack) ! i = stack ! i"
  by (simp_all add: sample_state_def mem_wf_def mem_size_def page_size_def stack_limit_def nth_append)

lemma sample_state_fields [simp]:
  "status (sample_state code stack) = EVMC_SUCCESS"
  "analysis (sample_state code stack) = analyze_legacy code"
  "revision (sample_state code stack) = EVMC_LATEST_STABLE_REVISION"
  "msg (sample_state code stack) = zero_message"
  "sample_state code stack\<lparr>status := EVMC_SUCCESS\<rparr> = sample_state code stack"
  by (simp_all add: sample_state_def)

lemma sample_ready:
  "int n \<le> tp + 1 \<Longrightarrow> tp < 1024 \<Longrightarrow> length stack \<le> 1024 \<Longrightarrow>
   stack_ready (sample_state code stack) tp n"
  by (simp add: stack_ready_def max_call_id_def stack_limit_def)

text \<open>The constructor makes the sample state with an empty stack.\<close>

lemma sample_init:
  "exec_state_init sample_env zero_message EVMC_LATEST_STABLE_REVISION () code [] 0 (analyze_legacy code) =
   Some (sample_state code [])"
  by (simp add: exec_state_init_def mem_new_def allocate_capacity_def sample_state_def)

lemma sample_code_byte:
  "0 \<le> pos \<Longrightarrow> nat pos < length code \<Longrightarrow> code_byte (sample_state code stack) pos = Some (code ! nat pos)"
  by (simp add: code_byte_def sample_state_def analyze_legacy_def pad_code_def nth_append code_padding_def)

end
