(* ===== verification/Run.thy ===== *)
theory Run
  imports Samples
begin

text \<open>
  The interpreter loop as a transition system: a configuration is what \<open>dispatch\<close> keeps
  between two turns of its loop, a step is one turn that goes on, and a run halts with the gas
  and the state of a turn whose next position is null. The invariants of the configurations
  are proved by induction on the steps, and the loop of the model follows the steps.
\<close>

record 'h config =
  c_pos :: int
  c_top :: int
  c_gas :: int
  c_state :: "'h exec_state"

definition config_of :: "int \<Rightarrow> int \<Rightarrow> int \<Rightarrow> 'h exec_state \<Rightarrow> 'h config" where
  "config_of pos tp g s = \<lparr>c_pos = pos, c_top = tp, c_gas = g, c_state = s\<rparr>"

text \<open>One turn of the loop: \<open>Inl\<close> the next configuration, \<open>Inr\<close> the result of a halted run.\<close>

definition turn :: "'h env \<Rightarrow> (byte \<Rightarrow> int) \<Rightarrow> 'h config \<Rightarrow> ('h config + int \<times> 'h exec_state) option" where
  "turn E ct c = do {
     op \<leftarrow> code_byte (c_state c) (c_pos c);
     (p, tp, g, s) \<leftarrow> invoke E ct (c_pos c) (c_top c) (c_gas c) (c_state c) op;
     Some (case p of None \<Rightarrow> Inr (g, s) | Some pos \<Rightarrow> Inl (config_of pos tp g s)) }"

inductive step :: "'h env \<Rightarrow> (byte \<Rightarrow> int) \<Rightarrow> 'h config \<Rightarrow> 'h config \<Rightarrow> bool" for E ct where
  step: "turn E ct c = Some (Inl c') \<Longrightarrow> step E ct c c'"

inductive halts :: "'h env \<Rightarrow> (byte \<Rightarrow> int) \<Rightarrow> 'h config \<Rightarrow> int \<times> 'h exec_state \<Rightarrow> bool" for E ct where
  stop: "turn E ct c = Some (Inr r) \<Longrightarrow> halts E ct c r"
| go: "step E ct c c' \<Longrightarrow> halts E ct c' r \<Longrightarrow> halts E ct c r"

inductive_simps step_iff: "step E ct c c'"
inductive_cases haltsE: "halts E ct c r"

definition reaches :: "'h env \<Rightarrow> (byte \<Rightarrow> int) \<Rightarrow> 'h config \<Rightarrow> 'h config \<Rightarrow> bool" where
  "reaches E ct = (step E ct)\<^sup>*\<^sup>*"

text \<open>The configuration in which \<open>dispatch\<close> enters the loop.\<close>

definition start_config :: "'h exec_state \<Rightarrow> int \<Rightarrow> 'h config" where
  "start_config s g = config_of 0 stack_bottom g s"

subsection \<open>The loop follows the steps\<close>

lemma dispatch_loop_turn:
  "dispatch_loop (Suc n) E ct pos tp g s =
     (case turn E ct (config_of pos tp g s) of
        None \<Rightarrow> Fault
      | Some (Inr r) \<Rightarrow> Done r
      | Some (Inl c) \<Rightarrow> dispatch_loop n E ct (c_pos c) (c_top c) (c_gas c) (c_state c))"
  by (auto simp: turn_def config_of_def split: option.splits)

lemma config_of_fields [simp]: "config_of (c_pos c) (c_top c) (c_gas c) (c_state c) = c"
  by (simp add: config_of_def)

lemma config_of_select [simp]:
  "c_pos (config_of pos tp g s) = pos" "c_top (config_of pos tp g s) = tp"
  "c_gas (config_of pos tp g s) = g" "c_state (config_of pos tp g s) = s"
  by (simp_all add: config_of_def)

lemma dispatch_loop_halts:
  "dispatch_loop n E ct pos tp g s = Done r \<Longrightarrow> halts E ct (config_of pos tp g s) r"
proof (induction n arbitrary: pos tp g s)
  case (Suc n)
  then show ?case
    unfolding dispatch_loop_turn
    by (auto split: option.splits sum.splits intro: halts.intros step.intros)
       (metis config_of_fields halts.go step.intros)
qed simp

lemma halts_dispatch_loop:
  "halts E ct c r \<Longrightarrow> \<exists>n. dispatch_loop n E ct (c_pos c) (c_top c) (c_gas c) (c_state c) = Done r"
proof (induction rule: halts.induct)
  case (stop c r)
  then have "dispatch_loop (Suc 0) E ct (c_pos c) (c_top c) (c_gas c) (c_state c) = Done r"
    unfolding dispatch_loop_turn by simp
  then show ?case by blast
next
  case (go c c' r)
  then obtain n where "dispatch_loop n E ct (c_pos c') (c_top c') (c_gas c') (c_state c') = Done r"
    by blast
  then have "dispatch_loop (Suc n) E ct (c_pos c) (c_top c) (c_gas c) (c_state c) = Done r"
    unfolding dispatch_loop_turn using go(1) by (simp add: step_iff)
  then show ?case by blast
qed

lemma halts_unique: "halts E ct c r \<Longrightarrow> halts E ct c r' \<Longrightarrow> r' = r"
proof (induction rule: halts.induct)
  case (stop c r)
  from stop(2) show ?case
    by (rule haltsE) (use stop(1) in \<open>simp_all add: step_iff\<close>)
next
  case (go c c' r)
  from go(4) have "halts E ct c' r'"
    by (rule haltsE) (use go(1) in \<open>simp_all add: step_iff\<close>)
  then show ?case by (rule go(3))
qed

lemma dispatch_iff_halts:
  "(\<exists>fuel. dispatch fuel E ct s g = Done r) \<longleftrightarrow> halts E ct (start_config s g) r"
  using dispatch_loop_halts [of _ E ct 0 stack_bottom g s r]
    halts_dispatch_loop [of E ct "start_config s g" r]
  by (auto simp: dispatch_def start_config_def)

text \<open>More fuel never changes a result.\<close>

lemma dispatch_loop_mono:
  "dispatch_loop n E ct pos tp g s \<noteq> Out_of_fuel \<Longrightarrow> n \<le> m \<Longrightarrow>
   dispatch_loop m E ct pos tp g s = dispatch_loop n E ct pos tp g s"
proof (induction n arbitrary: m pos tp g s)
  case 0
  then show ?case by simp
next
  case (Suc n)
  then obtain k where m: "m = Suc k" "n \<le> k" by (cases m) auto
  show ?case
  proof (cases "turn E ct (config_of pos tp g s)")
    case None
    then show ?thesis unfolding m dispatch_loop_turn by simp
  next
    case (Some r)
    show ?thesis
    proof (cases r)
      case (Inl c)
      then have "dispatch_loop n E ct (c_pos c) (c_top c) (c_gas c) (c_state c) \<noteq> Out_of_fuel"
        using Suc.prems Some by (simp add: dispatch_loop_turn del: dispatch_loop.simps)
      from Suc.IH [OF this m(2)] show ?thesis
        unfolding m dispatch_loop_turn by (simp add: Some Inl)
    next
      case (Inr x)
      then show ?thesis unfolding m dispatch_loop_turn by (simp add: Some)
    qed
  qed
qed

subsection \<open>Invariants\<close>

text \<open>
  \<open>stack_bounded\<close>: the stack pointer lies between the bottom pointer and the last slot.
  \<open>traced\<close>: the trace is numbered by its positions and every entry belongs to the call.
\<close>

definition stack_bounded :: "'h config \<Rightarrow> bool" where
  "stack_bounded c \<longleftrightarrow> stack_bottom \<le> c_top c \<and> c_top c < int stack_limit"

definition traced :: "'h exec_state \<Rightarrow> bool" where
  "traced s \<longleftrightarrow> ids_ok (rw_trace s) \<and> (\<forall>e \<in> set (rw_trace s). rw_call_id e = call_id s)"

lemma traced_frame: "frame s s' \<Longrightarrow> traced s \<Longrightarrow> traced s'"
  using appended_ids_ok [of "call_id s" "rw_trace s" "rw_trace s'"]
  by (auto simp: traced_def frame_def appended_def)

lemma turn_frame: "post (turn E ct c) (\<lambda>r. case r of
    Inl c' \<Rightarrow> frame (c_state c) (c_state c') | Inr (g, s) \<Rightarrow> frame (c_state c) s)"
  unfolding turn_def
  by (rule post_skip, rule post_bindI [OF frame_invoke]) (auto split: option.splits)

lemma step_frame: "step E ct c c' \<Longrightarrow> frame (c_state c) (c_state c')"
  using turn_frame [of E ct c] by (simp add: step_iff)

lemma reaches_frame: "reaches E ct c c' \<Longrightarrow> frame (c_state c) (c_state c')"
  unfolding reaches_def
  by (induction rule: rtranclp_induct) (auto intro: frame_trans step_frame)

lemma halts_frame: "halts E ct c r \<Longrightarrow> frame (c_state c) (snd r)"
proof (induction rule: halts.induct)
  case (stop c r)
  then show ?case using turn_frame [of E ct c] by (auto split: prod.splits)
next
  case (go c c' r)
  then show ?case by (auto intro: frame_trans step_frame)
qed

lemma check_requirements_top:
  assumes "check_requirements L ct g tp op = Some (EVMC_SUCCESS, g')"
    and "- 1 \<le> tp" and "tp < 1024"
  shows "stack_height_required (traits op) \<le> tp + 1 \<and>
    - 1 \<le> tp + stack_height_change (traits op) \<and> tp + stack_height_change (traits op) < 1024"
  using assms traits_heights [of op]
  by (auto simp: check_requirements_def Let_def stack_limit_def bind_eq_Some_conv split: if_splits)

lemma invoke_top:
  assumes "invoke E ct pos tp g s op = Some (Some pos', tp', g', s')"
    and "- 1 \<le> tp" and "tp < 1024"
  shows "- 1 \<le> tp' \<and> tp' < 1024"
  using assms check_requirements_top [of E ct g tp op]
  by (auto simp: invoke_def bind_eq_Some_conv split: if_splits option.splits prod.splits)

lemma step_bounded: "step E ct c c' \<Longrightarrow> stack_bounded c \<Longrightarrow> stack_bounded c'"
  using invoke_top [of E ct "c_pos c" "c_top c" "c_gas c" "c_state c"]
  by (auto simp: step_iff turn_def stack_bounded_def stack_limit_def bind_eq_Some_conv
      split: option.splits)

lemma reaches_bounded: "reaches E ct c c' \<Longrightarrow> stack_bounded c \<Longrightarrow> stack_bounded c'"
  unfolding reaches_def by (induction rule: rtranclp_induct) (auto intro: step_bounded)

lemma start_bounded: "stack_bounded (start_config s g)"
  by (simp add: stack_bounded_def start_config_def stack_limit_def)

subsection \<open>The checks before an instruction\<close>

text \<open>The base cost that \<open>check_requirements\<close> charges.\<close>

definition instr_cost :: "(byte \<Rightarrow> int) \<Rightarrow> byte \<Rightarrow> int" where
  "instr_cost cost_table op =
     (if has_const_gas_cost op then gas_costs EVMC_FRONTIER op else cost_table op)"

lemma check_requirements_eq:
  assumes "- 1 \<le> tp" and "tp \<le> 1023"
    and "has_const_gas_cost op \<longrightarrow> gas_costs EVMC_FRONTIER op \<noteq> undefined_cost"
  shows "check_requirements L ct g tp op = Some
    (if \<not> has_const_gas_cost op \<and> ct op < 0 then (EVMC_UNDEFINED_INSTRUCTION, g)
     else if stack_height_change (traits op) > 0 \<and> tp + 1 = 1024 then (EVMC_STACK_OVERFLOW, g)
     else if tp + 1 < stack_height_required (traits op) then (EVMC_STACK_UNDERFLOW, g)
     else if g < instr_cost ct op then (EVMC_OUT_OF_GAS, g - instr_cost ct op)
     else (EVMC_SUCCESS, g - instr_cost ct op))"
  using assms traits_heights [of op]
  by (auto simp: check_requirements_def cassert_def instr_cost_def stack_limit_def Let_def)

end
