(* ===== verification/Gas.thy ===== *)
theory Gas
  imports Run
begin

text \<open>
  Gas never increases. No instruction leaves more gas than it was given, as long as the host
  returns no more gas from a call than the message gave it; every instruction that goes on
  charges at least one unit, except \<open>LOG1\<close>, whose handler does nothing but lets three items be
  popped. The weight of a configuration, the gas counted in units of a full stack plus the
  height of the stack, therefore falls in every turn.
\<close>

subsection \<open>Costs\<close>

definition free_opcodes :: "byte list" where
  "free_opcodes = [OP_STOP, OP_SSTORE, OP_LOG1, OP_RETURN, OP_REVERT, OP_INVALID, OP_SELFDESTRUCT]"

definition cost_ok :: "byte \<Rightarrow> int \<Rightarrow> bool" where
  "cost_ok op c \<longleftrightarrow> c = undefined_cost \<or> 1 \<le> c \<or> op \<in> set free_opcodes \<and> c = 0"

lemma assign_all_keys:
  "(\<And>k. P k (t k)) \<Longrightarrow> list_all (\<lambda>kv. P (fst kv) (snd kv)) kvs \<Longrightarrow> P op (assign t kvs op)"
  by (induction kvs arbitrary: t) (auto simp: fun_upd_def)

lemma assign_range_all:
  "(\<And>k. P k (t k)) \<Longrightarrow> (\<And>k. lo \<le> k \<Longrightarrow> k \<le> hi \<Longrightarrow> P k (f k)) \<Longrightarrow> P op (assign_range t lo hi f op)"
  by (simp add: assign_range_def)

lemma cost_ok_frontier: "cost_ok op (gas_costs_frontier op)"
  unfolding gas_costs_frontier_def Let_def
  by (intro assign_all_keys [where P = cost_ok] assign_range_all [where P = cost_ok])
    (simp_all add: cost_ok_def free_opcodes_def undefined_cost_def word_le_def word_less_def)

lemma cost_ok_assign:
  assumes "\<And>k. cost_ok k (t k)" and "list_all (\<lambda>kv. cost_ok (fst kv) (snd kv)) kvs"
  shows "cost_ok op (assign t kvs op)"
  using assms by (rule assign_all_keys)

lemmas cost_tables = gas_costs_homestead_def gas_costs_tangerine_whistle_def
  gas_costs_spurious_dragon_def gas_costs_byzantium_def gas_costs_constantinople_def
  gas_costs_petersburg_def gas_costs_istanbul_def gas_costs_berlin_def gas_costs_london_def
  gas_costs_paris_def gas_costs_shanghai_def gas_costs_cancun_def gas_costs_prague_def

lemma cost_ok_gas_costs: "cost_ok op (gas_costs r op)"
  by (cases r; simp only: gas_costs.simps cost_tables; intro cost_ok_assign cost_ok_frontier;
      simp add: cost_ok_def free_opcodes_def undefined_cost_def warm_storage_read_cost_def)

lemma cost_ok_common: "cost_ok op (common_cost_tables r op)"
  using cost_ok_gas_costs by (simp add: common_cost_tables_def)

lemma cost_ok_baseline: "cost_ok op (get_baseline_cost_table r v op)"
proof -
  have undef: "cost_ok op undefined_cost" for op by (simp add: cost_ok_def)
  have "cost_ok op (legacy_cost_tables r op)" "cost_ok op (eof_cost_tables r op)"
    unfolding legacy_cost_tables_def eof_cost_tables_def fun_upd_apply
    using cost_ok_common
    by (auto intro!: cost_ok_assign cost_ok_common simp: undef)
  then show ?thesis by (simp add: get_baseline_cost_table_def)
qed

text \<open>Every opcode with a handler is defined in the last revision, so no constant cost is undefined.\<close>

definition handler_opcodes :: "byte list" where
  "handler_opcodes =
     [OP_STOP, OP_ADD, OP_MUL, OP_SUB, OP_DIV, OP_SDIV, OP_MOD, OP_SMOD, OP_ADDMOD, OP_MULMOD,
      OP_EXP, OP_SIGNEXTEND, OP_LT, OP_GT, OP_SLT, OP_SGT, OP_EQ, OP_ISZERO, OP_AND, OP_OR,
      OP_XOR, OP_NOT, OP_BYTE, OP_SHL, OP_SHR, OP_SAR, OP_KECCAK256, OP_ADDRESS, OP_BALANCE,
      OP_ORIGIN, OP_CALLER, OP_CALLVALUE, OP_CALLDATALOAD, OP_CALLDATASIZE, OP_CALLDATACOPY,
      OP_CODESIZE, OP_CODECOPY, OP_GASPRICE, OP_EXTCODESIZE, OP_EXTCODECOPY, OP_RETURNDATASIZE,
      OP_RETURNDATACOPY, OP_EXTCODEHASH, OP_BLOCKHASH, OP_COINBASE, OP_TIMESTAMP, OP_NUMBER,
      OP_PREVRANDAO, OP_GASLIMIT, OP_CHAINID, OP_SELFBALANCE, OP_BASEFEE, OP_BLOBHASH,
      OP_BLOBBASEFEE, OP_POP, OP_MLOAD, OP_MLOAD8, OP_MLOAD16, OP_MLOAD32, OP_MLOAD64, OP_MSTORE,
      OP_MSTORE8, OP_MSTORE16, OP_MSTORE32, OP_MSTORE64, OP_SLOAD, OP_SSTORE, OP_JUMP, OP_JUMPI,
      OP_PC, OP_MSIZE, OP_GAS, OP_JUMPDEST, OP_TLOAD, OP_TSTORE, OP_MCOPY, OP_PUSH0, OP_PUSH1,
      OP_PUSH2, OP_PUSH3, OP_PUSH4, OP_PUSH5, OP_PUSH6, OP_PUSH7, OP_PUSH8, OP_PUSH9, OP_PUSH10,
      OP_PUSH11, OP_PUSH12, OP_PUSH13, OP_PUSH14, OP_PUSH15, OP_PUSH16, OP_PUSH17, OP_PUSH18,
      OP_PUSH19, OP_PUSH20, OP_PUSH21, OP_PUSH22, OP_PUSH23, OP_PUSH24, OP_PUSH25, OP_PUSH26,
      OP_PUSH27, OP_PUSH28, OP_PUSH29, OP_PUSH30, OP_PUSH31, OP_PUSH32, OP_DUP1, OP_DUP2,
      OP_DUP3, OP_DUP4, OP_DUP5, OP_DUP6, OP_DUP7, OP_DUP8, OP_DUP9, OP_DUP10, OP_DUP11,
      OP_DUP12, OP_DUP13, OP_DUP14, OP_DUP15, OP_DUP16, OP_SWAP1, OP_SWAP2, OP_SWAP3, OP_SWAP4,
      OP_SWAP5, OP_SWAP6, OP_SWAP7, OP_SWAP8, OP_SWAP9, OP_SWAP10, OP_SWAP11, OP_SWAP12,
      OP_SWAP13, OP_SWAP14, OP_SWAP15, OP_SWAP16, OP_SWAP, OP_DUP, OP_LOG1, OP_RJUMP, OP_RJUMPI,
      OP_RJUMPV, OP_CALLF, OP_RETF, OP_JUMPF, OP_DUPN, OP_SWAPN, OP_DATALOAD, OP_DATALOADN,
      OP_DATASIZE, OP_DATACOPY, OP_CREATE, OP_CALL, OP_CALLCODE, OP_RETURN, OP_DELEGATECALL,
      OP_CREATE2, OP_STATICCALL, OP_REVERT, OP_INVALID, OP_SELFDESTRUCT]"

lemma handler_opcodes_map: "map fst map_opcodes = handler_opcodes"
  by (simp only: map_opcodes_def map_opcodes_to_push0_def map_opcodes_from_push1_def append.simps
      list.map fst_conv handler_opcodes_def)

lemma handlers_defined: "list_all (\<lambda>op. gas_costs EVMC_PRAGUE op \<noteq> undefined_cost) handler_opcodes"
  by code_simp

lemma handler_cost:
  assumes "map_of (map_opcodes :: (byte \<times> 'h instr_fn) list) op = Some fn"
    and "check_requirements L (get_baseline_cost_table r v) g tp op = Some (EVMC_SUCCESS, g')"
  shows "0 \<le> g' \<and> g' \<le> g \<and> (op \<notin> set free_opcodes \<longrightarrow> g' < g)"
proof -
  have "op \<in> set (map fst (map_opcodes :: (byte \<times> 'h instr_fn) list))"
    using map_of_SomeD [OF assms(1)] by force
  then have "op \<in> set handler_opcodes" unfolding handler_opcodes_map .
  then have "gas_costs EVMC_PRAGUE op \<noteq> undefined_cost"
    using handlers_defined by (simp add: list_all_iff)
  then have const: "gas_costs EVMC_FRONTIER op \<noteq> undefined_cost" if "has_const_gas_cost op"
    using that by (simp add: has_const_gas_cost_def Let_def all_revisions_def)
  show ?thesis
    using assms(2) const cost_ok_baseline [of op r v] cost_ok_gas_costs [of op EVMC_FRONTIER]
    by (auto simp: check_requirements_def Let_def bind_eq_Some_conv cost_ok_def undefined_cost_def
        split: if_splits)
qed

subsection \<open>The memory checks\<close>

lemma grow_memory_gas:
  assumes "mem_size m < n" and "n + 31 < 2 ^ 64"
  shows "post (grow_memory L g m n) (\<lambda>(g', m'). g' \<le> g)"
proof -
  have "mem_size m div 32 \<le> words_for n"
    using assms(1) by (simp add: words_for_def div_le_mono)
  then have "memory_cost (mem_size m div 32) \<le> memory_cost (words_for n)" by (rule memory_cost_mono)
  then show ?thesis
    using num_words_eq [OF assms(2)]
    by (auto simp: grow_memory_def Let_def memory_cost_def word_size_def zdiv_int intro: post_skip)
qed

lemma check_memory_gas:
  assumes "n \<le> max_buffer_size"
  shows "post (check_memory L g m off n) (\<lambda>(ok, g', m'). g' \<le> g)"
proof (cases "lo64 off > max_buffer_size")
  case True
  then show ?thesis by (simp add: check_memory_def)
next
  case False
  then have "lo64 off + n + 31 < 2 ^ 64" using assms by (simp add: max_buffer_size_def)
  then show ?thesis
    using False grow_memory_gas [of m "lo64 off + n" L g]
    by (auto simp: check_memory_def Let_def post_bind elim!: post_mono)
qed

lemma check_memory_copy_gas: "post (check_memory_copy L g m off n) (\<lambda>(ok, g', m'). g' \<le> g)"
  using check_memory_gas [of "lo64 n" L g m off]
  by (auto simp: check_memory_copy_def Let_def)

subsection \<open>Instructions\<close>

text \<open>A result that goes on leaves at most \<open>g\<close>.\<close>

definition gas_le :: "int \<Rightarrow> evmc_status_code \<times> int \<times> 'h exec_state \<Rightarrow> bool" where
  "gas_le g = (\<lambda>(st, g', s'). st = EVMC_SUCCESS \<longrightarrow> g' \<le> g)"

named_theorems gas_rules \<open>how the gas moves through the steps of a handler\<close>

lemma gas_result [gas_rules]:
  "g' \<le> g \<Longrightarrow> post (Some (EVMC_SUCCESS, g', s)) (gas_le g)"
  "st \<noteq> EVMC_SUCCESS \<Longrightarrow> post (Some (st, g', s)) (gas_le g)"
  by (simp_all add: gas_le_def)

lemma gas_check [gas_rules]:
  "n \<le> max_buffer_size \<Longrightarrow> (\<And>ok g' m'. g' \<le> g \<Longrightarrow> post (f ok g' m') Q) \<Longrightarrow>
   post (Option.bind (check_memory L g m off n) (\<lambda>(ok, g', m'). f ok g' m')) Q"
  "(\<And>ok g' m'. g' \<le> g \<Longrightarrow> post (f ok g' m') Q) \<Longrightarrow>
   post (Option.bind (check_memory_copy L g m off k) (\<lambda>(ok, g', m'). f ok g' m')) Q"
  by (auto intro!: post_bindI [OF check_memory_gas] post_bindI [OF check_memory_copy_gas])

lemma gas_cold [gas_rules]:
  "0 \<le> c \<Longrightarrow> (\<And>oog g' s'. g' \<le> g \<Longrightarrow> post (f oog g' s') Q) \<Longrightarrow>
   post (case charge_cold_account E s a c g of (oog, g', s') \<Rightarrow> f oog g' s') Q"
  by (cases "charge_cold_account E s a c g")
    (auto simp: charge_cold_account_def split: if_splits prod.splits)

lemma gas_case_pair: "(\<And>a b. post (f a b) Q) \<Longrightarrow> post (case p of (a, b) \<Rightarrow> f a b) Q"
  by (cases p) simp

lemmas gas_steps = gas_rules post_ifI post_skip gas_case_pair

lemma gas_constants [simp]:
  "zkevm_word_size \<le> max_buffer_size" "Suc 0 \<le> max_buffer_size" "32 \<le> max_buffer_size"
  "0 \<le> additional_cold_account_access_cost"
  by (simp_all add: zkevm_word_size_def max_buffer_size_def additional_cold_account_access_cost_def
      cold_account_access_cost_def warm_storage_read_cost_def)

lemma gas_sub: "g' \<le> g \<Longrightarrow> 0 \<le> c \<Longrightarrow> g' - c \<le> (g :: int)"
  by simp

lemma gas_exp: "post (i_exp E tp g s) (gas_le g)"
  unfolding i_exp_def Let_def by (intro gas_steps) auto

lemma gas_keccak256: "post (i_keccak256 E tp g s) (gas_le g)"
  unfolding i_keccak256_def Let_def
  by (intro gas_steps) (auto intro!: gas_sub)

lemma gas_mload: "post (i_mload E tp g s) (gas_le g)"
  unfolding i_mload_def Let_def by (intro gas_steps) auto

lemma gas_mstore: "post (i_mstore n E tp g s) (gas_le g)"
  unfolding i_mstore_def Let_def by (intro gas_steps) auto

lemma gas_mcopy: "post (i_mcopy E tp g s) (gas_le g)"
  unfolding i_mcopy_def Let_def by (intro gas_steps) (auto intro!: gas_sub copy_cost_nonneg)

lemma gas_copy_input: "post (copy_input E tp src g s) (gas_le g)"
  unfolding copy_input_def Let_def by (intro gas_steps) (auto intro!: gas_sub copy_cost_nonneg)

lemma gas_datacopy: "post (i_datacopy E tp g s) (gas_le g)"
  unfolding i_datacopy_def Let_def by (intro gas_steps) (auto intro!: gas_sub copy_cost_nonneg)

lemma gas_returndatacopy: "post (i_returndatacopy E tp g s) (gas_le g)"
  unfolding i_returndatacopy_def Let_def by (intro gas_steps) (auto intro!: gas_sub copy_cost_nonneg)

lemma gas_extcodecopy: "post (i_extcodecopy E tp g s) (gas_le g)"
  unfolding i_extcodecopy_def Let_def
  by (intro gas_steps) (auto intro!: gas_sub copy_cost_nonneg elim!: order_trans)

lemma gas_account_query: "post (account_query E tp q g s) (gas_le g)"
  unfolding account_query_def Let_def by (intro gas_steps) auto

lemma gas_sload: "post (i_sload E tp g s) (gas_le g)"
  unfolding i_sload_def Let_def
  by (intro gas_steps) (auto simp: cold_sload_cost_def warm_storage_read_cost_def)

lemma gas_tstore: "post (i_tstore E tp g s) (gas_le g)"
  unfolding i_tstore_def Let_def by (intro gas_steps) auto

lemma gas_gas: "post (i_gas E tp g s) (gas_le g)"
  unfolding i_gas_def Let_def by (intro gas_steps) auto

text \<open>\<open>SSTORE\<close> has no base cost, but every entry of its cost table is positive.\<close>

lemma sstore_costs_pos: "0 < fst (sstore_costs r st)"
  by (cases r; cases st) (simp_all add: sstore_costs_def storage_cost_spec_def mk_storage_cost_def
      warm_storage_read_cost_def cold_sload_cost_def Let_def)

lemma gas_sstore_costs:
  "(\<And>w r. 0 < w \<Longrightarrow> post (f w r) Q) \<Longrightarrow> post (case sstore_costs rv st of (w, r) \<Rightarrow> f w r) Q"
  using sstore_costs_pos [of rv st] by (cases "sstore_costs rv st") simp

lemma gas_sstore: "post (i_sstore E tp g s) (gas_le (g - 1))"
  unfolding i_sstore_def Let_def
  by (intro gas_sstore_costs gas_steps) (auto simp: cold_sload_cost_def)

subsection \<open>Calls\<close>

text \<open>
  The contract of the host: a call returns at most the gas of its message. Only the six
  instructions below rely on it, so code in which their bytes do not occur runs without it.
\<close>

definition host_gas_ok :: "'h env \<Rightarrow> bool" where
  "host_gas_ok E \<longleftrightarrow> (\<forall>h m r h'. call_fn (hif E) h m = Some (r, h') \<longrightarrow> res_gas_left r \<le> msg_gas m)"

definition call_opcodes :: "byte list" where
  "call_opcodes = [OP_CREATE, OP_CALL, OP_CALLCODE, OP_DELEGATECALL, OP_CREATE2, OP_STATICCALL]"

definition op_gas_ok :: "'h env \<Rightarrow> byte \<Rightarrow> bool" where
  "op_gas_ok E op \<longleftrightarrow> host_gas_ok E \<or> op \<notin> set call_opcodes"

definition code_gas_ok :: "'h env \<Rightarrow> 'h exec_state \<Rightarrow> bool" where
  "code_gas_ok E s \<longleftrightarrow> host_gas_ok E \<or> set (code_buffer (analysis s)) \<inter> set call_opcodes = {}"

lemma code_byte_gas: "code_gas_ok E s \<Longrightarrow> code_byte s pos = Some op \<Longrightarrow> op_gas_ok E op"
  by (auto simp: code_gas_ok_def op_gas_ok_def code_byte_def Let_def disjoint_iff
      dest!: nth_opt_SomeD split: if_splits)

lemma frame_code_gas: "frame s s' \<Longrightarrow> code_gas_ok E s \<Longrightarrow> code_gas_ok E s'"
  by (simp add: code_gas_ok_def frame_def)

lemma gas_host_call:
  "host_gas_ok E \<Longrightarrow> (\<And>r s'. res_gas_left r \<le> msg_gas m \<Longrightarrow> post (f r s') Q) \<Longrightarrow>
   post (Option.bind (host_call E s m) (\<lambda>(r, s'). f r s')) Q"
  by (cases "call_fn (hif E) (host s) m") (simp_all add: host_gas_ok_def host_call_def split_paired_all, blast)

lemma gas_int64: "post (f x) Q \<Longrightarrow> post (Option.bind (int64_result x) f) Q"
  by (simp add: int64_result_def)

lemma gas_run_call: "host_gas_ok E \<Longrightarrow> post (run_call E tp m n k g s) (gas_le g)"
  unfolding run_call_def Let_def
  by (intro gas_host_call gas_int64 gas_steps) auto

lemma gas_run_create: "host_gas_ok E \<Longrightarrow> post (run_create E tp m g s) (gas_le g)"
  unfolding run_create_def Let_def
  by (intro gas_host_call gas_int64 gas_steps) auto

lemma gas_le_mono: "post m (gas_le g) \<Longrightarrow> g \<le> g' \<Longrightarrow> post m (gas_le g')"
  by (erule post_mono) (auto simp: gas_le_def)

text \<open>The value of a call costs more than the stipend that comes with it.\<close>

lemma gas_call_checked:
  assumes "host_gas_ok E"
  shows "post (call_checked E opc ops input tp g s) (gas_le g)"
  unfolding call_checked_def Let_def
  by (intro gas_steps post_option_case gas_le_mono [OF gas_run_call [OF assms]]) auto

lemma gas_call_impl:
  assumes "host_gas_ok E"
  shows "post (call_impl E opc tp g s) (gas_le g)"
  unfolding call_impl_def Let_def
  by (intro gas_steps gas_le_mono [OF gas_call_checked [OF assms]]) auto

lemma gas_create_checked:
  assumes "host_gas_ok E"
  shows "post (create_checked E opc v salt a b tp g s) (gas_le g)"
  unfolding create_checked_def Let_def
  by (intro gas_steps gas_le_mono [OF gas_run_create [OF assms]]) (auto intro!: gas_sub)

lemma gas_create_impl:
  assumes "host_gas_ok E"
  shows "post (create_impl E opc tp g s) (gas_le g)"
  unfolding create_impl_def Let_def
  by (intro gas_steps gas_le_mono [OF gas_create_checked [OF assms]]) auto

subsection \<open>Every handler\<close>

definition fn_gas :: "byte \<Rightarrow> 'h instr_fn \<Rightarrow> bool" where
  "fn_gas op fn \<longleftrightarrow> (case fn of
     Fn_result f \<Rightarrow> (op \<notin> set free_opcodes \<or> op = OP_SSTORE) \<and>
       (\<forall>E tp g s. op_gas_ok E op \<longrightarrow>
          post (f E tp g s) (gas_le (if op = OP_SSTORE then g - 1 else g)))
   | Fn_term f \<Rightarrow> True
   | _ \<Rightarrow> op \<notin> set free_opcodes \<or> op = OP_LOG1)"

lemma fn_gas_result:
  "op \<notin> set free_opcodes \<Longrightarrow> (\<And>E tp g s. post (f E tp g s) (gas_le g)) \<Longrightarrow> fn_gas op (Fn_result f)"
  by (auto simp: fn_gas_def free_opcodes_def)

lemma fn_gas_call:
  "op \<notin> set free_opcodes \<Longrightarrow> op \<in> set call_opcodes \<Longrightarrow>
   (\<And>E tp g s. host_gas_ok E \<Longrightarrow> post (f E tp g s) (gas_le g)) \<Longrightarrow> fn_gas op (Fn_result f)"
  by (auto simp: fn_gas_def free_opcodes_def op_gas_ok_def)

lemma fn_gas_sstore: "fn_gas OP_SSTORE (Fn_result i_sstore)"
  by (simp add: fn_gas_def gas_sstore)

lemma fn_gas_term: "fn_gas op (Fn_term f)"
  by (simp add: fn_gas_def)

lemma fn_gas_other:
  "op \<notin> set free_opcodes \<or> op = OP_LOG1 \<Longrightarrow> fn_gas op (Fn_void f1)"
  "op \<notin> set free_opcodes \<or> op = OP_LOG1 \<Longrightarrow> fn_gas op (Fn_state f2)"
  "op \<notin> set free_opcodes \<or> op = OP_LOG1 \<Longrightarrow> fn_gas op (Fn_jump f3)"
  by (simp_all add: fn_gas_def)

lemma gas_handlers:
  "post (i_balance E tp g s) (gas_le g)" "post (i_extcodesize E tp g s) (gas_le g)"
  "post (i_extcodehash E tp g s) (gas_le g)" "post (i_calldatacopy E tp g s) (gas_le g)"
  "post (i_codecopy E tp g s) (gas_le g)"
  by (simp_all add: i_balance_def i_extcodesize_def i_extcodehash_def i_calldatacopy_def
      i_codecopy_def gas_account_query gas_copy_input)

lemma gas_call_handlers:
  assumes "host_gas_ok E"
  shows "post (i_call E tp g s) (gas_le g)" "post (i_callcode E tp g s) (gas_le g)"
    "post (i_delegatecall E tp g s) (gas_le g)" "post (i_staticcall E tp g s) (gas_le g)"
    "post (i_create E tp g s) (gas_le g)" "post (i_create2 E tp g s) (gas_le g)"
  using assms
  by (simp_all add: i_call_def i_callcode_def i_delegatecall_def i_staticcall_def i_create_def
      i_create2_def gas_call_impl gas_create_impl)

lemmas fn_gas_handlers = gas_handlers gas_exp gas_keccak256 gas_mload gas_mstore gas_mcopy
  gas_datacopy gas_returndatacopy gas_extcodecopy gas_sload gas_tstore gas_gas

lemmas fn_gas_calls = gas_call_handlers [THEN fn_gas_call [rotated 2]]

lemma map_opcodes_gas: "list_all (\<lambda>(op, fn). fn_gas op fn) map_opcodes"
  unfolding map_opcodes_def map_opcodes_to_push0_def map_opcodes_from_push1_def
    append.simps list.pred_inject prod.case
  by (intro conjI TrueI fn_gas_sstore fn_gas_calls fn_gas_handlers [THEN fn_gas_result [rotated]]
      fn_gas_other fn_gas_term;
      (assumption | simp add: free_opcodes_def call_opcodes_def)+)

subsection \<open>The loop ends\<close>

definition weight :: "int \<Rightarrow> int \<Rightarrow> nat" where
  "weight tp g = 1025 * nat (g + 1) + nat (tp + 1)"

lemma weight_gas:
  "g' < g \<Longrightarrow> 0 \<le> g \<Longrightarrow> tp' < 1024 \<Longrightarrow> weight tp' g' < weight tp g"
  unfolding weight_def by linarith

lemma weight_top: "g' \<le> g \<Longrightarrow> tp' < tp \<Longrightarrow> - 1 \<le> tp' \<Longrightarrow> weight tp' g' < weight tp g"
  unfolding weight_def by (intro add_le_less_mono mult_le_mono2) simp_all

lemma invoke_weight:
  fixes E :: "'h env"
  assumes host: "op_gas_ok E op" and top: "- 1 \<le> tp" "tp < 1024"
    and run: "invoke E (get_baseline_cost_table r v) pos tp g s op = Some (Some pos', tp', g', s')"
  shows "weight tp' g' < weight tp g"
proof -
  have top': "- 1 \<le> tp'" "tp' < 1024" using invoke_top [OF run top] by simp_all
  obtain g1 fn where req: "check_requirements E (get_baseline_cost_table r v) g tp op = Some (EVMC_SUCCESS, g1)"
    and fn: "map_of (map_opcodes :: (byte \<times> 'h instr_fn) list) op = Some fn"
    and inv: "invoke_fn E fn pos tp g1 s = Some (Some pos', g', s')"
    and tp': "tp' = tp + stack_height_change (traits op)"
    using run by (auto simp: invoke_def bind_eq_Some_conv split: if_splits option.splits)
  note cost = handler_cost [OF fn req]
  have "(op, fn) \<in> set map_opcodes" using fn by (rule map_of_SomeD)
  then have gas: "fn_gas op fn" using map_opcodes_gas by (auto simp: list_all_iff)
  have log: "stack_height_change (traits OP_LOG1) = - 3" by code_simp
  have free: "weight tp' g' < weight tp g" if "g' = g1" "op \<notin> set free_opcodes \<or> op = OP_LOG1"
  proof (cases "op = OP_LOG1")
    case True
    then show ?thesis using cost that(1) tp' log top' by (intro weight_top) simp_all
  next
    case False
    then show ?thesis using cost that top' by (intro weight_gas) simp_all
  qed
  show ?thesis
  proof (cases fn)
    case (Fn_void f)
    then show ?thesis using inv gas by (intro free) (auto simp: fn_gas_def)
  next
    case (Fn_state f)
    then show ?thesis using inv gas by (intro free) (auto simp: fn_gas_def bind_eq_Some_conv)
  next
    case (Fn_jump f)
    then show ?thesis using inv gas by (intro free) (auto simp: fn_gas_def bind_eq_Some_conv)
  next
    case (Fn_term f)
    then show ?thesis using inv by (auto simp: bind_eq_Some_conv)
  next
    case (Fn_result f)
    then have "f E tp g1 s = Some (EVMC_SUCCESS, g', s')"
      using inv by (auto simp: bind_eq_Some_conv split: if_splits)
    then have "g' \<le> (if op = OP_SSTORE then g1 - 1 else g1)"
      using gas host Fn_result by (force simp: fn_gas_def gas_le_def dest: postD)
    moreover have "op \<notin> set free_opcodes \<or> op = OP_SSTORE"
      using gas Fn_result by (simp add: fn_gas_def)
    ultimately have "g' < g" using cost by (auto split: if_splits)
    then show ?thesis using cost top' by (intro weight_gas) simp_all
  qed
qed

lemma dispatch_loop_ends:
  "code_gas_ok E s \<Longrightarrow> - 1 \<le> tp \<Longrightarrow> tp < 1024 \<Longrightarrow> weight tp g < n \<Longrightarrow>
    dispatch_loop n E (get_baseline_cost_table r v) pos tp g s \<noteq> Out_of_fuel"
proof (induction n arbitrary: pos tp g s)
  case 0
  then show ?case by simp
next
  case (Suc n)
  show ?case
  proof (cases "turn E (get_baseline_cost_table r v) (config_of pos tp g s)")
    case None
    then show ?thesis unfolding dispatch_loop_turn by simp
  next
    case (Some q)
    show ?thesis
    proof (cases q)
      case (Inr x)
      then show ?thesis unfolding dispatch_loop_turn by (simp add: Some)
    next
      case (Inl c)
      then obtain op where code: "code_byte s pos = Some op"
        and run: "invoke E (get_baseline_cost_table r v) pos tp g s op =
          Some (Some (c_pos c), c_top c, c_gas c, c_state c)"
        using Some by (auto simp: turn_def bind_eq_Some_conv split: option.splits)
      have "weight (c_top c) (c_gas c) < n"
        using invoke_weight [OF code_byte_gas [OF Suc.prems(1) code] Suc.prems(2,3) run] Suc.prems(4)
        by linarith
      moreover have "code_gas_ok E (c_state c)"
        using postD [OF frame_invoke run] Suc.prems(1) by (simp add: frame_code_gas)
      ultimately show ?thesis
        unfolding dispatch_loop_turn
        using Suc.IH invoke_top [OF run Suc.prems(2,3)] by (simp add: Some Inl)
    qed
  qed
qed

lemma invoke_gas:
  fixes E :: "'h env"
  assumes host: "op_gas_ok E op"
    and run: "invoke E (get_baseline_cost_table r v) pos tp g s op = Some (Some pos', tp', g', s')"
  shows "g' \<le> g"
proof -
  obtain g1 fn where req: "check_requirements E (get_baseline_cost_table r v) g tp op = Some (EVMC_SUCCESS, g1)"
    and fn: "map_of (map_opcodes :: (byte \<times> 'h instr_fn) list) op = Some fn"
    and inv: "invoke_fn E fn pos tp g1 s = Some (Some pos', g', s')"
    using run by (auto simp: invoke_def bind_eq_Some_conv split: if_splits option.splits)
  note cost = handler_cost [OF fn req]
  have "(op, fn) \<in> set map_opcodes" using fn by (rule map_of_SomeD)
  then have gas: "fn_gas op fn" using map_opcodes_gas by (auto simp: list_all_iff)
  show ?thesis
  proof (cases fn)
    case (Fn_result f)
    then have "f E tp g1 s = Some (EVMC_SUCCESS, g', s')"
      using inv by (auto simp: bind_eq_Some_conv split: if_splits)
    then have "g' \<le> (if op = OP_SSTORE then g1 - 1 else g1)"
      using gas host Fn_result by (force simp: fn_gas_def gas_le_def dest: postD)
    then show ?thesis using cost by (auto split: if_splits)
  qed (use inv cost in \<open>auto simp: bind_eq_Some_conv\<close>)
qed

lemma step_gas:
  assumes "code_gas_ok E (c_state c)" and "step E (get_baseline_cost_table r v) c c'"
  shows "c_gas c' \<le> c_gas c"
proof -
  obtain op where code: "code_byte (c_state c) (c_pos c) = Some op"
    and run: "invoke E (get_baseline_cost_table r v) (c_pos c) (c_top c) (c_gas c) (c_state c) op =
      Some (Some (c_pos c'), c_top c', c_gas c', c_state c')"
    using assms(2) by (auto simp: step_iff turn_def bind_eq_Some_conv split: option.splits)
  show ?thesis by (rule invoke_gas [OF code_byte_gas [OF assms(1) code] run])
qed

lemma reaches_gas:
  assumes "code_gas_ok E (c_state c)" and "reaches E (get_baseline_cost_table r v) c c'"
  shows "c_gas c' \<le> c_gas c"
  using assms(2) unfolding reaches_def
proof (induction rule: rtranclp_induct)
  case base
  then show ?case by simp
next
  case (step c1 c2)
  have "code_gas_ok E (c_state c1)"
    using frame_code_gas [OF reaches_frame assms(1)] step(1) by (simp add: reaches_def)
  then show ?case using step_gas step(2,3) by fastforce
qed

end
