(* ===== verification/Memory_Trace.thy ===== *)
theory Memory_Trace
  imports Stack_Trace Gas
begin

text \<open>
  What the memory entries of a trace say about the memory. As for the stack, the circuit checks
  them by replaying: a read must return the byte last written to its address, or zero.
  \<open>mem_agrees\<close> says that the reads of a trace do, and that the replay ends with the memory. The
  instructions that write memory without logging every byte, or log at other addresses than
  they use, are listed in \<open>unlogged_opcodes\<close>; all others are proved to keep \<open>mem_agrees\<close>.
\<close>

definition mem_value :: "memory \<Rightarrow> nat \<Rightarrow> zkevm_word" where
  "mem_value m i = (if i < mem_size m then word_of_uint64 (ucast (mem_data m ! i)) else 0)"

definition mem_same :: "memory \<Rightarrow> memory \<Rightarrow> bool" where
  "mem_same m m' \<longleftrightarrow> mem_value m' = mem_value m"

text \<open>The reads agree, and the replay agrees with the memory outside the addresses from \<open>lo\<close> to \<open>hi\<close>.\<close>

definition agrees_but :: "nat \<Rightarrow> nat \<Rightarrow> 'h exec_state \<Rightarrow> bool" where
  "agrees_but lo hi s \<longleftrightarrow> replay_reads MEMORY_OP (\<lambda>_. 0) (rw_trace s) \<and>
     (\<forall>i. lo \<le> i \<and> i < hi \<or> replay MEMORY_OP (\<lambda>_. 0) (rw_trace s) i = mem_value (memory s) i)"

definition mem_agrees :: "'h exec_state \<Rightarrow> bool" where
  "mem_agrees s \<longleftrightarrow> replay_reads MEMORY_OP (\<lambda>_. 0) (rw_trace s) \<and>
     replay MEMORY_OP (\<lambda>_. 0) (rw_trace s) = mem_value (memory s)"

lemma agrees_but_empty: "hi \<le> lo \<Longrightarrow> agrees_but lo hi = mem_agrees"
  by (auto simp: agrees_but_def mem_agrees_def fun_eq_iff)

lemma mem_agrees_updates [simp]:
  "mem_agrees (s\<lparr>gas_refund := g\<rparr>) = mem_agrees s" "mem_agrees (s\<lparr>host := h\<rparr>) = mem_agrees s"
  "mem_agrees (s\<lparr>m_tx := x\<rparr>) = mem_agrees s" "mem_agrees (s\<lparr>return_data := d\<rparr>) = mem_agrees s"
  "mem_agrees (s\<lparr>status := st\<rparr>) = mem_agrees s" "mem_agrees (s\<lparr>output_size := k\<rparr>) = mem_agrees s"
  "mem_agrees (s\<lparr>call_stack := c\<rparr>) = mem_agrees s" "mem_agrees (s\<lparr>output_offset := k\<rparr>) = mem_agrees s"
  "mem_agrees (s\<lparr>stack_space := p\<rparr>) = mem_agrees s"
  by (simp_all add: mem_agrees_def)

lemma mem_agrees_memory: "mem_same (memory s) m \<Longrightarrow> mem_agrees s \<Longrightarrow> mem_agrees (s\<lparr>memory := m\<rparr>)"
  by (simp add: mem_agrees_def mem_same_def)

lemma mem_agrees_other:
  "mem_agrees s \<Longrightarrow> rw_op e \<noteq> MEMORY_OP \<Longrightarrow> mem_agrees (s\<lparr>rw_trace := rw_trace s @ [e]\<rparr>)"
  by (simp add: mem_agrees_def replay_step_def)

subsection \<open>Growing\<close>

lemma mem_same_refl [simp]: "mem_same m m"
  by (simp add: mem_same_def)

lemma word_of_uint64_zero [simp]: "word_of_uint64 0 = 0"
  by (simp add: word_of_uint64_def)

lemma mem_same_zeros: "mem_data m' = mem_data m @ replicate k 0 \<Longrightarrow> mem_same m m'"
  by (auto simp: mem_same_def mem_value_def mem_size_def nth_append fun_eq_iff)

lemma mem_same_grow: "post (mem_grow L n m) (mem_same m)"
  by (rule postI) (auto simp: mem_grow_def allocate_capacity_def Let_def bind_eq_Some_conv
      intro: mem_same_zeros split: if_splits)

lemma mem_same_grow_memory: "post (grow_memory L g m n) (\<lambda>(_, m'). mem_same m m')"
  using mem_same_grow [of L _ m]
  by (fastforce simp: grow_memory_def Let_def bind_eq_Some_conv intro!: postI dest: postD split: if_splits)

lemma mem_same_check:
  "post (check_memory L g m off k) (\<lambda>(ok, _, m'). mem_same m m' \<and> (ok \<longrightarrow> lo64 off \<le> max_buffer_size))"
  using mem_same_grow_memory [of L g m "(lo64 off + k) mod 2 ^ 64"]
  by (auto simp: check_memory_def Let_def bind_eq_Some_conv intro!: postI dest: postD split: if_splits)

lemma mem_same_check_copy:
  "post (check_memory_copy L g m off k) (\<lambda>(ok, _, m'). mem_same m m' \<and>
     (ok \<longrightarrow> lo64 k \<le> max_buffer_size \<and> (lo64 k \<noteq> 0 \<longrightarrow> lo64 off \<le> max_buffer_size)))"
  using mem_same_check [of L g m off "lo64 k"]
  by (auto simp: check_memory_copy_def Let_def to_uint64_def max_buffer_size_def intro!: postI dest: postD)

subsection \<open>Logged accesses\<close>

lemma unat_word_of_size: "n < 2 ^ 64 \<Longrightarrow> unat (word_of_size n) = n"
proof -
  assume "n < 2 ^ 64"
  then have "unat (word_of_nat n :: u64) = n" by (simp add: unat_of_nat)
  moreover have "take_bit 256 n = n"
    using \<open>n < 2 ^ 64\<close> by (intro take_bit_nat_eq_self) simp
  ultimately show ?thesis
    by (simp add: word_of_size_def word_of_uint64_def unsigned_ucast_eq)
qed

text \<open>An access to the byte at \<open>base + j\<close> that is logged at its address with its value.\<close>

lemma log_memory_eq:
  "post (log_memory E s a w v) (\<lambda>s'. memory s' = memory s \<and> (\<exists>e. rw_trace s' = rw_trace s @ [e] \<and>
     rw_op e = MEMORY_OP \<and> rw_is_write e = w \<and> rw_address e = a \<and> rw_value e = v))"
  by (simp add: log_memory_def memory_operation_def post_rules)

lemma agree_log_byte:
  fixes s :: "'h exec_state"
  assumes "agrees_but (base + j) hi s" and "mem_get (memory s) (base + j) = Some b"
    and "base + j < 2 ^ 64" and "w \<or> hi \<le> base + j"
  shows "post (log_memory E s (word_of_size (base + j)) w (word_of_uint64 (ucast b))) (agrees_but (base + Suc j) hi)"
proof (rule post_mono [OF log_memory_eq])
  fix s' :: "'h exec_state"
  assume "memory s' = memory s \<and> (\<exists>e. rw_trace s' = rw_trace s @ [e] \<and> rw_op e = MEMORY_OP \<and>
      rw_is_write e = w \<and> rw_address e = word_of_size (base + j) \<and> rw_value e = word_of_uint64 (ucast b))"
  then obtain e where e: "memory s' = memory s" "rw_trace s' = rw_trace s @ [e]" "rw_op e = MEMORY_OP"
      "rw_is_write e = w" "unat (rw_address e) = base + j" "rw_value e = mem_value (memory s) (base + j)"
    using assms(2,3) by (auto simp: unat_word_of_size mem_value_def mem_get_def mem_size_def dest!: nth_opt_SomeD)
  show "agrees_but (base + Suc j) hi s'"
    using assms(1,4) e
    by (auto simp: agrees_but_def replay_step_def not_less_eq_eq) (metis Suc_leI le_neq_implies_less)
qed

lemma agree_write_loop:
  assumes "agrees_but (base + j) (base + j + n) s" and "base + j + n \<le> 2 ^ 64"
  shows "post (log_mem_loop E (\<lambda>j. word_of_size (base + j)) base True n j s) mem_agrees"
  using assms
proof (induction n arbitrary: j s)
  case 0
  then show ?case by (simp add: agrees_but_empty)
next
  case (Suc n)
  have "post (log_memory E s (word_of_size (base + j)) True (word_of_uint64 (ucast b)))
      (agrees_but (base + Suc j) (base + Suc j + n))" if "mem_get (memory s) (base + j) = Some b" for b
    using agree_log_byte [OF Suc.prems(1) that] Suc.prems(2) by simp
  then show ?case
    using Suc.IH [of "Suc j"] Suc.prems(2)
    by (cases "mem_get (memory s) (base + j)") (auto intro: post_bindI)
qed

lemma agree_read_loop:
  assumes "mem_agrees s" and "base + j + n \<le> 2 ^ 64"
  shows "post (log_mem_loop E (\<lambda>j. word_of_size (base + j)) base False n j s) mem_agrees"
  using assms
proof (induction n arbitrary: j s)
  case (Suc n)
  have "post (log_memory E s (word_of_size (base + j)) False (word_of_uint64 (ucast b))) mem_agrees"
    if "mem_get (memory s) (base + j) = Some b" for b
    using agree_log_byte [of base j 0 s b False E] Suc.prems that by (simp add: agrees_but_empty)
  then show ?case
    using Suc.IH [of _ "Suc j"] Suc.prems(2)
    by (cases "mem_get (memory s) (base + j)") (auto intro: post_bindI)
qed simp

lemma agree_write:
  assumes "mem_agrees s" and "mem_write (memory s) a bs = Some m" and "length bs \<le> n"
  shows "agrees_but a (a + n) (s\<lparr>memory := m\<rparr>)"
proof -
  from assms(2) obtain d where d: "splice_opt (mem_data (memory s)) a bs = Some d" "m = memory s\<lparr>mem_data := d\<rparr>"
    by (auto simp: mem_write_def bind_eq_Some_conv)
  have "a \<le> i \<and> i < a + n \<or> mem_value (memory s) i = mem_value m i" for i
    using d splice_opt_length [OF d(1)] splice_opt_nth [OF d(1), of i] assms(3)
    by (auto simp: mem_value_def mem_size_def)
  then show ?thesis using assms(1) by (simp add: agrees_but_def mem_agrees_def)
qed

lemma agree_write_logged:
  assumes "mem_agrees s" and "length bs \<le> n" and "a + n \<le> 2 ^ 64"
    and "\<And>s'. mem_agrees s' \<Longrightarrow> post (f s') Q"
  shows "post (Option.bind (mem_write (memory s) a bs) (\<lambda>m.
    Option.bind (log_mem_loop E (\<lambda>j. word_of_size (a + j)) a True n 0 (s\<lparr>memory := m\<rparr>)) f)) Q"
proof (cases "mem_write (memory s) a bs")
  case (Some m)
  have "agrees_but (a + 0) (a + 0 + n) (s\<lparr>memory := m\<rparr>)"
    using agree_write [OF assms(1) Some assms(2)] by simp
  from agree_write_loop [OF this] assms(3,4) Some show ?thesis
    by (auto intro: post_bindI)
qed simp

lemma agree_read_logged:
  assumes "mem_agrees s" and "a + n \<le> 2 ^ 64" and "\<And>s'. mem_agrees s' \<Longrightarrow> post (f s') Q"
  shows "post (Option.bind (log_mem_loop E (\<lambda>j. word_of_size (a + j)) a False n 0 s) f) Q"
  using agree_read_loop [of s a 0 n] assms by (auto intro: post_bindI)

lemma agree_slice:
  "(\<And>bs. length bs = n \<Longrightarrow> post (f bs) Q) \<Longrightarrow> post (Option.bind (slice_opt xs i n) f) Q"
  by (cases "slice_opt xs i n") (auto dest: slice_opt_length)

subsection \<open>Steps\<close>

lemma agree_stack_set: "mem_agrees s \<Longrightarrow> post (stack_set s tp i v) mem_agrees"
  by (simp add: stack_set_def)

lemma agree_stack_push: "mem_agrees s \<Longrightarrow> post (stack_push s tp v) (\<lambda>(_, s'). mem_agrees s')"
  by (auto simp: stack_push_def post_bind intro: post_mono [OF agree_stack_set])

lemma agree_log_stack_at: "mem_agrees s \<Longrightarrow> post (log_stack_at E s tp k w i) mem_agrees"
  unfolding log_stack_at_def
  by (rule post_skip) (simp add: log_stack_def stack_operation_def post_rules mem_agrees_other)

lemma agree_log_storage: "mem_agrees s \<Longrightarrow> mem_agrees (log_storage s a k w v v')"
  by (simp add: log_storage_def storage_operation_def mem_agrees_other)

lemma agree_push_logged: "mem_agrees s \<Longrightarrow> post (push_logged E tp v s) mem_agrees"
  unfolding push_logged_def
  by (rule post_bindI [OF agree_stack_push]) (auto intro: agree_log_stack_at)

lemma agree_log_reads_loop: "mem_agrees s \<Longrightarrow> post (log_reads_loop E tp k i s) mem_agrees"
proof (induction k arbitrary: i s)
  case (Suc k)
  show ?case
    unfolding log_reads_loop.simps by (rule post_bindI [OF agree_log_stack_at [OF Suc.prems] Suc.IH])
qed simp

lemma agree_log_push_loop: "mem_agrees s \<Longrightarrow> post (log_push_loop E tp k i s) mem_agrees"
proof (induction k arbitrary: i s)
  case (Suc k)
  show ?case
    unfolding log_push_loop.simps by (rule post_bindI [OF agree_log_stack_at [OF Suc.prems] Suc.IH])
qed simp

lemmas agree_binds = agree_stack_set [THEN post_bindI] agree_log_stack_at [THEN post_bindI]
  agree_push_logged [THEN post_bindI] agree_log_reads_loop [THEN post_bindI]
  agree_log_push_loop [THEN post_bindI]

lemma agree_bind_push:
  assumes "mem_agrees s" and "\<And>tp' s'. mem_agrees s' \<Longrightarrow> post (f tp' s') Q"
  shows "post (Option.bind (stack_push s tp v) (\<lambda>(tp', s'). f tp' s')) Q"
  using assms(2) by (auto intro: post_bindI [OF agree_stack_push [OF assms(1)]])

lemma agree_host_call: "mem_agrees s \<Longrightarrow> post (host_call E s m) (\<lambda>(_, s'). mem_agrees s')"
  by (auto simp: host_call_def bind_eq_Some_conv intro!: postI)

lemma agree_bind_call:
  assumes "mem_agrees s" and "\<And>r s'. mem_agrees s' \<Longrightarrow> post (f r s') Q"
  shows "post (Option.bind (host_call E s m) (\<lambda>(r, s'). f r s')) Q"
  using assms(2) by (auto intro: post_bindI [OF agree_host_call [OF assms(1)]])

lemma agree_host_snd:
  assumes "mem_agrees s"
  shows "mem_agrees (snd (get_tx_context E s))" "mem_agrees (snd (host_account_exists E s a))"
    "mem_agrees (snd (host_get_storage E s a k))" "mem_agrees (snd (host_set_storage E s a k v))"
    "mem_agrees (snd (host_get_balance E s a))" "mem_agrees (snd (host_get_code_size E s a))"
    "mem_agrees (snd (host_get_code_hash E s a))" "mem_agrees (snd (host_copy_code E s a i j))"
    "mem_agrees (snd (host_selfdestruct E s a b))" "mem_agrees (snd (host_access_account E s a))"
    "mem_agrees (snd (host_access_storage E s a k))"
    "mem_agrees (snd (host_get_transient_storage E s a k))"
    "mem_agrees (host_set_transient_storage E s a k v)"
  using assms by (simp_all add: host_defs get_tx_context_def Let_def split: prod.split)

lemma agree_pair:
  fixes p :: "'x \<times> 'h exec_state"
  assumes "mem_agrees (snd p)" and "\<And>r s'. mem_agrees s' \<Longrightarrow> post (f r s') Q"
  shows "post (case p of (r, s') \<Rightarrow> f r s') Q"
  using assms by (cases p) simp

lemma agree_triple:
  fixes p :: "'x \<times> 'y \<times> 'h exec_state"
  assumes "mem_agrees (snd (snd p))" and "\<And>a b s'. mem_agrees s' \<Longrightarrow> post (f a b s') Q"
  shows "post (case p of (a, b, s') \<Rightarrow> f a b s') Q"
  using assms by (cases p) simp

lemma agree_charge_cold: "mem_agrees s \<Longrightarrow> mem_agrees (snd (snd (charge_cold_account E s a c g)))"
  by (simp add: charge_cold_account_def host_access_account_def Let_def split_def)

lemma agree_selfdestruct_charge: "mem_agrees s \<Longrightarrow> mem_agrees (snd (snd (selfdestruct_charge E b g s)))"
  by (auto simp: selfdestruct_charge_def host_defs Let_def split: prod.split)

lemma agree_if_pair: "mem_agrees (snd p) \<Longrightarrow> mem_agrees (snd q) \<Longrightarrow> mem_agrees (snd (if c then p else q))"
  by simp

lemma agree_let_pair:
  "mem_agrees (snd p) \<Longrightarrow> (\<And>r s'. mem_agrees s' \<Longrightarrow> mem_agrees (snd (f r s'))) \<Longrightarrow>
   mem_agrees (snd (case p of (r, s') \<Rightarrow> f r s'))"
  by (cases p) simp

lemma agree_snd: "mem_agrees s \<Longrightarrow> mem_agrees (snd (x, s))"
  by simp

lemma agree_if: "mem_agrees a \<Longrightarrow> mem_agrees b \<Longrightarrow> mem_agrees (if c then a else b)"
  by simp

lemma agree_check:
  assumes "\<And>ok g' m'. mem_same m m' \<Longrightarrow> (ok \<Longrightarrow> lo64 off \<le> max_buffer_size) \<Longrightarrow> post (f ok g' m') Q"
  shows "post (Option.bind (check_memory L g m off k) (\<lambda>(ok, g', m'). f ok g' m')) Q"
  using assms mem_same_check [of L g m off k] by (cases "check_memory L g m off k") auto

lemma agree_check_copy:
  assumes "\<And>ok g' m'. mem_same m m' \<Longrightarrow>
      (ok \<Longrightarrow> lo64 k \<le> max_buffer_size \<and> (lo64 k \<noteq> 0 \<longrightarrow> lo64 off \<le> max_buffer_size)) \<Longrightarrow> post (f ok g' m') Q"
  shows "post (Option.bind (check_memory_copy L g m off k) (\<lambda>(ok, g', m'). f ok g' m')) Q"
  using assms mem_same_check_copy [of L g m off k] by (cases "check_memory_copy L g m off k") auto

lemma agree_end: "mem_agrees s \<Longrightarrow> post (Some s) mem_agrees"
  "mem_agrees s \<Longrightarrow> post (Some (p, s)) (\<lambda>(_, s'). mem_agrees s')"
  "mem_agrees s \<Longrightarrow> post (Some (st, g, s)) (\<lambda>(_, _, s'). mem_agrees s')"
  by simp_all

lemma agree_jump_impl: "mem_agrees s \<Longrightarrow> post (Some (jump_impl s d)) (\<lambda>(_, s'). mem_agrees s')"
  by (auto simp: jump_impl_def Let_def)

lemma agree_jump_if:
  "mem_agrees s \<Longrightarrow> post (Some (if c then jump_impl s d else (p, s))) (\<lambda>(_, s'). mem_agrees s')"
  using agree_jump_impl [of s d] by simp

lemma agree_assoc: "post (Option.bind a (\<lambda>x. Option.bind (b x) f)) Q \<Longrightarrow> post (Option.bind (Option.bind a b) f) Q"
  by simp

lemma agree_costs: "(\<And>w r. post (f w r) Q) \<Longrightarrow> post (case (p :: int \<times> int) of (w, r) \<Rightarrow> f w r) Q"
  by (cases p) simp

lemmas agree_updates = mem_agrees_updates [THEN iffD2] mem_agrees_memory

lemmas agree_steps = agree_write_logged agree_read_logged agree_slice agree_binds agree_bind_push
  agree_bind_call agree_check agree_check_copy bind_ifI bind_SomeI bind_NoneI agree_assoc value_binds
  agree_triple agree_pair value_pair agree_costs agree_host_snd agree_charge_cold agree_selfdestruct_charge
  agree_snd agree_if_pair agree_let_pair agree_log_storage agree_if

lemmas agree_ends = agree_log_stack_at agree_push_logged agree_stack_set agree_jump_if agree_end
  agree_jump_impl post_ifI

lemmas agree_loop = agree_updates agree_steps agree_ends

subsection \<open>Handlers\<close>

lemma agree_arith:
  assumes "mem_agrees s"
  shows "post (arith2 f E tp s) mem_agrees" "post (arith1 h E tp s) mem_agrees"
    "post (i_addmod E tp s) mem_agrees" "post (i_mulmod E tp s) mem_agrees"
  unfolding arith2_def arith1_def i_addmod_def i_mulmod_def Let_def
  by (insert assms, (assumption | rule agree_loop)+)

lemma agree_arith_handlers:
  assumes "mem_agrees s"
  shows "post (i_add E tp s) mem_agrees" "post (i_mul E tp s) mem_agrees" "post (i_sub E tp s) mem_agrees"
    "post (i_div E tp s) mem_agrees" "post (i_sdiv E tp s) mem_agrees" "post (i_mod E tp s) mem_agrees"
    "post (i_smod E tp s) mem_agrees" "post (i_signextend E tp s) mem_agrees" "post (i_lt E tp s) mem_agrees"
    "post (i_gt E tp s) mem_agrees" "post (i_slt E tp s) mem_agrees" "post (i_sgt E tp s) mem_agrees"
    "post (i_eq E tp s) mem_agrees" "post (i_and E tp s) mem_agrees" "post (i_or E tp s) mem_agrees"
    "post (i_xor E tp s) mem_agrees" "post (i_byte E tp s) mem_agrees" "post (i_shl E tp s) mem_agrees"
    "post (i_shr E tp s) mem_agrees" "post (i_sar E tp s) mem_agrees" "post (i_iszero E tp s) mem_agrees"
    "post (i_not E tp s) mem_agrees"
  using assms by (simp_all add: arith2_handlers i_iszero_def i_not_def agree_arith)

lemma agree_push_handlers:
  assumes "mem_agrees s"
  shows "post (i_address E tp s) mem_agrees" "post (i_caller E tp s) mem_agrees"
    "post (i_callvalue E tp s) mem_agrees" "post (i_calldatasize E tp s) mem_agrees"
    "post (i_codesize E tp s) mem_agrees" "post (i_returndatasize E tp s) mem_agrees"
    "post (i_msize E tp s) mem_agrees" "post (i_datasize E tp s) mem_agrees" "post (i_push0 E tp s) mem_agrees"
    "post (i_selfbalance E tp s) mem_agrees" "post (push_tx E tp h s) mem_agrees"
  unfolding i_address_def i_caller_def i_callvalue_def i_calldatasize_def i_codesize_def
    i_returndatasize_def i_msize_def i_datasize_def i_push0_def i_selfbalance_def push_tx_def Let_def
  by (insert assms, (assumption | rule agree_loop)+)

lemma agree_tx_handlers:
  assumes "mem_agrees s"
  shows "post (i_origin E tp s) mem_agrees" "post (i_gasprice E tp s) mem_agrees"
    "post (i_basefee E tp s) mem_agrees" "post (i_blobbasefee E tp s) mem_agrees"
    "post (i_coinbase E tp s) mem_agrees" "post (i_timestamp E tp s) mem_agrees"
    "post (i_number E tp s) mem_agrees" "post (i_prevrandao E tp s) mem_agrees"
    "post (i_gaslimit E tp s) mem_agrees" "post (i_chainid E tp s) mem_agrees"
  unfolding i_origin_def i_gasprice_def i_basefee_def i_blobbasefee_def i_coinbase_def
    i_timestamp_def i_number_def i_prevrandao_def i_gaslimit_def i_chainid_def
  by (rule agree_push_handlers [OF assms])+

lemma agree_top_handlers:
  assumes "mem_agrees s"
  shows "post (i_calldataload E tp s) mem_agrees" "post (i_blobhash E tp s) mem_agrees"
    "post (i_blockhash E tp s) mem_agrees" "post (i_tload E tp s) mem_agrees" "post (i_dataload E tp s) mem_agrees"
    "post (i_log E tp s) mem_agrees" "post (i_dup k E tp s) mem_agrees" "post (i_swap k E tp s) mem_agrees"
  unfolding i_calldataload_def i_blobhash_def i_blockhash_def i_tload_def i_dataload_def
    i_log_def i_dup_def i_swap_def swap_body_def Let_def
  by (insert assms, (assumption | rule agree_loop)+)

lemma agree_jumps:
  assumes "mem_agrees s"
  shows "post (i_jump E tp s pos) (\<lambda>(_, s'). mem_agrees s')" "post (i_jumpi E tp s pos) (\<lambda>(_, s'). mem_agrees s')"
    "post (i_pc E tp s pos) (\<lambda>(_, s'). mem_agrees s')" "post (i_rjump E tp s pos) (\<lambda>(_, s'). mem_agrees s')"
    "post (i_rjumpi E tp s pos) (\<lambda>(_, s'). mem_agrees s')" "post (i_rjumpv E tp s pos) (\<lambda>(_, s'). mem_agrees s')"
    "post (i_callf E tp s pos) (\<lambda>(_, s'). mem_agrees s')" "post (i_retf E tp s pos) (\<lambda>(_, s'). mem_agrees s')"
    "post (i_jumpf E tp s pos) (\<lambda>(_, s'). mem_agrees s')" "post (i_dupn E tp s pos) (\<lambda>(_, s'). mem_agrees s')"
    "post (i_swapn E tp s pos) (\<lambda>(_, s'). mem_agrees s')" "post (i_dataloadn E tp s pos) (\<lambda>(_, s'). mem_agrees s')"
    "post (i_push k E tp s pos) (\<lambda>(_, s'). mem_agrees s')"
  unfolding i_jump_def i_jumpi_def i_pc_def i_rjump_def i_rjumpi_def i_rjumpv_def i_callf_def i_retf_def
    i_jumpf_def i_dupn_def i_swapn_def i_dataloadn_def i_push_def Let_def
  by (insert assms, (assumption | rule agree_loop)+)

text \<open>The handlers that charge gas themselves.\<close>

abbreviation agrees_after :: "evmc_status_code \<times> int \<times> 'h exec_state \<Rightarrow> bool" where
  "agrees_after \<equiv> \<lambda>(_, _, s'). mem_agrees s'"

lemma agree_gas_handlers:
  assumes "mem_agrees s"
  shows "post (i_exp E tp g s) agrees_after" "post (i_gas E tp g s) agrees_after"
    "post (i_sload E tp g s) agrees_after" "post (i_sstore E tp g s) agrees_after"
    "post (i_tstore E tp g s) agrees_after" "post (return_impl E tp g s st) agrees_after"
    "post (i_selfdestruct E tp g s) agrees_after"
  unfolding i_exp_def i_gas_def i_sload_def i_sstore_def i_tstore_def return_impl_def i_selfdestruct_def Let_def
  by (insert assms, (assumption | rule agree_loop)+)

lemma agree_end_handlers:
  assumes "mem_agrees s"
  shows "post (i_stop E tp g s) agrees_after" "post (i_invalid E tp g s) agrees_after"
    "post (i_return E tp g s) agrees_after" "post (i_revert E tp g s) agrees_after"
  using assms agree_gas_handlers(6) [OF assms]
  by (simp_all add: i_stop_def i_invalid_def stop_impl_def i_return_def i_revert_def)

lemma agree_account_query:
  assumes "mem_agrees s" and "\<And>s a. mem_agrees s \<Longrightarrow> mem_agrees (snd (query s a))"
  shows "post (account_query E tp query g s) agrees_after"
  unfolding account_query_def Let_def
  by (insert assms(1), (assumption | rule agree_loop assms(2))+)

lemma agree_account_handlers:
  assumes "mem_agrees s"
  shows "post (i_balance E tp g s) agrees_after" "post (i_extcodesize E tp g s) agrees_after"
    "post (i_extcodehash E tp g s) agrees_after"
  unfolding i_balance_def i_extcodesize_def i_extcodehash_def Let_def
  by (rule agree_account_query [OF assms]; simp add: host_defs split_def Let_def)+

text \<open>Loads and stores: the memory check has bounded the address, so the sums do not wrap.\<close>

lemma agree_mload: "mem_agrees s \<Longrightarrow> post (i_mload E tp g s) agrees_after"
  unfolding i_mload_def Let_def
  by (assumption | rule agree_loop | (simp add: zkevm_word_size_def max_buffer_size_def; fail))+

lemma agree_mstore:
  assumes "intx_api E" and "mem_agrees s" and "k \<le> 32"
  shows "post (i_mstore k E tp g s) agrees_after"
  unfolding i_mstore_def Let_def
  by (insert assms(2,3), (assumption | rule agree_loop
    | (simp add: zkevm_word_size_def max_buffer_size_def intx_api.length_word_store [OF assms(1)]; fail))+)

lemma agree_returndatacopy: "mem_agrees s \<Longrightarrow> post (i_returndatacopy E tp g s) agrees_after"
  unfolding i_returndatacopy_def Let_def
  by (assumption | rule agree_loop | (simp add: max_buffer_size_def; fail))+

lemma agree_run_create: "mem_agrees s \<Longrightarrow> post (run_create E tp m g s) agrees_after"
  unfolding run_create_def Let_def
  by (assumption | rule agree_loop)+

lemma agree_create_checked: "mem_agrees s \<Longrightarrow> post (create_checked E opc v salt a b tp g s) agrees_after"
  unfolding create_checked_def Let_def
  by (assumption | rule agree_run_create agree_loop)+

lemma agree_create_handlers:
  assumes "mem_agrees s"
  shows "post (i_create E tp g s) agrees_after" "post (i_create2 E tp g s) agrees_after"
  unfolding i_create_def i_create2_def create_impl_def Let_def
  by (insert assms, (assumption | rule agree_create_checked value_bind_operands agree_loop)+)

subsection \<open>Every handler\<close>

text \<open>
  \<open>KECCAK256\<close>, \<open>CALLDATACOPY\<close> and \<open>CODECOPY\<close> log at the 256-bit address, of which they use 64 bits,
  and the two copies do not log the zeros behind their input; \<open>DATACOPY\<close> logs those at the
  start of the range. \<open>EXTCODECOPY\<close>, \<open>MCOPY\<close> and the calls log nothing of what they write.
\<close>

definition unlogged_opcodes :: "byte list" where
  "unlogged_opcodes = [OP_KECCAK256, OP_CALLDATACOPY, OP_CODECOPY, OP_DATACOPY, OP_EXTCODECOPY, OP_MCOPY,
     OP_CALL, OP_CALLCODE, OP_DELEGATECALL, OP_STATICCALL]"

definition fn_agrees :: "'h env \<Rightarrow> byte \<Rightarrow> 'h instr_fn \<Rightarrow> bool" where
  "fn_agrees E op fn \<longleftrightarrow> op \<in> set unlogged_opcodes \<or> (case fn of
     Fn_void f \<Rightarrow> True
   | Fn_state f \<Rightarrow> (\<forall>tp s. mem_agrees s \<longrightarrow> post (f E tp s) mem_agrees)
   | Fn_jump f \<Rightarrow> (\<forall>tp s pos. mem_agrees s \<longrightarrow> post (f E tp s pos) (\<lambda>(_, s'). mem_agrees s'))
   | Fn_result f \<Rightarrow> (\<forall>tp g s. mem_agrees s \<longrightarrow> post (f E tp g s) agrees_after)
   | Fn_term f \<Rightarrow> (\<forall>tp g s. mem_agrees s \<longrightarrow> post (f E tp g s) agrees_after))"

lemma agrees_void: "fn_agrees E op (Fn_void f)"
  by (simp add: fn_agrees_def)

lemma agrees_state:
  "(\<And>tp s. mem_agrees s \<Longrightarrow> post (f E tp s) mem_agrees) \<Longrightarrow> fn_agrees E op (Fn_state f)"
  by (simp add: fn_agrees_def)

lemma agrees_jump:
  "(\<And>tp s pos. mem_agrees s \<Longrightarrow> post (f E tp s pos) (\<lambda>(_, s'). mem_agrees s')) \<Longrightarrow> fn_agrees E op (Fn_jump f)"
  by (simp add: fn_agrees_def)

lemma agrees_result:
  "(\<And>tp g s. mem_agrees s \<Longrightarrow> post (f E tp g s) agrees_after) \<Longrightarrow> fn_agrees E op (Fn_result f)"
  by (simp add: fn_agrees_def)

lemma agrees_term:
  "(\<And>tp g s. mem_agrees s \<Longrightarrow> post (f E tp g s) agrees_after) \<Longrightarrow> fn_agrees E op (Fn_term f)"
  by (simp add: fn_agrees_def)

lemma agrees_mstore: "intx_api E \<Longrightarrow> k \<le> 32 \<Longrightarrow> fn_agrees E op (Fn_result (i_mstore k))"
  by (simp add: fn_agrees_def agree_mstore)

lemma agrees_unlogged:
  "fn_agrees E OP_KECCAK256 fn" "fn_agrees E OP_CALLDATACOPY fn" "fn_agrees E OP_CODECOPY fn"
  "fn_agrees E OP_DATACOPY fn" "fn_agrees E OP_EXTCODECOPY fn" "fn_agrees E OP_MCOPY fn" "fn_agrees E OP_CALL fn"
  "fn_agrees E OP_CALLCODE fn" "fn_agrees E OP_DELEGATECALL fn" "fn_agrees E OP_STATICCALL fn"
  by (simp_all add: fn_agrees_def unlogged_opcodes_def)

lemmas agreed_states = agree_arith_handlers agree_arith(3,4) agree_push_handlers(1-10) agree_tx_handlers
  agree_top_handlers

lemmas agreed_results = agree_gas_handlers(1-5) agree_account_handlers agree_mload agree_returndatacopy
  agree_create_handlers

lemmas agreed_ends = agree_end_handlers agree_gas_handlers(7)

lemmas fn_agrees_intros = agrees_unlogged agrees_void agrees_mstore agreed_states [THEN agrees_state]
  agree_jumps [THEN agrees_jump] agreed_results [THEN agrees_result] agreed_ends [THEN agrees_term]

lemma map_opcodes_agree: "intx_api E \<Longrightarrow> list_all (\<lambda>(op, fn). fn_agrees E op fn) map_opcodes"
  unfolding map_opcodes_def map_opcodes_to_push0_def map_opcodes_from_push1_def
    append.simps list.pred_inject prod.case
  by (intro conjI TrueI fn_agrees_intros; (assumption | simp)+)

subsection \<open>The loop\<close>

lemma invoke_agrees:
  fixes E :: "'h env"
  assumes "intx_api E" and "op \<notin> set unlogged_opcodes" and "mem_agrees s"
    and run: "invoke E ct pos tp g s op = Some (p, tp', g', s')"
  shows "mem_agrees s'"
proof -
  obtain st g1 where req: "check_requirements E ct g tp op = Some (st, g1)"
    using run by (auto simp: invoke_def bind_eq_Some_conv)
  show ?thesis
  proof (cases "st = EVMC_SUCCESS \<and> map_of (map_opcodes :: (byte \<times> 'h instr_fn) list) op \<noteq> None")
    case False
    then show ?thesis
      using run req assms(3) by (cases "st = EVMC_SUCCESS") (auto simp: invoke_def)
  next
    case True
    then obtain fn where fn: "map_of (map_opcodes :: (byte \<times> 'h instr_fn) list) op = Some fn"
      and inv: "invoke_fn E fn pos tp g1 s = Some (p, g', s')"
      using run req by (auto simp: invoke_def bind_eq_Some_conv)
    have "fn_agrees E op fn"
      using map_opcodes_agree [OF assms(1)] map_of_SomeD [OF fn] by (auto simp: list_all_iff)
    then show ?thesis
      using inv assms(2,3)
      by (cases fn) (fastforce simp: fn_agrees_def bind_eq_Some_conv dest: postD split: if_splits)+
  qed
qed

lemma dispatch_loop_agrees:
  "intx_api E \<Longrightarrow> set (code_buffer (analysis s)) \<inter> set unlogged_opcodes = {} \<Longrightarrow> mem_agrees s \<Longrightarrow>
   dispatch_loop fuel E ct pos tp g s = Done (g', s') \<Longrightarrow> mem_agrees s'"
proof (induction fuel arbitrary: pos tp g s)
  case 0
  then show ?case by simp
next
  case (Suc fuel)
  then obtain op p tp1 g1 s1 where code: "code_byte s pos = Some op"
    and run: "invoke E ct pos tp g s op = Some (p, tp1, g1, s1)"
    by (auto split: option.splits)
  have "op \<in> set (code_buffer (analysis s))"
    using code by (auto simp: code_byte_def Let_def dest!: nth_opt_SomeD split: if_splits)
  then have "mem_agrees s1"
    using invoke_agrees [OF Suc.prems(1) _ Suc.prems(3) run] Suc.prems(2) by blast
  moreover have "analysis s1 = analysis s"
    using postD [OF frame_invoke run] by (simp add: frame_def)
  ultimately show ?case
    using Suc.IH [of s1] Suc.prems code run by (cases p) auto
qed

lemma init_agrees: "exec_state_init E m r ctx code data cid an = Some s \<Longrightarrow> mem_agrees s"
  by (auto simp: exec_state_init_def mem_new_def allocate_capacity_def mem_agrees_def mem_value_def mem_size_def
      fun_eq_iff bind_eq_Some_conv split: if_splits)

end
