(* ===== verification/Stack_Replay.thy ===== *)
theory Stack_Replay
  imports Stack_Trace Gas Run
begin

text \<open>
  The stack entries of a whole run. \<open>stack_agrees None s\<close> says that every read entry of the trace
  agrees with its replay and that the replay ends with the contents of all 1024 slots;
  \<open>stack_agrees (Some n) s\<close> allows a difference in slot \<open>n\<close>, which a handler has written and is
  about to log. All instructions but those of \<open>unsynced_opcodes\<close> are proved to keep it.
\<close>

definition stack_agrees :: "int option \<Rightarrow> 'h exec_state \<Rightarrow> bool" where
  "stack_agrees D s \<longleftrightarrow> length (stack_space s) = stack_limit \<and> reads_ok zero_stack (rw_trace s) \<and>
     (\<forall>i < stack_limit. D = Some (int i) \<or> shadow zero_stack (rw_trace s) i = stack_space s ! i)"

lemma stack_agrees_updates [simp]:
  "stack_agrees D (s\<lparr>gas_refund := g\<rparr>) = stack_agrees D s" "stack_agrees D (s\<lparr>host := h\<rparr>) = stack_agrees D s"
  "stack_agrees D (s\<lparr>m_tx := x\<rparr>) = stack_agrees D s" "stack_agrees D (s\<lparr>return_data := d\<rparr>) = stack_agrees D s"
  "stack_agrees D (s\<lparr>status := st\<rparr>) = stack_agrees D s" "stack_agrees D (s\<lparr>output_size := k\<rparr>) = stack_agrees D s"
  "stack_agrees D (s\<lparr>call_stack := c\<rparr>) = stack_agrees D s" "stack_agrees D (s\<lparr>output_offset := k\<rparr>) = stack_agrees D s"
  "stack_agrees D (s\<lparr>memory := m\<rparr>) = stack_agrees D s"
  by (simp_all add: stack_agrees_def)

lemma stack_agrees_other:
  "stack_agrees D s \<Longrightarrow> rw_op e \<noteq> STACK_OP \<Longrightarrow> stack_agrees D (s\<lparr>rw_trace := rw_trace s @ [e]\<rparr>)"
  by (simp add: stack_agrees_def replay_step_def)

subsection \<open>Logged accesses\<close>

lemma unat_ucast_slot: "unat (ucast a :: zkevm_word) = nat (uint (a :: u16))"
proof -
  have "unat a < 2 ^ LENGTH(16)" by (rule unsigned_less)
  then have "take_bit 256 (unat a) = unat a" by (intro take_bit_nat_eq_self) simp
  then show ?thesis by (simp add: unsigned_ucast_eq)
qed

lemma log_stack_post:
  assumes "0 \<le> tp" and "tp < 2000" and "0 \<le> tp + 1 - k" and "tp + 1 - k < 1024"
  shows "post (log_stack E s tp k w v) (\<lambda>s'. \<exists>e. s' = s\<lparr>rw_trace := rw_trace s @ [e]\<rparr> \<and> rw_op e = STACK_OP \<and>
    rw_is_write e = w \<and> rw_value e = v \<and> unat (rw_address e) = nat (tp + 1 - k))"
proof (rule postI)
  fix s'
  assume run: "log_stack E s tp k w v = Some s'"
  have size: "uint (stack_size tp) = tp + 1"
    using assms uint_u16 [of "tp + 1"] by (simp add: stack_size_def)
  define a where "a = (word_of_int (tp + 1 - k) :: u16)"
  have "uint a = tp + 1 - k"
    unfolding a_def using assms by (intro uint_u16) simp_all
  then have "unat (ucast a :: zkevm_word) = nat (tp + 1 - k)"
    by (simp add: unat_ucast_slot)
  then show "\<exists>e. s' = s\<lparr>rw_trace := rw_trace s @ [e]\<rparr> \<and> rw_op e = STACK_OP \<and>
    rw_is_write e = w \<and> rw_value e = v \<and> unat (rw_address e) = nat (tp + 1 - k)"
    using run unfolding log_stack_def size a_def [symmetric] stack_operation_def
    by (auto simp: bind_eq_Some_conv)
qed

lemma agree_log:
  assumes "stack_agrees D s" and "D = None \<or> (w \<and> D = Some (tp - i))" and "k = i + 1" and "0 \<le> i" and "tp < 2000"
  shows "post (log_stack_at E s tp k w i) (stack_agrees None)"
proof (cases "stack_at s tp i")
  case None
  then show ?thesis by (simp add: log_stack_at_def)
next
  case (Some v)
  then have v: "0 \<le> tp - i" "nat (tp - i) < stack_limit" "v = stack_space s ! nat (tp - i)"
    using assms(1) by (auto simp: stack_at_def stack_agrees_def dest!: nth_opt_SomeD split: if_splits)
  have "post (log_stack E s tp k w v) (\<lambda>s'. \<exists>e. s' = s\<lparr>rw_trace := rw_trace s @ [e]\<rparr> \<and> rw_op e = STACK_OP \<and>
      rw_is_write e = w \<and> rw_value e = v \<and> unat (rw_address e) = nat (tp + 1 - k))"
    using v assms(3-5) by (intro log_stack_post) (simp_all add: stack_limit_def)
  then have "post (log_stack E s tp k w v) (stack_agrees None)"
  proof (rule post_mono)
    fix s' assume "\<exists>e. s' = s\<lparr>rw_trace := rw_trace s @ [e]\<rparr> \<and> rw_op e = STACK_OP \<and>
      rw_is_write e = w \<and> rw_value e = v \<and> unat (rw_address e) = nat (tp + 1 - k)"
    then obtain e where e: "s' = s\<lparr>rw_trace := rw_trace s @ [e]\<rparr>" "rw_op e = STACK_OP" "rw_is_write e = w"
        "rw_value e = v" "unat (rw_address e) = nat (tp - i)"
      using assms(3) by auto
    show "stack_agrees None s'"
      using assms(1,2) e v by (auto simp: stack_agrees_def replay_step_def)
  qed
  then show ?thesis using Some by (simp add: log_stack_at_def)
qed

lemma agree_set:
  assumes "stack_agrees D s" and "D = None \<or> D = Some (tp - i)"
  shows "post (stack_set s tp i v) (stack_agrees (Some (tp - i)))"
  using assms by (auto simp: stack_set_def stack_agrees_def nth_list_update)

lemma agree_push: "stack_agrees None s \<Longrightarrow> post (stack_push s tp v) (\<lambda>(tp', s'). tp' = tp + 1 \<and> stack_agrees (Some tp') s')"
  using agree_set [of None s "tp + 1" 0 v]
  by (auto simp: stack_push_def post_bind elim!: post_mono)

lemma agree_push_log: "stack_agrees None s \<Longrightarrow> tp < 1999 \<Longrightarrow> post (push_logged E tp v s) (stack_agrees None)"
  unfolding push_logged_def
  by (rule post_bindI [OF agree_push]) (auto intro: agree_log)

subsection \<open>Steps\<close>

lemma sync_log_memory: "stack_agrees D s \<Longrightarrow> post (log_memory E s a w v) (stack_agrees D)"
  by (simp add: log_memory_def memory_operation_def post_rules stack_agrees_other)

lemma sync_log_storage: "stack_agrees D s \<Longrightarrow> stack_agrees D (log_storage s a k w v v')"
  by (simp add: log_storage_def storage_operation_def stack_agrees_other)

lemma sync_log_mem_loop: "stack_agrees D s \<Longrightarrow> post (log_mem_loop E addr base w n j s) (stack_agrees D)"
proof (induction n arbitrary: j s)
  case (Suc n)
  show ?case
    unfolding log_mem_loop.simps
    by (rule post_skip, rule post_bindI [OF sync_log_memory [OF Suc.prems] Suc.IH])
qed simp

lemma sync_log_zero_loop: "stack_agrees D s \<Longrightarrow> post (log_zero_loop E dst n j s) (stack_agrees D)"
proof (induction n arbitrary: j s)
  case (Suc n)
  show ?case
    unfolding log_zero_loop.simps by (rule post_bindI [OF sync_log_memory [OF Suc.prems] Suc.IH])
qed simp

lemma sync_push_loop:
  "stack_agrees D s \<Longrightarrow> D = None \<or> (0 < n \<and> D = Some (tp - i)) \<Longrightarrow> 0 \<le> i \<Longrightarrow> tp < 2000 \<Longrightarrow>
   post (log_push_loop E tp n i s) (stack_agrees None)"
proof (induction n arbitrary: i s D)
  case (Suc n)
  show ?case
    unfolding log_push_loop.simps
  proof (rule post_bindI)
    show "post (log_stack_at E s tp (1 + i) True i) (stack_agrees None)"
      using Suc.prems by (intro agree_log [of D]) auto
  next
    fix s' :: "'a exec_state"
    assume "stack_agrees None s'"
    then show "post (log_push_loop E tp n (i + 1) s') (stack_agrees None)"
      using Suc.prems by (intro Suc.IH [of None]) auto
  qed
qed auto

lemmas sync_binds = agree_log [THEN post_bindI] agree_set [THEN post_bindI] agree_push_log [THEN post_bindI]
  sync_log_mem_loop [THEN post_bindI] sync_log_zero_loop [THEN post_bindI] sync_push_loop [THEN post_bindI]

lemma sync_bind_push:
  assumes "stack_agrees None s" and "\<And>tp' s'. tp' = tp + 1 \<Longrightarrow> stack_agrees (Some tp') s' \<Longrightarrow> post (f tp' s') Q"
  shows "post (Option.bind (stack_push s tp v) (\<lambda>(tp', s'). f tp' s')) Q"
  using assms(2) by (auto intro: post_bindI [OF agree_push [OF assms(1)]])

lemma sync_host_snd:
  assumes "stack_agrees D s"
  shows "stack_agrees D (snd (get_tx_context E s))" "stack_agrees D (snd (host_account_exists E s a))"
    "stack_agrees D (snd (host_get_storage E s a k))" "stack_agrees D (snd (host_set_storage E s a k v))"
    "stack_agrees D (snd (host_get_balance E s a))" "stack_agrees D (snd (host_get_code_size E s a))"
    "stack_agrees D (snd (host_get_code_hash E s a))" "stack_agrees D (snd (host_copy_code E s a i j))"
    "stack_agrees D (snd (host_selfdestruct E s a b))" "stack_agrees D (snd (host_access_account E s a))"
    "stack_agrees D (snd (host_access_storage E s a k))"
    "stack_agrees D (snd (host_get_transient_storage E s a k))"
    "stack_agrees D (host_set_transient_storage E s a k v)"
  using assms by (simp_all add: host_defs get_tx_context_def Let_def split: prod.split)

lemma sync_pair:
  fixes p :: "'x \<times> 'h exec_state"
  assumes "stack_agrees D (snd p)" and "\<And>r s'. stack_agrees D s' \<Longrightarrow> post (f r s') Q"
  shows "post (case p of (r, s') \<Rightarrow> f r s') Q"
  using assms by (cases p) simp

lemma sync_triple:
  fixes p :: "'x \<times> 'y \<times> 'h exec_state"
  assumes "stack_agrees D (snd (snd p))" and "\<And>a b s'. stack_agrees D s' \<Longrightarrow> post (f a b s') Q"
  shows "post (case p of (a, b, s') \<Rightarrow> f a b s') Q"
  using assms by (cases p) simp

lemma sync_charge_cold: "stack_agrees D s \<Longrightarrow> stack_agrees D (snd (snd (charge_cold_account E s a c g)))"
  by (simp add: charge_cold_account_def host_access_account_def Let_def split_def)

lemma sync_selfdestruct_charge:
  "stack_agrees D s \<Longrightarrow> stack_agrees D (snd (snd (selfdestruct_charge E b g s)))"
  by (auto simp: selfdestruct_charge_def host_defs Let_def split: prod.split)

lemma sync_if_pair:
  "stack_agrees D (snd p) \<Longrightarrow> stack_agrees D (snd q) \<Longrightarrow> stack_agrees D (snd (if c then p else q))"
  by simp

lemma sync_let_pair:
  "stack_agrees D (snd p) \<Longrightarrow> (\<And>r s'. stack_agrees D s' \<Longrightarrow> stack_agrees D (snd (f r s'))) \<Longrightarrow>
   stack_agrees D (snd (case p of (r, s') \<Rightarrow> f r s'))"
  by (cases p) simp

lemma sync_snd: "stack_agrees D s \<Longrightarrow> stack_agrees D (snd (x, s))"
  by simp

lemma sync_if: "stack_agrees D a \<Longrightarrow> stack_agrees D b \<Longrightarrow> stack_agrees D (if c then a else b)"
  by simp

lemma sync_check:
  assumes "\<And>ok g' m'. post (f ok g' m') Q"
  shows "post (Option.bind (m :: (bool \<times> int \<times> memory) option) (\<lambda>(ok, g', m'). f ok g' m')) Q"
  using assms by (cases m) auto

lemma sync_memory: "(\<And>m'. post (f m') Q) \<Longrightarrow> post (Option.bind (m :: memory option) f) Q"
  by (rule post_skip)

lemma sync_end: "stack_agrees None s \<Longrightarrow> post (Some s) (stack_agrees None)"
  "stack_agrees None s \<Longrightarrow> post (Some (p, s)) (\<lambda>(_, s'). stack_agrees None s')"
  "stack_agrees None s \<Longrightarrow> post (Some (st, g, s)) (\<lambda>(_, _, s'). stack_agrees None s')"
  by simp_all

lemma sync_jump_impl:
  "stack_agrees None s \<Longrightarrow> post (Some (jump_impl s d)) (\<lambda>(_, s'). stack_agrees None s')"
  by (auto simp: jump_impl_def Let_def)

lemma sync_jump_if:
  "stack_agrees None s \<Longrightarrow> post (Some (if c then jump_impl s d else (p, s))) (\<lambda>(_, s'). stack_agrees None s')"
  using sync_jump_impl [of s d] by simp

lemma sync_assoc: "post (Option.bind a (\<lambda>x. Option.bind (b x) f)) Q \<Longrightarrow> post (Option.bind (Option.bind a b) f) Q"
  by simp

lemma sync_costs: "(\<And>w r. post (f w r) Q) \<Longrightarrow> post (case (p :: int \<times> int) of (w, r) \<Rightarrow> f w r) Q"
  by (cases p) simp

lemmas sync_steps = sync_binds sync_bind_push sync_check bind_ifI bind_SomeI bind_NoneI sync_assoc
  sync_memory value_binds sync_triple sync_pair value_pair sync_costs sync_host_snd sync_charge_cold
  sync_selfdestruct_charge sync_snd sync_if_pair sync_let_pair sync_log_storage sync_if

lemmas sync_ends = agree_log agree_push_log sync_jump_if sync_end sync_jump_impl post_ifI

lemmas sync_loop = stack_agrees_updates [THEN iffD2] sync_steps sync_ends

lemma sync_arith:
  assumes "stack_agrees None s" and "tp < 1024"
  shows "post (arith2 f E tp s) (stack_agrees None)" "post (arith1 h E tp s) (stack_agrees None)"
    "post (i_addmod E tp s) (stack_agrees None)"
  unfolding arith2_def arith1_def i_addmod_def Let_def
  by (insert assms, (assumption | rule sync_loop | (simp; fail))+)

lemma sync_arith_handlers:
  assumes "stack_agrees None s" and "tp < 1024"
  shows "post (i_add E tp s) (stack_agrees None)" "post (i_mul E tp s) (stack_agrees None)"
    "post (i_sub E tp s) (stack_agrees None)" "post (i_div E tp s) (stack_agrees None)"
    "post (i_sdiv E tp s) (stack_agrees None)" "post (i_mod E tp s) (stack_agrees None)"
    "post (i_smod E tp s) (stack_agrees None)" "post (i_signextend E tp s) (stack_agrees None)"
    "post (i_lt E tp s) (stack_agrees None)" "post (i_gt E tp s) (stack_agrees None)"
    "post (i_slt E tp s) (stack_agrees None)" "post (i_sgt E tp s) (stack_agrees None)"
    "post (i_eq E tp s) (stack_agrees None)" "post (i_and E tp s) (stack_agrees None)"
    "post (i_or E tp s) (stack_agrees None)" "post (i_xor E tp s) (stack_agrees None)"
    "post (i_byte E tp s) (stack_agrees None)" "post (i_shl E tp s) (stack_agrees None)"
    "post (i_shr E tp s) (stack_agrees None)" "post (i_sar E tp s) (stack_agrees None)"
    "post (i_iszero E tp s) (stack_agrees None)" "post (i_not E tp s) (stack_agrees None)"
  using assms by (simp_all add: arith2_handlers i_iszero_def i_not_def sync_arith)

lemma sync_push_handlers:
  assumes "stack_agrees None s" and "tp < 1024"
  shows "post (i_address E tp s) (stack_agrees None)" "post (i_caller E tp s) (stack_agrees None)"
    "post (i_callvalue E tp s) (stack_agrees None)" "post (i_calldatasize E tp s) (stack_agrees None)"
    "post (i_codesize E tp s) (stack_agrees None)" "post (i_returndatasize E tp s) (stack_agrees None)"
    "post (i_msize E tp s) (stack_agrees None)" "post (i_datasize E tp s) (stack_agrees None)"
    "post (i_push0 E tp s) (stack_agrees None)" "post (i_selfbalance E tp s) (stack_agrees None)"
    "post (push_tx E tp h s) (stack_agrees None)"
  unfolding i_address_def i_caller_def i_callvalue_def i_calldatasize_def i_codesize_def
    i_returndatasize_def i_msize_def i_datasize_def i_push0_def i_selfbalance_def push_tx_def Let_def
  by (insert assms, (assumption | rule sync_loop | (simp; fail))+)

lemma sync_tx_handlers:
  assumes "stack_agrees None s" and "tp < 1024"
  shows "post (i_origin E tp s) (stack_agrees None)" "post (i_gasprice E tp s) (stack_agrees None)"
    "post (i_basefee E tp s) (stack_agrees None)" "post (i_blobbasefee E tp s) (stack_agrees None)"
    "post (i_coinbase E tp s) (stack_agrees None)" "post (i_timestamp E tp s) (stack_agrees None)"
    "post (i_number E tp s) (stack_agrees None)" "post (i_prevrandao E tp s) (stack_agrees None)"
    "post (i_gaslimit E tp s) (stack_agrees None)" "post (i_chainid E tp s) (stack_agrees None)"
  unfolding i_origin_def i_gasprice_def i_basefee_def i_blobbasefee_def i_coinbase_def
    i_timestamp_def i_number_def i_prevrandao_def i_gaslimit_def i_chainid_def
  by (rule sync_push_handlers [OF assms])+

lemma sync_top_handlers:
  assumes "stack_agrees None s" and "tp < 1024"
  shows "post (i_calldataload E tp s) (stack_agrees None)" "post (i_blobhash E tp s) (stack_agrees None)"
    "post (i_blockhash E tp s) (stack_agrees None)" "post (i_tload E tp s) (stack_agrees None)"
    "post (i_log E tp s) (stack_agrees None)"
  unfolding i_calldataload_def i_blobhash_def i_blockhash_def i_tload_def i_log_def Let_def
  by (insert assms, (assumption | rule sync_loop | (simp; fail))+)

lemma sync_dup: "stack_agrees None s \<Longrightarrow> tp < 1024 \<Longrightarrow> 0 < k \<Longrightarrow> post (i_dup k E tp s) (stack_agrees None)"
  unfolding i_dup_def Let_def
  by (simp only: if_False neq0_conv [symmetric], (assumption | rule sync_loop | (simp; fail))+)

lemma sync_jumps:
  assumes "stack_agrees None s" and "tp < 1024"
  shows "post (i_jump E tp s pos) (\<lambda>(_, s'). stack_agrees None s')"
    "post (i_jumpi E tp s pos) (\<lambda>(_, s'). stack_agrees None s')"
    "post (i_pc E tp s pos) (\<lambda>(_, s'). stack_agrees None s')"
    "post (i_rjump E tp s pos) (\<lambda>(_, s'). stack_agrees None s')"
    "post (i_rjumpi E tp s pos) (\<lambda>(_, s'). stack_agrees None s')"
    "post (i_rjumpv E tp s pos) (\<lambda>(_, s'). stack_agrees None s')"
    "post (i_callf E tp s pos) (\<lambda>(_, s'). stack_agrees None s')"
    "post (i_retf E tp s pos) (\<lambda>(_, s'). stack_agrees None s')"
    "post (i_jumpf E tp s pos) (\<lambda>(_, s'). stack_agrees None s')"
    "post (i_dupn E tp s pos) (\<lambda>(_, s'). stack_agrees None s')"
    "post (i_dataloadn E tp s pos) (\<lambda>(_, s'). stack_agrees None s')"
  unfolding i_jump_def i_jumpi_def i_pc_def i_rjump_def i_rjumpi_def i_rjumpv_def i_callf_def i_retf_def
    i_jumpf_def i_dupn_def i_dataloadn_def Let_def
  by (insert assms, (assumption | rule sync_loop | (simp; fail))+)

lemma sync_push:
  "stack_agrees None s \<Longrightarrow> tp < 1024 \<Longrightarrow> 0 < push_num_words k \<Longrightarrow>
   post (i_push k E tp s pos) (\<lambda>(_, s'). stack_agrees None s')"
  unfolding i_push_def Let_def
  by (assumption | rule sync_loop | (simp; fail))+

abbreviation synced_after :: "evmc_status_code \<times> int \<times> 'h exec_state \<Rightarrow> bool" where
  "synced_after \<equiv> \<lambda>(_, _, s'). stack_agrees None s'"

lemma sync_gas_handlers:
  assumes "stack_agrees None s" and "tp < 1024"
  shows "post (i_exp E tp g s) synced_after" "post (i_gas E tp g s) synced_after"
    "post (i_sload E tp g s) synced_after" "post (i_sstore E tp g s) synced_after"
    "post (i_tstore E tp g s) synced_after" "post (return_impl E tp g s st) synced_after"
    "post (i_selfdestruct E tp g s) synced_after" "post (i_mload E tp g s) synced_after"
    "post (i_mstore k E tp g s) synced_after" "post (i_keccak256 E tp g s) synced_after"
    "post (i_mcopy E tp g s) synced_after" "post (i_extcodecopy E tp g s) synced_after"
    "post (i_returndatacopy E tp g s) synced_after" "post (i_datacopy E tp g s) synced_after"
    "post (copy_input E tp src g s) synced_after"
  unfolding i_exp_def i_gas_def i_sload_def i_sstore_def i_tstore_def return_impl_def i_selfdestruct_def
    i_mload_def i_mstore_def i_keccak256_def i_mcopy_def i_extcodecopy_def i_returndatacopy_def i_datacopy_def
    copy_input_def Let_def
  by (insert assms, (assumption | rule sync_loop | (simp; fail))+)

lemma sync_account_query:
  assumes "stack_agrees None s" and "tp < 1024" and "\<And>D s a. stack_agrees D s \<Longrightarrow> stack_agrees D (snd (query s a))"
  shows "post (account_query E tp query g s) synced_after"
  unfolding account_query_def Let_def
  by (insert assms(1,2), (assumption | rule sync_loop assms(3) | (simp; fail))+)

lemma sync_account_handlers:
  assumes "stack_agrees None s" and "tp < 1024"
  shows "post (i_balance E tp g s) synced_after" "post (i_extcodesize E tp g s) synced_after"
    "post (i_extcodehash E tp g s) synced_after"
  unfolding i_balance_def i_extcodesize_def i_extcodehash_def Let_def
  by (rule sync_account_query [OF assms]; simp add: host_defs split_def Let_def)+

lemma sync_end_handlers:
  assumes "stack_agrees None s" and "tp < 1024"
  shows "post (i_stop E tp g s) synced_after" "post (i_invalid E tp g s) synced_after"
    "post (i_return E tp g s) synced_after" "post (i_revert E tp g s) synced_after"
    "post (i_calldatacopy E tp g s) synced_after" "post (i_codecopy E tp g s) synced_after"
  using assms(1) sync_gas_handlers(6,15) [OF assms]
  by (simp_all add: i_stop_def i_invalid_def stop_impl_def i_return_def i_revert_def i_calldatacopy_def i_codecopy_def)

subsection \<open>Every handler\<close>

text \<open>
  \<open>MULMOD\<close> logs another slot than it writes and \<open>SWAP1\<close> to \<open>SWAP16\<close> log one slot too high; \<open>DATALOAD\<close>
  outside the data, a call that is refused before it runs, and a creation that is, write a zero
  without an entry. \<open>DUP\<close>, \<open>SWAP\<close> and \<open>SWAPN\<close>, whose slot is computed, are not covered.
\<close>

definition unsynced_opcodes :: "byte list" where
  "unsynced_opcodes = [OP_MULMOD, OP_DATALOAD, OP_CREATE, OP_CALL, OP_CALLCODE, OP_DELEGATECALL, OP_CREATE2,
     OP_STATICCALL, OP_DUP, OP_SWAP, OP_SWAPN, OP_SWAP1, OP_SWAP2, OP_SWAP3, OP_SWAP4,
     OP_SWAP5, OP_SWAP6, OP_SWAP7, OP_SWAP8, OP_SWAP9, OP_SWAP10, OP_SWAP11, OP_SWAP12,
     OP_SWAP13, OP_SWAP14, OP_SWAP15, OP_SWAP16]"

definition fn_syncs :: "byte \<Rightarrow> 'h instr_fn \<Rightarrow> bool" where
  "fn_syncs op fn \<longleftrightarrow> op \<in> set unsynced_opcodes \<or> (case fn of
     Fn_void f \<Rightarrow> True
   | Fn_state f \<Rightarrow> (\<forall>E tp s. stack_agrees None s \<longrightarrow> tp < 1024 \<longrightarrow> post (f E tp s) (stack_agrees None))
   | Fn_jump f \<Rightarrow> (\<forall>E tp s pos. stack_agrees None s \<longrightarrow> tp < 1024 \<longrightarrow>
       post (f E tp s pos) (\<lambda>(_, s'). stack_agrees None s'))
   | Fn_result f \<Rightarrow> (\<forall>E tp g s. stack_agrees None s \<longrightarrow> tp < 1024 \<longrightarrow> post (f E tp g s) synced_after)
   | Fn_term f \<Rightarrow> (\<forall>E tp g s. stack_agrees None s \<longrightarrow> tp < 1024 \<longrightarrow> post (f E tp g s) synced_after))"

lemma syncs_void: "fn_syncs op (Fn_void f)"
  by (simp add: fn_syncs_def)

lemma syncs_state:
  "(\<And>E tp s. stack_agrees None s \<Longrightarrow> tp < 1024 \<Longrightarrow> post (f E tp s) (stack_agrees None)) \<Longrightarrow> fn_syncs op (Fn_state f)"
  by (simp add: fn_syncs_def)

lemma syncs_jump:
  "(\<And>E tp s pos. stack_agrees None s \<Longrightarrow> tp < 1024 \<Longrightarrow> post (f E tp s pos) (\<lambda>(_, s'). stack_agrees None s')) \<Longrightarrow>
   fn_syncs op (Fn_jump f)"
  by (simp add: fn_syncs_def)

lemma syncs_result:
  "(\<And>E tp g s. stack_agrees None s \<Longrightarrow> tp < 1024 \<Longrightarrow> post (f E tp g s) synced_after) \<Longrightarrow> fn_syncs op (Fn_result f)"
  by (simp add: fn_syncs_def)

lemma syncs_term:
  "(\<And>E tp g s. stack_agrees None s \<Longrightarrow> tp < 1024 \<Longrightarrow> post (f E tp g s) synced_after) \<Longrightarrow> fn_syncs op (Fn_term f)"
  by (simp add: fn_syncs_def)

lemma syncs_dup: "0 < k \<Longrightarrow> fn_syncs op (Fn_state (i_dup k))"
  by (simp add: fn_syncs_def sync_dup)

lemma syncs_push: "0 < push_num_words k \<Longrightarrow> fn_syncs op (Fn_jump (i_push k))"
  by (simp add: fn_syncs_def sync_push)

lemma syncs_unsynced:
  "fn_syncs OP_MULMOD fn" "fn_syncs OP_DATALOAD fn" "fn_syncs OP_CREATE fn"
  "fn_syncs OP_CALL fn" "fn_syncs OP_CALLCODE fn" "fn_syncs OP_DELEGATECALL fn"
  "fn_syncs OP_CREATE2 fn" "fn_syncs OP_STATICCALL fn" "fn_syncs OP_DUP fn"
  "fn_syncs OP_SWAP fn" "fn_syncs OP_SWAPN fn" "fn_syncs OP_SWAP1 fn" "fn_syncs OP_SWAP2 fn"
  "fn_syncs OP_SWAP3 fn" "fn_syncs OP_SWAP4 fn" "fn_syncs OP_SWAP5 fn" "fn_syncs OP_SWAP6 fn"
  "fn_syncs OP_SWAP7 fn" "fn_syncs OP_SWAP8 fn" "fn_syncs OP_SWAP9 fn" "fn_syncs OP_SWAP10 fn"
  "fn_syncs OP_SWAP11 fn" "fn_syncs OP_SWAP12 fn" "fn_syncs OP_SWAP13 fn"
  "fn_syncs OP_SWAP14 fn" "fn_syncs OP_SWAP15 fn" "fn_syncs OP_SWAP16 fn"
  by (simp_all add: fn_syncs_def unsynced_opcodes_def)

lemmas synced_states = sync_arith_handlers sync_arith(3) sync_push_handlers(1-10) sync_tx_handlers
  sync_top_handlers

lemmas synced_results = sync_gas_handlers(1-5) sync_gas_handlers(8-14) sync_account_handlers
  sync_end_handlers(5,6)

lemmas synced_ends = sync_end_handlers(1-4) sync_gas_handlers(7)

lemmas fn_syncs_intros = syncs_unsynced syncs_void syncs_dup syncs_push synced_states [THEN syncs_state]
  sync_jumps [THEN syncs_jump] synced_results [THEN syncs_result] synced_ends [THEN syncs_term]

lemma map_opcodes_sync: "list_all (\<lambda>(op, fn). fn_syncs op fn) map_opcodes"
  unfolding map_opcodes_def map_opcodes_to_push0_def map_opcodes_from_push1_def
    append.simps list.pred_inject prod.case
  by (intro conjI TrueI fn_syncs_intros; (assumption | simp add: push_num_words_def zkevm_word_size_def)+)

subsection \<open>The loop\<close>

lemma invoke_syncs:
  fixes E :: "'h env"
  assumes "op \<notin> set unsynced_opcodes" and "stack_agrees None s" and "tp < 1024"
    and run: "invoke E ct pos tp g s op = Some (p, tp', g', s')"
  shows "stack_agrees None s'"
proof -
  obtain st g1 where req: "check_requirements E ct g tp op = Some (st, g1)"
    using run by (auto simp: invoke_def bind_eq_Some_conv)
  show ?thesis
  proof (cases "st = EVMC_SUCCESS \<and> map_of (map_opcodes :: (byte \<times> 'h instr_fn) list) op \<noteq> None")
    case False
    then show ?thesis
      using run req assms(2) by (cases "st = EVMC_SUCCESS") (auto simp: invoke_def)
  next
    case True
    then obtain fn where fn: "map_of (map_opcodes :: (byte \<times> 'h instr_fn) list) op = Some fn"
      and inv: "invoke_fn E fn pos tp g1 s = Some (p, g', s')"
      using run req by (auto simp: invoke_def bind_eq_Some_conv)
    have "fn_syncs op fn"
      using map_opcodes_sync map_of_SomeD [OF fn] by (auto simp: list_all_iff)
    then show ?thesis
      using inv assms(1-3)
      by (cases fn) (fastforce simp: fn_syncs_def bind_eq_Some_conv dest: postD split: if_splits)+
  qed
qed

lemma dispatch_loop_syncs:
  "set (code_buffer (analysis s)) \<inter> set unsynced_opcodes = {} \<Longrightarrow> stack_agrees None s \<Longrightarrow>
   - 1 \<le> tp \<Longrightarrow> tp < 1024 \<Longrightarrow> dispatch_loop fuel E ct pos tp g s = Done (g', s') \<Longrightarrow> stack_agrees None s'"
proof (induction fuel arbitrary: pos tp g s)
  case 0
  then show ?case by simp
next
  case (Suc fuel)
  then obtain op p tp1 g1 s1 where code: "code_byte s pos = Some op"
    and run: "invoke E ct pos tp g s op = Some (p, tp1, g1, s1)"
    by (auto split: option.splits)
  have "op \<in> set (code_buffer (analysis s))"
    using code by (auto simp: code_byte_def Let_def dest!: nth_opt_SomeD split: if_splits)
  then have agrees: "stack_agrees None s1"
    using invoke_syncs [OF _ Suc.prems(2,4) run] Suc.prems(1) by blast
  have "analysis s1 = analysis s"
    using postD [OF frame_invoke run] by (simp add: frame_def)
  then show ?case
    using Suc.IH [of s1] Suc.prems code run agrees invoke_top [of E ct pos tp g s op _ tp1 g1 s1]
    by (cases p) auto
qed

lemma init_syncs: "exec_state_init E m r ctx code data cid an = Some s \<Longrightarrow> stack_agrees None s"
  by (auto simp: exec_state_init_def stack_agrees_def zero_stack_def bind_eq_Some_conv)

end
