(* ===== verification/Operand_Table.thy ===== *)
theory Operand_Table
  imports Run
begin

text \<open>
  What the instructions that only work on their operands compute, as a table of the opcode, the
  number of operands and the value as a function of the operands, the top one first, written
  with the arithmetic of 256-bit words. The handlers of the table meet the contract
  \<open>operand_handler\<close> with these functions, so one lemma speaks about all of them.
  \<open>SIGNEXTEND\<close>, \<open>SAR\<close> and \<open>MULMOD\<close> are missing: they do not compute what their names say.
\<close>

definition operand_table :: "(byte \<times> nat \<times> (zkevm_word list \<Rightarrow> zkevm_word)) list" where
  "operand_table =
     [(OP_ADD, 2, \<lambda>xs. xs ! 0 + xs ! 1),
      (OP_MUL, 2, \<lambda>xs. xs ! 0 * xs ! 1),
      (OP_SUB, 2, \<lambda>xs. xs ! 0 - xs ! 1),
      (OP_DIV, 2, \<lambda>xs. if xs ! 1 = 0 then 0 else xs ! 0 div xs ! 1),
      (OP_SDIV, 2, \<lambda>xs. if xs ! 1 = 0 then 0
         else word_of_int (sint (xs ! 0) sdiv sint (xs ! 1))),
      (OP_MOD, 2, \<lambda>xs. if xs ! 1 = 0 then 0 else xs ! 0 mod xs ! 1),
      (OP_SMOD, 2, \<lambda>xs. if xs ! 1 = 0 then 0
         else word_of_int (sint (xs ! 0) smod sint (xs ! 1))),
      (OP_ADDMOD, 3, \<lambda>xs. if xs ! 2 = 0 then 0
         else word_of_nat ((unat (xs ! 0) + unat (xs ! 1)) mod unat (xs ! 2))),
      (OP_LT, 2, \<lambda>xs. of_bool (xs ! 0 < xs ! 1)),
      (OP_GT, 2, \<lambda>xs. of_bool (xs ! 0 > xs ! 1)),
      (OP_SLT, 2, \<lambda>xs. of_bool (sint (xs ! 0) < sint (xs ! 1))),
      (OP_SGT, 2, \<lambda>xs. of_bool (sint (xs ! 0) > sint (xs ! 1))),
      (OP_EQ, 2, \<lambda>xs. of_bool (xs ! 1 = xs ! 0)),
      (OP_ISZERO, 1, \<lambda>xs. of_bool (xs ! 0 = 0)),
      (OP_AND, 2, \<lambda>xs. xs ! 0 AND xs ! 1),
      (OP_OR, 2, \<lambda>xs. xs ! 0 OR xs ! 1),
      (OP_XOR, 2, \<lambda>xs. xs ! 0 XOR xs ! 1),
      (OP_NOT, 1, \<lambda>xs. NOT (xs ! 0)),
      (OP_BYTE, 2, \<lambda>xs. if unat (xs ! 0) < 32
         then word_of_nat (unat (xs ! 1) div 256 ^ (31 - unat (xs ! 0)) mod 256) else 0),
      (OP_SHL, 2, \<lambda>xs. word_of_nat (unat (xs ! 1) * 2 ^ unat (xs ! 0))),
      (OP_SHR, 2, \<lambda>xs. word_of_nat (unat (xs ! 1) div 2 ^ unat (xs ! 0)))]"

text \<open>The handlers of the table.\<close>

definition operand_handlers :: "(byte \<times> ('h env \<Rightarrow> int \<Rightarrow> 'h exec_state \<Rightarrow> 'h exec_state option)) list" where
  "operand_handlers =
     [(OP_ADD, i_add), (OP_MUL, i_mul), (OP_SUB, i_sub), (OP_DIV, i_div), (OP_SDIV, i_sdiv),
      (OP_MOD, i_mod), (OP_SMOD, i_smod), (OP_ADDMOD, i_addmod), (OP_LT, i_lt), (OP_GT, i_gt),
      (OP_SLT, i_slt), (OP_SGT, i_sgt), (OP_EQ, i_eq), (OP_ISZERO, i_iszero), (OP_AND, i_and),
      (OP_OR, i_or), (OP_XOR, i_xor), (OP_NOT, i_not), (OP_BYTE, i_byte), (OP_SHL, i_shl),
      (OP_SHR, i_shr)]"

subsection \<open>The values\<close>

context intx_api
begin

lemma signed_values:
  "zw_sdiv L a b = (if b = 0 then 0 else word_of_int (sint a sdiv sint b))"
  "zw_smod L a b = (if b = 0 then 0 else word_of_int (sint a smod sint b))"
  "word_of_bool (zw_slt L a b) = of_bool (sint a < sint b)"
  by (simp_all add: zw_sdiv_def zw_smod_def zw_slt_def sdivrem slt word_of_bool_def)

lemma addmod_value:
  "zw_addmod L a b m = (if m = 0 then 0 else word_of_nat ((unat a + unat b) mod unat m))"
  using addmod [of m a b] unat_mod_word [of m "unat a + unat b"]
  by (simp add: zw_addmod_def word_unat_eq_iff del: of_nat_add)

lemma mulmod_value:
  "zw_mulmod L a b m = (if m = 0 then 0 else word_of_nat ((unat a * unat b) mod unat m))"
  using mulmod [of m a b] unat_mod_word [of m "unat a * unat b"]
  by (simp add: zw_mulmod_def word_unat_eq_iff del: of_nat_mult)

end

lemma byte_value:
  "byte_word n x = (if unat n < 32 then word_of_nat (unat x div 256 ^ (31 - unat n) mod 256) else 0)"
proof -
  have "unat x div 256 ^ (31 - unat n) mod 256 < 2 ^ LENGTH(256)"
    using mod_less_divisor [of 256 "unat x div 256 ^ (31 - unat n)"] by simp
  then have "unat (word_of_nat (unat x div 256 ^ (31 - unat n) mod 256) :: u256) =
      unat x div 256 ^ (31 - unat n) mod 256"
    by (simp only: unat_of_nat mod_less)
  then show ?thesis
    by (simp only: word_unat_eq_iff unat_byte_word if_distrib [of unat] unat_0)
qed

lemma shr_value: "zw_shr x y = word_of_nat (unat x div 2 ^ unat y)"
proof -
  have "unat x div 2 ^ unat y < 2 ^ LENGTH(256)"
    using unsigned_less [of x] by (intro le_less_trans [OF div_le_dividend])
  then have "unat (word_of_nat (unat x div 2 ^ unat y) :: u256) = unat x div 2 ^ unat y"
    by (simp only: unat_of_nat mod_less)
  then show ?thesis by (simp only: word_unat_eq_iff unat_zw_shr)
qed

lemma plain_values:
  "zw_add y x = x + y" "zw_mul y x = x * y" "zw_sub x y = x - y"
  "(if y \<noteq> 0 then zw_div x y else 0) = (if y = 0 then 0 else x div y)"
  "(if y \<noteq> 0 then zw_mod x y else 0) = (if y = 0 then 0 else x mod y)"
  "word_of_bool p = of_bool p" "y AND x = (x :: u256) AND y" "y OR x = (x :: u256) OR y"
  "y XOR x = (x :: u256) XOR y"
  by (simp_all add: zw_add_def zw_mul_def zw_sub_def zw_div_def zw_mod_def word_of_bool_def
      ac_simps)

subsection \<open>The contract\<close>

lemma operand_handler_eq:
  "operand_handler f n r \<Longrightarrow> (\<And>xs. r xs = r' xs) \<Longrightarrow> operand_handler f n r'"
  by (drule ext [of r r']) simp

lemma handler_lookup:
  "map_of operand_handlers OP_ADD = Some i_add"
  "map_of operand_handlers OP_MUL = Some i_mul"
  "map_of operand_handlers OP_SUB = Some i_sub"
  "map_of operand_handlers OP_DIV = Some i_div"
  "map_of operand_handlers OP_SDIV = Some i_sdiv"
  "map_of operand_handlers OP_MOD = Some i_mod"
  "map_of operand_handlers OP_SMOD = Some i_smod"
  "map_of operand_handlers OP_ADDMOD = Some i_addmod"
  "map_of operand_handlers OP_LT = Some i_lt"
  "map_of operand_handlers OP_GT = Some i_gt"
  "map_of operand_handlers OP_SLT = Some i_slt"
  "map_of operand_handlers OP_SGT = Some i_sgt"
  "map_of operand_handlers OP_EQ = Some i_eq"
  "map_of operand_handlers OP_ISZERO = Some i_iszero"
  "map_of operand_handlers OP_AND = Some i_and"
  "map_of operand_handlers OP_OR = Some i_or"
  "map_of operand_handlers OP_XOR = Some i_xor"
  "map_of operand_handlers OP_NOT = Some i_not"
  "map_of operand_handlers OP_BYTE = Some i_byte"
  "map_of operand_handlers OP_SHL = Some i_shl"
  "map_of operand_handlers OP_SHR = Some i_shr"
  by (simp_all add: operand_handlers_def)

lemma handler_opcode:
  "map_of map_opcodes OP_ADD = Some (Fn_state i_add)"
  "map_of map_opcodes OP_MUL = Some (Fn_state i_mul)"
  "map_of map_opcodes OP_SUB = Some (Fn_state i_sub)"
  "map_of map_opcodes OP_DIV = Some (Fn_state i_div)"
  "map_of map_opcodes OP_SDIV = Some (Fn_state i_sdiv)"
  "map_of map_opcodes OP_MOD = Some (Fn_state i_mod)"
  "map_of map_opcodes OP_SMOD = Some (Fn_state i_smod)"
  "map_of map_opcodes OP_ADDMOD = Some (Fn_state i_addmod)"
  "map_of map_opcodes OP_LT = Some (Fn_state i_lt)"
  "map_of map_opcodes OP_GT = Some (Fn_state i_gt)"
  "map_of map_opcodes OP_SLT = Some (Fn_state i_slt)"
  "map_of map_opcodes OP_SGT = Some (Fn_state i_sgt)"
  "map_of map_opcodes OP_EQ = Some (Fn_state i_eq)"
  "map_of map_opcodes OP_ISZERO = Some (Fn_state i_iszero)"
  "map_of map_opcodes OP_AND = Some (Fn_state i_and)"
  "map_of map_opcodes OP_OR = Some (Fn_state i_or)"
  "map_of map_opcodes OP_XOR = Some (Fn_state i_xor)"
  "map_of map_opcodes OP_NOT = Some (Fn_state i_not)"
  "map_of map_opcodes OP_BYTE = Some (Fn_state i_byte)"
  "map_of map_opcodes OP_SHL = Some (Fn_state i_shl)"
  "map_of map_opcodes OP_SHR = Some (Fn_state i_shr)"
  by (simp_all add: map_opcodes_def map_opcodes_to_push0_def map_opcodes_from_push1_def)

text \<open>Unsigned arithmetic, comparison and bits.\<close>

lemma plain_contracts:
  "operand_handler (i_add E) 2 (\<lambda>xs. xs ! 0 + xs ! 1)"
  "operand_handler (i_mul E) 2 (\<lambda>xs. xs ! 0 * xs ! 1)"
  "operand_handler (i_sub E) 2 (\<lambda>xs. xs ! 0 - xs ! 1)"
  "operand_handler (i_div E) 2 (\<lambda>xs. if xs ! 1 = 0 then 0 else xs ! 0 div xs ! 1)"
  "operand_handler (i_mod E) 2 (\<lambda>xs. if xs ! 1 = 0 then 0 else xs ! 0 mod xs ! 1)"
  "operand_handler (i_lt E) 2 (\<lambda>xs. of_bool (xs ! 0 < xs ! 1))"
  "operand_handler (i_gt E) 2 (\<lambda>xs. of_bool (xs ! 0 > xs ! 1))"
  "operand_handler (i_eq E) 2 (\<lambda>xs. of_bool (xs ! 1 = xs ! 0))"
  "operand_handler (i_iszero E) 1 (\<lambda>xs. of_bool (xs ! 0 = 0))"
  "operand_handler (i_and E) 2 (\<lambda>xs. xs ! 0 AND xs ! 1)"
  "operand_handler (i_or E) 2 (\<lambda>xs. xs ! 0 OR xs ! 1)"
  "operand_handler (i_xor E) 2 (\<lambda>xs. xs ! 0 XOR xs ! 1)"
  "operand_handler (i_not E) 1 (\<lambda>xs. NOT (xs ! 0))"
  "operand_handler (i_byte E) 2 (\<lambda>xs. if unat (xs ! 0) < 32
     then word_of_nat (unat (xs ! 1) div 256 ^ (31 - unat (xs ! 0)) mod 256) else 0)"
  "operand_handler (i_shl E) 2 (\<lambda>xs. word_of_nat (unat (xs ! 1) * 2 ^ unat (xs ! 0)))"
  "operand_handler (i_shr E) 2 (\<lambda>xs. word_of_nat (unat (xs ! 1) div 2 ^ unat (xs ! 0)))"
  unfolding arith2_handlers i_iszero_def i_not_def
  by (rule operand_handler_eq [OF arith2_contract] operand_handler_eq [OF arith1_contract];
      simp only: plain_values zw_operators word_of_int64_zero of_int_0 byte_value shr_value zw_shl_eq)+

text \<open>Signed arithmetic and \<open>ADDMOD\<close>, with the functions of the big-integer library.\<close>

lemma library_contracts:
  assumes "intx_api E"
  shows "operand_handler (i_sdiv E) 2 (\<lambda>xs. if xs ! 1 = 0 then 0
     else word_of_int (sint (xs ! 0) sdiv sint (xs ! 1)))"
  "operand_handler (i_smod E) 2 (\<lambda>xs. if xs ! 1 = 0 then 0
     else word_of_int (sint (xs ! 0) smod sint (xs ! 1)))"
  "operand_handler (i_addmod E) 3 (\<lambda>xs. if xs ! 2 = 0 then 0
     else word_of_nat ((unat (xs ! 0) + unat (xs ! 1)) mod unat (xs ! 2)))"
  "operand_handler (i_slt E) 2 (\<lambda>xs. of_bool (sint (xs ! 0) < sint (xs ! 1)))"
  "operand_handler (i_sgt E) 2 (\<lambda>xs. of_bool (sint (xs ! 0) > sint (xs ! 1)))"
  unfolding arith2_handlers
  by (rule operand_handler_eq [OF arith2_contract] operand_handler_eq [OF addmod.operand_handler_axioms];
      simp only: intx_api.signed_values [OF assms] intx_api.addmod_value [OF assms])+

lemma operand_contract:
  assumes "intx_api E" and "(op, n, f) \<in> set operand_table"
  shows "\<exists>h. map_of operand_handlers op = Some h \<and> operand_handler (h E) n f"
proof -
  have "list_all (\<lambda>(op, n, f). \<exists>h. map_of operand_handlers op = Some h \<and> operand_handler (h E) n f)
      operand_table"
    unfolding operand_table_def list.pred_inject prod.case
    by (intro conjI exI TrueI)
      (rule handler_lookup plain_contracts library_contracts [OF assms(1)] list.pred_inject(1))+
  then show ?thesis using assms(2) by (auto simp: list_all_iff)
qed

lemma operand_opcode:
  assumes "(op, n, f) \<in> set operand_table" and "map_of operand_handlers op = Some h"
  shows "map_of map_opcodes op = Some (Fn_state h)"
proof -
  have "list_all (\<lambda>(op, h). map_of map_opcodes op = Some (Fn_state h)) operand_handlers"
    unfolding operand_handlers_def list.pred_inject prod.case
    by (intro conjI TrueI) (rule handler_opcode list.pred_inject(1))+
  then show ?thesis using map_of_SomeD [OF assms(2)] by (auto simp: list_all_iff)
qed

lemma operand_traits:
  assumes "(op, n, f) \<in> set operand_table"
  shows "stack_height_required (traits op) = int n \<and> stack_height_change (traits op) = 1 - int n \<and> 0 < n"
proof -
  have "list_all (\<lambda>(op, n). stack_height_required (traits op) = int n \<and>
      stack_height_change (traits op) = 1 - int n \<and> 0 < n)
    (map (\<lambda>(op, n, f). (op, n)) operand_table)"
    by (simp add: operand_table_def op_traits_facts mk_traits_def)
  then show ?thesis using assms by (auto simp: list_all_iff)
qed

end
