(* ===== verification/Stack_Contracts.thy ===== *)
theory Stack_Contracts
  imports Operand_Table
begin

text \<open>
  What \<open>DUP\<close>, \<open>SWAP\<close>, \<open>MULMOD\<close> and \<open>PUSH\<close> do to the stack and to the trace, in closed form,
  and whether a replay of the trace still agrees with the stack afterwards.
\<close>

subsection \<open>DUP\<close>

text \<open>\<open>DUPn\<close> and its trace: the read of the copied slot, the write of the new one.\<close>

definition dup_result :: "nat \<Rightarrow> int \<Rightarrow> 'h exec_state \<Rightarrow> 'h exec_state" where
  "dup_result n tp s =
     (let k = nat (tp + 1) - n; v = stack_space s ! k
      in s\<lparr>stack_space := (stack_space s)[nat (tp + 1) := v],
           rw_trace := rw_trace s @
             [stack_entry (call_id s) k (length (rw_trace s)) False v,
              stack_entry (call_id s) (nat (tp + 1)) (Suc (length (rw_trace s))) True v]\<rparr>)"

lemma dup_ready:
  assumes "stack_ready s tp n" and "0 < n" and "tp < 1023"
  shows "i_dup n E tp s = Some (dup_result n tp s)"
proof -
  obtain k where tp: "tp = int k + int n - 1" and k: "k + n < 1024"
    using assms by (auto simp: stack_ready_def intro: that [of "nat (tp + 1) - n"])
  have "nat (int k + int n) = k + n" "nat (int k + int n - int n) = k" by linarith+
  then show ?thesis
    using assms k
    by (simp add: tp i_dup_def push_logged_def stack_prims stack_ready_def stack_limit_def
        dup_result_def Let_def)
qed

lemma dup_synced:
  assumes "stack_ready s tp n" and "0 < n" and "tp < 1023" and "synced s (nat (tp + 1))"
  shows "synced (dup_result n tp s) (nat (tp + 2))"
proof -
  obtain k where tp: "tp = int k + int n - 1" and k: "k + n < 1024"
    using assms by (auto simp: stack_ready_def intro: that [of "nat (tp + 1) - n"])
  have nats: "nat (int k + int n) = k + n" "nat (int k + int n - 1 + 2) = Suc (k + n)" by linarith+
  show ?thesis
    using assms k
    by (auto simp: tp nats dup_result_def Let_def replay_simps stack_ready_def less_Suc_eq
        nth_list_update)
qed

subsection \<open>SWAP\<close>

text \<open>
  \<open>SWAPn\<close> exchanges the two slots, but its last entry logs the slot above the exchanged one.
\<close>

definition swap_result :: "nat \<Rightarrow> int \<Rightarrow> 'h exec_state \<Rightarrow> 'h exec_state" where
  "swap_result n tp s =
     (let k = nat tp - n; a = stack_space s ! k; t = stack_space s ! nat tp;
          st = (stack_space s)[nat tp := a, k := t]; r = length (rw_trace s)
      in s\<lparr>stack_space := st,
           rw_trace := rw_trace s @
             [stack_entry (call_id s) k r False a,
              stack_entry (call_id s) (nat tp) (Suc r) False t,
              stack_entry (call_id s) (nat tp) (Suc (Suc r)) True a,
              stack_entry (call_id s) (Suc k) (Suc (Suc (Suc r))) True (st ! Suc k)]\<rparr>)"

lemma swap_ready:
  assumes "stack_ready s tp (Suc n)" and "0 < n"
  shows "i_swap n E tp s = Some (swap_result n tp s)"
proof -
  obtain k where tp: "tp = int k + int n" and k: "k + n < 1024"
    using assms by (auto simp: stack_ready_def stack_limit_def intro: that [of "nat (tp - int n)"])
  have nats: "nat (int k + int n) = k + n" "nat (int k + int n - int n) = k"
    "nat (1 + int k) = Suc k" "nat (int k + 1) = Suc k" by linarith+
  show ?thesis
    using assms k
    by (simp add: tp nats i_swap_def swap_body_def stack_prims stack_ready_def stack_limit_def
        swap_result_def Let_def set_val_all [simplified])
qed

text \<open>The slot of the lower operand is never logged, so the trace keeps its old value.\<close>

lemma swap_unsynced:
  assumes "stack_ready s tp (Suc n)" and "0 < n" and "synced s (nat (tp + 1))"
    and "stack_space s ! nat tp \<noteq> stack_space s ! (nat tp - n)"
  shows "\<not> synced (swap_result n tp s) (nat tp - n + 1)"
proof -
  obtain k where tp: "tp = int k + int n" and k: "k + n < 1024"
    using assms by (auto simp: stack_ready_def stack_limit_def intro: that [of "nat (tp - int n)"])
  have nats: "nat (int k + int n) = k + n" "nat (int k + int n + 1) = Suc (k + n)" by linarith+
  have "shadow zero_stack (rw_trace (swap_result n tp s)) k = shadow zero_stack (rw_trace s) k"
    using assms(2) k by (simp add: tp nats swap_result_def Let_def replay_step_entry)
  also have "\<dots> = stack_space s ! k"
    using assms(3) by (simp add: tp nats synced_def)
  finally have "shadow zero_stack (rw_trace (swap_result n tp s)) k \<noteq>
      stack_space (swap_result n tp s) ! k"
    using assms(1,2,4) k
    by (simp add: tp nats swap_result_def Let_def stack_ready_def stack_limit_def)
  then show ?thesis by (auto simp: synced_def tp nats)
qed

subsection \<open>MULMOD\<close>

text \<open>\<open>MULMOD\<close> stores its result, but logs the unchanged top of the stack as written.\<close>

definition mulmod_result :: "zkevm_word \<Rightarrow> int \<Rightarrow> 'h exec_state \<Rightarrow> 'h exec_state" where
  "mulmod_result v tp s =
     s\<lparr>stack_space := (stack_space s)[operand_slot 3 tp := v],
       rw_trace := rw_trace s @ operand_reads 3 tp s @
         [stack_entry (call_id s) (nat tp) (length (rw_trace s) + 3) True (stack_space s ! nat tp)]\<rparr>"

lemma mulmod_ready:
  assumes "stack_ready s tp 3"
  shows "i_mulmod E tp s = Some (mulmod_result
    (zw_mulmod E (stack_space s ! nat tp) (stack_space s ! (nat tp - 1)) (stack_space s ! (nat tp - 2))) tp s)"
proof -
  obtain k where tp: "tp = int k + 2" and k: "k < 1022"
    using assms by (auto simp: stack_ready_def stack_limit_def intro: that [of "nat (tp - 2)"])
  show ?thesis
    using assms k
    by (simp add: tp i_mulmod_def stack_prims stack_ready_def stack_limit_def mulmod_result_def
        operand_reads_def operand_slot_def nat_add_distrib upt_rec numeral_3_eq_3 numeral_2_eq_2)
qed

lemma mulmod_unsynced:
  assumes "stack_ready s tp 3" and "synced s (nat (tp + 1))" and "v \<noteq> stack_space s ! operand_slot 3 tp"
  shows "\<not> synced (mulmod_result v tp s) (operand_slot 3 tp + 1)"
proof -
  let ?k = "operand_slot 3 tp"
  have k: "?k < nat tp" "?k < nat (tp + 1)" "nat tp < 1024" "?k < length (stack_space s)"
    using assms(1) by (auto simp: operand_slot_def stack_ready_def stack_limit_def)
  have "shadow m (operand_reads 3 tp s) = m" for m
    unfolding operand_reads_def
    by (rule shadow_reads) (use operand_slot_less [OF assms(1)] in simp)
  then have "shadow zero_stack (rw_trace (mulmod_result v tp s)) ?k = shadow zero_stack (rw_trace s) ?k"
    using k by (simp add: mulmod_result_def replay_step_entry)
  also have "\<dots> = stack_space s ! ?k" using assms(2) k by (simp add: synced_def)
  finally have "shadow zero_stack (rw_trace (mulmod_result v tp s)) ?k \<noteq>
      stack_space (mulmod_result v tp s) ! ?k"
    using assms(3) k by (simp add: mulmod_result_def)
  then show ?thesis by (auto simp: synced_def)
qed

subsection \<open>PUSH\<close>

text \<open>
  \<open>PUSHn\<close> stores the number given by the \<open>n\<close> bytes after the opcode. It logs one slot for
  \<open>PUSH32\<close> and \<open>n\<close> slots, from the new top downwards, for a smaller \<open>n\<close>.
\<close>

lemma to_uint64_zero [simp]: "to_uint64 0 i = 0"
  by (simp add: to_uint64_def)

lemma word_of_unat_eq: "unat w = n \<Longrightarrow> w = word_of_nat n"
  by (drule sym) simp

lemma unat_set_val_zero:
  assumes "i < 4" and "to_uint64 r i = 0"
  shows "unat (set_val r v i) = unat r + unat v * 2 ^ (64 * i)"
proof -
  have limbs: "to_uint64 (set_val r v i) j = (if i = j then v else to_uint64 r j)" if "j < 4" for j
    using assms(1) that by (rule to_uint64_set_val)
  consider "i = 0" | "i = 1" | "i = 2" | "i = 3" using assms(1) by linarith
  then show ?thesis
    using limbs_sum [of "set_val r v i"] limbs_sum [of r] assms(2)
      limbs [of 0] limbs [of 1] limbs [of 2] limbs [of 3]
    by cases simp_all
qed

context intx_api
begin

lemma load_bytes:
  "length bs \<le> 8 \<Longrightarrow> intx_be_load_uint L bs = word_of_nat (be_val bs)"
  using be_load_uint [of bs] by (intro word_of_unat_eq) simp

lemma load_bytes_drop:
  assumes "k \<le> 8" and "length bs = 8"
  shows "drop_bit (8 * (8 - k)) (intx_be_load_uint L bs) = word_of_nat (be_val (take k bs))"
  using unat_be_load_uint_drop [OF assms] by (rule word_of_unat_eq)

lemma load_three:
  assumes "length bs = 4"
  shows "drop_bit 8 (intx_be_load_uint L bs) = word_of_nat (be_val (take 3 bs))"
proof -
  have "be_val bs = be_val (take 3 bs) * 256 + be_val (drop 3 bs)"
    using be_val_append [of "take 3 bs" "drop 3 bs"] assms by simp
  moreover have "be_val (drop 3 bs) < 256"
    using be_val_less [of "drop 3 bs"] assms by simp
  ultimately have "unat (drop_bit 8 (intx_be_load_uint L bs)) = be_val (take 3 bs)"
    using be_load_uint [of bs] assms
    by (simp add: unat_drop_bit_eq drop_bit_eq_div [where 'a = nat])
  then show ?thesis by (rule word_of_unat_eq)
qed

lemma load_partial_eq:
  assumes "1 \<le> len" and "len \<le> 8" and "off + 8 \<le> length buf"
  shows "load_partial_data L r buf off len i =
    Some (set_val r (word_of_nat (be_val (take len (drop off buf)))) i)"
proof -
  have slices: "slice_opt buf off 1 = Some (take 1 (drop off buf))"
      "slice_opt buf off 2 = Some (take 2 (drop off buf))"
      "slice_opt buf off 4 = Some (take 4 (drop off buf))"
      "slice_opt buf off 8 = Some (take 8 (drop off buf))"
    using assms by simp_all
  consider "len = 1" | "len = 2" | "len = 3" | "len = 4" | "5 \<le> len" using assms by linarith
  then show ?thesis
  proof cases
    case 3
    then show ?thesis
      using assms load_three [of "take 4 (drop off buf)"]
      by (simp add: load_partial_data_def slices min_def)
  next
    case 5
    then show ?thesis
      using assms load_bytes_drop [of len "take 8 (drop off buf)"]
      by (simp add: load_partial_data_def slices min_absorb1 min_absorb2)
  qed (use assms in \<open>simp_all add: load_partial_data_def slices load_bytes\<close>)
qed

lemma unat_be_word: "length bs \<le> 8 \<Longrightarrow> unat (word_of_nat (be_val bs) :: u64) = be_val bs"
  using load_bytes [of bs] be_load_uint [of bs] by simp

lemma load_full_words_eq:
  assumes "m \<le> 4" and "off + 8 * m \<le> length buf" and "\<forall>j < m. to_uint64 r j = 0"
  shows "total (load_full_words L buf off m r)
    (\<lambda>w. unat w = unat r + be_val (take (8 * m) (drop off buf)))"
  using assms
proof (induction m arbitrary: off r)
  case 0
  then show ?case by simp
next
  case (Suc m)
  let ?bs = "take 8 (drop off buf)"
  let ?r = "set_val r (word_of_nat (be_val ?bs)) m"
  have load: "load_partial_data L r buf off 8 m = Some ?r"
    using Suc.prems by (intro load_partial_eq) simp_all
  have r: "unat ?r = unat r + be_val ?bs * 2 ^ (64 * m)"
    using Suc.prems unat_be_word [of ?bs] by (subst unat_set_val_zero) simp_all
  have "\<forall>j < m. to_uint64 ?r j = 0"
    using Suc.prems by (simp add: to_uint64_set_val)
  then have IH: "total (load_full_words L buf (off + 8) m ?r)
      (\<lambda>w. unat w = unat ?r + be_val (take (8 * m) (drop (off + 8) buf)))"
    using Suc.prems by (intro Suc.IH) simp_all
  have "take (8 * Suc m) (drop off buf) = ?bs @ take (8 * m) (drop (off + 8) buf)"
    using take_add [of 8 "8 * m" "drop off buf"] by (simp add: add.commute)
  then have "be_val (take (8 * Suc m) (drop off buf)) =
      be_val ?bs * 256 ^ (8 * m) + be_val (take (8 * m) (drop (off + 8) buf))"
    using Suc.prems by (simp add: be_val_append min_absorb2)
  moreover have "(256::nat) ^ (8 * m) = 2 ^ (64 * m)"
    using power_mult [of "2::nat" 8 "8 * m"] by simp
  ultimately show ?case
    using IH by (auto simp: load r elim!: total_mono)
qed

lemma push_value_eq:
  assumes "1 \<le> len" and "len \<le> 32" and "off + 32 \<le> length buf"
  shows "total (push_value L buf off len) (\<lambda>w. unat w = be_val (take len (drop off buf)))"
proof -
  let ?m = "len div 8" and ?p = "len mod 8"
  have len: "len = ?p + 8 * ?m" and m: "?m \<le> 4" "?p < 8" using assms by simp_all
  have split: "take len (drop off buf) = take ?p (drop off buf) @ take (8 * ?m) (drop (off + ?p) buf)"
    using take_add [of ?p "8 * ?m" "drop off buf"] len by (simp add: add.commute)
  show ?thesis
  proof (cases "?p = 0")
    case True
    then show ?thesis
      using load_full_words_eq [of ?m off buf 0] assms len m
      by (simp add: push_value_def Let_def)
  next
    case False
    let ?bs = "take ?p (drop off buf)"
    have m3: "?m < 4" and fits: "8 * ?m \<le> length buf - (off + ?p)"
      using False assms len m by linarith+
    let ?r = "set_val 0 (word_of_nat (be_val ?bs)) ?m"
    have "load_partial_data L 0 buf off ?p ?m = Some ?r"
      using False assms m by (intro load_partial_eq) simp_all
    moreover have "unat ?r = be_val ?bs * 2 ^ (64 * ?m)"
      using m3 m unat_be_word [of ?bs] by (subst unat_set_val_zero) simp_all
    moreover have "\<forall>j < ?m. to_uint64 ?r j = 0"
      using m3 by (simp add: to_uint64_set_val)
    moreover have "be_val (take len (drop off buf)) =
        be_val ?bs * 256 ^ (8 * ?m) + be_val (take (8 * ?m) (drop (off + ?p) buf))"
      unfolding split using fits by (simp add: be_val_append min_absorb2)
    moreover have "(256::nat) ^ (8 * ?m) = 2 ^ (64 * ?m)"
      using power_mult [of "2::nat" 8 "8 * ?m"] by simp
    ultimately show ?thesis
      using load_full_words_eq [of ?m "off + ?p" buf ?r] False assms len m
      by (auto simp: push_value_def Let_def elim!: total_mono)
  qed
qed

end

text \<open>The loop that logs, and the whole instruction.\<close>

definition push_log :: "int \<Rightarrow> nat \<Rightarrow> nat \<Rightarrow> 'h exec_state \<Rightarrow> rw_operation list" where
  "push_log tp i n s = map (\<lambda>j. stack_entry (call_id s) (nat tp - (i + j)) (length (rw_trace s) + j) True
     (stack_space s ! (nat tp - (i + j)))) [0..<n]"

lemma log_push_step:
  assumes "stack_ready s tp 1" and "int i \<le> tp"
  shows "log_stack_at E s tp (1 + int i) True (int i) =
    Some (s\<lparr>rw_trace := rw_trace s @ push_log tp i 1 s\<rparr>)"
proof -
  have "nat (tp - int i) = nat tp - i" using assms by linarith
  then show ?thesis
    using assms
    by (simp add: stack_prims stack_ready_def stack_limit_def push_log_def)
qed

lemma log_push_loop_eq:
  assumes "stack_ready s tp 1" and "int (i + n) \<le> tp + 1"
  shows "log_push_loop E tp n (int i) s = Some (s\<lparr>rw_trace := rw_trace s @ push_log tp i n s\<rparr>)"
  using assms
proof (induction n arbitrary: i s)
  case 0
  then show ?case by (simp add: push_log_def)
next
  case (Suc n)
  let ?s = "s\<lparr>rw_trace := rw_trace s @ push_log tp i 1 s\<rparr>"
  have step: "log_stack_at E s tp (1 + int i) True (int i) = Some ?s"
    using Suc.prems by (intro log_push_step) simp_all
  have "stack_ready ?s tp 1" using Suc.prems by (simp add: stack_ready_def)
  then have "log_push_loop E tp n (int (Suc i)) ?s =
      Some (?s\<lparr>rw_trace := rw_trace ?s @ push_log tp (Suc i) n ?s\<rparr>)"
    using Suc.prems by (intro Suc.IH) simp_all
  moreover have "int i + 1 = int (Suc i)" by simp
  moreover have "push_log tp i (Suc n) s = push_log tp i 1 s @ push_log tp (Suc i) n ?s"
    by (simp add: push_log_def map_upt_Suc del: upt_Suc)
  ultimately show ?case by (simp add: step add.commute)
qed

lemma log_push_loop_short:
  assumes "stack_ready s tp 1" and "tp + 1 < int (i + n)" and "int i \<le> tp + 1"
  shows "log_push_loop E tp n (int i) s = None"
  using assms
proof (induction n arbitrary: i s)
  case 0
  then show ?case by simp
next
  case (Suc n)
  show ?case
  proof (cases "int i \<le> tp")
    case True
    let ?s = "s\<lparr>rw_trace := rw_trace s @ push_log tp i 1 s\<rparr>"
    have step: "log_stack_at E s tp (1 + int i) True (int i) = Some ?s"
      using Suc.prems True by (intro log_push_step) simp_all
    have "log_push_loop E tp n (int (Suc i)) ?s = None"
      using Suc.prems True by (intro Suc.IH) (simp_all add: stack_ready_def)
    then show ?thesis by (simp add: step add.commute)
  next
    case False
    then have "stack_at s tp (int i) = None" by (simp add: stack_at_def)
    then show ?thesis by (simp add: log_stack_at_def)
  qed
qed

definition push_result :: "nat \<Rightarrow> zkevm_word \<Rightarrow> int \<Rightarrow> 'h exec_state \<Rightarrow> 'h exec_state" where
  "push_result len v tp s =
     (let s = s\<lparr>stack_space := (stack_space s)[nat (tp + 1) := v]\<rparr>
      in s\<lparr>rw_trace := rw_trace s @ push_log (tp + 1) 0 (push_num_words len) s\<rparr>)"

definition push_data :: "nat \<Rightarrow> int \<Rightarrow> 'h exec_state \<Rightarrow> byte list" where
  "push_data len pos s =
     take len (drop (nat (int (executable_offset (analysis s)) + pos + 1)) (code_buffer (analysis s)))"

lemma push_ready:
  assumes api: "intx_api E" and len: "1 \<le> len" "len \<le> 32"
    and ready: "stack_ready s tp 0" "tp < 1023" and pos: "0 \<le> pos"
    and code: "executable_offset (analysis s) + nat pos + 33 \<le> length (code_buffer (analysis s))"
  shows "i_push len E tp s pos =
    (if int (push_num_words len) \<le> tp + 2
     then Some (Some (pos + int len + 1),
       push_result len (word_of_nat (be_val (push_data len pos s))) tp s)
     else None)"
proof -
  let ?buf = "code_buffer (analysis s)"
  let ?off = "nat (int (executable_offset (analysis s)) + pos + 1)"
  have "?off + 32 \<le> length ?buf" using code pos by linarith
  then obtain w where w: "push_value E ?buf ?off len = Some w" "w = word_of_nat (be_val (push_data len pos s))"
    using intx_api.push_value_eq [OF api len, of ?off ?buf]
    by (auto simp: total_iff push_data_def dest: word_of_unat_eq)
  let ?st = "(stack_space s)[nat (tp + 1) := w]"
  have top: "0 \<le> tp + 1" "tp + 1 < int (length (stack_space s))"
    using ready by (simp_all add: stack_ready_def stack_limit_def)
  have set0: "stack_set s (tp + 1) 0 0 = Some (s\<lparr>stack_space := (stack_space s)[nat (tp + 1) := 0]\<rparr>)"
    and set1: "stack_set (s\<lparr>stack_space := (stack_space s)[nat (tp + 1) := 0]\<rparr>) (tp + 1) 0 w =
      Some (s\<lparr>stack_space := ?st\<rparr>)"
    using top by (simp_all add: stack_set_eq)
  have ready1: "stack_ready (s\<lparr>stack_space := ?st\<rparr>) (tp + 1) 1"
    using ready by (simp add: stack_ready_def stack_limit_def)
  have run: "i_push len E tp s pos = do {
      s \<leftarrow> log_push_loop E (tp + 1) (push_num_words len) 0 (s\<lparr>stack_space := ?st\<rparr>);
      Some (Some (pos + int len + 1), s) }"
    using pos w(1) by (simp add: i_push_def stack_push_def set0 set1)
  show ?thesis
    unfolding run
    using log_push_loop_eq [OF ready1, of 0 "push_num_words len" E]
      log_push_loop_short [OF ready1, of 0 "push_num_words len" E] top
    by (simp add: push_result_def w(2) Let_def)
qed

end
