(* ===== verification/Progress.thy ===== *)
theory Progress
  imports Stack_Contracts Gas
begin

text \<open>
  Progress: which instructions never run into an undefined access once the checks before an
  instruction have passed. A state is live when its stack has its full size, its memory is
  well formed and its call identifier is a small one. A handler whose primitives are proved to
  go on from a live state, one rule per primitive, has a result.
\<close>

definition live :: "memory \<Rightarrow> 'h exec_state \<Rightarrow> bool" where
  "live m s \<longleftrightarrow> call_id s < max_call_id \<and> length (stack_space s) = stack_limit \<and>
     memory s = m \<and> mem_wf m"

definition alloc_ok :: "'a libs_scheme \<Rightarrow> bool" where
  "alloc_ok L \<longleftrightarrow> (\<forall>k. malloc_ok L k)"

named_theorems live_rules

subsection \<open>The primitives\<close>

lemma live_updates [simp]:
  "live m (s\<lparr>host := h\<rparr>) = live m s" "live m (s\<lparr>gas_refund := g\<rparr>) = live m s"
  "live m (s\<lparr>m_tx := t\<rparr>) = live m s" "live m (s\<lparr>output_size := n\<rparr>) = live m s"
  "live m (s\<lparr>output_offset := n\<rparr>) = live m s" "live m (s\<lparr>rw_trace := tr\<rparr>) = live m s"
  "live m (s\<lparr>status := st\<rparr>) = live m s"
  by (simp_all add: live_def)

lemma live_memory: "live m s \<Longrightarrow> mem_wf m' \<Longrightarrow> live m' (s\<lparr>memory := m'\<rparr>)"
  by (simp add: live_def)

lemma live_log_storage [simp]: "live m (log_storage s a k w v p) = live m s"
  by (simp add: log_storage_def)

lemma total_True: "total x Q \<Longrightarrow> total x (\<lambda>_. True)"
  by (erule total_mono) simp

lemma total_stack_at:
  "live m s \<Longrightarrow> 0 \<le> tp - i \<Longrightarrow> tp - i < 1024 \<Longrightarrow> total (stack_at s tp i) (\<lambda>_. True)"
  by (simp add: stack_at_eq live_def stack_limit_def)

lemma total_stack_set:
  "live m s \<Longrightarrow> 0 \<le> tp - i \<Longrightarrow> tp - i < 1024 \<Longrightarrow> total (stack_set s tp i v) (live m)"
  by (simp add: stack_set_eq live_def stack_limit_def)

lemma total_log_stack_at:
  assumes "live m s" and "0 \<le> tp - i" and "tp - i < 1024" and "- 1 \<le> tp" and "tp < 1024"
    and "0 \<le> tp + 1 - k" and "tp + 1 - k < 1024"
  shows "total (log_stack_at E s tp k w i) (live m)"
  using assms by (simp add: stack_prims live_def stack_limit_def)

lemma total_push_logged:
  assumes "live m s" and "- 1 \<le> tp" and "tp < 1023"
  shows "total (push_logged E tp v s) (live m)"
  using assms by (simp add: push_logged_def stack_prims live_def stack_limit_def)

lemma total_log_memory: "live m s \<Longrightarrow> total (log_memory E s a w v) (live m)"
  by (simp add: log_memory_def memory_operation_def live_def)

lemma total_log_mem_loop:
  "live m s \<Longrightarrow> (0 < n \<Longrightarrow> base + (j + n) \<le> mem_size m) \<Longrightarrow> total (log_mem_loop E addr base w n j s) (live m)"
proof (induction n arbitrary: j s)
  case 0
  then show ?case by simp
next
  case (Suc n)
  have "total (mem_get (memory s) (base + j)) (\<lambda>_. True)"
    using Suc.prems by (simp add: mem_get_def live_def mem_size_def)
  then show ?case
    unfolding log_mem_loop.simps
    by (elim total_bindI, intro total_bindI [OF total_log_memory [OF Suc.prems(1)]] Suc.IH)
      (use Suc.prems(2) in simp_all)
qed

lemma total_check_memory:
  assumes "live m s" and "alloc_ok E" and "0 \<le> g" and "sz \<le> max_buffer_size"
  shows "total (check_memory E g (memory s) offset sz) (\<lambda>(ok, g', m'). mem_wf m' \<and>
    (ok \<longrightarrow> 0 \<le> g' \<and> lo64 offset + sz \<le> mem_size m'))"
  by (rule total_mono [OF check_memory_total]) (use assms in \<open>auto simp: live_def alloc_ok_def\<close>)

lemma total_check_memory_copy:
  assumes "live m s" and "alloc_ok E" and "0 \<le> g"
  shows "total (check_memory_copy E g (memory s) offset sz) (\<lambda>(ok, g', m'). mem_wf m' \<and>
    (ok \<longrightarrow> 0 \<le> g' \<and> range_ok m' (lo64 offset) (lo64 sz)))"
  by (rule total_mono [OF check_memory_copy_total]) (use assms in \<open>auto simp: live_def alloc_ok_def\<close>)

lemma total_mem_read:
  "live m s \<Longrightarrow> i + n \<le> mem_size m \<Longrightarrow> total (mem_read (memory s) i n) (\<lambda>bs. length bs = n)"
  by (simp add: mem_read_ok live_def mem_size_def)

lemma total_mem_write:
  "mem_wf m \<Longrightarrow> i + length bs \<le> mem_size m \<Longrightarrow>
   total (mem_write m i bs) (\<lambda>m'. mem_wf m' \<and> mem_size m' = mem_size m)"
  using mem_write_ok [of i bs m] mem_write_wf [of m i bs] by (auto simp: total_iff)

lemma total_slice: "i + n \<le> length xs \<Longrightarrow> total (slice_opt xs i n) (\<lambda>ys. length ys = n)"
  by (simp add: slice_opt_Some)

lemma total_word_of_data: "length bs \<le> 32 \<Longrightarrow> total (word_of_data E bs) (\<lambda>_. True)"
  by (simp add: word_of_data_def)

lemma live_memoryD: "live m s \<Longrightarrow> memory s = m \<and> mem_wf m"
  by (simp add: live_def)

subsection \<open>Sequences\<close>

lemma total_bind_check:
  assumes "total c (\<lambda>(ok, g, m). P ok g m)" and "\<And>ok g m. P ok g m \<Longrightarrow> total (f ok g m) Q"
  shows "total (Option.bind c (\<lambda>(ok, g, m). f ok g m)) Q"
  by (rule total_bindI [OF assms(1)]) (use assms(2) in auto)

lemma total_if: "(c \<Longrightarrow> total a Q) \<Longrightarrow> (\<not> c \<Longrightarrow> total b Q) \<Longrightarrow> total (if c then a else b) Q"
  by simp

lemma total_skip: "total (f x) Q \<Longrightarrow> total (Option.bind (Some x) f) Q"
  by simp

text \<open>A branch before the rest of a sequence.\<close>

lemma total_bind_if:
  "(c \<Longrightarrow> total (Option.bind a f) Q) \<Longrightarrow> (\<not> c \<Longrightarrow> total (Option.bind b f) Q) \<Longrightarrow>
   total (Option.bind (if c then a else b) f) Q"
  by simp

lemma total_tx:
  assumes "live m s" and "\<And>tx s'. live m s' \<Longrightarrow> total (f tx s') Q"
  shows "total (case get_tx_context E s of (tx, s') \<Rightarrow> f tx s') Q"
  using assms by (simp add: get_tx_context_def Let_def)

lemma total_cold:
  assumes "live m s" and "\<And>oog g s'. live m s' \<Longrightarrow> total (f oog g s') Q"
  shows "total (case charge_cold_account E s a c g of (oog, g, s') \<Rightarrow> f oog g s') Q"
  using assms by (simp add: charge_cold_account_def host_access_account_def Let_def split_def)

lemma total_cold_storage:
  assumes "live m s" and "\<And>cold s'. live m s' \<Longrightarrow> total (f cold s') Q"
  shows "total (case (if b then case host_access_storage E s a k of (acc, s) \<Rightarrow> (acc = EVMC_ACCESS_COLD, s)
     else (False, s)) of (cold, s') \<Rightarrow> f cold s') Q"
  using assms by (simp add: host_access_storage_def Let_def split_def)

lemma total_host:
  assumes "live m s" and "\<And>r s'. live m s' \<Longrightarrow> total (f r s') Q"
  shows "total (case host_get_balance E s a of (r, s') \<Rightarrow> f r s') Q"
    and "total (case host_get_storage E s a k of (r, s') \<Rightarrow> f r s') Q"
    and "total (case host_get_transient_storage E s a k of (r, s') \<Rightarrow> f r s') Q"
  using assms by (simp_all add: host_defs Let_def split_def)

lemma total_set_storage:
  assumes "live m s" and "\<And>r s'. live m s' \<Longrightarrow> total (f r s') Q"
  shows "total (case host_set_storage E s a k v of (r, s') \<Rightarrow> f r s') Q"
  using assms by (simp add: host_defs Let_def split_def)

lemma total_pair: "(\<And>a b. total (f a b) Q) \<Longrightarrow> total (case p of (a, b) \<Rightarrow> f a b) Q"
  by (cases p) simp

lemmas live_steps = total_stack_at [THEN total_bindI] total_stack_set [THEN total_bindI]
  total_log_stack_at [THEN total_bindI] total_push_logged [THEN total_bindI]
  total_check_memory [THEN total_bind_check] total_check_memory_copy [THEN total_bind_check]
  total_mem_read [THEN total_bindI] total_mem_write [THEN total_bindI]
  total_word_of_data [THEN total_bindI] total_log_mem_loop [THEN total_bindI]
  total_tx total_cold total_cold_storage total_host total_set_storage

lemmas live_ends = total_stack_set [THEN total_True] total_log_stack_at [THEN total_True]
  total_push_logged [THEN total_True]

lemma total_assoc: "total (Option.bind a (\<lambda>x. Option.bind (b x) f)) Q \<Longrightarrow> total (Option.bind (Option.bind a b) f) Q"
  by simp

lemmas live_loop = total_bind_if total_assoc live_steps live_ends total_if

subsection \<open>The handlers\<close>

text \<open>
  What holds when a handler of an instruction that requires \<open>r\<close> items and changes the height by
  \<open>c\<close> is entered: the checks have passed.
\<close>

definition entered :: "int \<Rightarrow> int \<Rightarrow> 'h env \<Rightarrow> int \<Rightarrow> int \<Rightarrow> 'h exec_state \<Rightarrow> bool" where
  "entered r c E tp g s \<longleftrightarrow> intx_api E \<and> alloc_ok E \<and> 0 \<le> g \<and> live (memory s) s \<and> - 1 \<le> tp \<and>
     tp < 1024 \<and> r \<le> tp + 1 \<and> (0 < c \<longrightarrow> tp < 1023)"

lemma enteredD:
  assumes "entered r c E tp g s"
  shows "live (memory s) s" "alloc_ok E" "0 \<le> g" "- 1 \<le> tp" "tp < 1024" "r \<le> tp + 1"
    "0 < c \<Longrightarrow> tp < 1023" "intx_api E"
  using assms by (simp_all add: entered_def)

lemma entered_ready: "entered r c E tp g s \<Longrightarrow> int n \<le> r \<Longrightarrow> stack_ready s tp n"
  by (simp add: entered_def live_def stack_ready_def stack_limit_def)

text \<open>Pushes of a value from the state or the host.\<close>

lemma push_handlers:
  assumes "entered 0 1 E tp g s"
  shows "total (i_address E tp s) (\<lambda>_. True)" "total (i_caller E tp s) (\<lambda>_. True)"
    "total (i_callvalue E tp s) (\<lambda>_. True)" "total (i_calldatasize E tp s) (\<lambda>_. True)"
    "total (i_codesize E tp s) (\<lambda>_. True)" "total (i_returndatasize E tp s) (\<lambda>_. True)"
    "total (i_msize E tp s) (\<lambda>_. True)" "total (i_datasize E tp s) (\<lambda>_. True)"
    "total (i_push0 E tp s) (\<lambda>_. True)" "total (i_selfbalance E tp s) (\<lambda>_. True)"
    "total (i_gas E tp g s) (\<lambda>_. True)"
  unfolding i_address_def i_caller_def i_callvalue_def i_calldatasize_def i_codesize_def
    i_returndatasize_def i_msize_def i_datasize_def i_push0_def i_selfbalance_def i_gas_def Let_def
  by (assumption | rule live_loop | (use enteredD [OF assms] in \<open>simp; fail\<close>))+

lemma tx_handlers:
  assumes "entered 0 1 E tp g s"
  shows "total (i_origin E tp s) (\<lambda>_. True)" "total (i_gasprice E tp s) (\<lambda>_. True)"
    "total (i_basefee E tp s) (\<lambda>_. True)" "total (i_blobbasefee E tp s) (\<lambda>_. True)"
    "total (i_coinbase E tp s) (\<lambda>_. True)" "total (i_timestamp E tp s) (\<lambda>_. True)"
    "total (i_number E tp s) (\<lambda>_. True)" "total (i_prevrandao E tp s) (\<lambda>_. True)"
    "total (i_gaslimit E tp s) (\<lambda>_. True)" "total (i_chainid E tp s) (\<lambda>_. True)"
  unfolding i_origin_def i_gasprice_def i_basefee_def i_blobbasefee_def i_coinbase_def
    i_timestamp_def i_number_def i_prevrandao_def i_gaslimit_def i_chainid_def push_tx_def Let_def
  by (assumption | rule live_loop | (use enteredD [OF assms] in \<open>simp; fail\<close>))+

text \<open>Instructions that replace the top item.\<close>

lemma top_handlers:
  assumes "entered 1 0 E tp g s"
  shows "total (i_calldataload E tp s) (\<lambda>_. True)" "total (i_blobhash E tp s) (\<lambda>_. True)"
    "total (i_blockhash E tp s) (\<lambda>_. True)" "total (i_tload E tp s) (\<lambda>_. True)"
    "total (i_dataload E tp s) (\<lambda>_. True)" "total (i_sload E tp g s) (\<lambda>_. True)"
  unfolding i_calldataload_def i_blobhash_def i_blockhash_def i_tload_def i_dataload_def
    i_sload_def Let_def
  by (assumption | rule live_loop | (use enteredD [OF assms] in \<open>simp; fail\<close>))+

lemma account_query_total:
  assumes "entered 1 0 E tp g s" and "\<And>s a. live m s \<Longrightarrow> live m (snd (query s a))" and "m = memory s"
  shows "total (account_query E tp query g s) (\<lambda>_. True)"
proof -
  have step: "total (case query s' a of (v, s'') \<Rightarrow> f v s'') Q"
    if "live m s'" and "\<And>v s''. live m s'' \<Longrightarrow> total (f v s'') Q" for s' a f and Q :: "'z \<Rightarrow> bool"
    using assms(2) [OF that(1), of a] that(2) by (cases "query s' a") simp
  show ?thesis
    unfolding account_query_def Let_def
    by (assumption | rule step live_loop | (use enteredD [OF assms(1)] assms(3) in \<open>simp; fail\<close>))+
qed

lemma account_handlers:
  assumes "entered 1 0 E tp g s"
  shows "total (i_balance E tp g s) (\<lambda>_. True)" "total (i_extcodesize E tp g s) (\<lambda>_. True)"
    "total (i_extcodehash E tp g s) (\<lambda>_. True)"
  unfolding i_balance_def i_extcodesize_def i_extcodehash_def Let_def
  by (rule account_query_total [OF assms]; simp add: host_defs split_def Let_def)+

lemma storage_handlers:
  assumes "entered 2 (- 2) E tp g s"
  shows "total (i_sstore E tp g s) (\<lambda>_. True)" "total (i_tstore E tp g s) (\<lambda>_. True)"
  unfolding i_sstore_def i_tstore_def Let_def
  by (assumption | rule live_loop | (use enteredD [OF assms] in \<open>simp split: prod.split; fail\<close>))+

lemma exp_total: "entered 2 (- 1) E tp g s \<Longrightarrow> total (i_exp E tp g s) (\<lambda>_. True)"
  unfolding i_exp_def Let_def
  by (assumption | rule live_loop | (drule enteredD, simp; fail))+

text \<open>Memory.\<close>

lemma mload_total:
  assumes "entered 1 0 E tp g s"
  shows "total (i_mload E tp g s) (\<lambda>_. True)"
  unfolding i_mload_def Let_def
  by (assumption | rule live_loop live_memory
    | (use enteredD [OF assms] in \<open>simp add: zkevm_word_size_def max_buffer_size_def; fail\<close>))+

lemma mstore_total:
  assumes "entered 2 (- 2) E tp g s" and "n \<le> 32"
  shows "total (i_mstore n E tp g s) (\<lambda>_. True)"
  unfolding i_mstore_def Let_def
  by (assumption | rule live_loop live_memory
    | (use enteredD [OF assms(1)] assms(2) in \<open>simp add: zkevm_word_size_def max_buffer_size_def intx_api.length_word_store; fail\<close>))+

lemma total_copy_bounds:
  assumes "\<And>a n. a + n \<le> length src \<Longrightarrow> n \<le> lo64 w \<Longrightarrow> total (f a n) Q"
  shows "total (case copy_source_bounds src i w of (a, n) \<Rightarrow> f a n) Q"
  using assms by (auto simp: copy_source_bounds_def Let_def)

lemma copy_input_total:
  assumes "entered 3 (- 3) E tp g s"
  shows "total (copy_input E tp src g s) (\<lambda>_. True)"
  unfolding copy_input_def Let_def
  by (assumption | rule live_loop live_memory total_copy_bounds total_skip
    | (use enteredD [OF assms(1)] in \<open>simp add: range_ok_def; fail\<close>))+

lemma return_total:
  assumes "entered 2 (- 2) E tp g s"
  shows "total (return_impl E tp g s st) (\<lambda>_. True)"
  unfolding return_impl_def Let_def
  by (assumption | rule live_loop live_memory | (use enteredD [OF assms] in \<open>simp; fail\<close>))+

lemma total_selfdestruct_charge:
  assumes "live m s" and "\<And>oog g s'. live m s' \<Longrightarrow> total (f oog g s') Q"
  shows "total (case selfdestruct_charge E b g s of (oog, g, s') \<Rightarrow> f oog g s') Q"
  using assms by (simp add: selfdestruct_charge_def host_defs Let_def split_def)

lemma selfdestruct_total:
  assumes "entered 1 (- 1) E tp g s"
  shows "total (i_selfdestruct E tp g s) (\<lambda>_. True)"
  unfolding i_selfdestruct_def Let_def
  by (assumption | rule live_loop total_selfdestruct_charge total_pair
    | (use enteredD [OF assms] in \<open>simp; fail\<close>))+

subsection \<open>Jumps and positions\<close>

text \<open>
  Where the next instruction is: behind this one, or at a jump destination. The position must
  leave room for the data of a push, which the padding of the code gives.
\<close>

definition lands :: "'h exec_state \<Rightarrow> int \<Rightarrow> byte \<Rightarrow> int option \<Rightarrow> bool" where
  "lands s pos op p \<longleftrightarrow> (case p of None \<Rightarrow> True | Some q \<Rightarrow> q = pos + int (instr_length op) \<or>
     (0 \<le> q \<and> nat q < length (jumpdest_map (analysis s)) \<and> jumpdest_map (analysis s) ! nat q))"

definition room :: "'h exec_state \<Rightarrow> int \<Rightarrow> bool" where
  "room s pos \<longleftrightarrow> 0 \<le> pos \<and> executable_offset (analysis s) + nat pos + 33 \<le> length (code_buffer (analysis s))"

lemma jump_impl_lands: "analysis s' = analysis s \<Longrightarrow> lands s pos op (fst (jump_impl s' dst))"
  by (simp add: jump_impl_def lands_def Let_def)

lemma frame_log_analysis: "log_stack_at E s tp k w i = Some s' \<Longrightarrow> analysis s' = analysis s"
  by (auto simp: log_stack_at_def log_stack_def bind_eq_Some_conv)

lemma total_log_analysis:
  assumes "live m s" and "0 \<le> tp - i" and "tp - i < 1024" and "- 1 \<le> tp" and "tp < 1024"
    and "0 \<le> tp + 1 - k" and "tp + 1 - k < 1024"
  shows "total (log_stack_at E s tp k w i) (\<lambda>s'. live m s' \<and> analysis s' = analysis s)"
  using total_log_stack_at [OF assms, of E w] by (auto simp: total_iff dest: frame_log_analysis)

lemma jump_total:
  assumes "entered 1 (- 1) E tp g s"
  shows "total (i_jump E tp s pos) (\<lambda>(p, _). lands s pos op p)"
  unfolding i_jump_def Let_def
  by (rule total_log_analysis [THEN total_bindI] total_stack_at [THEN total_bindI]
    | (use enteredD [OF assms] jump_impl_lands in \<open>force simp: split_def\<close>))+

lemma jumpi_total:
  assumes "entered 2 (- 2) E tp g s" and "instr_length op = 1"
  shows "total (i_jumpi E tp s pos) (\<lambda>(p, _). lands s pos op p)"
  unfolding i_jumpi_def Let_def
  by (rule total_log_analysis [THEN total_bindI] total_stack_at [THEN total_bindI]
    | (use enteredD [OF assms(1)] assms(2) jump_impl_lands in \<open>force simp: split_def lands_def\<close>))+

lemma pc_total:
  assumes "entered 0 1 E tp g s" and "instr_length op = 1"
  shows "total (i_pc E tp s pos) (\<lambda>(p, _). lands s pos op p)"
  unfolding i_pc_def
  by (rule total_push_logged [THEN total_bindI]
    | (use enteredD [OF assms(1)] assms(2) in \<open>force simp: lands_def\<close>))+

lemma push_total:
  assumes "entered 0 1 E tp g s" and "room s pos" and "len = 1 \<or> len = 32" and "instr_length op = len + 1"
  shows "total (i_push len E tp s pos) (\<lambda>(p, _). lands s pos op p)"
proof -
  have "push_num_words len = 1" using assms(3) by (auto simp: push_num_words_def zkevm_word_size_def)
  moreover have "stack_ready s tp 0" using entered_ready [OF assms(1), of 0] by simp
  ultimately show ?thesis
    using push_ready [of E len s tp pos] enteredD [OF assms(1)] assms(2-4)
    by (auto simp: lands_def room_def)
qed

subsection \<open>Every other handler\<close>

text \<open>
  The instructions left out: \<open>KECCAK256\<close>, \<open>MCOPY\<close> and most pushes can read outside the memory
  or below the stack, the calls and \<open>EXTCODECOPY\<close> depend on what the host returns,
  \<open>RETURNDATACOPY\<close> on the size of the returned data, and \<open>SWAP\<close>, \<open>DUP\<close> and the EOF
  instructions on operands that only a validation can check.
\<close>

definition unsafe_opcodes :: "byte list" where
  "unsafe_opcodes = [OP_KECCAK256, OP_MCOPY, OP_EXTCODECOPY, OP_RETURNDATACOPY, OP_CREATE, OP_CALL,
     OP_CALLCODE, OP_DELEGATECALL, OP_CREATE2, OP_STATICCALL, OP_PUSH2, OP_PUSH3, OP_PUSH4,
     OP_PUSH5, OP_PUSH6, OP_PUSH7, OP_PUSH8, OP_PUSH9, OP_PUSH10, OP_PUSH11, OP_PUSH12, OP_PUSH13,
     OP_PUSH14, OP_PUSH15, OP_PUSH16, OP_PUSH17, OP_PUSH18, OP_PUSH19, OP_PUSH20, OP_PUSH21,
     OP_PUSH22, OP_PUSH23, OP_PUSH24, OP_PUSH25, OP_PUSH26, OP_PUSH27, OP_PUSH28, OP_PUSH29,
     OP_PUSH30, OP_PUSH31, OP_SWAP, OP_DUP, OP_RJUMP, OP_RJUMPI, OP_RJUMPV, OP_CALLF, OP_RETF,
     OP_JUMPF, OP_DUPN, OP_SWAPN, OP_DATALOADN, OP_DATACOPY]"

definition fn_progress :: "byte \<Rightarrow> 'h instr_fn \<Rightarrow> bool" where
  "fn_progress op fn \<longleftrightarrow> (\<forall>E tp g s pos.
     entered (stack_height_required (traits op)) (stack_height_change (traits op)) E tp g s \<and> room s pos \<longrightarrow>
     total (invoke_fn E fn pos tp g s) (\<lambda>(p, _, _). lands s pos op p))"

text \<open>The rules have the traits of the instruction as premises.\<close>

abbreviation (input) heights :: "byte \<Rightarrow> int \<Rightarrow> int \<Rightarrow> bool" where
  "heights op r c \<equiv> stack_height_required (traits op) = r \<and> stack_height_change (traits op) = c"

lemma progress_void: "instr_length op = 1 \<Longrightarrow> fn_progress op (Fn_void f)"
  by (simp add: fn_progress_def lands_def)

lemma progress_state:
  assumes "heights op r c" and "instr_length op = 1"
    and "\<And>E tp g s. entered r c E tp g s \<Longrightarrow> total (f E tp s) (\<lambda>_. True)"
  shows "fn_progress op (Fn_state f)"
  using assms by (fastforce simp: fn_progress_def lands_def total_iff)

lemma progress_result:
  assumes "heights op r c" and "instr_length op = 1"
    and "\<And>E tp g s. entered r c E tp g s \<Longrightarrow> total (f E tp g s) (\<lambda>_. True)"
  shows "fn_progress op (Fn_result f)"
  using assms by (fastforce simp: fn_progress_def lands_def total_iff)

lemma progress_term:
  assumes "heights op r c" and "\<And>E tp g s. entered r c E tp g s \<Longrightarrow> total (f E tp g s) (\<lambda>_. True)"
  shows "fn_progress op (Fn_term f)"
  using assms by (fastforce simp: fn_progress_def lands_def total_iff)

lemma progress_jump:
  assumes "heights op r c" and "\<And>E tp g s pos. entered r c E tp g s \<Longrightarrow> room s pos \<Longrightarrow>
      total (f E tp s pos) (\<lambda>(p, _). lands s pos op p)"
  shows "fn_progress op (Fn_jump f)"
  using assms by (fastforce simp: fn_progress_def total_iff)

subsection \<open>The safe instructions\<close>

lemma operand_totals:
  assumes "entered 2 (- 1) E tp g s"
  shows "total (i_add E tp s) (\<lambda>_. True)" "total (i_mul E tp s) (\<lambda>_. True)"
    "total (i_sub E tp s) (\<lambda>_. True)" "total (i_div E tp s) (\<lambda>_. True)"
    "total (i_sdiv E tp s) (\<lambda>_. True)" "total (i_mod E tp s) (\<lambda>_. True)"
    "total (i_smod E tp s) (\<lambda>_. True)" "total (i_signextend E tp s) (\<lambda>_. True)"
    "total (i_lt E tp s) (\<lambda>_. True)" "total (i_gt E tp s) (\<lambda>_. True)"
    "total (i_slt E tp s) (\<lambda>_. True)" "total (i_sgt E tp s) (\<lambda>_. True)"
    "total (i_eq E tp s) (\<lambda>_. True)" "total (i_and E tp s) (\<lambda>_. True)"
    "total (i_or E tp s) (\<lambda>_. True)" "total (i_xor E tp s) (\<lambda>_. True)"
    "total (i_byte E tp s) (\<lambda>_. True)" "total (i_shl E tp s) (\<lambda>_. True)"
    "total (i_shr E tp s) (\<lambda>_. True)" "total (i_sar E tp s) (\<lambda>_. True)"
  using entered_ready [OF assms, of 2] by (simp_all add: arith2_handlers arith2_ready)

lemma unary_totals:
  assumes "entered 1 0 E tp g s"
  shows "total (i_iszero E tp s) (\<lambda>_. True)" "total (i_not E tp s) (\<lambda>_. True)"
  using entered_ready [OF assms, of 1] by (simp_all add: i_iszero_def i_not_def arith1_ready)

lemma ternary_totals:
  assumes "entered 3 (- 2) E tp g s"
  shows "total (i_addmod E tp s) (\<lambda>_. True)" "total (i_mulmod E tp s) (\<lambda>_. True)"
  using entered_ready [OF assms, of 3] by (simp_all add: addmod_ready mulmod_ready)

lemma dup_total: "entered (int n) 1 E tp g s \<Longrightarrow> 0 < n \<Longrightarrow> total (i_dup n E tp s) (\<lambda>_. True)"
  using entered_ready [of "int n" 1 E tp g s n] enteredD(7) [of "int n" 1 E tp g s] by (simp add: dup_ready)

lemma swap_total: "entered (int (Suc n)) 0 E tp g s \<Longrightarrow> 0 < n \<Longrightarrow> total (i_swap n E tp s) (\<lambda>_. True)"
  using entered_ready [of "int (Suc n)" 0 E tp g s "Suc n"] by (simp add: swap_ready)

lemma input_copies:
  assumes "entered 3 (- 3) E tp g s"
  shows "total (i_calldatacopy E tp g s) (\<lambda>_. True)" "total (i_codecopy E tp g s) (\<lambda>_. True)"
  using copy_input_total [OF assms] by (simp_all add: i_calldatacopy_def i_codecopy_def)

lemma mstore_totals:
  assumes "entered 2 (- 2) E tp g s"
  shows "total (i_mstore 32 E tp g s) (\<lambda>_. True)" "total (i_mstore 1 E tp g s) (\<lambda>_. True)"
    "total (i_mstore 2 E tp g s) (\<lambda>_. True)" "total (i_mstore 4 E tp g s) (\<lambda>_. True)"
    "total (i_mstore 8 E tp g s) (\<lambda>_. True)"
  by (rule mstore_total [OF assms]; simp)+

lemma ends_total:
  "entered 0 0 E tp g s \<Longrightarrow> total (i_stop E tp g s) (\<lambda>_. True)"
  "entered 0 0 E tp g s \<Longrightarrow> total (i_invalid E tp g s) (\<lambda>_. True)"
  "entered 2 (- 2) E tp g s \<Longrightarrow> total (i_return E tp g s) (\<lambda>_. True)"
  "entered 2 (- 2) E tp g s \<Longrightarrow> total (i_revert E tp g s) (\<lambda>_. True)"
  using return_total
  by (simp_all add: i_stop_def i_invalid_def stop_impl_def i_return_def i_revert_def)

lemma gas_total: "entered 0 1 E tp g s \<Longrightarrow> total (i_gas E tp g s) (\<lambda>_. True)"
  by (rule push_handlers)

lemma sload_total: "entered 1 0 E tp g s \<Longrightarrow> total (i_sload E tp g s) (\<lambda>_. True)"
  by (rule top_handlers)

lemma log_total: "entered 3 (- 3) E tp g s \<Longrightarrow> total (i_log E tp s) (\<lambda>_. True)"
  by (simp add: i_log_def)

lemmas progress_states = operand_totals unary_totals ternary_totals push_handlers(1-10) tx_handlers
  top_handlers(1-5) log_total
lemmas progress_results = exp_total gas_total sload_total account_handlers storage_handlers
  mload_total mstore_totals input_copies
lemmas progress_terms = ends_total selfdestruct_total

lemmas safe_rules = progress_states [THEN progress_state [rotated 2]]
  progress_results [THEN progress_result [rotated 2]] progress_terms [THEN progress_term [rotated 1]]
  dup_total [THEN progress_state [rotated 2]] swap_total [THEN progress_state [rotated 2]]
  jump_total [THEN progress_jump [rotated 1]] progress_void

lemma progress_positions:
  "heights op 2 (- 2) \<Longrightarrow> instr_length op = 1 \<Longrightarrow> fn_progress op (Fn_jump i_jumpi)"
  "heights op 0 1 \<Longrightarrow> instr_length op = 1 \<Longrightarrow> fn_progress op (Fn_jump i_pc)"
  "heights op 0 1 \<Longrightarrow> instr_length op = 2 \<Longrightarrow> fn_progress op (Fn_jump (i_push 1))"
  "heights op 0 1 \<Longrightarrow> instr_length op = 33 \<Longrightarrow> fn_progress op (Fn_jump (i_push 32))"
  by (erule progress_jump, simp add: jumpi_total pc_total push_total)+

lemma safe_opcodes_progress:
  "list_all (\<lambda>(op, fn). op \<in> set unsafe_opcodes \<or> fn_progress op fn) map_opcodes"
  unfolding map_opcodes_def map_opcodes_to_push0_def map_opcodes_from_push1_def
    append.simps list.pred_inject prod.case
  by (intro conjI TrueI list.pred_inject(1);
      ((rule disjI1, simp add: unsafe_opcodes_def; fail)
       | (rule disjI2, rule safe_rules progress_positions; simp add: op_traits_facts mk_traits_def instr_length_def; fail)))

subsection \<open>An instruction has a result\<close>

lemma check_requirements_total:
  "ndebug L \<Longrightarrow> total (check_requirements L ct g tp op) (\<lambda>_. True)"
  by (simp add: check_requirements_def cassert_def Let_def)

lemma invoke_progress:
  fixes E :: "'h env"
  assumes env: "ndebug E" "intx_api E" "alloc_ok E" and s: "live (memory s) s" "room s pos"
    and top: "- 1 \<le> tp" "tp < 1024" and safe: "op \<notin> set unsafe_opcodes"
  shows "total (invoke E (get_baseline_cost_table r v) pos tp g s op) (\<lambda>(p, _). lands s pos op p)"
proof -
  obtain st g1 where req: "check_requirements E (get_baseline_cost_table r v) g tp op = Some (st, g1)"
    using check_requirements_total [OF env(1), of "get_baseline_cost_table r v" g tp op]
    by (auto simp: total_iff)
  show ?thesis
  proof (cases "map_of (map_opcodes :: (byte \<times> 'h instr_fn) list) op")
    case None
    then show ?thesis using req by (simp add: invoke_def lands_def)
  next
    case (Some fn)
    have "fn_progress op fn"
      using map_of_SomeD [OF Some] safe safe_opcodes_progress by (auto simp: list_all_iff)
    moreover have "entered (stack_height_required (traits op)) (stack_height_change (traits op)) E tp g1 s"
      if "st = EVMC_SUCCESS"
      using req that env s(1) top handler_cost [OF Some, of E r v g tp g1]
        check_requirements_top [of E "get_baseline_cost_table r v" g tp op g1]
      by (simp add: entered_def)
    ultimately have "st = EVMC_SUCCESS \<Longrightarrow> total (invoke_fn E fn pos tp g1 s) (\<lambda>(p, _, _). lands s pos op p)"
      using s(2) by (simp add: fn_progress_def)
    then show ?thesis using req Some by (auto simp: invoke_def total_iff lands_def)
  qed
qed

lemma invoke_stop:
  assumes "ndebug E"
  shows "total (invoke E ct pos tp g s OP_STOP) (\<lambda>(p, _). p = None)"
  using check_requirements_total [OF assms, of ct g tp OP_STOP]
  by (auto simp: invoke_def total_iff map_opcodes_def map_opcodes_to_push0_def i_stop_def stop_impl_def)

subsection \<open>Runs over safe code\<close>

text \<open>No instruction of the code is one of the unsafe ones; the data of pushes may be anything.\<close>

definition safe_from :: "byte list \<Rightarrow> nat \<Rightarrow> bool" where
  "safe_from code i \<longleftrightarrow> (\<forall>j < length code. instr_start code i j \<longrightarrow> code ! j \<notin> set unsafe_opcodes)"

definition safe_code :: "byte list \<Rightarrow> bool" where
  "safe_code code \<longleftrightarrow> safe_from code 0"

text \<open>A scan decides it.\<close>

lemma safe_from_step:
  "safe_from code i \<longleftrightarrow>
     (if i < length code then code ! i \<notin> set unsafe_opcodes \<and> safe_from code (i + instr_length (code ! i))
      else True)"
  by (auto simp: safe_from_def instr_start_iff dest: instr_start_le)

text \<open>The positions of a run are starts of instructions, or lie in the padding.\<close>

definition safe_config :: "byte list \<Rightarrow> int \<Rightarrow> int \<Rightarrow> 'h exec_state \<Rightarrow> bool" where
  "safe_config code pos tp s \<longleftrightarrow> live (memory s) s \<and> - 1 \<le> tp \<and> tp < 1024 \<and>
     analysis s = analyze_legacy code \<and> 0 \<le> pos \<and> pos \<le> int (length code) + 32 \<and>
     instr_start code 0 (nat pos)"

lemma instr_start_next:
  "instr_start code i j \<Longrightarrow> j < length code \<Longrightarrow> instr_start code i (j + instr_length (code ! j))"
  by (induction rule: instr_start.induct) (auto intro: instr_start.intros)

lemma instr_length_le: "instr_length op \<le> 33"
  by (auto simp: instr_length_def word_le_nat_alt)

lemma padded_code_byte:
  assumes "analysis s = analyze_legacy code" and "0 \<le> pos" and "pos \<le> int (length code) + 32"
  shows "code_byte s pos = Some (if nat pos < length code then code ! nat pos else OP_STOP)"
  using assms by (auto simp: code_byte_def analyze_legacy_def pad_code_def code_padding_def nth_append)

lemma lands_safe:
  assumes c: "safe_config code pos tp s" and pos: "nat pos < length code"
    and lands: "lands s pos (code ! nat pos) (Some q)"
  shows "0 \<le> q \<and> q \<le> int (length code) + 32 \<and> instr_start code 0 (nat q)"
proof (cases "q = pos + int (instr_length (code ! nat pos))")
  case True
  then have "nat q = nat pos + instr_length (code ! nat pos)"
    using c by (simp add: safe_config_def nat_add_distrib)
  then show ?thesis
    using True c pos instr_length_le [of "code ! nat pos"] instr_start_next [of code 0 "nat pos"]
    by (auto simp: safe_config_def)
next
  case False
  then have "0 \<le> q \<and> nat q < length code \<and> valid_jumpdest code (nat q)"
    using lands c analyze_jumpdests_valid [of "nat q" code]
    by (auto simp: lands_def safe_config_def analyze_legacy_def)
  then show ?thesis by (auto simp: valid_jumpdest_def)
qed

lemma live_frame: "live (memory s) s \<Longrightarrow> frame s s' \<Longrightarrow> live (memory s') s'"
  by (simp add: live_def frame_def mem_kept_def)

text \<open>
  One turn: the byte is there, the instruction has a result, and the run goes on from a safe
  configuration with less weight or is over.
\<close>

lemma safe_turn:
  fixes E :: "'h env"
  assumes env: "ndebug E" "intx_api E" "alloc_ok E" and code: "safe_code code"
    and c: "safe_config code pos tp s"
  obtains op p tp' g' s' where "code_byte s pos = Some op"
    and "invoke E (get_baseline_cost_table r v) pos tp g s op = Some (p, tp', g', s')"
    and "\<And>q. p = Some q \<Longrightarrow> safe_config code q tp' s' \<and> weight tp' g' < weight tp g"
proof (cases "nat pos < length code")
  case False
  obtain tp' g' s' where "invoke E (get_baseline_cost_table r v) pos tp g s OP_STOP = Some (None, tp', g', s')"
    using invoke_stop [OF env(1), of "get_baseline_cost_table r v" pos tp g s] by (auto simp: total_iff)
  moreover have "code_byte s pos = Some OP_STOP"
    using c False by (simp add: padded_code_byte safe_config_def)
  ultimately show ?thesis using that by blast
next
  case True
  let ?op = "code ! nat pos"
  have byte: "code_byte s pos = Some ?op"
    using c True by (simp add: padded_code_byte safe_config_def)
  have safe: "?op \<notin> set unsafe_opcodes"
    using c code True by (simp add: safe_code_def safe_from_def safe_config_def)
  have "room s pos"
    using c True by (auto simp: room_def safe_config_def analyze_legacy_def pad_code_def code_padding_def)
  then obtain p tp' g' s' where run: "invoke E (get_baseline_cost_table r v) pos tp g s ?op = Some (p, tp', g', s')"
    and lands: "lands s pos ?op p"
    using invoke_progress [OF env _ _ _ _ safe, of s pos tp r v g] c
    by (auto simp: total_iff safe_config_def)
  have "op_gas_ok E ?op"
    using safe by (auto simp: op_gas_ok_def call_opcodes_def unsafe_opcodes_def)
  then have "safe_config code q tp' s' \<and> weight tp' g' < weight tp g" if "p = Some q" for q
    using lands_safe [OF c True] lands run that c invoke_weight [of E ?op tp r v pos g s q tp' g' s']
      invoke_top [of E "get_baseline_cost_table r v" pos tp g s ?op q tp' g' s']
      postD [OF frame_invoke run] live_frame [of s s']
    by (auto simp: safe_config_def frame_def)
  then show ?thesis using that byte run by blast
qed

lemma safe_loop:
  assumes "ndebug E" and "intx_api E" and "alloc_ok E" and "safe_code code"
  shows "safe_config code pos tp s \<Longrightarrow> weight tp g < n \<Longrightarrow>
    \<exists>r'. dispatch_loop n E (get_baseline_cost_table r v) pos tp g s = Done r'"
proof (induction n arbitrary: pos tp g s)
  case 0
  then show ?case by simp
next
  case (Suc n)
  obtain op p tp' g' s' where *: "code_byte s pos = Some op"
    "invoke E (get_baseline_cost_table r v) pos tp g s op = Some (p, tp', g', s')"
    "\<And>q. p = Some q \<Longrightarrow> safe_config code q tp' s' \<and> weight tp' g' < weight tp g"
    by (rule safe_turn [OF assms Suc.prems(1), of r v g]) blast
  show ?case
  proof (cases p)
    case None
    then show ?thesis using * by simp
  next
    case (Some q)
    then have "\<exists>r'. dispatch_loop n E (get_baseline_cost_table r v) q tp' g' s' = Done r'"
      using *(3) Suc.prems(2) by (intro Suc.IH) force+
    then show ?thesis using * Some by simp
  qed
qed

text \<open>The constructor makes a live state.\<close>

lemma init_live:
  assumes "exec_state_init E m r ctx code data cid an = Some s" and "cid < max_call_id"
  shows "live (memory s) s \<and> analysis s = an \<and> rw_trace s = [] \<and> call_id s = cid"
  using assms by (auto simp: exec_state_init_def mem_new_def allocate_capacity_def live_def mem_wf_def
      mem_size_def page_size_def bind_eq_Some_conv split: if_splits)

lemma init_safe_config:
  assumes "exec_state_init E m r ctx code data cid (analyze_legacy code) = Some s" and "cid < max_call_id"
  shows "safe_config code 0 stack_bottom s"
  using init_live [OF assms] by (simp add: safe_config_def instr_start.here)

end
