(* ===== verification/Machine_Properties.thy ===== *)
theory Machine_Properties
  imports Memory_Trace Stack_Replay Progress
begin

text \<open>
  Properties of the interpreter loop and of the analysis of the code.
\<close>

subsection \<open>Jump destinations\<close>

text \<open>
  C12. The bitmap that the scan of legacy code computes is the set of valid jump destinations:
  it has one bit per byte, and the bit of a position is set exactly when a \<open>JUMPDEST\<close> is
  there and an instruction starts there, the data of \<open>PUSH\<close> instructions being skipped.
\<close>

theorem jumpdests_valid:
  "length (analyze_jumpdests code) = length code \<and>
   (\<forall>d < length code. analyze_jumpdests code ! d \<longleftrightarrow> valid_jumpdest code d)"
  by (simp add: analyze_jumpdests_valid)

theorem jumpdests_valid_witness:
  "analyze_jumpdests [0x60, 0x5b, 0x5b] ! 2 \<and> \<not> analyze_jumpdests [0x60, 0x5b, 0x5b] ! 1"
proof -
  have "valid_jumpdest [0x60, 0x5b, 0x5b] 2" "\<not> valid_jumpdest [0x60, 0x5b, 0x5b] 1"
    by (auto simp: valid_jumpdest_def instr_start_iff instr_length_def dest: instr_start_le)
  then show ?thesis
    using jumpdests_valid [of "[0x60, 0x5b, 0x5b]"] by simp
qed

subsection \<open>Requirements\<close>



subsection \<open>The loop\<close>


lemma stop_turn:
  "dispatch (Suc n) sample_env (gas_costs EVMC_CANCUN) (sample_state [OP_STOP] []) 3 =
     Done (3, sample_state [OP_STOP] [])"
proof -
  have "has_const_gas_cost OP_STOP" "gas_costs EVMC_FRONTIER OP_STOP = 0"
      "stack_height_change (traits OP_STOP) = 0" "stack_height_required (traits OP_STOP) = 0"
    by code_simp+
  then have "check_requirements sample_env ct 3 stack_bottom OP_STOP = Some (EVMC_SUCCESS, 3)" for ct
    by (subst check_requirements_eq) (simp_all add: instr_cost_def undefined_cost_def)
  then have "invoke sample_env ct 0 stack_bottom 3 (sample_state [OP_STOP] []) OP_STOP =
      Some (None, stack_bottom + stack_height_change (traits OP_STOP), 3, sample_state [OP_STOP] [])" for ct
    by (simp add: invoke_def map_opcodes_def map_opcodes_to_push0_def i_stop_def stop_impl_def)
  then show ?thesis
    using sample_code_byte [of 0 "[OP_STOP]" "[]"] by (simp add: dispatch_def)
qed


text \<open>
  C1. The trace of a run: starting from the state the constructor makes, whatever the code, the
  host and the instructions that run, the trace that \<open>dispatch\<close> leaves is numbered by its
  positions, all of its entries carry the call identifier of the run, and the message, the
  revision and the code are the ones the run started with; the memory stays well formed, and
  the output of the call is a range of it.
\<close>

theorem run_trace_numbered:
  assumes "exec_state_init E m r ctx code data cid an = Some s"
    and "dispatch fuel E ct s g = Done (g', s')"
  shows "map rw_id (rw_trace s') = [0..<length (rw_trace s')] \<and>
     (\<forall>e \<in> set (rw_trace s'). rw_call_id e = cid) \<and>
     msg s' = m \<and> revision s' = r \<and> analysis s' = an \<and> mem_wf (memory s') \<and>
     range_ok (memory s') (output_offset s') (output_size s')"
proof -
  have s: "rw_trace s = []" "call_id s = cid" "msg s = m" "revision s = r" "analysis s = an"
      "mem_wf (memory s)" "output_size s = 0"
    using assms(1)
    by (auto simp: exec_state_init_def mem_new_def allocate_capacity_def bind_eq_Some_conv
        mem_wf_def mem_size_def page_size_def split: if_splits)
  have "frame s s'" using assms(2) by (auto simp: dispatch_def dest: frame_dispatch_loop)
  moreover have "traced s" by (simp add: traced_def s)
  ultimately show ?thesis
    using traced_frame [of s s'] s
    by (simp add: traced_def frame_def ids_ok_def mem_kept_def output_in_def range_ok_def)
qed

theorem run_trace_numbered_witness:
  "map rw_id (rw_trace (sample_state [OP_STOP] [])) = [] \<and>
   mem_wf (memory (sample_state [OP_STOP] []))"
  using run_trace_numbered [OF sample_init [of "[OP_STOP]"] stop_turn [of 0]] by simp

text \<open>
  C10. The stack pointer never leaves the stack: in every configuration a run passes through it
  lies between the pointer below the first slot and the last of the 1024 slots, and a turn
  that goes on started with the operands its instruction requires.
\<close>

theorem stack_pointer_bounded:
  assumes "reaches E ct (start_config s g) c"
  shows "stack_bottom \<le> c_top c \<and> c_top c < int stack_limit \<and>
     (\<forall>op c'. code_byte (c_state c) (c_pos c) = Some op \<and> step E ct c c' \<longrightarrow>
        stack_height_required (traits op) \<le> c_top c + 1)"
proof -
  have b: "stack_bounded c" using reaches_bounded [OF assms start_bounded] .
  have "stack_height_required (traits op) \<le> c_top c + 1"
    if "code_byte (c_state c) (c_pos c) = Some op" "step E ct c c'" for op c'
    using that b check_requirements_top [of E ct "c_gas c" "c_top c" op]
    by (auto simp: step_iff turn_def invoke_def stack_bounded_def stack_limit_def
        bind_eq_Some_conv split: option.splits if_splits)
  then show ?thesis using b by (auto simp: stack_bounded_def)
qed

theorem stack_pointer_bounded_witness:
  "c_top (start_config (sample_state [OP_STOP] []) 3) < int stack_limit"
  using stack_pointer_bounded [of sample_env "gas_costs EVMC_CANCUN" "sample_state [OP_STOP] []" 3
      "start_config (sample_state [OP_STOP] []) 3"]
  by (simp add: reaches_def)

subsection \<open>The trace replays to the stack and the memory\<close>







end
