(* ===== verification/Instruction_Properties.thy ===== *)
theory Instruction_Properties
  imports Stack_Contracts
begin

text \<open>
  Properties of the instructions that work on the stack. \<open>sample_state code stack\<close> of the
  witnesses is the state in which the interpreter starts, with the given slots filled.
\<close>

subsection \<open>Instructions on operands\<close>

text \<open>
  C11. Every instruction of \<open>operand_table\<close> computes the function the table gives: if the
  operands are there and the base cost can be paid, a turn of the interpreter moves on by one
  byte, pops the operands, charges the base cost, and leaves the value of the function in the
  slot of the deepest operand, the operands logged as reads and the value as a write.
\<close>

theorem operand_instructions:
  assumes "intx_api E" and "(op, n, f) \<in> set operand_table" and "stack_ready s tp n"
    and "0 \<le> instr_cost ct op" and "instr_cost ct op \<le> g"
  shows "invoke E ct pos tp g s op =
     Some (Some (pos + 1), tp + 1 - int n, g - instr_cost ct op,
       operand_result n (f (map (\<lambda>i. stack_space s ! (nat tp - i)) [0..<n])) tp s)"
proof -
  obtain h where h: "map_of operand_handlers op = Some h" "operand_handler (h E) n f"
    using operand_contract [OF assms(1,2)] by blast
  have "check_requirements E ct g tp op = Some (EVMC_SUCCESS, g - instr_cost ct op)"
    using assms(3-5) operand_traits [OF assms(2)]
    by (subst check_requirements_eq)
      (auto simp: stack_ready_def stack_limit_def instr_cost_def undefined_cost_def split: if_splits)
  then show ?thesis
    using operand_opcode [OF assms(2) h(1)] operand_traits [OF assms(2)]
      operand_handler.run_ready [OF h(2) assms(3)]
    by (simp add: invoke_def)
qed

theorem operand_instructions_witness:
  "\<exists>s'. invoke sample_env (gas_costs EVMC_CANCUN) 0 1 5 (sample_state [OP_ADD] [3, 5]) OP_ADD =
     Some (Some 1, 0, 2, s') \<and> stack_space s' ! 0 = 8"
proof -
  have cost: "instr_cost (gas_costs EVMC_CANCUN) OP_ADD = 3" by code_simp
  have mem: "(OP_ADD, 2, \<lambda>xs. xs ! 0 + xs ! 1) \<in> set operand_table"
    by (simp add: operand_table_def)
  show ?thesis
    using operand_instructions [OF sample_api(1) mem sample_ready [of 2 1 "[3, 5]" "[OP_ADD]"],
        of "gas_costs EVMC_CANCUN" 5 0]
    by (simp add: cost cost [simplified] operand_result_def operand_slot_def upt_rec stack_limit_def)
qed

text \<open>
  These instructions keep the trace in agreement with the stack: if replaying the trace
  gives the contents of all slots in use and every logged read agrees with the replay, then
  the same holds after the instruction.
\<close>

theorem operand_traces_agree:
  assumes "intx_api E" and "(op, n, f) \<in> set operand_table" and "stack_ready s tp n"
    and "synced s (nat (tp + 1))" and "map_of operand_handlers op = Some h"
  shows "total (h E tp s) (\<lambda>s'. synced s' (nat (tp + 1 - int n + 1)))"
proof -
  have h: "operand_handler (h E) n f"
    using operand_contract [OF assms(1,2)] assms(5) by auto
  have "operand_slot n tp + 1 = nat (tp + 1 - int n + 1)"
    using assms(3) operand_traits [OF assms(2)]
    by (simp add: operand_slot_def stack_ready_def) linarith
  then show ?thesis
    using operand_handler.run_synced [OF h assms(3,4)] by simp
qed

theorem operand_traces_agree_witness:
  "total (i_iszero sample_env 0 (sample_state [] [0])) (\<lambda>s'. synced s' 1)"
proof -
  have mem: "(OP_ISZERO, 1, \<lambda>xs. of_bool (xs ! 0 = 0)) \<in> set operand_table"
    by (simp add: operand_table_def)
  have "synced (sample_state [] [0]) 1"
    by (simp add: synced_def zero_stack_def)
  then show ?thesis
    using operand_traces_agree [OF sample_api(1) mem sample_ready [of 1 0 "[0]" "[]"], of i_iszero]
    by (simp add: handler_lookup)
qed

subsection \<open>Instructions that do not compute what they are named for\<close>

text \<open>
  C25. \<open>SAR\<close> is not an arithmetic shift: the test for a negative operand compares an unsigned limb
  with 0, so the result is that of \<open>SHR\<close> for every operand, and shifting \<open>-1\<close> by one
  gives \<open>2 ^ 255 - 1\<close>.
\<close>

theorem sar_is_shr:
  "(map_of map_opcodes OP_SAR :: 'h instr_fn option) = Some (Fn_state i_sar) \<and>
   (i_sar :: 'h env \<Rightarrow> int \<Rightarrow> 'h exec_state \<Rightarrow> 'h exec_state option) = i_shr \<and>
   sar_word 1 (- 1) = 2 ^ 255 - 1"
proof -
  have "sar_word 1 (- 1) = 2 ^ 255 - 1"
    by (simp add: sar_word_shr zw_shr_def drop_bit_eq_div)
  moreover have "sar_word = (\<lambda>y x. zw_shr x y)"
    by (intro ext) (rule sar_word_shr)
  ultimately show ?thesis
    by (simp add: map_opcodes_def map_opcodes_to_push0_def i_sar_def i_shr_def)
qed

text \<open>
  C24. \<open>SIGNEXTEND\<close> of a word from byte \<open>ext < 31\<close>: the limbs above the one with the sign byte
  are filled with the sign, but that limb keeps its old bits above the sign byte, because the
  combined limb is never stored; for \<open>ext = 0\<close> the word \<open>0x1ff\<close> stays with its lowest limb
  \<open>0x1ff\<close> instead of becoming \<open>-1\<close>.
\<close>

theorem signextend_limbs:
  assumes "unat ext < 31" and "i < 4"
  shows "to_uint64 (signextend_word ext x) i =
     (if unat ext div 8 < i then (if bit x (8 * unat ext + 7) then - 1 else 0) else to_uint64 x i)"
  using to_uint64_signextend [OF assms(2), of ext x] assms(1) by (simp add: word_less_nat_alt)

theorem signextend_limbs_witness:
  "to_uint64 (signextend_word 0 0x1ff) 0 = 0x1ff \<and> to_uint64 (signextend_word 0 0x1ff) 1 = - 1"
  using signextend_limbs [of 0 0 "0x1ff"] signextend_limbs [of 0 1 "0x1ff"]
  by (simp add: to_uint64_def bit_numeral_rec)

text \<open>
  C23. \<open>MULMOD\<close> leaves the product of its first two operands modulo the third (zero if the third
  is zero) in the slot of the third, and no other slot changes. It logs exactly four entries:
  the reads of the three slots, deepest first, and then, as a write, the unchanged top of the
  stack at the address of the top. So whenever the result differs from the third operand, a
  replay of a trace that agreed with the stack no longer does.
\<close>

theorem mulmod_breaks_trace:
  assumes "intx_api E" and "stack_ready s tp 3"
  shows "total (i_mulmod E tp s) (\<lambda>s'.
     (let x = stack_space s ! nat tp; y = stack_space s ! (nat tp - 1); m = stack_space s ! (nat tp - 2);
          v = (if m = 0 then 0 else word_of_nat (unat x * unat y mod unat m));
          r = length (rw_trace s)
      in stack_space s' = (stack_space s)[nat tp - 2 := v] \<and>
         rw_trace s' = rw_trace s @ [stack_entry (call_id s) (nat tp - 2) r False m,
           stack_entry (call_id s) (nat tp - 1) (r + 1) False y,
           stack_entry (call_id s) (nat tp) (r + 2) False x,
           stack_entry (call_id s) (nat tp) (r + 3) True x] \<and>
         (synced s (nat (tp + 1)) \<and> v \<noteq> m \<longrightarrow> \<not> synced s' (nat tp - 1))))"
proof -
  have slot: "operand_slot 3 tp = nat tp - 2" "nat tp - 2 + 1 = nat tp - 1" "nat tp - 2 < length (stack_space s)"
      "nat tp - 2 + 2 = nat tp"
    using assms(2) by (auto simp: operand_slot_def stack_ready_def stack_limit_def)
  have reads: "operand_reads 3 tp s = [stack_entry (call_id s) (nat tp - 2) (length (rw_trace s)) False (stack_space s ! (nat tp - 2)),
      stack_entry (call_id s) (nat tp - 1) (length (rw_trace s) + 1) False (stack_space s ! (nat tp - 1)),
      stack_entry (call_id s) (nat tp) (length (rw_trace s) + 2) False (stack_space s ! nat tp)]"
    unfolding operand_reads_def slot(1) using slot(2,4) by (simp add: upt_rec)
  show ?thesis
    using mulmod_unsynced [OF assms(2)] slot(1-3)
    by (simp add: mulmod_ready [OF assms(2)] Let_def mulmod_result_def reads intx_api.mulmod_value [OF assms(1)])
qed

text \<open>\<open>7 * 4\<close> modulo 10, on a stack that its trace gives: the trace loses the 8.\<close>

theorem mulmod_breaks_trace_witness:
  "\<exists>s'. i_mulmod sample_env 2 (sample_state [] [10, 4, 7]
       \<lparr>rw_trace := [stack_entry 0 0 0 True 10, stack_entry 0 1 1 True 4, stack_entry 0 2 2 True 7]\<rparr>) = Some s' \<and>
     stack_space s' ! 0 = 8 \<and> rw_value (rw_trace s' ! 6) = 7 \<and> \<not> synced s' 1"
proof -
  let ?s = "sample_state [] [10, 4, 7]
    \<lparr>rw_trace := [stack_entry 0 0 0 True 10, stack_entry 0 1 1 True 4, stack_entry 0 2 2 True 7]\<rparr>"
  have "synced ?s 3"
    by (auto simp: synced_def replay_step_entry less_Suc_eq numeral_3_eq_3)
  moreover have "stack_ready ?s 2 3"
    using sample_ready [of 3 2 "[10, 4, 7]" "[]"] by (simp add: stack_ready_def)
  ultimately show ?thesis
    using mulmod_breaks_trace [OF sample_api(1), of ?s 2] by (auto simp: total_iff Let_def stack_limit_def)
qed

subsection \<open>DUP, SWAP and PUSH\<close>

text \<open>
  C17. \<open>DUPn\<close> copies the slot \<open>n - 1\<close> below the top into the new top and leaves all other slots
  as they were; it logs the read and the write, and if a replay of the trace gave the stack
  before, it gives the stack with the new slot afterwards.
\<close>

theorem dup_copies:
  assumes "stack_ready s tp n" and "0 < n" and "tp < 1023"
  shows "total (i_dup n E tp s) (\<lambda>s'.
     stack_space s' = (stack_space s)[nat (tp + 1) := stack_space s ! (nat (tp + 1) - n)] \<and>
     length (rw_trace s') = length (rw_trace s) + 2 \<and>
     (synced s (nat (tp + 1)) \<longrightarrow> synced s' (nat (tp + 2))))"
  using dup_synced [OF assms] by (simp add: dup_ready [OF assms]) (simp add: dup_result_def Let_def)

theorem dup_copies_witness:
  "total (i_dup 2 sample_env 1 (sample_state [] [7, 5])) (\<lambda>s'. stack_space s' ! 2 = 7)"
  using dup_copies [OF sample_ready [of 2 1 "[7, 5]" "[]"], of sample_env]
  by (auto simp: total_iff stack_limit_def)

text \<open>
  C18. \<open>SWAPn\<close> exchanges the top with the slot \<open>n\<close> below it and touches no other slot, but the
  last of its four trace entries is logged one slot too high: whenever the two
  values differ, a replay of the trace no longer gives the stack.
\<close>

theorem swap_exchanges:
  assumes "stack_ready s tp (Suc n)" and "0 < n"
  shows "total (i_swap n E tp s) (\<lambda>s'.
     stack_space s' = (stack_space s)[nat tp := stack_space s ! (nat tp - n),
       nat tp - n := stack_space s ! nat tp] \<and>
     (synced s (nat (tp + 1)) \<and> stack_space s ! nat tp \<noteq> stack_space s ! (nat tp - n) \<longrightarrow>
        \<not> synced s' (nat tp - n + 1)))"
  using swap_unsynced [OF assms] by (simp add: swap_ready [OF assms]) (simp add: swap_result_def Let_def)

theorem swap_exchanges_witness:
  "total (i_swap 1 sample_env 1 (sample_state [] [7, 5]))
     (\<lambda>s'. stack_space s' ! 0 = 5 \<and> stack_space s' ! 1 = 7)"
  using swap_exchanges [of "sample_state [] [7, 5]" 1 1 sample_env] sample_ready [of 2 1 "[7, 5]" "[]"]
  by (auto simp: total_iff stack_limit_def numeral_2_eq_2)

text \<open>
  C22. \<open>PUSHn\<close> puts the number whose big-endian bytes follow the opcode into the new top slot
  and continues behind them. It then logs \<open>push_num_words n\<close> slots from the new top
  downwards, which is 1 for \<open>n = 32\<close> and \<open>n\<close> for a smaller \<open>n\<close>; if the stack is not that
  high, the logging reads below the stack.
\<close>

theorem push_stores:
  assumes "intx_api E" and "1 \<le> len" and "len \<le> 32" and "stack_ready s tp 0" and "tp < 1023"
    and "0 \<le> pos" and "executable_offset (analysis s) + nat pos + 33 \<le> length (code_buffer (analysis s))"
  shows "(int (push_num_words len) \<le> tp + 2 \<longrightarrow>
       (\<exists>s'. i_push len E tp s pos = Some (Some (pos + int len + 1), s') \<and>
          stack_space s' = (stack_space s)[nat (tp + 1) := word_of_nat (be_val (push_data len pos s))] \<and>
          length (rw_trace s') = length (rw_trace s) + push_num_words len)) \<and>
     (tp + 2 < int (push_num_words len) \<longrightarrow> i_push len E tp s pos = None)"
  using push_ready [OF assms] by (auto simp: push_result_def push_log_def Let_def)

theorem push_stores_witness:
  "(\<exists>s'. i_push 1 sample_env (- 1) (sample_state [0x60, 7] []) 0 = Some (Some 2, s') \<and>
     stack_space s' ! 0 = 7) \<and>
   i_push 2 sample_env (- 1) (sample_state [0x61, 7, 8] []) 0 = None"
proof -
  have "push_data 1 0 (sample_state [0x60, 7] []) = [7]"
    by (simp add: push_data_def sample_state_def analyze_legacy_def pad_code_def)
  moreover have "executable_offset (analysis (sample_state c [])) = 0"
      "length (code_buffer (analysis (sample_state c []))) = length c + 33" for c
    by (simp_all add: analyze_legacy_def pad_code_def code_padding_def)
  moreover have "push_num_words 1 = 1" "push_num_words 2 = 2"
    by (simp_all add: push_num_words_def zkevm_word_size_def)
  ultimately show ?thesis
    using push_stores [OF sample_api(1), of 1 "sample_state [0x60, 7] []" "- 1" 0]
      push_stores [OF sample_api(1), of 2 "sample_state [0x61, 7, 8] []" "- 1" 0]
      sample_ready [of 0 "- 1" "[]"]
    by (auto simp: stack_limit_def)
qed

end
