(* ===== verification/Assignment_Table.thy ===== *)
theory Assignment_Table
  imports Complex_Main Zkevm_Word
begin

text \<open>
  The assignment table that the circuits are filled into: \<open>nil::blueprint::assignment\<close>, a
  third-party class. The code calls \<open>witness(column, row)\<close>, which returns a reference to a
  cell, and \<open>witness_column_size(column)\<close>. The record \<open>table_lib\<close> holds what these calls do
  as parameters: taking the reference may lengthen the column (\<open>tab_touch\<close>), the reference is
  read (\<open>tab_val\<close>) or written (\<open>tab_put\<close>). The locale \<open>assignment_table\<close> states the documented
  behaviour, a column that is a vector of field elements which grows on access, and
  \<open>column_table\<close> is such a table.

  Field elements are values of a type \<open>'f::field\<close>; a number is converted by \<open>of_nat\<close>.
\<close>

record ('t, 'f) table_lib =
  tab_touch :: "'t \<Rightarrow> nat \<Rightarrow> u32 \<Rightarrow> 't"
  tab_val :: "'t \<Rightarrow> nat \<Rightarrow> u32 \<Rightarrow> 'f"
  tab_put :: "'t \<Rightarrow> nat \<Rightarrow> u32 \<Rightarrow> 'f \<Rightarrow> 't"
  tab_size :: "'t \<Rightarrow> nat \<Rightarrow> nat"

text \<open>Reading \<open>table.witness(c, r)\<close>, and a sequence of assignments to the cells of one row.\<close>

definition tab_read :: "('t, 'f) table_lib \<Rightarrow> nat \<Rightarrow> u32 \<Rightarrow> 't \<Rightarrow> 'f \<times> 't" where
  "tab_read T c r t = (tab_val T t c r, tab_touch T t c r)"

primrec tab_puts :: "('t, 'f) table_lib \<Rightarrow> u32 \<Rightarrow> (nat \<times> 'f) list \<Rightarrow> 't \<Rightarrow> 't" where
  "tab_puts T r [] t = t"
| "tab_puts T r (cv # cvs) t = tab_puts T r cvs (tab_put T t (fst cv) r (snd cv))"

text \<open>Rows that are less than \<open>2 ^ 32\<close> apart are different.\<close>

lemma row_index_inj:
  fixes start :: u32
  assumes "i < 2 ^ 32" and "j < 2 ^ 32" and "start + word_of_nat i = start + word_of_nat j"
  shows "i = j"
proof -
  have "unat (word_of_nat i :: u32) = unat (word_of_nat j :: u32)"
    using assms(3) by simp
  then show ?thesis
    using assms(1,2) by (simp add: unsigned_of_nat take_bit_nat_eq_self)
qed

locale assignment_table =
  fixes T :: "('t, 'f :: field) table_lib"
  assumes val_put: "tab_val T (tab_put T t c r x) c' r' =
      (if c' = c \<and> r' = r then x else tab_val T t c' r')"
    and val_touch: "tab_val T (tab_touch T t c r) c' r' = tab_val T t c' r'"
    and size_put: "tab_size T (tab_put T t c r x) c' =
      (if c' = c then max (tab_size T t c') (unat r + 1) else tab_size T t c')"
    and size_touch: "tab_size T (tab_touch T t c r) c' =
      (if c' = c then max (tab_size T t c') (unat r + 1) else tab_size T t c')"
    and val_fresh: "tab_size T t c \<le> unat r \<Longrightarrow> tab_val T t c r = 0"
begin

lemma val_puts:
  "tab_val T (tab_puts T r cvs t) c r' =
     (if r' = r then (case map_of (rev cvs) c of Some x \<Rightarrow> x | None \<Rightarrow> tab_val T t c r')
      else tab_val T t c r')"
  by (induction cvs arbitrary: t) (auto simp: val_put map_add_def split: option.splits)

lemma val_puts_in:
  "distinct (map fst cvs) \<Longrightarrow> (c, x) \<in> set cvs \<Longrightarrow> tab_val T (tab_puts T r cvs t) c r = x"
proof -
  assume "distinct (map fst cvs)" and "(c, x) \<in> set cvs"
  then have "map_of (rev cvs) c = Some x"
    by (intro map_of_is_SomeI) (simp_all add: rev_map [symmetric])
  then show ?thesis by (simp add: val_puts)
qed

lemma val_puts_other:
  "c \<notin> fst ` set cvs \<or> r' \<noteq> r \<Longrightarrow> tab_val T (tab_puts T r cvs t) c r' = tab_val T t c r'"
proof (induction cvs arbitrary: t)
  case (Cons cv cvs)
  then show ?case by (auto simp: val_put)
qed simp

lemma size_puts:
  "tab_size T (tab_puts T r cvs t) c =
     (if c \<in> fst ` set cvs then max (tab_size T t c) (unat r + 1) else tab_size T t c)"
  by (induction cvs arbitrary: t) (auto simp: size_put)

end

text \<open>A field as large as the one of the circuits (the base field of Pallas, above \<open>2 ^ 254\<close>).\<close>

locale circuit_table = assignment_table T for T :: "('t, 'f :: field) table_lib" +
  assumes of_nat_inj: "m < 2 ^ 254 \<Longrightarrow> n < 2 ^ 254 \<Longrightarrow> (of_nat m :: 'f) = of_nat n \<Longrightarrow> m = n"

subsection \<open>An instance: columns as vectors\<close>

definition column_get :: "(nat \<Rightarrow> 'f :: zero list) \<Rightarrow> nat \<Rightarrow> u32 \<Rightarrow> 'f" where
  "column_get t c r = (if unat r < length (t c) then t c ! unat r else 0)"

definition column_fill :: "'f :: zero list \<Rightarrow> nat \<Rightarrow> 'f list" where
  "column_fill xs n = xs @ replicate (n - length xs) 0"

definition column_table :: "(nat \<Rightarrow> 'f :: zero list, 'f) table_lib" where
  "column_table = \<lparr>
     tab_touch = (\<lambda>t c r. t(c := column_fill (t c) (unat r + 1))),
     tab_val = column_get,
     tab_put = (\<lambda>t c r x. t(c := (column_fill (t c) (unat r + 1))[unat r := x])),
     tab_size = (\<lambda>t c. length (t c))\<rparr>"

lemma length_column_fill [simp]: "length (column_fill xs n) = max (length xs) n"
  by (simp add: column_fill_def max_def)

lemma nth_column_fill:
  "k < max (length xs) n \<Longrightarrow> column_fill xs n ! k = (if k < length xs then xs ! k else 0)"
  by (auto simp: column_fill_def nth_append)

interpretation columns: circuit_table "column_table :: (nat \<Rightarrow> rat list, rat) table_lib"
proof
  fix t :: "nat \<Rightarrow> rat list" and c c' :: nat and r r' :: u32 and x :: rat
  show "tab_val column_table (tab_put column_table t c r x) c' r' =
      (if c' = c \<and> r' = r then x else tab_val column_table t c' r')"
    by (auto simp: column_table_def column_get_def nth_list_update nth_column_fill less_max_iff_disj
        word_unat_eq_iff)
  show "tab_val column_table (tab_touch column_table t c r) c' r' = tab_val column_table t c' r'"
    by (auto simp: column_table_def column_get_def nth_column_fill less_max_iff_disj)
  show "tab_size column_table (tab_put column_table t c r x) c' =
      (if c' = c then max (tab_size column_table t c') (unat r + 1) else tab_size column_table t c')"
    by (simp add: column_table_def)
  show "tab_size column_table (tab_touch column_table t c r) c' =
      (if c' = c then max (tab_size column_table t c') (unat r + 1) else tab_size column_table t c')"
    by (simp add: column_table_def)
  show "tab_size column_table t c \<le> unat r \<Longrightarrow> tab_val column_table t c r = 0"
    by (simp add: column_table_def column_get_def)
qed simp

end
