(* ===== verification/Bytecode_Table.thy ===== *)
theory Bytecode_Table
  imports Assignment_Table Analysis
begin

text \<open>
  The bytecode circuit's table (\<open>process_bytecode_input\<close> of \<open>include/bytecode.hpp\<close>): one row
  per byte of the code, with the hash of the code in every row. The first byte is taken for a
  header that says how many bytes follow.

  \<open>keccak_hex\<close> is the third-party \<open>nil::crypto3::hash\<close> printed as a string, and
  \<open>field_default\<close> the value of a field element that is declared without an initial value.
\<close>

record ('t, 'f) circuit_lib = "('t, 'f) table_lib" +
  keccak_hex :: "byte list \<Rightarrow> string"
  field_default :: 'f

abbreviation BC_TAG :: nat where "BC_TAG \<equiv> 0"
abbreviation BC_INDEX :: nat where "BC_INDEX \<equiv> 1"
abbreviation BC_VALUE :: nat where "BC_VALUE \<equiv> 2"
abbreviation BC_IS_OPCODE :: nat where "BC_IS_OPCODE \<equiv> 3"
abbreviation BC_PUSH_SIZE :: nat where "BC_PUSH_SIZE \<equiv> 4"
abbreviation BC_LENGTH_LEFT :: nat where "BC_LENGTH_LEFT \<equiv> 5"
abbreviation BC_HASH_HI :: nat where "BC_HASH_HI \<equiv> 6"
abbreviation BC_HASH_LO :: nat where "BC_HASH_LO \<equiv> 7"
abbreviation BC_VALUE_RLC :: nat where "BC_VALUE_RLC \<equiv> 8"
abbreviation BC_RLC_CHALLENGE :: nat where "BC_RLC_CHALLENGE \<equiv> 9"

subsection \<open>The hash as two field elements\<close>

definition hash_digit :: "char \<Rightarrow> int" where
  "hash_digit c =
     (let x = int (of_char c :: nat)
      in if x \<ge> 48 \<and> x \<le> 57 then x - 48 else x - 97 + 10)"

definition hash_value :: "'f :: field \<Rightarrow> string \<Rightarrow> 'f" where
  "hash_value init str = foldl (\<lambda>h c. h * 16 + of_int (hash_digit c)) init str"

text \<open>\<open>hash.substr(hash.size() - 32, 32)\<close> throws when the string is shorter than that.\<close>

definition hash_halves :: "('t, 'f :: field) circuit_lib \<Rightarrow> byte list \<Rightarrow> ('f \<times> 'f) option" where
  "hash_halves C bytecode =
     (let hash = keccak_hex C bytecode
      in if length hash < 32 then None
         else Some (hash_value (field_default C) (take (length hash - 32) hash),
                    hash_value (field_default C) (drop (length hash - 32) hash)))"

subsection \<open>Rows\<close>

record 'f row_state =
  prev_length :: u64
  prev_vrlc :: 'f
  push_size :: 'f

definition row_state_init :: "'f :: field row_state" where
  "row_state_init = \<lparr>prev_length = 0, prev_vrlc = 0, push_size = 0\<rparr>"

definition rlc_challenge :: "'f :: field" where
  "rlc_challenge = 15"

definition bytecode_row ::
  "'f :: field \<times> 'f \<Rightarrow> nat \<Rightarrow> byte \<Rightarrow> 'f row_state \<Rightarrow> (nat \<times> 'f) list \<times> 'f row_state" where
  "bytecode_row hash j b st =
     (let common = [(BC_VALUE, of_nat (unat b)), (BC_HASH_HI, fst hash), (BC_HASH_LO, snd hash),
            (BC_RLC_CHALLENGE, rlc_challenge)]
      in if j = 0 then
           (common @ [(BC_TAG, 0), (BC_INDEX, 0), (BC_IS_OPCODE, 0), (BC_PUSH_SIZE, 0),
              (BC_LENGTH_LEFT, of_nat (unat b)), (BC_VALUE_RLC, 0)],
            \<lparr>prev_length = ucast b, prev_vrlc = 0, push_size = 0\<rparr>)
         else
           let left = prev_length st - 1;
               (is_opcode, size) =
                 (if push_size st = 0 then
                    (1, if b > 0x5f \<and> b < 0x80 then of_nat (unat (b - 0x5f)) else push_size st)
                  else (0, push_size st - 1));
               vrlc = prev_vrlc st * rlc_challenge + of_nat (unat b)
           in (common @ [(BC_TAG, 1), (BC_INDEX, of_nat (j - 1)), (BC_LENGTH_LEFT, of_nat (unat left)),
                 (BC_IS_OPCODE, is_opcode), (BC_PUSH_SIZE, size), (BC_VALUE_RLC, vrlc)],
               \<lparr>prev_length = left, prev_vrlc = vrlc, push_size = size\<rparr>))"

primrec bytecode_rows ::
  "('t, 'f :: field) circuit_lib \<Rightarrow> u32 \<Rightarrow> 'f \<times> 'f \<Rightarrow> nat \<Rightarrow> byte list \<Rightarrow> 'f row_state \<Rightarrow> 't \<Rightarrow> 't" where
  "bytecode_rows C start hash j [] st t = t"
| "bytecode_rows C start hash j (b # bs) st t =
     (let (cells, st) = bytecode_row hash j b st
      in bytecode_rows C start hash (Suc j) bs st
           (tab_puts (table_lib.truncate C) (start + word_of_nat j) cells t))"

definition process_bytecode_input ::
  "('t, 'f :: field) circuit_lib \<Rightarrow> byte list \<Rightarrow> 't \<Rightarrow> 't option" where
  "process_bytecode_input C bytecode t = do {
     hash \<leftarrow> hash_halves C bytecode;
     let start_row_index = word_of_nat (tab_size C t BC_VALUE);
     Some (bytecode_rows C start_row_index hash 0 bytecode row_state_init t) }"

subsection \<open>What the rows say about the code\<close>

text \<open>
  The random linear combination of the bytes, and the contents that the row of byte \<open>j\<close>
  should have: \<open>instr_start code 1\<close> holds at the instruction boundaries of the code without
  its first byte.
\<close>

definition rlc :: "byte list \<Rightarrow> 'f :: field" where
  "rlc bs = foldl (\<lambda>v b. v * rlc_challenge + of_nat (unat b)) 0 bs"

definition bytecode_row_holds ::
  "('t, 'f :: field, 'z) table_lib_scheme \<Rightarrow> 't \<Rightarrow> u32 \<Rightarrow> 'f \<times> 'f \<Rightarrow> byte list \<Rightarrow> nat \<Rightarrow> bool" where
  "bytecode_row_holds T t row hash code j \<longleftrightarrow>
     tab_val T t BC_VALUE row = of_nat (unat (code ! j)) \<and>
     tab_val T t BC_HASH_HI row = fst hash \<and> tab_val T t BC_HASH_LO row = snd hash \<and>
     tab_val T t BC_RLC_CHALLENGE row = rlc_challenge \<and>
     tab_val T t BC_TAG row = of_bool (0 < j) \<and>
     tab_val T t BC_INDEX row = of_nat (j - 1) \<and>
     tab_val T t BC_LENGTH_LEFT row = of_nat (unat (ucast (code ! 0) - word_of_nat j :: u64)) \<and>
     tab_val T t BC_IS_OPCODE row = of_bool (0 < j \<and> instr_start code 1 j) \<and>
     tab_val T t BC_VALUE_RLC row = rlc (take j (drop 1 code))"

definition row_state_ok :: "byte list \<Rightarrow> nat \<Rightarrow> 'f :: field row_state \<Rightarrow> bool" where
  "row_state_ok code j st \<longleftrightarrow> 0 < j \<and>
     prev_length st = ucast (code ! 0) - word_of_nat (j - 1) \<and>
     prev_vrlc st = rlc (take (j - 1) (drop 1 code)) \<and>
     (\<exists>m \<le> 32. push_size st = of_nat m \<and>
        (\<forall>k \<ge> j. instr_start code 1 k \<longleftrightarrow> instr_start code (j + m) k))"

lemma instr_start_self [simp]: "instr_start code i i"
  by (rule instr_start.here)

lemma push_byte: "b > 0x5f \<and> b < 0x80 \<longleftrightarrow> OP_PUSH1 \<le> b \<and> b \<le> (OP_PUSH32 :: byte)"
  by (auto simp: word_less_nat_alt word_le_nat_alt)

lemma instr_length_push:
  "instr_length b = (if b > 0x5f \<and> b < 0x80 then unat (b - 0x5f) else 0) + 1"
proof -
  have "unat (b - 0x5f) = unat b - 0x5f" if "b > 0x5f"
    using that by (simp add: word_less_nat_alt unat_sub_if')
  then show ?thesis
    unfolding instr_length_def push_byte [symmetric] by auto
qed

lemma push_data_less: "b > 0x5f \<and> b < 0x80 \<Longrightarrow> unat (b - 0x5f :: byte) \<le> 32"
  by (auto simp: word_less_nat_alt unat_sub_if')

lemma instr_start_after:
  "j < length code \<Longrightarrow> j < k \<Longrightarrow>
   instr_start code j k \<longleftrightarrow> instr_start code (Suc j + (instr_length (code ! j) - 1)) k"
proof -
  assume "j < length code" "j < k"
  moreover have "Suc j + (instr_length (code ! j) - 1) = j + instr_length (code ! j)"
    using instr_length_pos [of "code ! j"] by linarith
  ultimately show ?thesis
    unfolding instr_start_iff [OF \<open>j < length code\<close>] by (simp only:) auto
qed

lemma unsigned_up_byte: "(unsigned (ucast (b :: byte) :: u64) :: 'f :: semiring_1) = unsigned b"
proof -
  have "unat b < 2 ^ LENGTH(8)" by (rule unsigned_less)
  then have "unat (ucast b :: u64) = unat b" by (simp add: unsigned_ucast_eq take_bit_nat_eq_self)
  then have "(of_nat (unat (ucast b :: u64)) :: 'f) = of_nat (unat b)" by simp
  then show ?thesis by (simp only: of_nat_unat)
qed

locale bytecode_circuit = circuit_table "table_lib.truncate C" for C :: "('t, 'f :: field) circuit_lib"
begin

abbreviation T :: "('t, 'f) table_lib" where
  "T \<equiv> table_lib.truncate C"

lemma of_nat_zero: "m \<le> 32 \<Longrightarrow> (of_nat m :: 'f) = 0 \<longleftrightarrow> m = 0"
  using of_nat_inj [of m 0] by auto

lemma bytecode_row_header:
  assumes "code \<noteq> []" and "bytecode_row hash 0 (code ! 0) st = (cells, st')"
  shows "row_state_ok code 1 st' \<and> bytecode_row_holds T (tab_puts T row cells t) row hash code 0"
  using assms
  by (auto simp: bytecode_row_def Let_def row_state_ok_def bytecode_row_holds_def val_puts rlc_def
      val_put unsigned_up_byte intro!: exI [of _ 0])

lemma bytecode_row_byte:
  assumes st: "row_state_ok code j st" and j: "j < length code"
    and row: "bytecode_row hash j (code ! j) st = (cells, st')"
  shows "row_state_ok code (Suc j) st' \<and> bytecode_row_holds T (tab_puts T r cells t) r hash code j"
proof -
  obtain m where m: "m \<le> 32" "push_size st = of_nat m"
    and start: "\<And>k. j \<le> k \<Longrightarrow> instr_start code 1 k \<longleftrightarrow> instr_start code (j + m) k"
    and pos: "0 < j" and len: "prev_length st = ucast (code ! 0) - word_of_nat (j - 1)"
    and v: "prev_vrlc st = rlc (take (j - 1) (drop 1 code))"
    using st by (auto simp: row_state_ok_def)
  have rlc: "rlc (take j (drop 1 code)) = prev_vrlc st * rlc_challenge + (of_nat (unat (code ! j)) :: 'f)"
  proof -
    have "take j (drop 1 code) = take (j - 1) (drop 1 code) @ [code ! j]"
      using pos j take_Suc_conv_app_nth [of "j - 1" "drop 1 code"] by simp
    then show ?thesis by (simp add: rlc_def v)
  qed
  have left: "prev_length st - 1 = ucast (code ! 0) - word_of_nat j"
  proof -
    have "(word_of_nat j :: u64) = word_of_nat (j - 1) + 1"
      using pos of_nat_Suc [of "j - 1", where 'a = u64] by simp
    then show ?thesis by (simp add: len)
  qed
  define m' where "m' = (if m = 0 then instr_length (code ! j) - 1 else m - 1)"
  have op: "instr_start code 1 j \<longleftrightarrow> m = 0"
    using start [of j] instr_start_le [of code "j + m" j] by (cases m) auto
  have next_start: "instr_start code 1 k \<longleftrightarrow> instr_start code (Suc j + m') k" if "Suc j \<le> k" for k
    using start [of k] that instr_start_after [OF j, of k] by (auto simp: m'_def)
  have "m' \<le> 32"
    using m push_data_less [of "code ! j"] by (auto simp: m'_def instr_length_push)
  have size: "push_size st' = of_nat m'"
    using row pos m of_nat_zero [OF m(1)]
    by (auto simp: bytecode_row_def Let_def m'_def instr_length_push of_nat_diff split: if_splits)
  have cells: "cells = [(BC_VALUE, of_nat (unat (code ! j))), (BC_HASH_HI, fst hash),
      (BC_HASH_LO, snd hash), (BC_RLC_CHALLENGE, rlc_challenge), (BC_TAG, 1),
      (BC_INDEX, of_nat (j - 1)), (BC_LENGTH_LEFT, of_nat (unat (prev_length st - 1))),
      (BC_IS_OPCODE, of_bool (m = 0)), (BC_PUSH_SIZE, of_nat m'),
      (BC_VALUE_RLC, prev_vrlc st * rlc_challenge + of_nat (unat (code ! j)))]"
    and st': "prev_length st' = prev_length st - 1"
      "prev_vrlc st' = prev_vrlc st * rlc_challenge + of_nat (unat (code ! j))"
    using row pos m(2) of_nat_zero [OF m(1)] size
    by (auto simp: bytecode_row_def Let_def split: if_splits)
  have "row_state_ok code (Suc j) st'"
    using \<open>m' \<le> 32\<close> size next_start left rlc
    by (auto simp: row_state_ok_def st' intro!: exI [of _ m'])
  moreover have "bytecode_row_holds T (tab_puts T r cells t) r hash code j"
    using pos by (simp add: bytecode_row_holds_def cells val_put left rlc [simplified] op [simplified])
  ultimately show ?thesis ..
qed

lemma bytecode_row_holds_mono:
  assumes "bytecode_row_holds T t r hash code j" and "\<And>c. tab_val T t' c r = tab_val T t c r"
  shows "bytecode_row_holds T t' r hash code j"
  using assms by (simp add: bytecode_row_holds_def)

lemma bytecode_rows_unchanged:
  "(\<And>i. i < length bs \<Longrightarrow> r \<noteq> start + word_of_nat (j + i)) \<Longrightarrow>
   tab_val T (bytecode_rows C start hash j bs st t) c r = tab_val T t c r"
proof (induction bs arbitrary: j st t)
  case (Cons b bs)
  obtain cells st1 where row: "bytecode_row hash j b st = (cells, st1)" by fastforce
  have "r \<noteq> start + word_of_nat (Suc j + i)" if "i < length bs" for i
    using Cons.prems [of "Suc i"] that by simp
  then have "tab_val T (bytecode_rows C start hash (Suc j) bs st1
      (tab_puts T (start + word_of_nat j) cells t)) c r =
      tab_val T (tab_puts T (start + word_of_nat j) cells t) c r"
    by (rule Cons.IH)
  also have "\<dots> = tab_val T t c r"
    using Cons.prems [of 0] by (intro val_puts_other) simp
  finally show ?case by (simp add: row)
qed simp

lemma bytecode_rows_ok:
  assumes "bs = drop j code" and "length code \<le> 2 ^ 32" and "j = 0 \<or> row_state_ok code j st"
    and "i < length code" and "j \<le> i"
  shows "bytecode_row_holds T (bytecode_rows C start hash j bs st t) (start + word_of_nat i) hash code i"
  using assms
proof (induction bs arbitrary: j st t)
  case (Cons b bs)
  have j: "j < length code" and b: "b = code ! j" and bs: "bs = drop (Suc j) code"
    using Cons.prems(1) Cons_nth_drop_Suc [of j code]
    by (metis drop_all linorder_not_le list.distinct(1), metis drop_all linorder_not_le list.inject
        list.distinct(1), metis drop_all linorder_not_le list.inject list.distinct(1))
  obtain cells st1 where row: "bytecode_row hash j b st = (cells, st1)" by fastforce
  let ?t = "tab_puts T (start + word_of_nat j) cells t"
  have here: "row_state_ok code (Suc j) st1 \<and>
      bytecode_row_holds T ?t (start + word_of_nat j) hash code j"
    using bytecode_row_header [of code hash st] bytecode_row_byte [of code j st hash] row j b Cons.prems(3)
    by (cases "j = 0") auto
  show ?case
  proof (cases "i = j")
    case True
    have "start + word_of_nat j \<noteq> start + word_of_nat (Suc j + k)" if "k < length bs" for k
    proof
      assume eq: "start + word_of_nat j = start + word_of_nat (Suc j + k)"
      have "Suc j + k < 2 ^ 32" using that Cons.prems(2) bs by simp
      then show False using row_index_inj [OF _ _ eq] by simp
    qed
    then show ?thesis
      using here True
      by (auto simp: row intro!: bytecode_row_holds_mono [of ?t] bytecode_rows_unchanged)
  next
    case False
    have "bytecode_row_holds T (bytecode_rows C start hash (Suc j) bs st1 ?t)
        (start + word_of_nat i) hash code i"
      by (rule Cons.IH) (use here bs Cons.prems(2,4,5) False in auto)
    then show ?thesis by (simp add: row)
  qed
qed simp

lemma bytecode_table:
  assumes "length code \<le> 2 ^ 32" and "hash_halves C code = Some hash"
  shows "total (process_bytecode_input C code t) (\<lambda>t'. \<forall>j < length code.
    bytecode_row_holds T t' (word_of_nat (tab_size C t BC_VALUE) + word_of_nat j) hash code j)"
  using assms bytecode_rows_ok [of code 0 code] by (simp add: process_bytecode_input_def)

end

subsection \<open>An instance\<close>

definition column_circuits :: "(nat \<Rightarrow> rat list, rat) circuit_lib" where
  "column_circuits = table_lib.extend column_table
     (circuit_lib.fields (\<lambda>bs. replicate 64 (CHR ''0'')) 0)"

lemma truncate_column_circuits [simp]: "table_lib.truncate column_circuits = column_table"
  by (simp add: column_circuits_def table_lib.defs circuit_lib.defs)

interpretation bytecode_columns: bytecode_circuit column_circuits
  unfolding bytecode_circuit_def truncate_column_circuits
  by (rule columns.circuit_table_axioms)

end
