(* ===== verification/Rw_Table.thy ===== *)
theory Rw_Table
  imports Assignment_Table Rw_Operation "HOL-Library.Multiset"
begin

text \<open>
  The read/write circuit's table (\<open>process_rw_operations\<close> of \<open>include/rw.hpp\<close>): the trace is
  sorted, and every operation fills one row of the table, with the operation's fields, the
  16-bit chunks of its numbers, and advice about the first sorting column in which the row
  differs from the row above it.

  A mask is a number of the field library's integer type, shifted as the code shifts it.
  \<open>std::sort\<close> leaves the order of equivalent operations open; operations with different
  identifiers are never equivalent, so for the traces that are processed there is one result.
  The trace has fewer than \<open>2 ^ 32\<close> entries (the loop counts in 32 bits).
\<close>

subsection \<open>Columns\<close>

abbreviation RW_OP :: nat where "RW_OP \<equiv> 0"
abbreviation RW_CALL_ID :: nat where "RW_CALL_ID \<equiv> 1"
abbreviation RW_ADDRESS :: nat where "RW_ADDRESS \<equiv> 2"
abbreviation RW_STORAGE_KEY_HI :: nat where "RW_STORAGE_KEY_HI \<equiv> 3"
abbreviation RW_STORAGE_KEY_LO :: nat where "RW_STORAGE_KEY_LO \<equiv> 4"
abbreviation RW_FIELD_TYPE :: nat where "RW_FIELD_TYPE \<equiv> 5"
abbreviation RW_RW_ID :: nat where "RW_RW_ID \<equiv> 6"
abbreviation RW_IS_WRITE :: nat where "RW_IS_WRITE \<equiv> 7"
abbreviation RW_VALUE_HI :: nat where "RW_VALUE_HI \<equiv> 8"
abbreviation RW_VALUE_LO :: nat where "RW_VALUE_LO \<equiv> 9"
abbreviation RW_IS_FIRST :: nat where "RW_IS_FIRST \<equiv> 19"
abbreviation RW_DIFFERENCE :: nat where "RW_DIFFERENCE \<equiv> 50"
abbreviation RW_INV_DIFFERENCE :: nat where "RW_INV_DIFFERENCE \<equiv> 51"
abbreviation RW_VALUE_BEFORE_HI :: nat where "RW_VALUE_BEFORE_HI \<equiv> 52"
abbreviation RW_VALUE_BEFORE_LO :: nat where "RW_VALUE_BEFORE_LO \<equiv> 53"
abbreviation RW_IS_LAST :: nat where "RW_IS_LAST \<equiv> 58"

definition op_selector_columns :: "nat list" where
  "op_selector_columns = [10, 11, 12, 13]"

definition index_columns :: "nat list" where
  "index_columns = [14, 15, 16, 17, 18]"

definition chunk_columns :: "nat list" where
  "chunk_columns = [
     20, 21, 22, 23, 24, 25, 26,
     27, 28, 29, 30, 31, 32, 33, 34,
     35, 36, 37, 38, 39, 40, 41, 42,
     43, 44, 45, 46, 47, 48, 49]"

definition sorting :: "nat list" where
  "sorting = RW_OP # take 12 chunk_columns @ RW_FIELD_TYPE # drop 12 chunk_columns"

subsection \<open>The cells of one operation\<close>

text \<open>\<open>bit_cells m x cs\<close>: the loop that halves the mask and stores one bit per column.\<close>

primrec bit_cells :: "nat \<Rightarrow> nat \<Rightarrow> nat list \<Rightarrow> (nat \<times> 'f :: field) list" where
  "bit_cells msk x [] = []"
| "bit_cells msk x (c # cs) =
     (let msk = drop_bit 1 msk
      in (c, if x AND msk = 0 then 0 else 1) # bit_cells msk x cs)"

text \<open>The loop that stores the 16-bit chunks of a word, the most significant one first.\<close>

primrec word_chunk_cells ::
  "'a libs_scheme \<Rightarrow> nat \<Rightarrow> zkevm_word \<Rightarrow> nat list \<Rightarrow> (nat \<times> 'f :: field) list" where
  "word_chunk_cells L msk v [] = []"
| "word_chunk_cells L msk v (c # cs) =
     (c, of_nat (drop_bit (16 * length cs) (word_and_integral L v msk)))
       # word_chunk_cells L (drop_bit 16 msk) v cs"

definition lookup_cells :: "'a libs_scheme \<Rightarrow> rw_operation \<Rightarrow> (nat \<times> 'f :: field) list" where
  "lookup_cells L e =
     [(RW_OP, of_nat (unat (rw_op e))),
      (RW_CALL_ID, of_nat (rw_call_id e)),
      (RW_ADDRESS, to_field_as_address L (rw_address e)),
      (RW_STORAGE_KEY_HI, w_hi L (rw_storage_key e)),
      (RW_STORAGE_KEY_LO, w_lo L (rw_storage_key e)),
      (RW_RW_ID, of_nat (rw_id e)),
      (RW_IS_WRITE, of_bool (rw_is_write e)),
      (RW_VALUE_HI, w_hi L (rw_value e)),
      (RW_VALUE_LO, w_lo L (rw_value e))]"

definition number_chunk_cells ::
  "'a libs_scheme \<Rightarrow> nat \<Rightarrow> nat \<Rightarrow> nat \<Rightarrow> (nat \<times> 'f :: field) list" where
  "number_chunk_cells L x c1 c2 =
     (let msk = intg L (push_bit 16 (intg L 0xffff));
          hi = drop_bit 16 (msk AND x);
          msk = drop_bit 16 msk
      in [(c1, of_nat hi), (c2, of_nat (msk AND x))])"

definition chunk_cells :: "'a libs_scheme \<Rightarrow> rw_operation \<Rightarrow> (nat \<times> 'f :: field) list" where
  "chunk_cells L e =
     number_chunk_cells L (rw_call_id e) (chunk_columns ! 0) (chunk_columns ! 1) @
     word_chunk_cells L (intg L (push_bit (16 * 9) (intg L 0xffff))) (rw_address e)
       (map (\<lambda>j. chunk_columns ! (2 + j)) [0..<10]) @
     word_chunk_cells L (intg L (push_bit (16 * 15) (intg L 0xffff))) (rw_storage_key e)
       (map (\<lambda>j. chunk_columns ! (12 + j)) [0..<16]) @
     number_chunk_cells L (rw_id e) (chunk_columns ! 28) (chunk_columns ! 29)"

definition operation_cells :: "'a libs_scheme \<Rightarrow> rw_operation \<Rightarrow> (nat \<times> 'f :: field) list" where
  "operation_cells L e =
     lookup_cells L e @
     bit_cells (intg L (push_bit (length op_selector_columns) 1)) (unat (rw_op e)) op_selector_columns @
     chunk_cells L e"

subsection \<open>Advice about the row above\<close>

text \<open>The index of the first listed column in which two rows differ.\<close>

primrec find_difference ::
  "('t, 'f) table_lib \<Rightarrow> u32 \<Rightarrow> nat list \<Rightarrow> nat \<Rightarrow> 't \<Rightarrow> nat \<times> 't" where
  "find_difference T row [] k t = (k, t)"
| "find_difference T row (c # cs) k t =
     (let (x, t) = tab_read T c row t;
          (y, t) = tab_read T c (row - 1) t
      in if x \<noteq> y then (k, t) else find_difference T row cs (Suc k) t)"

definition value_before ::
  "'a libs_scheme \<Rightarrow> ('t, 'f :: field) table_lib \<Rightarrow> u32 \<Rightarrow> nat \<Rightarrow> rw_operation \<Rightarrow> 't \<Rightarrow> 't" where
  "value_before L T row diff_ind e t =
     (if diff_ind < 30 then
        tab_puts T row [(RW_VALUE_BEFORE_HI, w_hi L (rw_value_prev e)),
          (RW_VALUE_BEFORE_LO, w_lo L (rw_value_prev e))] t
      else
        let (x, t) = tab_read T RW_VALUE_BEFORE_HI (row - 1) t;
            t = tab_put T t RW_VALUE_BEFORE_HI row x;
            (y, t) = tab_read T RW_VALUE_BEFORE_LO (row - 1) t
        in tab_put T t RW_VALUE_BEFORE_LO row y)"

definition boundary_marks ::
  "('t, 'f :: field) table_lib \<Rightarrow> u32 \<Rightarrow> nat \<Rightarrow> rw_operation \<Rightarrow> 't \<Rightarrow> 't" where
  "boundary_marks T row diff_ind e t =
     (let t = (if rw_op e \<noteq> START_OP \<and> diff_ind < 30
               then tab_put T t RW_IS_LAST (row - 1) 1 else t)
      in if rw_op e \<noteq> START_OP \<and> rw_op e \<noteq> PADDING_OP \<and> diff_ind < 30
         then tab_put T t RW_IS_FIRST row 1 else t)"

text \<open>\<open>sorting[diff_ind]\<close> is outside the vector when no column differs.\<close>

definition difference_cells ::
  "('t, 'f :: field) table_lib \<Rightarrow> u32 \<Rightarrow> nat \<Rightarrow> 't \<Rightarrow> 't option" where
  "difference_cells T row diff_ind t = do {
     c \<leftarrow> nth_opt sorting diff_ind;
     let (x, t) = tab_read T c row t;
     let (y, t) = tab_read T c (row - 1) t;
     let t = tab_put T t RW_DIFFERENCE row (x - y);
     let (d, t) = tab_read T RW_DIFFERENCE row t;
     Some (tab_put T t RW_INV_DIFFERENCE row (if d = 0 then 0 else 1 / d)) }"

definition advice ::
  "'a libs_scheme \<Rightarrow> ('t, 'f :: field) table_lib \<Rightarrow> u32 \<Rightarrow> rw_operation \<Rightarrow> 't \<Rightarrow> 't option" where
  "advice L T row e t =
     (let (diff_ind, t) = find_difference T row sorting 0 t;
          t = value_before L T row diff_ind e t;
          msk = intg L (push_bit (length index_columns) 1);
          t = tab_puts T row (bit_cells msk diff_ind index_columns) t;
          t = boundary_marks T row diff_ind e t
      in difference_cells T row diff_ind t)"

subsection \<open>The table\<close>

definition process_row ::
  "'a libs_scheme \<Rightarrow> ('t, 'f :: field) table_lib \<Rightarrow> u32 \<Rightarrow> nat \<Rightarrow> rw_operation \<Rightarrow> 't \<Rightarrow> 't option" where
  "process_row L T start i e t =
     (let row = start + word_of_nat i;
          t = tab_puts T row (operation_cells L e) t
      in if i = 0 then Some t else advice L T row e t)"

primrec process_rows ::
  "'a libs_scheme \<Rightarrow> ('t, 'f :: field) table_lib \<Rightarrow> u32 \<Rightarrow> nat \<Rightarrow> rw_operation list \<Rightarrow> 't \<Rightarrow> 't option" where
  "process_rows L T start i [] t = Some t"
| "process_rows L T start i (e # es) t = do {
     t \<leftarrow> process_row L T start i e t;
     process_rows L T start (Suc i) es t }"

definition sort_trace :: "rw_operation list \<Rightarrow> rw_operation list" where
  "sort_trace tr = sort_key rw_key tr"

definition process_rw_operations ::
  "'a libs_scheme \<Rightarrow> ('t, 'f :: field) table_lib \<Rightarrow> rw_operation list \<Rightarrow> 't \<Rightarrow>
   (rw_operation list \<times> 't) option" where
  "process_rw_operations L T tr t = do {
     let start_row_index = (word_of_nat (tab_size T t RW_OP) :: u32);
     let tr = sort_trace tr;
     t \<leftarrow> process_rows L T start_row_index 0 tr t;
     Some (tr, t) }"

subsection \<open>Chunks are digits\<close>

text \<open>The \<open>n\<close> lowest digits of a number in base \<open>2 ^ 16\<close>, the most significant one first.\<close>

primrec digits :: "nat \<Rightarrow> nat \<Rightarrow> nat list" where
  "digits 0 x = []"
| "digits (Suc n) x = (x div 65536 ^ n mod 65536) # digits n x"

lemma length_digits [simp]: "length (digits n x) = n"
  by (induction n) simp_all

lemma digits_less: "d \<in> set (digits n x) \<Longrightarrow> d < 65536"
  by (induction n) auto

text \<open>The order of vectors by their first difference.\<close>

fun lex_less :: "nat list \<Rightarrow> nat list \<Rightarrow> bool" where
  "lex_less (x # xs) (y # ys) \<longleftrightarrow> x < y \<or> (x = y \<and> lex_less xs ys)"
| "lex_less _ _ \<longleftrightarrow> False"

fun first_diff :: "'a list \<Rightarrow> 'a list \<Rightarrow> nat" where
  "first_diff (x # xs) (y # ys) = (if x \<noteq> y then 0 else Suc (first_diff xs ys))"
| "first_diff _ _ = 0"

lemma lex_less_irrefl [simp]: "\<not> lex_less xs xs"
  by (induction xs) simp_all

lemma lex_less_append:
  "length xs = length ys \<Longrightarrow>
   lex_less (xs @ as) (ys @ bs) \<longleftrightarrow> lex_less xs ys \<or> (xs = ys \<and> lex_less as bs)"
  by (induction xs ys rule: list_induct2) auto

lemma lex_less_first_diff:
  "lex_less xs ys \<Longrightarrow> length xs = length ys \<Longrightarrow>
   first_diff xs ys < length xs \<and> xs ! first_diff xs ys < ys ! first_diff xs ys"
  by (induction xs ys rule: lex_less.induct) auto

lemma first_diff_sym: "length xs = length ys \<Longrightarrow> first_diff xs ys = first_diff ys xs"
  by (induction xs ys rule: list_induct2) auto

lemma first_diff_map:
  "inj_on f (set xs \<union> set ys) \<Longrightarrow> length xs = length ys \<Longrightarrow>
   first_diff (map f xs) (map f ys) = first_diff xs ys"
proof (induction xs ys rule: first_diff.induct)
  case (1 x xs y ys)
  have "inj_on f (set xs \<union> set ys)" using 1(2) by (rule inj_on_subset) auto
  moreover have "f x = f y \<longleftrightarrow> x = y" using 1(2) by (rule inj_on_eq_iff) auto
  ultimately show ?case using 1(1) 1(3) by simp
qed simp_all

lemma less_div_mod:
  "(x :: nat) < y \<longleftrightarrow> x div b < y div b \<or> (x div b = y div b \<and> x mod b < y mod b)"
proof (cases "x div b" "y div b" rule: linorder_cases)
  case less
  then show ?thesis using div_le_mono [of y x b] by linarith
next
  case equal
  then show ?thesis
    using div_mult_mod_eq [of x b] div_mult_mod_eq [of y b] by (metis nat_add_left_cancel_less nat_neq_iff)
next
  case greater
  then show ?thesis using div_le_mono [of x y b] by linarith
qed

lemma digits_lex:
  "x < 65536 ^ n \<Longrightarrow> y < 65536 ^ n \<Longrightarrow> lex_less (digits n x) (digits n y) \<longleftrightarrow> x < y"
proof (induction n arbitrary: x y)
  case (Suc n)
  let ?B = "65536 ^ n :: nat"
  have div: "x div ?B < 65536" "y div ?B < 65536"
    using Suc.prems by (simp_all add: div_less_iff_less_mult)
  have mods: "digits n (z mod ?B) = digits n z" for z
  proof -
    have "k \<le> n \<Longrightarrow> digits k (z mod ?B) = digits k z" for k
    proof (induction k)
      case (Suc k)
      then have B: "?B = 65536 ^ k * 65536 * 65536 ^ (n - Suc k)"
      proof -
        have "n = k + 1 + (n - Suc k)" using Suc.prems by simp
        then have "?B = 65536 ^ (k + 1 + (n - Suc k))" by simp
        then show ?thesis by (simp only: power_add power_one_right)
      qed
      have "z mod (65536 ^ k * 65536 * 65536 ^ (n - Suc k)) div 65536 ^ k mod 65536 =
          z div 65536 ^ k mod 65536"
        by (simp add: mod_mult2_eq mult.assoc div_mult2_eq)
      then show ?case using Suc by (simp add: B)
    qed simp
    then show ?thesis by simp
  qed
  have pos: "0 < ?B" by simp
  have "lex_less (digits n x) (digits n y) \<longleftrightarrow> x mod ?B < y mod ?B"
    using Suc.IH [of "x mod ?B" "y mod ?B"] pos by (simp add: mods)
  moreover have "x < y \<longleftrightarrow> x div ?B < y div ?B \<or> (x div ?B = y div ?B \<and> x mod ?B < y mod ?B)"
    by (rule less_div_mod)
  ultimately show ?case using div by simp
qed simp

lemma digits_inj:
  "x < 65536 ^ n \<Longrightarrow> y < 65536 ^ n \<Longrightarrow> digits n x = digits n y \<Longrightarrow> x = y"
  using digits_lex [of x n y] digits_lex [of y n x] by (metis lex_less_irrefl linorder_neqE_nat)

subsection \<open>The cells in closed form\<close>

lemma and_push_chunk:
  "drop_bit (16 * k) (x AND push_bit (16 * k) 65535) = x div 65536 ^ k mod (65536 :: nat)"
proof -
  have m: "(65535 :: nat) = mask 16" by (simp add: mask_eq_exp_minus_1)
  have "drop_bit (16 * k) (x AND push_bit (16 * k) 65535) = take_bit 16 (drop_bit (16 * k) x)"
    unfolding m by (simp add: drop_bit_and drop_bit_push_bit take_bit_eq_mask)
  then show ?thesis
    by (simp add: take_bit_eq_mod drop_bit_eq_div power_mult)
qed

context wide_integral
begin

lemma intg_id: "n < 2 ^ 256 \<Longrightarrow> intg L n = n"
  using integral_wide by (auto simp: intg_def intro: mod_less)

lemma word_and_integral_eq: "word_and_integral L v m = unat v AND m"
proof -
  have limb: "unat (to_uint64 v i) < 2 ^ 64" for i
    using unsigned_less [of "to_uint64 v i"] by simp
  note l = limb [of 0] limb [of 1] limb [of 2] limb [of 3]
  have "intg L (unat (to_uint64 v i)) = unat (to_uint64 v i)" for i
    by (rule intg_id) (use limb [of i] in simp)
  then show ?thesis
    using l limbs_sum [of v]
    by (simp add: word_and_integral_def intg_id push_bit_eq_mult)
qed

lemma word_chunk_cells_eq:
  "length cs = Suc k \<Longrightarrow>
   word_chunk_cells L (push_bit (16 * k) 65535) v cs =
     zip cs (map of_nat (digits (Suc k) (unat v)))"
proof (induction k arbitrary: cs)
  case 0
  then obtain c where "cs = [c]" by (auto simp: length_Suc_conv)
  then show ?case
    using and_push_chunk [of 0 "unat v"] by (simp add: word_and_integral_eq)
next
  case (Suc k)
  then obtain c ds where cs: "cs = c # ds" and ds: "length ds = Suc k"
    by (auto simp: length_Suc_conv)
  have "drop_bit 16 (push_bit (16 * Suc k) 65535) = push_bit (16 * k) (65535 :: nat)"
    by (simp add: drop_bit_push_bit)
  then show ?case
    using Suc.IH [OF ds] and_push_chunk [of "Suc k" "unat v"]
    by (simp only: cs ds word_chunk_cells.simps word_and_integral_eq digits.simps list.map zip_Cons_Cons)
qed

lemma intg_mask: "k \<le> 240 \<Longrightarrow> intg L (push_bit k (intg L 65535)) = push_bit k 65535"
proof -
  assume "k \<le> 240"
  then have "(2 :: nat) ^ k \<le> 2 ^ 240" by (intro power_increasing) simp_all
  then have "65535 * (2 :: nat) ^ k < 2 ^ 256" by simp
  then show ?thesis by (simp add: intg_id push_bit_eq_mult)
qed

lemma number_chunk_cells_eq:
  "number_chunk_cells L x c1 c2 = zip [c1, c2] (map of_nat (digits 2 x))"
  using and_push_chunk [of 1 x] and_push_chunk [of 0 x]
  by (simp add: number_chunk_cells_def Let_def intg_mask and.commute numeral_2_eq_2
      drop_bit_push_bit)

end

lemma zip_append4:
  "length as = length xs \<Longrightarrow> length bs = length ys \<Longrightarrow> length cs = length zs \<Longrightarrow>
   zip as xs @ zip bs ys @ zip cs zs @ zip ds ws = zip (as @ bs @ cs @ ds) (xs @ ys @ zs @ ws)"
  by simp

text \<open>The values of the chunk columns, in the order of \<open>chunk_columns\<close>.\<close>

definition chunk_values :: "rw_operation \<Rightarrow> nat list" where
  "chunk_values e = digits 2 (rw_call_id e) @ digits 10 (unat (rw_address e)) @
     digits 16 (unat (rw_storage_key e)) @ digits 2 (rw_id e)"

lemma length_chunk_values [simp]: "length (chunk_values e) = 30"
  by (simp add: chunk_values_def)

context wide_integral
begin

lemma chunk_cells_eq:
  "chunk_cells L e = zip chunk_columns (map of_nat (chunk_values e))"
proof -
  have cols: "chunk_columns = [20, 21] @ [22..<32] @ [32..<48] @ [48, 49]"
    by (simp add: chunk_columns_def upt_rec)
  have a: "map (\<lambda>j. chunk_columns ! (2 + j)) [0..<10] = [22..<32]"
    and k: "map (\<lambda>j. chunk_columns ! (12 + j)) [0..<16] = [32..<48]"
    by (simp_all add: chunk_columns_def upt_rec)
  have ids: "[chunk_columns ! 0, chunk_columns ! 1] = [20, 21]"
      "[chunk_columns ! 28, chunk_columns ! 29] = [48, 49]"
    by (simp_all add: chunk_columns_def)
  have address: "word_chunk_cells L (intg L (push_bit (16 * 9) (intg L 0xffff))) v [22..<32] =
      zip [22..<32] (map of_nat (digits 10 (unat v)))" for v
    using word_chunk_cells_eq [of "[22..<32]" 9 v] by (simp only: intg_mask) simp
  have storage_key: "word_chunk_cells L (intg L (push_bit (16 * 15) (intg L 0xffff))) v [32..<48] =
      zip [32..<48] (map of_nat (digits 16 (unat v)))" for v
    using word_chunk_cells_eq [of "[32..<48]" 15 v] by (simp only: intg_mask) simp
  show ?thesis
    unfolding chunk_cells_def a k number_chunk_cells_eq ids address storage_key chunk_values_def
      map_append
    unfolding cols by (rule zip_append4) simp_all
qed

end

subsection \<open>What one row holds\<close>

text \<open>
  The values of the sorting columns. The column of the field type is never assigned, so it
  holds the zero of a fresh cell.
\<close>

definition sort_values :: "rw_operation \<Rightarrow> nat list" where
  "sort_values e = unat (rw_op e) # take 12 (chunk_values e) @ 0 # drop 12 (chunk_values e)"

definition operation_columns :: "nat list" where
  "operation_columns = [RW_OP, RW_CALL_ID, RW_ADDRESS, RW_STORAGE_KEY_HI, RW_STORAGE_KEY_LO,
     RW_RW_ID, RW_IS_WRITE, RW_VALUE_HI, RW_VALUE_LO] @ op_selector_columns @ chunk_columns"

text \<open>The row holds the cells of the operation; the row differs from the one above as advised.\<close>

definition row_holds ::
  "'a libs_scheme \<Rightarrow> ('t, 'f :: field) table_lib \<Rightarrow> 't \<Rightarrow> u32 \<Rightarrow> rw_operation \<Rightarrow> bool" where
  "row_holds L T t row e \<longleftrightarrow>
     (\<forall>(c, x) \<in> set (operation_cells L e). tab_val T t c row = x) \<and>
     tab_val T t RW_FIELD_TYPE row = 0"

definition row_advised ::
  "('t, 'f :: field) table_lib \<Rightarrow> 't \<Rightarrow> u32 \<Rightarrow> rw_operation \<Rightarrow> rw_operation \<Rightarrow> bool" where
  "row_advised T t row p e \<longleftrightarrow>
     (let k = first_diff (sort_values e) (sort_values p);
          d = of_nat (sort_values e ! k) - of_nat (sort_values p ! k)
      in k < 32 \<and> tab_val T t RW_DIFFERENCE row = d \<and> d \<noteq> 0 \<and>
         tab_val T t RW_INV_DIFFERENCE row * d = 1 \<and>
         map (\<lambda>c. tab_val T t c row) index_columns =
           map (\<lambda>j. of_bool (bit k (4 - j))) [0..<5])"

text \<open>
  The rows of a list of operations from the row \<open>start\<close> on: every row holds its operation and
  the advice about the row above.
\<close>

definition rows_ok ::
  "'a libs_scheme \<Rightarrow> ('t, 'f :: field) table_lib \<Rightarrow> 't \<Rightarrow> u32 \<Rightarrow> rw_operation list \<Rightarrow> bool" where
  "rows_ok L T t start es \<longleftrightarrow>
     (\<forall>i < length es. row_holds L T t (start + word_of_nat i) (es ! i) \<and>
        (0 < i \<longrightarrow> row_advised T t (start + word_of_nat i) (es ! (i - 1)) (es ! i)))"

lemma length_sort_values [simp]: "length (sort_values e) = 32"
  by (simp add: sort_values_def)

lemma chunk_values_less: "d \<in> set (chunk_values e) \<Longrightarrow> d < 65536"
  unfolding chunk_values_def set_append by (elim UnE) (rule digits_less, assumption)+

lemma sort_values_less:
  assumes "d \<in> set (sort_values e)"
  shows "d < 65536"
proof -
  have "unat (rw_op e) < 2 ^ LENGTH(8)" by (rule unsigned_less)
  then have "unat (rw_op e) < 65536" by simp
  then show ?thesis
    using assms chunk_values_less [of d e]
    by (auto simp: sort_values_def dest: in_set_takeD in_set_dropD)
qed

lemma length_sorting [simp]: "length sorting = 32"
  by (simp add: sorting_def chunk_columns_def)

lemma first_diff_neq:
  "xs \<noteq> ys \<Longrightarrow> length xs = length ys \<Longrightarrow>
   first_diff xs ys < length xs \<and> xs ! first_diff xs ys \<noteq> ys ! first_diff xs ys"
  by (induction xs ys rule: first_diff.induct) auto

lemma map_zip_eq: "length cs = length xs \<Longrightarrow> \<forall>(c, x) \<in> set (zip cs xs). f c = x \<Longrightarrow> map f cs = xs"
  by (induction cs xs rule: list_induct2) auto

lemma fst_bit_cells [simp]: "map fst (bit_cells m x cs) = cs"
  by (induction cs arbitrary: m) (simp_all add: Let_def)

locale rw_circuit = wide_integral L + circuit_table T
  for L :: "'a libs_scheme" and T :: "('t, 'f :: field) table_lib"
begin

lemma fst_operation_cells: "map fst (operation_cells L e :: (nat \<times> 'f) list) = operation_columns"
  by (simp add: operation_cells_def operation_columns_def lookup_cells_def chunk_cells_eq
      chunk_columns_def)

lemma distinct_operation_columns: "distinct operation_columns"
  by (simp add: operation_columns_def op_selector_columns_def chunk_columns_def)

lemma row_holds_puts:
  "tab_val T t RW_FIELD_TYPE row = 0 \<Longrightarrow> row_holds L T (tab_puts T row (operation_cells L e) t) row e"
proof -
  assume f: "tab_val T t RW_FIELD_TYPE row = 0"
  have "RW_FIELD_TYPE \<notin> fst ` set (operation_cells L e :: (nat \<times> 'f) list)"
    unfolding set_map [symmetric] fst_operation_cells
    by (simp add: operation_columns_def op_selector_columns_def chunk_columns_def)
  then show ?thesis
    using f distinct_operation_columns
    by (auto simp: row_holds_def val_puts_other fst_operation_cells intro!: val_puts_in)
qed

lemma row_holds_sorting:
  assumes "row_holds L T t row e"
  shows "map (\<lambda>c. tab_val T t c row) sorting = map of_nat (sort_values e)"
proof -
  have "map (\<lambda>c. tab_val T t c row) chunk_columns = map of_nat (chunk_values e)"
    using assms
    by (intro map_zip_eq)
      (auto simp: row_holds_def operation_cells_def chunk_cells_eq chunk_columns_def)
  then have "map (\<lambda>c. tab_val T t c row) (take 12 chunk_columns) = map of_nat (take 12 (chunk_values e))"
    and "map (\<lambda>c. tab_val T t c row) (drop 12 chunk_columns) = map of_nat (drop 12 (chunk_values e))"
    by (simp_all flip: take_map drop_map)
  then show ?thesis
    using assms
    by (simp only: sorting_def sort_values_def list.map map_append)
      (simp add: row_holds_def operation_cells_def lookup_cells_def)
qed

lemma sorting_first_diff:
  assumes "row_holds L T t row e" and "row_holds L T t row' p"
  shows "first_diff (map (\<lambda>c. tab_val T t c row) sorting) (map (\<lambda>c. tab_val T t c row') sorting) =
    first_diff (sort_values e) (sort_values p)"
  unfolding row_holds_sorting [OF assms(1)] row_holds_sorting [OF assms(2)]
proof (rule first_diff_map)
  show "inj_on (of_nat :: nat \<Rightarrow> 'f) (set (sort_values e) \<union> set (sort_values p))"
    by (intro inj_onI of_nat_inj) (auto dest!: sort_values_less)
qed simp

lemma find_difference_eq:
  "find_difference T row cs k t = (k', t') \<Longrightarrow>
   k' = k + first_diff (map (\<lambda>c. tab_val T t c row) cs) (map (\<lambda>c. tab_val T t c (row - 1)) cs) \<and>
   (\<forall>c r. tab_val T t' c r = tab_val T t c r)"
proof (induction cs arbitrary: k t)
  case (Cons c cs)
  let ?t = "tab_touch T (tab_touch T t c row) c (row - 1)"
  show ?case
  proof (cases "tab_val T t c row = tab_val T t c (row - 1)")
    case True
    then have "find_difference T row cs (Suc k) ?t = (k', t')"
      using Cons.prems by (simp add: tab_read_def val_touch)
    from Cons.IH [OF this] True show ?thesis by (simp add: val_touch)
  next
    case False
    then show ?thesis using Cons.prems by (auto simp: tab_read_def val_touch)
  qed
qed simp

lemma row_neq: "row - 1 \<noteq> (row :: u32)"
  by simp

lemma val_value_before:
  "tab_val T (value_before L T row k e t) c r =
     (if r = row \<and> c = RW_VALUE_BEFORE_HI
        then (if k < 30 then w_hi L (rw_value_prev e) else tab_val T t RW_VALUE_BEFORE_HI (row - 1))
      else if r = row \<and> c = RW_VALUE_BEFORE_LO
        then (if k < 30 then w_lo L (rw_value_prev e) else tab_val T t RW_VALUE_BEFORE_LO (row - 1))
      else tab_val T t c r)"
proof (cases "k < 30")
  case True
  then show ?thesis by (simp add: value_before_def val_put)
next
  case False
  then show ?thesis
    by (simp only: value_before_def tab_read_def Let_def prod.case val_put val_touch if_False
        row_neq simp_thms) auto
qed

lemma val_boundary_marks:
  "c \<noteq> RW_IS_LAST \<Longrightarrow> c \<noteq> RW_IS_FIRST \<Longrightarrow>
   tab_val T (boundary_marks T row k e t) c r = tab_val T t c r"
  "r \<noteq> row \<Longrightarrow> r \<noteq> row - 1 \<Longrightarrow>
   tab_val T (boundary_marks T row k e t) c r = tab_val T t c r"
  "c \<noteq> RW_IS_LAST \<Longrightarrow> r \<noteq> row \<Longrightarrow>
   tab_val T (boundary_marks T row k e t) c r = tab_val T t c r"
  by (simp_all add: boundary_marks_def Let_def val_put)

lemma val_difference_cells:
  assumes "k < 32"
  shows "\<exists>t'. difference_cells T row k t = Some t' \<and>
    (\<forall>c r. tab_val T t' c r =
      (if r = row \<and> c = RW_DIFFERENCE
       then tab_val T t (sorting ! k) row - tab_val T t (sorting ! k) (row - 1)
       else if r = row \<and> c = RW_INV_DIFFERENCE
       then (let d = tab_val T t (sorting ! k) row - tab_val T t (sorting ! k) (row - 1)
             in if d = 0 then 0 else 1 / d)
       else tab_val T t c r))"
  using assms by (simp add: difference_cells_def tab_read_def val_put val_touch)

text \<open>The columns that the advice about the row above is stored in.\<close>

definition advice_columns :: "nat list" where
  "advice_columns = index_columns @ [RW_IS_FIRST, RW_DIFFERENCE, RW_INV_DIFFERENCE,
     RW_VALUE_BEFORE_HI, RW_VALUE_BEFORE_LO, RW_IS_LAST]"

lemma bits5:
  "k < 32 \<Longrightarrow> bit_cells (intg L (push_bit (length index_columns) 1)) k index_columns =
     zip index_columns (map (\<lambda>j. of_bool (bit k (4 - j))) [0..<5])"
proof -
  have m: "intg L 32 = 32" by (simp add: intg_id)
  have b: "k AND 2 ^ i = 0 \<longleftrightarrow> \<not> bit k i" for i
    by (rule and_exp_eq_0_iff_not_bit)
  show ?thesis
    using b [of 0] b [of 1] b [of 2] b [of 3] b [of 4]
    by (simp add: index_columns_def m upt_rec push_bit_eq_mult)
qed

lemma row_holds_mono:
  assumes "row_holds L T t row e"
    and "\<And>c. c \<in> set operation_columns \<or> c = RW_FIELD_TYPE \<Longrightarrow> tab_val T t' c row = tab_val T t c row"
  shows "row_holds L T t' row e"
proof -
  have "fst cx \<in> set operation_columns" if "cx \<in> set (operation_cells L e :: (nat \<times> 'f) list)" for cx
    using that unfolding fst_operation_cells [of e, symmetric] by simp
  then show ?thesis
    using assms by (fastforce simp: row_holds_def)
qed

lemma advice_columns_apart: "c \<in> set operation_columns \<or> c = RW_FIELD_TYPE \<Longrightarrow> c \<notin> set advice_columns"
  by (auto simp: operation_columns_def advice_columns_def op_selector_columns_def
      index_columns_def chunk_columns_def)

definition unchanged :: "u32 \<Rightarrow> 't \<Rightarrow> 't \<Rightarrow> bool" where
  "unchanged row t t' \<longleftrightarrow> (\<forall>c r. r \<noteq> row \<and> (c \<noteq> RW_IS_LAST \<or> r \<noteq> row - 1) \<longrightarrow>
     tab_val T t' c r = tab_val T t c r)"

lemma advice_ok:
  assumes e: "row_holds L T t row e" and p: "row_holds L T t (row - 1) p"
    and diff: "sort_values e \<noteq> sort_values p"
  shows "total (advice L T row e t) (\<lambda>t'. row_holds L T t' row e \<and> row_advised T t' row p e \<and>
    unchanged row t t')"
proof -
  define k where "k = first_diff (sort_values e) (sort_values p)"
  have k: "k < 32" and neq: "sort_values e ! k \<noteq> sort_values p ! k"
    using first_diff_neq [OF diff] by (simp_all add: k_def)
  obtain t1 where f: "find_difference T row sorting 0 t = (k, t1)"
      and t1: "\<And>c r. tab_val T t1 c r = tab_val T t c r"
    using find_difference_eq [of row sorting 0 t] sorting_first_diff [OF e p]
    by (cases "find_difference T row sorting 0 t") (auto simp: k_def)
  define t2 where "t2 = value_before L T row k e t1"
  define t3 where "t3 = tab_puts T row (zip index_columns (map (\<lambda>j. of_bool (bit k (4 - j))) [0..<5])) t2"
  define t4 where "t4 = boundary_marks T row k e t3"
  have other: "tab_val T t4 c r = tab_val T t c r" if "c \<notin> set advice_columns" for c r
    using that unfolding t4_def t3_def
    by (subst val_boundary_marks(1), simp_all add: advice_columns_def)
      (subst val_puts_other, auto simp: t2_def val_value_before t1 index_columns_def upt_rec)
  have un: "unchanged row t t4"
    unfolding unchanged_def
  proof (intro allI impI)
    fix c r assume r: "r \<noteq> row \<and> (c \<noteq> RW_IS_LAST \<or> r \<noteq> row - 1)"
    then have "tab_val T t4 c r = tab_val T t3 c r"
      unfolding t4_def using val_boundary_marks(2,3) by blast
    then show "tab_val T t4 c r = tab_val T t c r"
      using r by (simp add: t3_def val_puts t2_def val_value_before t1)
  qed
  have col: "sorting ! k \<notin> set advice_columns"
  proof -
    have "sorting ! k \<in> set sorting" using k by simp
    then show ?thesis
      by (auto simp: sorting_def chunk_columns_def advice_columns_def index_columns_def)
  qed
  have d: "tab_val T t4 (sorting ! k) row = of_nat (sort_values e ! k)"
      "tab_val T t4 (sorting ! k) (row - 1) = of_nat (sort_values p ! k)"
    using arg_cong [OF row_holds_sorting [OF e], of "\<lambda>l. l ! k"]
      arg_cong [OF row_holds_sorting [OF p], of "\<lambda>l. l ! k"] k
    by (simp_all add: other [OF col])
  have nz: "(of_nat (sort_values e ! k) :: 'f) - of_nat (sort_values p ! k) \<noteq> 0"
    using of_nat_inj [of "sort_values e ! k" "sort_values p ! k"] neq k
      sort_values_less [OF nth_mem, of k e] sort_values_less [OF nth_mem, of k p] by auto
  obtain t5 where t5: "difference_cells T row k t4 = Some t5"
    and v5: "\<And>c r. tab_val T t5 c r =
      (if r = row \<and> c = RW_DIFFERENCE then of_nat (sort_values e ! k) - of_nat (sort_values p ! k)
       else if r = row \<and> c = RW_INV_DIFFERENCE
       then 1 / (of_nat (sort_values e ! k) - of_nat (sort_values p ! k))
       else tab_val T t4 c r)"
    using val_difference_cells [OF k, of row t4] nz unfolding d Let_def by auto
  have run: "advice L T row e t = Some t5"
    unfolding advice_def f Let_def prod.case bits5 [OF k] t2_def [symmetric] t3_def [symmetric]
      t4_def [symmetric] by (rule t5)
  have "map (\<lambda>c. tab_val T t5 c row) index_columns = map (\<lambda>j. of_bool (bit k (4 - j))) [0..<5]"
  proof (rule map_zip_eq)
    have "tab_val T t5 c row = tab_val T t3 c row" if "c \<in> set index_columns" for c
      using that unfolding v5 t4_def
      by (subst val_boundary_marks(1)) (auto simp: index_columns_def)
    moreover have "tab_val T t3 c row = x"
      if "(c, x) \<in> set (zip index_columns (map (\<lambda>j. of_bool (bit k (4 - j))) [0..<5]))" for c x
      unfolding t3_def using that by (intro val_puts_in) (simp_all add: index_columns_def)
    ultimately show "\<forall>(c, x) \<in> set (zip index_columns (map (\<lambda>j. of_bool (bit k (4 - j))) [0..<5])).
        tab_val T t5 c row = x"
      by (auto dest: set_zip_leftD)
  qed (simp add: index_columns_def)
  then have "row_advised T t5 row p e"
    using nz k by (simp add: row_advised_def v5 flip: k_def)
  moreover have "row_holds L T t5 row e"
    using e by (rule row_holds_mono)
      (auto simp: v5 other dest!: advice_columns_apart, simp_all add: advice_columns_def)
  moreover have "unchanged row t t5"
    using un by (simp add: unchanged_def v5)
  ultimately show ?thesis by (simp add: run)
qed

lemma process_row_ok:
  assumes field: "\<And>r. tab_val T t RW_FIELD_TYPE r = 0" and row: "row = start + word_of_nat i"
    and above: "0 < i \<Longrightarrow> row_holds L T t (row - 1) p \<and> sort_values e \<noteq> sort_values p"
  shows "total (process_row L T start i e t) (\<lambda>t'. row_holds L T t' row e \<and>
    (0 < i \<longrightarrow> row_advised T t' row p e) \<and> unchanged row t t' \<and>
    (\<forall>r. tab_val T t' RW_FIELD_TYPE r = 0))"
proof -
  define t1 where "t1 = tab_puts T row (operation_cells L e) t"
  have e: "row_holds L T t1 row e"
    unfolding t1_def using field by (rule row_holds_puts)
  have un1: "tab_val T t1 c r = tab_val T t c r" if "r \<noteq> row" for c r
    using that by (simp add: t1_def val_puts_other)
  have field': "tab_val T t' RW_FIELD_TYPE r = 0"
    if "unchanged row t1 t'" and "row_holds L T t' row e" for t' r
    using that field [of r] un1 [of r] by (cases "r = row") (auto simp: unchanged_def row_holds_def)
  show ?thesis
  proof (cases "i = 0")
    case True
    then show ?thesis
      using e un1 field' [of t1] by (simp add: process_row_def row t1_def unchanged_def)
  next
    case False
    then have p: "row_holds L T t (row - 1) p" and neq: "sort_values e \<noteq> sort_values p"
      using above by blast+
    have "row_holds L T t1 (row - 1) p"
      using p by (rule row_holds_mono) (rule un1 [OF row_neq])
    from advice_ok [OF e this neq]
    have "total (advice L T row e t1) (\<lambda>t'. row_holds L T t' row e \<and> row_advised T t' row p e \<and>
        unchanged row t1 t')" .
    moreover have "process_row L T start i e t = advice L T row e t1"
      using False by (simp add: process_row_def row t1_def Let_def)
    moreover have "unchanged row t t'" if "unchanged row t1 t'" for t'
      using that un1 by (simp add: unchanged_def)
    ultimately show ?thesis
      using field' False by (auto elim!: total_mono)
  qed
qed

lemma row_advised_mono:
  assumes "row_advised T t row p e"
    and "\<And>c. c \<noteq> RW_IS_LAST \<Longrightarrow> tab_val T t' c row = tab_val T t c row"
  shows "row_advised T t' row p e"
proof -
  have *: "map (\<lambda>c. tab_val T t' c row) index_columns = map (\<lambda>c. tab_val T t c row) index_columns"
    by (rule map_cong [OF refl], rule assms(2)) (auto simp: index_columns_def)
  show ?thesis
    using assms(1) unfolding row_advised_def Let_def * by (simp add: assms(2))
qed

text \<open>The rows from the \<open>i\<close>-th on, below a row that holds \<open>p\<close>.\<close>

lemma process_rows_ok:
  assumes "\<And>r. tab_val T t RW_FIELD_TYPE r = 0" and "i + length es \<le> 2 ^ 32"
    and "0 < i \<Longrightarrow> row_holds L T t (start + word_of_nat i - 1) p"
    and "successively (\<lambda>p e. sort_values e \<noteq> sort_values p) (if i = 0 then es else p # es)"
  shows "total (process_rows L T start i es t) (\<lambda>t'.
    (\<forall>j < length es. row_holds L T t' (start + word_of_nat (i + j)) (es ! j) \<and>
       (0 < i + j \<longrightarrow> row_advised T t' (start + word_of_nat (i + j)) ((p # es) ! j) (es ! j))) \<and>
    (\<forall>r. tab_val T t' RW_FIELD_TYPE r = 0) \<and>
    (\<forall>c r. c \<noteq> RW_IS_LAST \<longrightarrow> (\<forall>j < length es. r \<noteq> start + word_of_nat (i + j)) \<longrightarrow>
       tab_val T t' c r = tab_val T t c r))"
  using assms
proof (induction es arbitrary: i t p)
  case (Cons e es)
  define row where "row = start + word_of_nat i"
  have "0 < i \<Longrightarrow> row_holds L T t (row - 1) p \<and> sort_values e \<noteq> sort_values p"
    using Cons.prems(3,4) by (simp add: row_def)
  from process_row_ok [OF Cons.prems(1) row_def this]
  obtain t1 where run: "process_row L T start i e t = Some t1"
    and e: "row_holds L T t1 row e" and adv: "0 < i \<Longrightarrow> row_advised T t1 row p e"
    and un: "unchanged row t t1" and field: "\<And>r. tab_val T t1 RW_FIELD_TYPE r = 0"
    by (auto simp: total_iff)
  have "row_holds L T t1 (start + word_of_nat (Suc i) - 1) e"
    using e by (simp add: row_def add.commute)
  moreover have "successively (\<lambda>p e. sort_values e \<noteq> sort_values p) (e # es)"
    using Cons.prems(4) by (simp split: if_splits)
  ultimately have "total (process_rows L T start (Suc i) es t1) (\<lambda>t'.
      (\<forall>j < length es. row_holds L T t' (start + word_of_nat (Suc i + j)) (es ! j) \<and>
         (0 < Suc i + j \<longrightarrow> row_advised T t' (start + word_of_nat (Suc i + j)) ((e # es) ! j) (es ! j))) \<and>
      (\<forall>r. tab_val T t' RW_FIELD_TYPE r = 0) \<and>
      (\<forall>c r. c \<noteq> RW_IS_LAST \<longrightarrow> (\<forall>j < length es. r \<noteq> start + word_of_nat (Suc i + j)) \<longrightarrow>
         tab_val T t' c r = tab_val T t1 c r))"
    using Cons.prems(2) by (intro Cons.IH field) simp_all
  then obtain t2 where run2: "process_rows L T start (Suc i) es t1 = Some t2"
    and rows: "\<And>j. j < length es \<Longrightarrow> row_holds L T t2 (start + word_of_nat (Suc i + j)) (es ! j) \<and>
         row_advised T t2 (start + word_of_nat (Suc i + j)) ((e # es) ! j) (es ! j)"
    and field2: "\<And>r. tab_val T t2 RW_FIELD_TYPE r = 0"
    and un2: "\<And>c r. c \<noteq> RW_IS_LAST \<Longrightarrow> (\<And>j. j < length es \<Longrightarrow> r \<noteq> start + word_of_nat (Suc i + j)) \<Longrightarrow>
         tab_val T t2 c r = tab_val T t1 c r"
    by (auto simp: total_iff)
  have here: "tab_val T t2 c row = tab_val T t1 c row" if "c \<noteq> RW_IS_LAST" for c
    using that
  proof (rule un2)
    fix j assume "j < length es"
    then show "row \<noteq> start + word_of_nat (Suc i + j)"
      using row_index_inj [of i "Suc i + j" start] Cons.prems(2) by (auto simp: row_def)
  qed
  have e2: "row_holds L T t2 row e"
    using e by (rule row_holds_mono)
      (rule here, auto simp: operation_columns_def op_selector_columns_def chunk_columns_def)
  have adv2: "row_advised T t2 row p e" if "0 < i"
    using adv [OF that] here by (rule row_advised_mono)
  have "row_holds L T t2 (start + word_of_nat (i + j)) ((e # es) ! j) \<and>
      (0 < i + j \<longrightarrow> row_advised T t2 (start + word_of_nat (i + j)) ((p # e # es) ! j) ((e # es) ! j))"
    if "j < length (e # es)" for j
  proof (cases j)
    case 0
    then show ?thesis using e2 adv2 by (simp add: row_def)
  next
    case (Suc k)
    then show ?thesis using rows [of k] that by simp
  qed
  moreover have "tab_val T t2 c r = tab_val T t c r"
    if "c \<noteq> RW_IS_LAST" and r: "\<forall>j < length (e # es). r \<noteq> start + word_of_nat (i + j)" for c r
  proof -
    have "r \<noteq> start + word_of_nat (Suc i + j)" if "j < length es" for j
      using r [rule_format, of "Suc j"] that by simp
    moreover have "r \<noteq> row" using r [rule_format, of 0] by (simp add: row_def)
    ultimately show ?thesis
      using un2 [of c r] un \<open>c \<noteq> RW_IS_LAST\<close> by (simp add: unchanged_def)
  qed
  ultimately show ?case
    using field2 by (simp add: run run2)
qed simp

lemma process_rw_ok:
  assumes "\<And>r. tab_val T t RW_FIELD_TYPE r = 0" and "length tr \<le> 2 ^ 32"
    and "successively (\<lambda>p e. sort_values e \<noteq> sort_values p) (sort_trace tr)"
  shows "total (process_rw_operations L T tr t) (\<lambda>(tr', t'). tr' = sort_trace tr \<and>
    rows_ok L T t' (word_of_nat (tab_size T t RW_OP)) tr' \<and> (\<forall>r. tab_val T t' RW_FIELD_TYPE r = 0))"
proof -
  have len: "length (sort_trace tr) = length tr" by (simp add: sort_trace_def)
  have "total (process_rows L T (word_of_nat (tab_size T t RW_OP)) 0 (sort_trace tr) t) (\<lambda>t'.
      rows_ok L T t' (word_of_nat (tab_size T t RW_OP)) (sort_trace tr) \<and>
      (\<forall>r. tab_val T t' RW_FIELD_TYPE r = 0))"
  proof (rule total_mono [OF process_rows_ok])
    fix t' assume *: "(\<forall>j < length (sort_trace tr).
        row_holds L T t' (word_of_nat (tab_size T t RW_OP) + word_of_nat (0 + j)) (sort_trace tr ! j) \<and>
        (0 < 0 + j \<longrightarrow> row_advised T t' (word_of_nat (tab_size T t RW_OP) + word_of_nat (0 + j))
          ((undefined # sort_trace tr) ! j) (sort_trace tr ! j))) \<and>
      (\<forall>r. tab_val T t' RW_FIELD_TYPE r = 0) \<and>
      (\<forall>c r. c \<noteq> RW_IS_LAST \<longrightarrow>
        (\<forall>j < length (sort_trace tr). r \<noteq> word_of_nat (tab_size T t RW_OP) + word_of_nat (0 + j)) \<longrightarrow>
        tab_val T t' c r = tab_val T t c r)"
    then show "rows_ok L T t' (word_of_nat (tab_size T t RW_OP)) (sort_trace tr) \<and>
        (\<forall>r. tab_val T t' RW_FIELD_TYPE r = 0)"
      by (auto simp: rows_ok_def nth_Cons' simp del: of_nat_add)
  qed (use assms len in auto)
  then show ?thesis
    by (auto simp: process_rw_operations_def total_iff)
qed

end

subsection \<open>The order of the rows\<close>

text \<open>
  What the constructors of \<open>rw_operation\<close> guarantee of an entry, and the range in which its
  numbers fit the chunk columns.
\<close>

definition entry_fits :: "rw_operation \<Rightarrow> bool" where
  "entry_fits e \<longleftrightarrow> rw_call_id e < 2 ^ 32 \<and> unat (rw_address e) < 2 ^ 160 \<and> rw_field e = 0 \<and>
     rw_id e < 2 ^ 32"

lemma sort_values_eq:
  "sort_values e = [unat (rw_op e)] @ digits 2 (rw_call_id e) @ digits 10 (unat (rw_address e)) @
     [0] @ digits 16 (unat (rw_storage_key e)) @ digits 2 (rw_id e)"
  by (simp add: sort_values_def chunk_values_def)

lemma sort_values_neq:
  assumes "rw_id e < 2 ^ 32" and "rw_id p < 2 ^ 32" and "rw_id e \<noteq> rw_id p"
  shows "sort_values e \<noteq> sort_values p"
proof
  assume "sort_values e = sort_values p"
  then have "digits 2 (rw_id e) = digits 2 (rw_id p)"
    by (simp add: sort_values_eq)
  then have "rw_id e = rw_id p"
    using assms by (intro digits_inj [of _ 2]) simp_all
  with assms show False by simp
qed

lemma rw_less_lex:
  assumes "entry_fits p" and "entry_fits e" and "rw_call_id p = rw_call_id e" and "rw_less p e"
  shows "lex_less (sort_values p) (sort_values e)"
proof -
  have k: "unat (rw_storage_key x) < 65536 ^ 16" for x
    using unat_u256_less [of "rw_storage_key x"] by simp
  note d = digits_lex [of "unat (rw_address p)" 10 "unat (rw_address e)"]
    digits_inj [of "unat (rw_address p)" 10 "unat (rw_address e)"]
    digits_lex [of "unat (rw_storage_key p)" 16 "unat (rw_storage_key e)"]
    digits_inj [of "unat (rw_storage_key p)" 16 "unat (rw_storage_key e)"]
    digits_lex [of "rw_id p" 2 "rw_id e"] digits_inj [of "rw_id p" 2 "rw_id e"]
  show ?thesis
    using assms k [of p] k [of e] d
    by (auto simp: sort_values_eq lex_less_append entry_fits_def rw_less_def word_less_nat_alt
        word_unat_eq_iff simp del: digits.simps split: if_splits)
qed

lemma sort_trace_perm [simp]: "mset (sort_trace tr) = mset tr" "set (sort_trace tr) = set tr"
    "length (sort_trace tr) = length tr"
  by (simp_all add: sort_trace_def)

lemma sort_trace_sorted: "sorted (map rw_key (sort_trace tr))"
  by (simp add: sort_trace_def)

lemma sort_trace_less:
  assumes "distinct (map rw_id tr)"
  shows "sorted_wrt rw_less (sort_trace tr)"
proof -
  have "mset (map rw_id (sort_trace tr)) = mset (map rw_id tr)" by simp
  then have "distinct (map rw_id (sort_trace tr))"
    using assms mset_eq_imp_distinct_iff by blast
  moreover have "sorted_wrt (\<lambda>x y. rw_key x \<le> rw_key y) (sort_trace tr)"
    using sort_trace_sorted [of tr] by (simp add: sorted_map)
  ultimately show ?thesis
    unfolding sorted_wrt_iff_nth_less rw_less_key
    by (auto simp: distinct_conv_nth rw_key_def order.strict_iff_order)
qed

text \<open>Neighbours of a sorted trace have different 32-bit identifiers.\<close>

lemma sort_trace_ids:
  assumes "ids_ok tr" and "length tr \<le> 2 ^ 32"
  shows "successively (\<lambda>p e. rw_id p < 2 ^ 32 \<and> rw_id e < 2 ^ 32 \<and> rw_id e \<noteq> rw_id p) (sort_trace tr)"
  unfolding successively_conv_nth
proof (intro allI impI)
  fix i assume i: "Suc i < length (sort_trace tr)"
  let ?p = "sort_trace tr ! i" and ?e = "sort_trace tr ! Suc i"
  have small: "rw_id e < 2 ^ 32" if "e \<in> set tr" for e
    using that assms by (auto simp: in_set_conv_nth ids_ok_nth)
  have "mset (map rw_id (sort_trace tr)) = mset (map rw_id tr)" by simp
  then have "distinct (map rw_id (sort_trace tr))"
    using ids_ok_distinct [OF assms(1)] mset_eq_imp_distinct_iff by blast
  then have "rw_id ?e \<noteq> rw_id ?p"
    using i by (simp add: distinct_conv_nth)
  moreover have "?p \<in> set tr" "?e \<in> set tr"
    using i nth_mem [of i "sort_trace tr"] nth_mem [of "Suc i" "sort_trace tr"] by simp_all
  ultimately show "rw_id ?p < 2 ^ 32 \<and> rw_id ?e < 2 ^ 32 \<and> rw_id ?e \<noteq> rw_id ?p"
    using small by blast
qed

subsection \<open>The finished table\<close>

context rw_circuit
begin

lemma rw_table_rows:
  assumes "\<And>r. tab_val T t RW_FIELD_TYPE r = 0" and "length tr \<le> 2 ^ 32" and "ids_ok tr"
  shows "total (process_rw_operations L T tr t) (\<lambda>(tr', t'). mset tr' = mset tr \<and>
    sorted_wrt rw_less tr' \<and> rows_ok L T t' (word_of_nat (tab_size T t RW_OP)) tr' \<and>
    (\<forall>r. tab_val T t' RW_FIELD_TYPE r = 0))"
proof -
  have "successively (\<lambda>p e. sort_values e \<noteq> sort_values p) (sort_trace tr)"
    using sort_trace_ids [OF assms(3,2)] by (rule successively_mono) (intro sort_values_neq, simp_all)
  from process_rw_ok [OF assms(1,2) this] show ?thesis
    using sort_trace_less [OF ids_ok_distinct [OF assms(3)]] by (auto elim!: total_mono)
qed

lemma rw_table_differences:
  assumes "\<And>r. tab_val T t RW_FIELD_TYPE r = 0" and "length tr \<le> 2 ^ 32" and "ids_ok tr"
    and fits: "\<And>e. e \<in> set tr \<Longrightarrow> entry_fits e \<and> rw_call_id e = c"
  shows "total (process_rw_operations L T tr t) (\<lambda>(tr', t'). \<forall>i. 0 < i \<and> i < length tr' \<longrightarrow>
    (\<exists>d. 0 < d \<and> d < 65536 \<and>
      tab_val T t' RW_DIFFERENCE (word_of_nat (tab_size T t RW_OP) + word_of_nat i) = of_nat d))"
proof (rule total_mono [OF rw_table_rows [OF assms(1-3)]], clarify)
  fix tr' t' i
  assume perm: "mset tr' = mset tr" and less: "sorted_wrt rw_less tr'"
    and rows: "rows_ok L T t' (word_of_nat (tab_size T t RW_OP)) tr'" and i: "0 < i" "i < length tr'"
  let ?p = "tr' ! (i - 1)" and ?e = "tr' ! i"
  have "set tr' = set tr" using perm by (rule mset_eq_setD)
  then have "?p \<in> set tr" "?e \<in> set tr"
    using i nth_mem [of i tr'] nth_mem [of "i - 1" tr'] by auto
  moreover have "rw_less ?p ?e"
    using less i by (simp add: sorted_wrt_iff_nth_less)
  ultimately have "lex_less (sort_values ?p) (sort_values ?e)"
    using fits by (intro rw_less_lex) auto
  then have "first_diff (sort_values ?e) (sort_values ?p) < 32"
    and k: "sort_values ?p ! first_diff (sort_values ?e) (sort_values ?p) <
      sort_values ?e ! first_diff (sort_values ?e) (sort_values ?p)"
    using lex_less_first_diff [of "sort_values ?p" "sort_values ?e"]
    by (simp_all add: first_diff_sym)
  moreover have "sort_values ?e ! first_diff (sort_values ?e) (sort_values ?p) < 65536"
    using calculation(1) by (intro sort_values_less [of _ ?e] nth_mem) simp
  ultimately show "\<exists>d. 0 < d \<and> d < 65536 \<and>
      tab_val T t' RW_DIFFERENCE (word_of_nat (tab_size T t RW_OP) + word_of_nat i) = of_nat d"
    using rows i
    by (intro exI [of _ "sort_values ?e ! first_diff (sort_values ?e) (sort_values ?p) -
        sort_values ?p ! first_diff (sort_values ?e) (sort_values ?p)"])
      (auto simp: rows_ok_def row_advised_def Let_def of_nat_diff)
qed

end

interpretation rw_columns: rw_circuit reference_libs "column_table :: (nat \<Rightarrow> rat list, rat) table_lib"
  by unfold_locales

end
