(* ===== verification/Assigner.thy ===== *)
theory Assigner
  imports Bytecode_Table Rw_Table
begin

text \<open>
  The assigner (\<open>include/assigner.hpp\<close>): the tables of the circuits by circuit number, the two
  functions that fill them, and \<open>evaluate\<close>, which runs a contract and fills the tables of the
  circuits that the target names.

  The assigner is shared between nested runs, so its tables are part of the host context;
  \<open>tables_ref\<close> says where they are in it.
\<close>

abbreviation CIRCUIT_ALL :: byte where "CIRCUIT_ALL \<equiv> 0xFF"
abbreviation CIRCUIT_BYTECODE :: byte where "CIRCUIT_BYTECODE \<equiv> 0x1"
abbreviation CIRCUIT_RW :: byte where "CIRCUIT_RW \<equiv> 0x2"

definition zkevm_circuits_map :: "string \<rightharpoonup> byte" where
  "zkevm_circuits_map = map_of
     [('''', CIRCUIT_ALL), (''bytecode'', CIRCUIT_BYTECODE), (''rw'', CIRCUIT_RW)]"

type_synonym 't assignments = "byte \<rightharpoonup> 't"

record ('h, 't) tables_ref =
  get_tables :: "'h \<Rightarrow> 't assignments"
  put_tables :: "'t assignments \<Rightarrow> 'h \<Rightarrow> 'h"

definition handle_bytecode ::
  "('t, 'f :: field) circuit_lib \<Rightarrow> byte list \<Rightarrow> 't assignments \<Rightarrow> 't assignments option" where
  "handle_bytecode C code m =
     (case m CIRCUIT_BYTECODE of
        None \<Rightarrow> Some m
      | Some t \<Rightarrow> do {
          t \<leftarrow> process_bytecode_input C code t;
          Some (m(CIRCUIT_BYTECODE \<mapsto> t)) })"

definition handle_rw ::
  "'a libs_scheme \<Rightarrow> ('t, 'f :: field) circuit_lib \<Rightarrow> rw_operation list \<Rightarrow> 't assignments \<Rightarrow>
   (rw_operation list \<times> 't assignments) option" where
  "handle_rw L C tr m =
     (case m CIRCUIT_RW of
        None \<Rightarrow> Some (tr, m)
      | Some t \<Rightarrow> do {
          (tr, t) \<leftarrow> process_rw_operations L (table_lib.truncate C) tr t;
          Some (tr, m(CIRCUIT_RW \<mapsto> t)) })"

subsection \<open>Running a contract\<close>

fun run_bind :: "'a run \<Rightarrow> ('a \<Rightarrow> 'b run) \<Rightarrow> 'b run" where
  "run_bind (Done x) f = f x"
| "run_bind Fault f = Fault"
| "run_bind Out_of_fuel f = Out_of_fuel"

definition run_of :: "'a option \<Rightarrow> 'a run" where
  "run_of x = (case x of None \<Rightarrow> Fault | Some y \<Rightarrow> Done y)"

text \<open>What \<open>evaluate\<close> does before the interpreter starts.\<close>

definition evaluate_start ::
  "'h env \<Rightarrow> ('t, 'f :: field) circuit_lib \<Rightarrow> ('h, 't) tables_ref \<Rightarrow> 'h \<Rightarrow> evmc_revision \<Rightarrow>
   evmc_message \<Rightarrow> byte list \<Rightarrow> byte \<Rightarrow> 'h exec_state option" where
  "evaluate_start E C R ctx r message container target = do {
     code_analysis \<leftarrow> analyze E r container;
     data \<leftarrow> get_data (analysis_header code_analysis) container;
     s \<leftarrow> exec_state_init E message r ctx container data 0 code_analysis;
     if target AND CIRCUIT_BYTECODE \<noteq> 0 then do {
       code \<leftarrow> slice_opt (code_buffer code_analysis) (executable_offset code_analysis)
         (length (original_code s));
       m \<leftarrow> handle_bytecode C code (get_tables R (host s));
       Some (s\<lparr>host := put_tables R m (host s)\<rparr>) }
     else Some s }"

text \<open>What it does after the interpreter has stopped with \<open>gas\<close> left.\<close>

definition evaluate_end ::
  "'h env \<Rightarrow> ('t, 'f :: field) circuit_lib \<Rightarrow> ('h, 't) tables_ref \<Rightarrow> byte \<Rightarrow> int \<Rightarrow> 'h exec_state \<Rightarrow>
   (evmc_result \<times> 'h exec_state) option" where
  "evaluate_end E C R target gas s = do {
     s \<leftarrow> (if target AND CIRCUIT_RW \<noteq> 0 then do {
            (tr, m) \<leftarrow> handle_rw E C (rw_trace s) (get_tables R (host s));
            Some (s\<lparr>rw_trace := tr, host := put_tables R m (host s)\<rparr>) }
          else Some s);
     let gas_left = (if status s = EVMC_SUCCESS \<or> status s = EVMC_REVERT then gas else 0);
     let refund = (if status s = EVMC_SUCCESS then gas_refund s else 0);
     _ \<leftarrow> cassert E (output_size s \<noteq> 0 \<or> output_offset s = 0);
     output \<leftarrow> (if output_size s \<noteq> 0 then mem_read (memory s) (output_offset s) (output_size s)
               else Some []);
     Some (make_result (malloc_ok E) (status s) gas_left refund output, s) }"

definition evaluate ::
  "nat \<Rightarrow> 'h env \<Rightarrow> ('t, 'f :: field) circuit_lib \<Rightarrow> ('h, 't) tables_ref \<Rightarrow> 'h \<Rightarrow> evmc_revision \<Rightarrow>
   evmc_message \<Rightarrow> byte list \<Rightarrow> string \<Rightarrow> (evmc_result \<times> 'h) run" where
  "evaluate fuel E C R ctx r message container target_circuit =
     (case zkevm_circuits_map target_circuit of
        None \<Rightarrow> Done (result_no_output EVMC_FAILURE (msg_gas message) 0, ctx)
      | Some target \<Rightarrow>
          run_bind (run_of (evaluate_start E C R ctx r message container target)) (\<lambda>s.
          let cost_table = get_baseline_cost_table (revision s)
                (eof_version (analysis_header (analysis s)))
          in run_bind (dispatch fuel E cost_table s (msg_gas message)) (\<lambda>(gas, s).
             run_bind (run_of (evaluate_end E C R target gas s)) (\<lambda>(res, s).
             Done (res, host s)))))"

end
