(* ===== verification/Circuit_Properties.thy ===== *)
theory Circuit_Properties
  imports Assigner
begin

text \<open>
  Properties of the two circuit tables. The hypotheses \<open>rw_circuit\<close> and \<open>bytecode_circuit\<close> are
  the documented behaviour of the third-party assignment table, big integers and field; the
  witnesses fill a table of vectors of rational numbers.
\<close>

subsection \<open>The read/write table\<close>

text \<open>
  C6. For a trace numbered by its positions (which is what the interpreter produces) and a table
  whose \<open>FIELD_TYPE\<close> column was never written, filling the read/write table always has a
  result: the trace is permuted into the strictly ascending order of the operations; every
  row holds the fields, selector bits and 16-bit chunks of its operation; and every row but
  the first names the first sorting column in which it differs from the row above, in five
  bits, with the non-zero difference and its inverse.
\<close>

theorem rw_table_filled:
  assumes "rw_circuit L T" and "\<forall>r. tab_val T t RW_FIELD_TYPE r = 0" and "length tr \<le> 2 ^ 32"
    and "ids_ok tr"
  shows "total (process_rw_operations L T tr t) (\<lambda>(tr', t').
     mset tr' = mset tr \<and> sorted_wrt rw_less tr' \<and>
     rows_ok L T t' (word_of_nat (tab_size T t RW_OP)) tr' \<and>
     (\<forall>r. tab_val T t' RW_FIELD_TYPE r = 0))"
  using assms by (intro rw_circuit.rw_table_rows) auto

definition sample_trace :: "rw_operation list" where
  "sample_trace =
     [\<lparr>rw_op = STACK_OP, rw_call_id = 0, rw_address = 1, rw_field = 0, rw_storage_key = 0,
       rw_id = 0, rw_is_write = True, rw_value = 7, rw_value_prev = 0\<rparr>,
      \<lparr>rw_op = STACK_OP, rw_call_id = 0, rw_address = 0, rw_field = 0, rw_storage_key = 0,
       rw_id = 1, rw_is_write = True, rw_value = 9, rw_value_prev = 0\<rparr>]"

definition empty_columns :: "nat \<Rightarrow> rat list" where
  "empty_columns = (\<lambda>_. [])"

lemma sample_trace_ok:
  "ids_ok sample_trace" "length sample_trace \<le> 4294967296"
  "tab_val column_table empty_columns c r = 0" "tab_size column_table empty_columns c = 0"
  by (simp_all add: sample_trace_def ids_ok_def column_table_def empty_columns_def column_get_def)

theorem rw_table_filled_witness:
  "total (process_rw_operations reference_libs column_table sample_trace empty_columns)
     (\<lambda>(tr', t'). mset tr' = mset sample_trace \<and> sorted_wrt rw_less tr' \<and>
        rows_ok reference_libs column_table t' 0 tr')"
  by (rule total_mono [OF rw_table_filled])
    (auto simp: sample_trace_ok rw_columns.rw_circuit_axioms)



subsection \<open>The bytecode table\<close>

text \<open>
  C8. Filling the bytecode table always has a result when the hash can be cut in two, and row
  \<open>j\<close> of it holds byte \<open>j\<close> of the code, the two halves of the hash, the random linear
  combination of the bytes from the second one up to its own, and marks the byte as an opcode
  exactly when an instruction starts there, counting from the second byte: the first byte is
  taken as the header.
\<close>

theorem bytecode_table_filled:
  assumes "bytecode_circuit C" and "length code \<le> 2 ^ 32" and "hash_halves C code = Some hash"
  shows "total (process_bytecode_input C code t) (\<lambda>t'. \<forall>j < length code.
    bytecode_row_holds (table_lib.truncate C) t'
      (word_of_nat (tab_size C t BC_VALUE) + word_of_nat j) hash code j)"
  using assms by (intro bytecode_circuit.bytecode_table)

theorem bytecode_table_filled_witness:
  "total (process_bytecode_input column_circuits [2, 0x60, 0x5b] empty_columns) (\<lambda>t'.
     tab_val column_table t' BC_IS_OPCODE 1 = 1 \<and> tab_val column_table t' BC_IS_OPCODE 2 = 0)"
proof -
  let ?code = "[2, 0x60, 0x5b] :: byte list"
  have hash: "hash_halves column_circuits ?code = Some (0, 0)"
    by (simp add: hash_halves_def column_circuits_def table_lib.defs circuit_lib.defs
        hash_value_def hash_digit_def numeral_eq_Suc)
  have "instr_start ?code 1 1" "\<not> instr_start ?code 1 2"
    by (auto simp: instr_start_iff instr_length_def dest: instr_start_le)
  moreover have "tab_size column_circuits empty_columns c = 0" for c
    by (simp add: column_circuits_def table_lib.defs sample_trace_ok)
  ultimately show ?thesis
    using bytecode_table_filled [OF bytecode_columns.bytecode_circuit_axioms _ hash, of empty_columns]
    by (auto simp: bytecode_row_holds_def elim!: total_mono dest: spec [of _ 1] spec [of _ 2])
qed

end
