(* ===== verification/Trace_Bound.thy ===== *)
theory Trace_Bound
  imports Gas
begin

text \<open>
  The length of the trace. Every entry of the read/write trace becomes a row of the circuit
  table, so what an execution costs the prover is the number of entries it logs. Each handler
  logs at most 36 entries, or, if it logs one entry for every byte it copies, a number that is
  paid for by the cost of the copy. So a unit of gas buys at most 36 entries.
\<close>

definition trace_le :: "int \<Rightarrow> 'h exec_state \<Rightarrow> bool" where
  "trace_le n s \<longleftrightarrow> int (length (rw_trace s)) \<le> n"

definition entries_per_gas :: int where
  "entries_per_gas = 36"


subsection \<open>Steps\<close>

lemma trace_le_updates [simp]:
  "trace_le n (s\<lparr>memory := m\<rparr>) = trace_le n s" "trace_le n (s\<lparr>gas_refund := g\<rparr>) = trace_le n s"
  "trace_le n (s\<lparr>host := h\<rparr>) = trace_le n s" "trace_le n (s\<lparr>m_tx := x\<rparr>) = trace_le n s"
  "trace_le n (s\<lparr>return_data := d\<rparr>) = trace_le n s" "trace_le n (s\<lparr>status := st\<rparr>) = trace_le n s"
  "trace_le n (s\<lparr>output_size := k\<rparr>) = trace_le n s" "trace_le n (s\<lparr>call_stack := c\<rparr>) = trace_le n s"
  "trace_le n (s\<lparr>output_offset := k\<rparr>) = trace_le n s"
  by (simp_all add: trace_le_def)

lemma trace_le_mono: "trace_le n s \<Longrightarrow> n \<le> m \<Longrightarrow> trace_le m s"
  by (simp add: trace_le_def)

lemma count_stack_set: "trace_le n s \<Longrightarrow> post (stack_set s tp i v) (trace_le n)"
  by (simp add: stack_set_def trace_le_def)

lemma count_stack_push: "trace_le n s \<Longrightarrow> post (stack_push s tp v) (\<lambda>(_, s'). trace_le n s')"
  by (auto simp: stack_push_def post_bind intro: post_mono [OF count_stack_set])

lemma count_log_stack_at: "trace_le n s \<Longrightarrow> post (log_stack_at E s tp k w i) (trace_le (n + 1))"
  unfolding log_stack_at_def
  by (rule post_skip) (simp add: log_stack_def stack_operation_def post_rules trace_le_def)

lemma count_log_memory: "trace_le n s \<Longrightarrow> post (log_memory E s a w v) (trace_le (n + 1))"
  by (simp add: log_memory_def memory_operation_def post_rules trace_le_def)

lemma count_log_storage: "trace_le n s \<Longrightarrow> trace_le (n + 1) (log_storage s a k w v v')"
  by (simp add: log_storage_def trace_le_def)

lemma count_push_logged: "trace_le n s \<Longrightarrow> post (push_logged E tp v s) (trace_le (n + 1))"
  unfolding push_logged_def
  by (rule post_bindI [OF count_stack_push]) (auto intro: count_log_stack_at)

lemma count_log_mem_loop:
  "trace_le n s \<Longrightarrow> post (log_mem_loop E addr base w k j s) (trace_le (n + int k))"
proof (induction k arbitrary: n j s)
  case (Suc k)
  show ?case
    unfolding log_mem_loop.simps
    by (rule post_skip, rule post_bindI [OF count_log_memory [OF Suc.prems]], drule Suc.IH)
      (simp add: algebra_simps)
qed simp

lemma count_log_zero_loop:
  "trace_le n s \<Longrightarrow> post (log_zero_loop E dst k j s) (trace_le (n + int k))"
proof (induction k arbitrary: n j s)
  case (Suc k)
  show ?case
    unfolding log_zero_loop.simps
    by (rule post_bindI [OF count_log_memory [OF Suc.prems]], drule Suc.IH) (simp add: algebra_simps)
qed simp

lemma count_log_reads_loop:
  "trace_le n s \<Longrightarrow> post (log_reads_loop E tp k i s) (trace_le (n + int k))"
proof (induction k arbitrary: n i s)
  case (Suc k)
  show ?case
    unfolding log_reads_loop.simps
    by (rule post_bindI [OF count_log_stack_at [OF Suc.prems]], drule Suc.IH) (simp add: algebra_simps)
qed simp

lemma count_log_push_loop:
  "trace_le n s \<Longrightarrow> post (log_push_loop E tp k i s) (trace_le (n + int k))"
proof (induction k arbitrary: n i s)
  case (Suc k)
  show ?case
    unfolding log_push_loop.simps
    by (rule post_bindI [OF count_log_stack_at [OF Suc.prems]], drule Suc.IH) (simp add: algebra_simps)
qed simp

lemma count_host_call: "trace_le n s \<Longrightarrow> post (host_call E s m) (\<lambda>(_, s'). trace_le n s')"
  by (auto simp: host_call_def bind_eq_Some_conv intro!: postI)

text \<open>A step that yields a state passes its count on, a step that yields a value is skipped.\<close>

lemmas count_binds = count_stack_set [THEN post_bindI] count_log_stack_at [THEN post_bindI]
  count_push_logged [THEN post_bindI] count_log_mem_loop [THEN post_bindI]
  count_log_zero_loop [THEN post_bindI] count_log_reads_loop [THEN post_bindI]
  count_log_push_loop [THEN post_bindI]

lemma count_bind_push:
  assumes "trace_le n s" and "\<And>tp' s'. trace_le n s' \<Longrightarrow> post (f tp' s') Q"
  shows "post (Option.bind (stack_push s tp v) (\<lambda>(tp', s'). f tp' s')) Q"
  using assms(2) by (auto intro: post_bindI [OF count_stack_push [OF assms(1)]])

lemma count_bind_call:
  assumes "trace_le n s" and "\<And>r s'. trace_le n s' \<Longrightarrow> post (f r s') Q"
  shows "post (Option.bind (host_call E s m) (\<lambda>(r, s'). f r s')) Q"
  using assms(2) by (auto intro: post_bindI [OF count_host_call [OF assms(1)]])

lemma count_host_snd:
  assumes "trace_le n s"
  shows "trace_le n (snd (get_tx_context E s))" "trace_le n (snd (host_account_exists E s a))"
    "trace_le n (snd (host_get_storage E s a k))" "trace_le n (snd (host_set_storage E s a k v))"
    "trace_le n (snd (host_get_balance E s a))" "trace_le n (snd (host_get_code_size E s a))"
    "trace_le n (snd (host_get_code_hash E s a))" "trace_le n (snd (host_copy_code E s a i j))"
    "trace_le n (snd (host_selfdestruct E s a b))" "trace_le n (snd (host_access_account E s a))"
    "trace_le n (snd (host_access_storage E s a k))"
    "trace_le n (snd (host_get_transient_storage E s a k))"
    "trace_le n (host_set_transient_storage E s a k v)"
  using assms by (simp_all add: host_defs get_tx_context_def Let_def split: prod.split)

lemma count_pair:
  fixes p :: "'x \<times> 'h exec_state"
  assumes "trace_le n (snd p)" and "\<And>r s'. trace_le n s' \<Longrightarrow> post (f r s') Q"
  shows "post (case p of (r, s') \<Rightarrow> f r s') Q"
  using assms by (cases p) simp

lemma count_triple:
  fixes p :: "'x \<times> 'y \<times> 'h exec_state"
  assumes "trace_le n (snd (snd p))" and "\<And>a b s'. trace_le n s' \<Longrightarrow> post (f a b s') Q"
  shows "post (case p of (a, b, s') \<Rightarrow> f a b s') Q"
  using assms by (cases p) simp

lemma count_charge_cold:
  "trace_le n s \<Longrightarrow> trace_le n (snd (snd (charge_cold_account E s a c g)))"
  by (simp add: charge_cold_account_def host_access_account_def Let_def split_def)

lemma count_selfdestruct_charge:
  "trace_le n s \<Longrightarrow> trace_le n (snd (snd (selfdestruct_charge E b g s)))"
  by (auto simp: selfdestruct_charge_def host_defs Let_def split: prod.split)

lemma count_if_pair:
  "trace_le n (snd p) \<Longrightarrow> trace_le n (snd q) \<Longrightarrow> trace_le n (snd (if c then p else q))"
  by simp

lemma count_let_pair:
  "trace_le n (snd p) \<Longrightarrow> (\<And>r s'. trace_le n s' \<Longrightarrow> trace_le n (snd (f r s'))) \<Longrightarrow>
   trace_le n (snd (case p of (r, s') \<Rightarrow> f r s'))"
  by (cases p) simp

lemma count_snd: "trace_le n s \<Longrightarrow> trace_le n (snd (x, s))"
  by simp

lemma count_if: "trace_le n a \<Longrightarrow> trace_le n b \<Longrightarrow> trace_le n (if c then a else b)"
  by simp

text \<open>A memory check passes only for sizes whose cost is charged in full.\<close>

lemma count_check:
  assumes "\<And>ok g' m'. post (f ok g' m') Q"
  shows "post (Option.bind (check_memory L g m off k) (\<lambda>(ok, g', m'). f ok g' m')) Q"
  using assms by (cases "check_memory L g m off k") auto

lemma count_check_copy:
  assumes "\<And>ok g' m'. g' \<le> g \<Longrightarrow> (ok \<Longrightarrow> lo64 k \<le> max_buffer_size) \<Longrightarrow> post (f ok g' m') Q"
  shows "post (Option.bind (check_memory_copy L g m off k) (\<lambda>(ok, g', m'). f ok g' m')) Q"
proof (rule post_bindI)
  have "post (check_memory_copy L g m off k) (\<lambda>(ok, g', m'). ok \<longrightarrow> lo64 k \<le> max_buffer_size)"
    using post_mono [of "check_memory L g m off (lo64 k)" "\<lambda>_. True"]
    by (auto simp: check_memory_copy_def to_uint64_def max_buffer_size_def Let_def intro!: postI)
  with check_memory_copy_gas [of L g m off k]
  show "post (check_memory_copy L g m off k) (\<lambda>(ok, g', m'). g' \<le> g \<and> (ok \<longrightarrow> lo64 k \<le> max_buffer_size))"
    by (cases "check_memory_copy L g m off k") auto
qed (use assms in auto)

lemma copy_entries:
  assumes "k \<le> max_buffer_size"
  shows "int k \<le> entries_per_gas * copy_cost k"
proof -
  have "k + 31 < 2 ^ 64" using assms by (simp add: max_buffer_size_def)
  then have "copy_cost k = 3 * int (words_for k)" by (rule copy_cost_eq)
  moreover have "int k \<le> 32 * int (words_for k)" using words_for_bound [of k] by linarith
  ultimately show ?thesis by (simp add: entries_per_gas_def)
qed

subsection \<open>Handlers\<close>

text \<open>
  What a handler of an instruction that charges its gas itself leaves of a trace with \<open>n\<close>
  entries when it starts with \<open>g\<close> units.
\<close>

definition paid :: "int \<Rightarrow> int \<Rightarrow> evmc_status_code \<times> int \<times> 'h exec_state \<Rightarrow> bool" where
  "paid n g = (\<lambda>(st, g', s'). trace_le (n + entries_per_gas) s' \<or>
     (0 \<le> g' \<and> trace_le (n + entries_per_gas * (g - g') + entries_per_gas) s'))"

lemma paid_count: "trace_le m s \<Longrightarrow> m \<le> n + entries_per_gas \<Longrightarrow> post (Some (st, g', s)) (paid n g)"
  by (auto simp: paid_def intro: trace_le_mono)

lemma paid_gas:
  "trace_le m s \<Longrightarrow> 0 \<le> g' \<Longrightarrow> m \<le> n + entries_per_gas * (g - g') + entries_per_gas \<Longrightarrow>
   post (Some (st, g', s)) (paid n g)"
  by (auto simp: paid_def intro: trace_le_mono)

lemma count_end: "trace_le m s \<Longrightarrow> m \<le> k \<Longrightarrow> post (Some s) (trace_le k)"
  by (auto intro: trace_le_mono)

lemma count_end_log:
  "trace_le m s \<Longrightarrow> m + 1 \<le> k \<Longrightarrow> post (log_stack_at E s tp j w i) (trace_le k)"
  "trace_le m s \<Longrightarrow> m + 1 \<le> k \<Longrightarrow> post (push_logged E tp v s) (trace_le k)"
  "trace_le m s \<Longrightarrow> m \<le> k \<Longrightarrow> post (stack_set s tp i v) (trace_le k)"
  by (auto intro: post_mono [OF count_log_stack_at] post_mono [OF count_push_logged]
      post_mono [OF count_stack_set] trace_le_mono)

lemma count_jump_end: "trace_le m s \<Longrightarrow> m \<le> k \<Longrightarrow> post (Some (p, s)) (\<lambda>(_, s'). trace_le k s')"
  by (auto intro: trace_le_mono)

lemma count_jump_impl: "trace_le m s \<Longrightarrow> m \<le> k \<Longrightarrow> post (Some (jump_impl s d)) (\<lambda>(_, s'). trace_le k s')"
  by (auto simp: jump_impl_def Let_def intro: trace_le_mono)

lemma count_jump_if:
  "trace_le m s \<Longrightarrow> m \<le> k \<Longrightarrow>
   post (Some (if c then jump_impl s d else (p, s))) (\<lambda>(_, s'). trace_le k s')"
  using count_jump_impl [of m s k d] count_jump_end [of m s k p] by simp

lemma post_assoc: "post (Option.bind a (\<lambda>x. Option.bind (b x) f)) Q \<Longrightarrow> post (Option.bind (Option.bind a b) f) Q"
  by simp

lemma count_write: "(\<And>m'. post (f m') Q) \<Longrightarrow> post (Option.bind (m :: memory option) f) Q"
  by (rule post_skip)

lemmas count_steps = count_binds count_bind_push count_bind_call count_check count_check_copy
  bind_ifI bind_SomeI bind_NoneI post_assoc count_write value_binds count_triple count_pair value_pair
  count_host_snd count_charge_cold count_selfdestruct_charge count_snd count_if_pair
  count_let_pair count_log_storage count_if

lemmas count_ends = count_end_log count_end count_jump_if count_jump_end count_jump_impl paid_count

lemma count_costs: "(\<And>w r. post (f w r) Q) \<Longrightarrow> post (case (p :: int \<times> int) of (w, r) \<Rightarrow> f w r) Q"
  by (cases p) simp

lemmas count_updates = trace_le_updates [THEN iffD2]

lemmas count_loop = count_updates count_steps count_ends post_ifI

lemma count_arith:
  assumes "trace_le n s"
  shows "post (arith2 f E tp s) (trace_le (n + entries_per_gas))"
    "post (arith1 h E tp s) (trace_le (n + entries_per_gas))"
    "post (i_addmod E tp s) (trace_le (n + entries_per_gas))"
    "post (i_mulmod E tp s) (trace_le (n + entries_per_gas))"
  unfolding arith2_def arith1_def i_addmod_def i_mulmod_def Let_def
  by (insert assms, (assumption | rule count_loop | (simp add: entries_per_gas_def; fail))+)

lemma count_exp: "trace_le n s \<Longrightarrow> post (i_exp E tp g s) (paid n g)"
  unfolding i_exp_def Let_def
  by (assumption | rule count_loop | (simp add: entries_per_gas_def; fail))+

lemma count_mload: "trace_le n s \<Longrightarrow> post (i_mload E tp g s) (paid n g)"
  unfolding i_mload_def Let_def
  by (assumption | rule count_loop | (simp add: entries_per_gas_def zkevm_word_size_def; fail))+

lemma count_mstore: "trace_le n s \<Longrightarrow> post (i_mstore k E tp g s) (paid n g)"
  unfolding i_mstore_def Let_def
  by (assumption | rule count_loop | (simp add: entries_per_gas_def zkevm_word_size_def; fail))+

lemma count_keccak256: "trace_le n s \<Longrightarrow> post (i_keccak256 E tp g s) (paid n g)"
  unfolding i_keccak256_def Let_def
  by (assumption | rule count_loop | (simp add: entries_per_gas_def zkevm_word_size_def; fail))+

lemma count_sload: "trace_le n s \<Longrightarrow> post (i_sload E tp g s) (paid n g)"
  unfolding i_sload_def Let_def
  by (assumption | rule count_loop | (simp add: entries_per_gas_def; fail))+


lemma count_tstore: "trace_le n s \<Longrightarrow> post (i_tstore E tp g s) (paid n g)"
  unfolding i_tstore_def Let_def
  by (assumption | rule count_loop | (simp add: entries_per_gas_def; fail))+

lemma count_mcopy: "trace_le n s \<Longrightarrow> post (i_mcopy E tp g s) (paid n g)"
  unfolding i_mcopy_def Let_def
  by (assumption | rule count_loop | (simp add: entries_per_gas_def; fail))+

lemma count_extcodecopy: "trace_le n s \<Longrightarrow> post (i_extcodecopy E tp g s) (paid n g)"
  unfolding i_extcodecopy_def Let_def
  by (assumption | rule count_loop | (simp add: entries_per_gas_def; fail))+

lemma count_gas: "trace_le n s \<Longrightarrow> post (i_gas E tp g s) (paid n g)"
  unfolding i_gas_def
  by (assumption | rule count_loop | (simp add: entries_per_gas_def; fail))+

lemma count_return: "trace_le n s \<Longrightarrow> post (return_impl E tp g s st) (paid n g)"
  unfolding return_impl_def Let_def
  by (assumption | rule count_loop | (simp add: entries_per_gas_def; fail))+

lemma count_selfdestruct: "trace_le n s \<Longrightarrow> post (i_selfdestruct E tp g s) (paid n g)"
  unfolding i_selfdestruct_def Let_def
  by (assumption | rule count_loop | (simp add: entries_per_gas_def; fail))+

text \<open>Copies that log the bytes they write.\<close>

lemma count_copy_bounds:
  assumes "\<And>a c. c \<le> lo64 w \<Longrightarrow> int c \<le> int (lo64 w) \<Longrightarrow> post (f a c) Q"
  shows "post (case copy_source_bounds src i w of (a, c) \<Rightarrow> f a c) Q"
  unfolding copy_source_bounds_def Let_def prod.case
  by (rule assms) (simp_all only: min.cobounded1 of_nat_le_iff)

lemma paid_copy:
  assumes "trace_le m s" and "\<not> g' - copy_cost k < 0" and "g' \<le> g" and "k \<le> max_buffer_size"
    and "m \<le> n + int k + entries_per_gas"
  shows "post (Some (st, g' - copy_cost k, s)) (paid n g)"
proof (rule paid_gas [OF assms(1)])
  have "entries_per_gas * copy_cost k \<le> entries_per_gas * (g - (g' - copy_cost k))"
    using assms(3) by (simp add: entries_per_gas_def)
  then show "m \<le> n + entries_per_gas * (g - (g' - copy_cost k)) + entries_per_gas"
    using copy_entries [OF assms(4)] assms(5) by linarith
qed (use assms(2) in simp)

lemma count_copy_input: "trace_le n s \<Longrightarrow> post (copy_input E tp src g s) (paid n g)"
  unfolding copy_input_def Let_def
  by (assumption | (rule paid_count, (assumption | rule count_updates)+, simp add: entries_per_gas_def; fail)
    | rule paid_copy count_copy_bounds count_updates count_steps post_ifI
    | (simp add: entries_per_gas_def of_nat_diff; fail))+

lemma count_returndatacopy: "trace_le n s \<Longrightarrow> post (i_returndatacopy E tp g s) (paid n g)"
  unfolding i_returndatacopy_def Let_def
  by (assumption | (rule paid_count, (assumption | rule count_updates)+, simp add: entries_per_gas_def; fail)
    | rule paid_copy count_updates count_steps post_ifI
    | (simp add: entries_per_gas_def of_nat_diff; fail))+

lemma count_datacopy: "trace_le n s \<Longrightarrow> post (i_datacopy E tp g s) (paid n g)"
  unfolding i_datacopy_def Let_def
  by (assumption | (rule paid_count, (assumption | rule count_updates)+, simp add: entries_per_gas_def; fail)
    | rule paid_copy count_copy_bounds count_updates count_steps post_ifI
    | (simp add: entries_per_gas_def of_nat_diff; fail))+

text \<open>The other handlers.\<close>

lemma count_push_handlers:
  assumes "trace_le n s"
  shows "post (i_address E tp s) (trace_le (n + entries_per_gas))"
    "post (i_caller E tp s) (trace_le (n + entries_per_gas))"
    "post (i_callvalue E tp s) (trace_le (n + entries_per_gas))"
    "post (i_calldatasize E tp s) (trace_le (n + entries_per_gas))"
    "post (i_codesize E tp s) (trace_le (n + entries_per_gas))"
    "post (i_returndatasize E tp s) (trace_le (n + entries_per_gas))"
    "post (i_msize E tp s) (trace_le (n + entries_per_gas))"
    "post (i_datasize E tp s) (trace_le (n + entries_per_gas))"
    "post (i_push0 E tp s) (trace_le (n + entries_per_gas))"
    "post (i_selfbalance E tp s) (trace_le (n + entries_per_gas))"
    "post (push_tx E tp h s) (trace_le (n + entries_per_gas))"
  unfolding i_address_def i_caller_def i_callvalue_def i_calldatasize_def i_codesize_def
    i_returndatasize_def i_msize_def i_datasize_def i_push0_def i_selfbalance_def push_tx_def Let_def
  by (insert assms, (assumption | rule count_loop | (simp add: entries_per_gas_def; fail))+)

lemma count_tx_handlers:
  assumes "trace_le n s"
  shows "post (i_origin E tp s) (trace_le (n + entries_per_gas))"
    "post (i_gasprice E tp s) (trace_le (n + entries_per_gas))"
    "post (i_basefee E tp s) (trace_le (n + entries_per_gas))"
    "post (i_blobbasefee E tp s) (trace_le (n + entries_per_gas))"
    "post (i_coinbase E tp s) (trace_le (n + entries_per_gas))"
    "post (i_timestamp E tp s) (trace_le (n + entries_per_gas))"
    "post (i_number E tp s) (trace_le (n + entries_per_gas))"
    "post (i_prevrandao E tp s) (trace_le (n + entries_per_gas))"
    "post (i_gaslimit E tp s) (trace_le (n + entries_per_gas))"
    "post (i_chainid E tp s) (trace_le (n + entries_per_gas))"
  unfolding i_origin_def i_gasprice_def i_basefee_def i_blobbasefee_def i_coinbase_def
    i_timestamp_def i_number_def i_prevrandao_def i_gaslimit_def i_chainid_def
  by (rule count_push_handlers [OF assms])+

lemma count_top_handlers:
  assumes "trace_le n s"
  shows "post (i_calldataload E tp s) (trace_le (n + entries_per_gas))"
    "post (i_blobhash E tp s) (trace_le (n + entries_per_gas))"
    "post (i_blockhash E tp s) (trace_le (n + entries_per_gas))"
    "post (i_tload E tp s) (trace_le (n + entries_per_gas))"
    "post (i_dataload E tp s) (trace_le (n + entries_per_gas))"
    "post (i_log E tp s) (trace_le (n + entries_per_gas))"
    "post (i_dup k E tp s) (trace_le (n + entries_per_gas))"
    "post (i_swap k E tp s) (trace_le (n + entries_per_gas))"
  unfolding i_calldataload_def i_blobhash_def i_blockhash_def i_tload_def i_dataload_def
    i_log_def i_dup_def i_swap_def swap_body_def Let_def
  by (insert assms, (assumption | rule count_loop | (simp add: entries_per_gas_def; fail))+)

lemma count_jumps:
  assumes "trace_le n s"
  shows "post (i_jump E tp s pos) (\<lambda>(_, s'). trace_le (n + entries_per_gas) s')"
    "post (i_jumpi E tp s pos) (\<lambda>(_, s'). trace_le (n + entries_per_gas) s')"
    "post (i_pc E tp s pos) (\<lambda>(_, s'). trace_le (n + entries_per_gas) s')"
    "post (i_rjump E tp s pos) (\<lambda>(_, s'). trace_le (n + entries_per_gas) s')"
    "post (i_rjumpv E tp s pos) (\<lambda>(_, s'). trace_le (n + entries_per_gas) s')"
    "post (i_callf E tp s pos) (\<lambda>(_, s'). trace_le (n + entries_per_gas) s')"
    "post (i_retf E tp s pos) (\<lambda>(_, s'). trace_le (n + entries_per_gas) s')"
    "post (i_jumpf E tp s pos) (\<lambda>(_, s'). trace_le (n + entries_per_gas) s')"
    "post (i_dupn E tp s pos) (\<lambda>(_, s'). trace_le (n + entries_per_gas) s')"
    "post (i_swapn E tp s pos) (\<lambda>(_, s'). trace_le (n + entries_per_gas) s')"
    "post (i_dataloadn E tp s pos) (\<lambda>(_, s'). trace_le (n + entries_per_gas) s')"
  unfolding i_jump_def i_jumpi_def i_pc_def i_rjump_def i_rjumpv_def i_callf_def i_retf_def
    i_jumpf_def i_dupn_def i_swapn_def i_dataloadn_def Let_def
  by (insert assms, (assumption | rule count_loop | (simp add: entries_per_gas_def; fail))+)

lemma count_rjumpi:
  "trace_le n s \<Longrightarrow> post (i_rjumpi E tp s pos) (\<lambda>(_, s'). trace_le (n + entries_per_gas) s')"
  unfolding i_rjumpi_def i_rjump_def
  by (assumption | rule count_loop | (simp add: entries_per_gas_def; fail))+

lemma count_push:
  assumes "trace_le n s" and "k \<le> 32"
  shows "post (i_push k E tp s pos) (\<lambda>(_, s'). trace_le (n + entries_per_gas) s')"
proof -
  have words: "push_num_words k \<le> 31"
    using assms(2) by (cases "k = 32") (simp_all add: push_num_words_def zkevm_word_size_def)
  show ?thesis
    unfolding i_push_def Let_def
    by (insert assms words, (assumption | rule count_loop | (simp add: entries_per_gas_def; fail))+)
qed

lemma count_account_query:
  assumes "trace_le n s" and "\<And>k s a. trace_le k s \<Longrightarrow> trace_le k (snd (query s a))"
  shows "post (account_query E tp query g s) (paid n g)"
  unfolding account_query_def Let_def
  by (insert assms(1), (assumption | rule count_loop assms(2) | (simp add: entries_per_gas_def; fail))+)

lemma count_account_handlers:
  assumes "trace_le n s"
  shows "post (i_balance E tp g s) (paid n g)" "post (i_extcodesize E tp g s) (paid n g)"
    "post (i_extcodehash E tp g s) (paid n g)"
  unfolding i_balance_def i_extcodesize_def i_extcodehash_def Let_def
  by (rule count_account_query [OF assms]; simp add: host_defs split_def Let_def)+

lemma count_copies:
  assumes "trace_le n s"
  shows "post (i_calldatacopy E tp g s) (paid n g)" "post (i_codecopy E tp g s) (paid n g)"
  using count_copy_input [OF assms] by (simp_all add: i_calldatacopy_def i_codecopy_def)

text \<open>Calls and creates log their operands and their result.\<close>

definition logs_at_most :: "int \<Rightarrow> evmc_status_code \<times> int \<times> 'h exec_state \<Rightarrow> bool" where
  "logs_at_most n = (\<lambda>(st, g', s'). trace_le n s')"

lemma logs_end: "trace_le m s \<Longrightarrow> m \<le> n \<Longrightarrow> post (Some (st, g', s)) (logs_at_most n)"
  by (auto simp: logs_at_most_def intro: trace_le_mono)

lemma logs_paid: "post m (logs_at_most k) \<Longrightarrow> k \<le> n + entries_per_gas \<Longrightarrow> post m (paid n g)"
  by (erule post_mono) (auto simp: logs_at_most_def paid_def intro: trace_le_mono)

lemma logs_mono: "post m (logs_at_most j) \<Longrightarrow> j \<le> k \<Longrightarrow> post m (logs_at_most k)"
  by (erule post_mono) (auto simp: logs_at_most_def intro: trace_le_mono)

lemma count_run_call: "trace_le n s \<Longrightarrow> post (run_call E tp m i k g s) (logs_at_most (n + 1))"
  unfolding run_call_def Let_def
  by (assumption | rule logs_end count_loop | (simp; fail))+

lemma count_run_create: "trace_le n s \<Longrightarrow> post (run_create E tp m g s) (logs_at_most (n + 1))"
  unfolding run_create_def Let_def
  by (assumption | rule logs_end count_loop | (simp; fail))+

lemma count_delegate_allowed:
  assumes "trace_le n s" and "\<And>ok s'. trace_le n s' \<Longrightarrow> post (f ok s') Q"
  shows "post (Option.bind (delegate_allowed E opc a s) (\<lambda>(ok, s'). f ok s')) Q"
  using assms count_host_snd(8) [OF assms(1), of E a 0 2]
  by (auto simp: delegate_allowed_def split: prod.splits)

lemma count_call_checked:
  "trace_le n s \<Longrightarrow> post (call_checked E opc ops input tp g s) (logs_at_most (n + 1))"
  unfolding call_checked_def Let_def
  by (assumption | rule count_run_call [THEN logs_mono] count_delegate_allowed post_option_case logs_end count_loop | (simp; fail))+

lemma count_call_impl: "trace_le n s \<Longrightarrow> post (call_impl E opc tp g s) (logs_at_most (n + 8))"
  unfolding call_impl_def Let_def
  by (assumption | rule count_call_checked [THEN logs_mono] value_bind_operands logs_end count_loop | (simp; fail))+

lemma count_create_checked:
  "trace_le n s \<Longrightarrow> post (create_checked E opc v salt a b tp g s) (logs_at_most (n + 1))"
  unfolding create_checked_def Let_def
  by (assumption | rule count_run_create [THEN logs_mono] logs_end count_loop | (simp; fail))+

lemma count_create_impl: "trace_le n s \<Longrightarrow> post (create_impl E opc tp g s) (logs_at_most (n + 5))"
  unfolding create_impl_def Let_def
  by (assumption | rule count_create_checked [THEN logs_mono] value_bind_operands logs_end count_loop | (simp; fail))+

lemma count_sstore: "trace_le n s \<Longrightarrow> post (i_sstore E tp g s) (logs_at_most (n + entries_per_gas))"
  unfolding i_sstore_def Let_def
  by (assumption | rule logs_end count_loop count_costs | (simp add: entries_per_gas_def; fail))+

lemma sstore_gas_left: "post (i_sstore E tp g s) (\<lambda>(st, g', s'). st = EVMC_SUCCESS \<longrightarrow> 0 \<le> g')"
  unfolding i_sstore_def Let_def
  by (intro gas_steps gas_case_pair) auto

subsection \<open>Every handler\<close>

definition fn_counts :: "byte \<Rightarrow> 'h instr_fn \<Rightarrow> bool" where
  "fn_counts op fn \<longleftrightarrow> (case fn of
     Fn_void f \<Rightarrow> True
   | Fn_state f \<Rightarrow> (\<forall>E tp s n. trace_le n s \<longrightarrow>
       post (f E tp s) (trace_le (n + (if op = OP_LOG1 then 0 else entries_per_gas))))
   | Fn_jump f \<Rightarrow> op \<noteq> OP_LOG1 \<and> (\<forall>E tp s pos n. trace_le n s \<longrightarrow>
       post (f E tp s pos) (\<lambda>(_, s'). trace_le (n + entries_per_gas) s'))
   | Fn_result f \<Rightarrow> (\<forall>E tp g s n. trace_le n s \<longrightarrow>
       post (f E tp g s) (if op = OP_SSTORE then logs_at_most (n + entries_per_gas) else paid n g))
   | Fn_term f \<Rightarrow> (\<forall>E tp g s n. trace_le n s \<longrightarrow> post (f E tp g s) (paid n g)))"

lemma counts_void: "fn_counts op (Fn_void f)"
  by (simp add: fn_counts_def)

lemma counts_state:
  "op \<noteq> OP_LOG1 \<Longrightarrow> (\<And>E tp s n. trace_le n s \<Longrightarrow> post (f E tp s) (trace_le (n + entries_per_gas))) \<Longrightarrow>
   fn_counts op (Fn_state f)"
  by (simp add: fn_counts_def)

lemma counts_log: "fn_counts OP_LOG1 (Fn_state i_log)"
  by (simp add: fn_counts_def i_log_def)

lemma counts_jump:
  "op \<noteq> OP_LOG1 \<Longrightarrow>
   (\<And>E tp s pos n. trace_le n s \<Longrightarrow> post (f E tp s pos) (\<lambda>(_, s'). trace_le (n + entries_per_gas) s')) \<Longrightarrow>
   fn_counts op (Fn_jump f)"
  by (simp add: fn_counts_def)

lemma counts_result:
  "op \<noteq> OP_SSTORE \<Longrightarrow> (\<And>E tp g s n. trace_le n s \<Longrightarrow> post (f E tp g s) (paid n g)) \<Longrightarrow>
   fn_counts op (Fn_result f)"
  by (simp add: fn_counts_def)

lemma counts_sstore: "fn_counts OP_SSTORE (Fn_result i_sstore)"
  by (simp add: fn_counts_def count_sstore)

lemma counts_term:
  "(\<And>E tp g s n. trace_le n s \<Longrightarrow> post (f E tp g s) (paid n g)) \<Longrightarrow> fn_counts op (Fn_term f)"
  by (simp add: fn_counts_def)

lemma count_arith2_handlers:
  assumes "trace_le n s"
  shows "post (i_add E tp s) (trace_le (n + entries_per_gas))" "post (i_mul E tp s) (trace_le (n + entries_per_gas))"
    "post (i_sub E tp s) (trace_le (n + entries_per_gas))" "post (i_div E tp s) (trace_le (n + entries_per_gas))"
    "post (i_sdiv E tp s) (trace_le (n + entries_per_gas))" "post (i_mod E tp s) (trace_le (n + entries_per_gas))"
    "post (i_smod E tp s) (trace_le (n + entries_per_gas))" "post (i_signextend E tp s) (trace_le (n + entries_per_gas))"
    "post (i_lt E tp s) (trace_le (n + entries_per_gas))" "post (i_gt E tp s) (trace_le (n + entries_per_gas))"
    "post (i_slt E tp s) (trace_le (n + entries_per_gas))" "post (i_sgt E tp s) (trace_le (n + entries_per_gas))"
    "post (i_eq E tp s) (trace_le (n + entries_per_gas))" "post (i_and E tp s) (trace_le (n + entries_per_gas))"
    "post (i_or E tp s) (trace_le (n + entries_per_gas))" "post (i_xor E tp s) (trace_le (n + entries_per_gas))"
    "post (i_byte E tp s) (trace_le (n + entries_per_gas))" "post (i_shl E tp s) (trace_le (n + entries_per_gas))"
    "post (i_shr E tp s) (trace_le (n + entries_per_gas))" "post (i_sar E tp s) (trace_le (n + entries_per_gas))"
    "post (i_iszero E tp s) (trace_le (n + entries_per_gas))" "post (i_not E tp s) (trace_le (n + entries_per_gas))"
  using assms by (simp_all add: arith2_handlers i_iszero_def i_not_def count_arith)

lemma count_call_handlers:
  assumes "trace_le n s"
  shows "post (i_call E tp g s) (paid n g)" "post (i_callcode E tp g s) (paid n g)"
    "post (i_delegatecall E tp g s) (paid n g)" "post (i_staticcall E tp g s) (paid n g)"
    "post (i_create E tp g s) (paid n g)" "post (i_create2 E tp g s) (paid n g)"
  unfolding i_call_def i_callcode_def i_delegatecall_def i_staticcall_def i_create_def i_create2_def
  by (rule logs_paid [OF count_call_impl [OF assms]] logs_paid [OF count_create_impl [OF assms]],
      simp add: entries_per_gas_def)+

lemma count_end_handlers:
  assumes "trace_le n s"
  shows "post (i_stop E tp g s) (paid n g)" "post (i_invalid E tp g s) (paid n g)"
    "post (i_return E tp g s) (paid n g)" "post (i_revert E tp g s) (paid n g)"
  unfolding i_stop_def i_invalid_def stop_impl_def i_return_def i_revert_def
  by (rule count_return [OF assms] | rule paid_count [OF assms], simp add: entries_per_gas_def)+

lemmas counted_states = count_arith2_handlers count_arith(3,4) count_push_handlers(1-10)
  count_tx_handlers count_top_handlers(1-5) count_top_handlers(7,8)

lemmas counted_results = count_exp count_mload count_mstore count_keccak256 count_sload count_tstore
  count_mcopy count_extcodecopy count_gas count_copies count_returndatacopy count_datacopy
  count_account_handlers count_call_handlers

lemmas counted_ends = count_end_handlers count_selfdestruct

lemma counts_push: "op \<noteq> OP_LOG1 \<Longrightarrow> k \<le> 32 \<Longrightarrow> fn_counts op (Fn_jump (i_push k))"
  by (simp add: fn_counts_def count_push)

lemmas fn_counts_intros = counts_void counts_log counts_sstore counts_push
  counted_states [THEN counts_state [rotated]] counted_results [THEN counts_result [rotated]]
  counted_ends [THEN counts_term] count_jumps [THEN counts_jump [rotated]]
  count_rjumpi [THEN counts_jump [rotated]]

lemma map_opcodes_counts: "list_all (\<lambda>(op, fn). fn_counts op fn) map_opcodes"
  unfolding map_opcodes_def map_opcodes_to_push0_def map_opcodes_from_push1_def
    append.simps list.pred_inject prod.case
  by (intro conjI TrueI fn_counts_intros; (assumption | simp)+)

subsection \<open>The loop\<close>

definition gas_entries :: "int \<Rightarrow> int" where
  "gas_entries g = entries_per_gas * max g 0"

text \<open>
  A turn that goes on pays for its entries with the gas it uses; the last turn may log what the
  gas that is left would pay for, and 36 entries more.
\<close>

lemma invoke_counts:
  fixes E :: "'h env"
  assumes host: "op_gas_ok E op" and n: "trace_le n s"
    and run: "invoke E (get_baseline_cost_table r v) pos tp g s op = Some (p, tp', g', s')"
  shows "trace_le (n + gas_entries g + (if p = None then entries_per_gas else - gas_entries g')) s'"
proof -
  obtain st g1 where req: "check_requirements E (get_baseline_cost_table r v) g tp op = Some (st, g1)"
    using run by (auto simp: invoke_def bind_eq_Some_conv)
  have last: "trace_le (n + gas_entries g + (if p = None then entries_per_gas else - gas_entries g')) s'"
    if "p = None" "trace_le n s'"
    using that by (auto simp: gas_entries_def entries_per_gas_def intro: trace_le_mono)
  show ?thesis
  proof (cases "st = EVMC_SUCCESS \<and> map_of (map_opcodes :: (byte \<times> 'h instr_fn) list) op \<noteq> None")
    case False
    then have "p = None \<and> trace_le n s'"
      using run req n by (cases "st = EVMC_SUCCESS") (auto simp: invoke_def)
    then show ?thesis using last by blast
  next
    case True
    then obtain fn where fn: "map_of (map_opcodes :: (byte \<times> 'h instr_fn) list) op = Some fn"
      and inv: "invoke_fn E fn pos tp g1 s = Some (p, g', s')"
      using run req by (auto simp: invoke_def bind_eq_Some_conv)
    have cost: "0 \<le> g1" "g1 \<le> g" "op \<notin> set free_opcodes \<Longrightarrow> g1 < g"
      using handler_cost [OF fn] req True by blast+
    have "(op, fn) \<in> set map_opcodes" using fn by (rule map_of_SomeD)
    then have gas: "fn_gas op fn" and counts: "fn_counts op fn"
      using map_opcodes_gas map_opcodes_counts by (auto simp: list_all_iff)
    note defs = gas_entries_def entries_per_gas_def
    show ?thesis
    proof (cases fn)
      case (Fn_void f)
      then show ?thesis
        using inv n cost by (auto simp: defs intro: trace_le_mono)
    next
      case (Fn_state f)
      then obtain s1 where "f E tp s = Some s1" and *: "p = Some (pos + 1)" "g' = g1" "s' = s1"
        using inv by (auto simp: bind_eq_Some_conv)
      then have "trace_le (n + (if op = OP_LOG1 then 0 else entries_per_gas)) s'"
        using counts Fn_state n by (force simp: fn_counts_def dest: postD split: if_splits)
      then show ?thesis
        using gas cost * Fn_state by (auto simp: defs fn_gas_def intro: trace_le_mono split: if_splits)
    next
      case (Fn_jump f)
      then have f: "f E tp s pos = Some (p, s')" and "g' = g1"
        using inv by (auto simp: bind_eq_Some_conv)
      then have "trace_le (n + entries_per_gas) s'"
        using counts Fn_jump n by (force simp: fn_counts_def dest: postD)
      then show ?thesis
        using gas cost counts \<open>g' = g1\<close> Fn_jump
        by (auto simp: defs fn_gas_def fn_counts_def elim!: trace_le_mono)
    next
      case (Fn_term f)
      then obtain st1 s1 where "f E tp g1 s = Some (st1, g', s1)" and *: "p = None" "s' = s1\<lparr>status := st1\<rparr>"
        using inv by (auto simp: bind_eq_Some_conv)
      then have "paid n g1 (st1, g', s1)"
        using counts Fn_term n by (force simp: fn_counts_def dest: postD)
      then show ?thesis
        using cost * by (auto simp: defs paid_def elim!: trace_le_mono)
    next
      case (Fn_result f)
      then obtain st1 s1 where f: "f E tp g1 s = Some (st1, g', s1)"
        and *: "(p = None) = (st1 \<noteq> EVMC_SUCCESS)" "trace_le k s1 = trace_le k s'" for k
        using inv by (fastforce simp: bind_eq_Some_conv split: if_splits)
      have le: "st1 = EVMC_SUCCESS \<Longrightarrow> g' \<le> (if op = OP_SSTORE then g1 - 1 else g1)"
        using gas host Fn_result f by (force simp: fn_gas_def gas_le_def dest: postD)
      show ?thesis
      proof (cases "op = OP_SSTORE")
        case True
        then have "fn = Fn_result i_sstore"
          using fn by (simp add: map_opcodes_def map_opcodes_to_push0_def)
        then have "st1 = EVMC_SUCCESS \<Longrightarrow> 0 \<le> g'"
          using Fn_result f sstore_gas_left [of E tp g1 s] by (auto dest: postD)
        moreover have "trace_le (n + entries_per_gas) s1"
          using counts Fn_result f n True by (force simp: fn_counts_def logs_at_most_def dest: postD)
        ultimately show ?thesis
          using cost le * True by (auto simp: defs elim!: trace_le_mono)
      next
        case False
        then have "g1 < g" using gas cost Fn_result by (simp add: fn_gas_def)
        moreover have "paid n g1 (st1, g', s1)"
          using counts Fn_result f n False by (force simp: fn_counts_def dest: postD)
        ultimately show ?thesis
          using cost le * False by (auto simp: defs paid_def elim!: trace_le_mono)
      qed
    qed
  qed
qed

lemma dispatch_loop_counts:
  "code_gas_ok E s \<Longrightarrow> trace_le n s \<Longrightarrow>
   dispatch_loop fuel E (get_baseline_cost_table r v) pos tp g s = Done (g', s') \<Longrightarrow>
   trace_le (n + gas_entries g + entries_per_gas) s'"
proof (induction fuel arbitrary: n pos tp g s)
  case 0
  then show ?case by simp
next
  case (Suc fuel)
  then obtain op p tp1 g1 s1 where code: "code_byte s pos = Some op"
    and run: "invoke E (get_baseline_cost_table r v) pos tp g s op = Some (p, tp1, g1, s1)"
    by (auto split: option.splits)
  note turn = invoke_counts [OF code_byte_gas [OF Suc.prems(1) code] Suc.prems(2) run]
  show ?case
  proof (cases p)
    case None
    then show ?thesis using turn Suc.prems(3) code run by simp
  next
    case (Some q)
    have "code_gas_ok E s1"
      using postD [OF frame_invoke run] Suc.prems(1) by (simp add: frame_code_gas)
    from Suc.IH [OF this] turn Some show ?thesis
      using Suc.prems(3) code run by fastforce
  qed
qed

end
