(* ===== verification/Gas_Properties.thy ===== *)
theory Gas_Properties
  imports Progress Trace_Bound
begin

text \<open>
  Properties of runs and their gas: the interpreter always ends, safe code runs to its end,
  gas never increases and bounds the length of the trace, and what the rules for calls and storage charge.
\<close>

definition failing_env :: "unit env" where
  "failing_env = libs.extend reference_libs (env.fields
     (sample_interface\<lparr>call_fn := (\<lambda>h m. Some (result_no_output EVMC_FAILURE 0 0, h))\<rparr>))"


text \<open>
  C30. The interpreter ends: for any code, state and stack it returns or runs into an undefined
  access within \<open>1025 * (g + 1) + 1\<close> turns when it starts with \<open>g\<close> units of gas, for the cost
  table of every revision and code format. A turn that goes on uses up gas, or it is a
  \<open>LOG1\<close>, which is free and takes three items from the stack. The only assumption is that no
  byte of the code is a call or create instruction, or that a call of the host returns at
  most the gas its message was given; a host that runs contracts with \<open>evaluate\<close> keeps
  that contract only for messages with no negative gas.
\<close>

theorem dispatch_terminates:
  assumes "host_gas_ok E \<or> set (code_buffer (analysis s)) \<inter> set call_opcodes = {}"
    and "1025 * nat (g + 1) < fuel"
  shows "dispatch fuel E (get_baseline_cost_table r v) s g \<noteq> Out_of_fuel"
  unfolding dispatch_def
  by (rule dispatch_loop_ends) (use assms in \<open>simp_all add: weight_def code_gas_ok_def\<close>)

theorem dispatch_terminates_witness:
  "dispatch 5000 failing_env (get_baseline_cost_table EVMC_CANCUN 0) (sample_state [0x5b, 0x00] []) 3 \<noteq> Out_of_fuel"
  by (rule dispatch_terminates)
    (simp_all add: sample_state_def call_opcodes_def analyze_legacy_def pad_code_def code_padding_def)






text \<open>
  C2. Safe code runs to its end: a call that starts on legacy code without an unsafe instruction
  never reads or writes outside the code, the stack, the memory or the input, and returns
  after at most \<open>1025 * (g + 1) + 1\<close> turns, with a numbered trace of the call. This holds for
  every revision, input, amount of gas and host, in a build without assertions whose
  allocations succeed. Push data may hold any byte, and jumps may go anywhere: an invalid
  target ends the run. The unsafe instructions are listed in \<open>unsafe_opcodes\<close>.
\<close>

theorem safe_code_runs:
  assumes "ndebug E" and "alloc_ok E" and "intx_api E" and "safe_code code" and "cid < max_call_id"
    and "exec_state_init E m r ctx code data cid (analyze_legacy code) = Some s"
    and "1025 * nat (g + 1) < fuel"
  shows "\<exists>g' s'. dispatch fuel E (get_baseline_cost_table r v) s g = Done (g', s') \<and> traced s' \<and> call_id s' = cid"
proof -
  have "weight stack_bottom g < fuel" using assms(7) by (simp add: weight_def)
  from safe_loop [OF assms(1,3,2,4) init_safe_config [OF assms(6,5)] this, of r v]
  obtain g' s' where run: "dispatch fuel E (get_baseline_cost_table r v) s g = Done (g', s')"
    by (auto simp: dispatch_def)
  have "traced s" using init_live [OF assms(6,5)] by (simp add: traced_def ids_ok_def)
  then show ?thesis
    using run frame_dispatch_loop [of fuel E "get_baseline_cost_table r v" 0 stack_bottom g s g' s']
      traced_frame [of s s'] init_live [OF assms(6,5)]
    by (auto simp: dispatch_def frame_def)
qed

text \<open>The code \<open>PUSH1 3; PUSH1 5; ADD; JUMPDEST; PUSH1 5; JUMP\<close> runs until its gas is used up.\<close>

theorem safe_code_runs_witness:
  "\<exists>g' s'. dispatch 300000 sample_env (get_baseline_cost_table EVMC_LATEST_STABLE_REVISION 0)
     (sample_state [0x60, 3, 0x60, 5, 0x01, 0x5b, 0x60, 5, 0x56] []) 100 = Done (g', s') \<and>
     traced s' \<and> call_id s' = 0"
proof (rule safe_code_runs [where code = "[0x60, 3, 0x60, 5, 0x01, 0x5b, 0x60, 5, 0x56]" and data = "[]"
      and cid = 0 and m = zero_message and ctx = "()"])
  show "safe_code [0x60, 3, 0x60, 5, 0x01, 0x5b, 0x60, 5, 0x56]"
    unfolding safe_code_def
    by (simp add: safe_from_step [of _ 0] safe_from_step [of _ "Suc (Suc n)" for n]
        instr_length_def unsafe_opcodes_def)
qed (simp_all add: alloc_ok_def max_call_id_def sample_init)

lemma sint_cases: "sint (w :: u64) = (if unat w < 2 ^ 63 then int (unat w) else int (unat w) - 2 ^ 64)"
proof -
  define n where "n = unat w"
  then have n: "unat w = n" and w: "w = word_of_nat n" by (simp_all add: word_unat_eq_iff)
  have "unat w < 2 ^ LENGTH(64)" by (rule unsigned_less)
  then have less: "n < 2 ^ 64" by (simp add: n)
  have s: "sint w = (int n + 2 ^ 63) mod 2 ^ 64 - 2 ^ 63"
    using int_word_sint [where 'a = 64, of "int n"] by (simp add: w)
  show ?thesis
  proof (cases "n < 2 ^ 63")
    case True
    then have "(int n + 2 ^ 63) mod 2 ^ 64 = int n + 2 ^ 63"
      by (intro mod_pos_pos_trivial) simp_all
    then show ?thesis unfolding s n using True by simp
  next
    case False
    then have "(int n + 2 ^ 63) mod 2 ^ 64 = int n + 2 ^ 63 - 2 ^ 64"
      using less by (subst minus_mod_self2 [symmetric], intro mod_pos_pos_trivial) simp_all
    then show ?thesis unfolding s n using False by simp
  qed
qed

text \<open>
  C38. The gas a call is given, when gas is left after its own cost, as the code has just checked:
  only the low limb of the requested gas counts. If it is below \<open>2 ^ 63\<close>, the callee gets, from
  the revision \<open>EVMC_TANGERINE_WHISTLE\<close> on, the smaller of it and all but a 64th of what is left,
  and before that revision all that is requested, where requesting more than is left runs out
  of gas. Otherwise the limb is read as a negative number, and the callee gets negative gas,
  in every revision.
\<close>

theorem call_gas_rule:
  assumes "0 \<le> g"
  shows "call_gas r requested g =
    (if 2 ^ 63 \<le> lo64 requested then Some (int (lo64 requested) - 2 ^ 64)
     else if EVMC_TANGERINE_WHISTLE \<le> r then Some (min (int (lo64 requested)) (g - g div 64))
     else if g < int (lo64 requested) then None
     else Some (int (lo64 requested)))"
proof -
  define n where "n = lo64 requested"
  have "lo64 requested < 2 ^ LENGTH(64)" by (rule unsigned_less)
  then have less: "n < 2 ^ 64" by (simp add: n_def)
  have low: "sint (to_uint64 requested 0) = (if n < 2 ^ 63 then int n else int n - 2 ^ 64)"
    using sint_cases [of "to_uint64 requested 0"] by (simp only: n_def)
  show ?thesis
    unfolding n_def [symmetric] call_gas_def low Let_def
    using assms less by (auto simp: int64_max_def)
qed

theorem call_gas_rule_witness:
  "call_gas EVMC_CANCUN 1000 640 = Some 630 \<and> call_gas EVMC_CANCUN (2 ^ 63) 640 = Some (- (2 ^ 63)) \<and>
   call_gas EVMC_HOMESTEAD 640 640 = Some 640 \<and> call_gas EVMC_HOMESTEAD 641 640 = None"
  using call_gas_rule [of 640 EVMC_CANCUN 1000] call_gas_rule [of 640 EVMC_CANCUN "2 ^ 63"]
    call_gas_rule [of 640 EVMC_HOMESTEAD 640] call_gas_rule [of 640 EVMC_HOMESTEAD 641]
  by (simp add: less_eq_evmc_revision_def to_uint64_def)

text \<open>
  C39. Negative gas is handed back: if the callee is given \<open>- k\<close> units and returns with none, as
  every failing callee does, the caller goes on with \<open>k\<close> units more than it had.
\<close>

theorem negative_gas_refunded:
  assumes "call_fn (hif E) (host s) m = Some (result_no_output st 0 0, h')" and "msg_gas m = - k"
    and "0 < k" and "k < 2 ^ 62" and "0 \<le> g" and "g < 2 ^ 62" and "stack_ready s tp 1"
    and "gas_refund s = 0"
  shows "total (run_call E tp m off sz g s) (\<lambda>(st', g', s'). st' = EVMC_SUCCESS \<and> g' = g + k)"
  using assms
  by (simp add: run_call_def host_call_def stack_prims stack_ready_def stack_limit_def
      int64_result_def int64_min_def int64_max_def)

lemma sample_refund: "gas_refund (sample_state code stack) = 0"
  by (simp add: sample_state_def)

theorem negative_gas_refunded_witness:
  "total (run_call failing_env 0 (zero_message\<lparr>msg_gas := - 1000\<rparr>) 0 0 10 (sample_state [] [0]))
     (\<lambda>(st', g', s'). g' = 1010)"
proof -
  have "call_fn (hif failing_env) h m = Some (result_no_output EVMC_FAILURE 0 0, h)" for h m
    by (simp add: failing_env_def reference_libs_def libs.defs env.defs)
  from negative_gas_refunded [OF this, of "zero_message\<lparr>msg_gas := - 1000\<rparr>" 1000 10 "sample_state [] [0]" 0 0 0]
  have "total (run_call failing_env 0 (zero_message\<lparr>msg_gas := - 1000\<rparr>) 0 0 10 (sample_state [] [0]))
     (\<lambda>(st', g', s'). st' = EVMC_SUCCESS \<and> g' = 10 + 1000)"
    using sample_ready [of 1 0 "[0]" "[]"] by (simp add: sample_refund)
  then show ?thesis by (rule total_mono) auto
qed

text \<open>
  Storing a value and storing the old one back costs two warm accesses in total, refunds
  counted, in every revision with net metering: for a slot that was empty, for one that was
  changed and for one that was cleared.
\<close>

theorem sstore_restored:
  assumes "net_cost (storage_cost_spec r)"
  shows "let net = \<lambda>st. fst (sstore_costs r st) - snd (sstore_costs r st);
             warm = warm_access (storage_cost_spec r)
     in net EVMC_STORAGE_ADDED + net EVMC_STORAGE_ADDED_DELETED = 2 * warm \<and>
        net EVMC_STORAGE_MODIFIED + net EVMC_STORAGE_MODIFIED_RESTORED = 2 * warm \<and>
        net EVMC_STORAGE_DELETED + net EVMC_STORAGE_DELETED_RESTORED = 2 * warm"
  using assms by (simp add: sstore_costs_def Let_def)

theorem sstore_restored_witness:
  "fst (sstore_costs EVMC_CANCUN EVMC_STORAGE_ADDED) - snd (sstore_costs EVMC_CANCUN EVMC_STORAGE_ADDED) +
   (fst (sstore_costs EVMC_CANCUN EVMC_STORAGE_ADDED_DELETED) - snd (sstore_costs EVMC_CANCUN EVMC_STORAGE_ADDED_DELETED)) = 200"
  using sstore_restored [of EVMC_CANCUN]
  by (simp add: storage_cost_spec_def mk_storage_cost_def Let_def warm_storage_read_cost_def)

end
