(* ===== verification/Eof_Stack.thy ===== *)
theory Eof_Stack
  imports Eof_Validation
begin

text \<open>
  Soundness of the stack validation of an EOF code section. The positions where instructions
  start, the jumps and the functions that the instructions name are first shown to be those
  that \<open>validate_instructions\<close> and \<open>validate_rjump_destinations\<close> have checked; for such a
  section the worklist loop ends within its fuel, reads nothing outside the section, and the
  heights it finds are consistent along every edge of the control flow.
\<close>

subsection \<open>Instruction boundaries\<close>

definition eof_immediate :: "byte list \<Rightarrow> nat \<Rightarrow> nat" where
  "eof_immediate code i =
     (if code ! i = OP_RJUMPV then 1 + (unat (code ! (i + 1)) + 1) * 2
      else immediate_size (traits (code ! i)))"

definition eof_next :: "byte list \<Rightarrow> nat \<Rightarrow> nat" where
  "eof_next code i = i + eof_immediate code i + 1"

inductive eof_start :: "byte list \<Rightarrow> nat \<Rightarrow> bool" for code where
  first: "eof_start code 0"
| follows: "eof_start code i \<Longrightarrow> i < length code \<Longrightarrow> eof_start code (eof_next code i)"

lemma eof_next_greater: "i < eof_next code i"
  by (simp add: eof_next_def)

text \<open>No instruction starts inside another one.\<close>

lemma eof_start_cases:
  assumes "eof_start code j"
  obtains "j = 0" | i where "eof_start code i" "i < length code" "j = eof_next code i"
  using assms by cases auto

lemma eof_start_ordered:
  "eof_start code i \<Longrightarrow> eof_start code j \<Longrightarrow> i < j \<Longrightarrow> eof_next code i \<le> j"
proof (induction j arbitrary: i rule: less_induct)
  case (less j)
  from less.prems(2) show ?case
  proof (cases rule: eof_start_cases)
    case 1
    then show ?thesis using less.prems(3) by simp
  next
    case (2 k)
    consider "i < k" | "i = k" | "k < i" by linarith
    then show ?thesis
    proof cases
      case 1
      then show ?thesis
        using less.IH [of k i] less.prems(1) 2 eof_next_greater [of k code] by simp
    next
      case 2
      then show ?thesis using \<open>j = eof_next code k\<close> by simp
    next
      case 3
      then show ?thesis
        using less.IH [of i k] less.prems(1,3) 2 by simp
    qed
  qed
qed

lemma eof_start_reaches: "\<exists>j. eof_start code j \<and> min n (length code) \<le> j"
proof (induction n)
  case 0
  then show ?case using eof_start.first by auto
next
  case (Suc n)
  then obtain j where j: "eof_start code j" "min n (length code) \<le> j" by blast
  show ?case
  proof (cases "j < length code")
    case True
    then show ?thesis
      using eof_start.follows [OF j(1) True] j(2) eof_next_greater [of j code]
      by (intro exI [of _ "eof_next code j"]) auto
  next
    case False
    then show ?thesis using j(1) by (intro exI [of _ j]) auto
  qed
qed

subsection \<open>What the earlier passes have checked\<close>

definition returns_ok :: "eof_code_type list \<Rightarrow> byte list \<Rightarrow> nat \<Rightarrow> bool" where
  "returns_ok types code i \<longleftrightarrow>
     (\<forall>fid. read_uint16_be code (i + 1) = Some fid \<longrightarrow> unat fid < length types \<and>
        (code ! i = OP_CALLF \<longrightarrow> ty_outputs (types ! unat fid) \<noteq> NON_RETURNING_FUNCTION))"

definition instr_checked :: "eof_code_type list \<Rightarrow> byte list \<Rightarrow> nat \<Rightarrow> bool" where
  "instr_checked types code i \<longleftrightarrow> eof_next code i \<le> length code \<and>
     (code ! i = OP_CALLF \<or> code ! i = OP_JUMPF \<longrightarrow> returns_ok types code i)"

lemma imm_traits:
  "immediate_size (traits OP_RJUMP) = 2" "immediate_size (traits OP_RJUMPI) = 2"
  "immediate_size (traits OP_RJUMPV) = 1" "immediate_size (traits OP_CALLF) = 2"
  "immediate_size (traits OP_JUMPF) = 2" "immediate_size (traits OP_RETF) = 0"
  "immediate_size (traits OP_DATALOADN) = 2" "is_terminating (traits OP_JUMPF)"
  "is_terminating (traits OP_RETF)" "\<not> is_terminating (traits OP_CALLF)"
  by (simp_all add: op_traits_facts mk_traits_def)

lemma validate_instructions_step:
  assumes "validate_instructions_loop ct header code i r = Some (Inr b)" and "i < length code"
  shows "instr_checked (code_types header) code i \<and>
    (\<exists>r'. validate_instructions_loop ct header code (eof_next code i) r' = Some (Inr b))"
  using assms imm_traits
  by (subst (asm) validate_instructions_loop.simps)
    (auto simp: instr_checked_def returns_ok_def eof_next_def eof_immediate_def Let_def
      bind_eq_Some_conv nth_opt_def split: if_splits)

lemma validate_instructions_starts:
  assumes "eof_start code j" and "validate_instructions_loop ct header code 0 r = Some (Inr b)"
  shows "\<exists>r'. validate_instructions_loop ct header code j r' = Some (Inr b)"
  using assms
proof (induction rule: eof_start.induct)
  case first
  then show ?case by blast
next
  case (follows i)
  then show ?case using validate_instructions_step [of ct header code i _ b] by blast
qed

lemma validate_instructions_checked:
  "validate_instructions_loop ct header code 0 r = Some (Inr b) \<Longrightarrow> eof_start code j \<Longrightarrow>
   j < length code \<Longrightarrow> instr_checked (code_types header) code j"
  using validate_instructions_starts [of code j ct header r b]
    validate_instructions_step [of ct header code j _ b] by blast

subsection \<open>Jumps\<close>

definition s16_at :: "byte list \<Rightarrow> nat \<Rightarrow> int" where
  "s16_at code i = sint (push_bit 8 (ucast (code ! i)) OR ucast (code ! (i + 1)) :: u16)"

lemma read_int16_eq: "i + 1 < length code \<Longrightarrow> read_int16_be code i = Some (s16_at code i)"
  by (simp add: read_int16_be_def s16_at_def)

text \<open>The destinations of the jump at \<open>i\<close>, and all instructions that may follow the one at \<open>i\<close>.\<close>

definition jump_targets :: "byte list \<Rightarrow> nat \<Rightarrow> int list" where
  "jump_targets code i =
     (if code ! i = OP_RJUMP \<or> code ! i = OP_RJUMPI
      then [int (eof_next code i) + s16_at code (i + 1)]
      else if code ! i = OP_RJUMPV
      then map (\<lambda>k. int (eof_next code i) + s16_at code (i + 2 + 2 * k))
             [0..<unat (code ! (i + 1)) + 1]
      else [])"

definition successors :: "byte list \<Rightarrow> nat \<Rightarrow> int list" where
  "successors code i =
     (if is_terminating (traits (code ! i)) \<or> code ! i = OP_RJUMP then [] else [int (eof_next code i)]) @
     jump_targets code i"

definition targets_in :: "int list \<Rightarrow> nat \<Rightarrow> nat set \<Rightarrow> bool" where
  "targets_in ts n D \<longleftrightarrow> (\<forall>t \<in> set ts. 0 \<le> t \<and> nat t < n \<and> nat t \<in> D)"

lemma targets_in_simps [simp]:
  "targets_in [] n D"
  "targets_in (t # ts) n D \<longleftrightarrow> 0 \<le> t \<and> nat t < n \<and> nat t \<in> D \<and> targets_in ts n D"
  by (auto simp: targets_in_def)

lemma targets_in_mono: "targets_in ts n D \<Longrightarrow> D \<subseteq> D' \<Longrightarrow> targets_in ts n D'"
  by (auto simp: targets_in_def)

lemma u32_small: "n < 2 ^ 31 \<Longrightarrow> sint (word_of_nat n :: u32) = int n"
proof -
  assume "n < 2 ^ 31"
  then have "(int n + 2 ^ 31) mod 2 ^ 32 = int n + 2 ^ 31" by simp
  then show ?thesis using int_word_sint [where 'a = 32, of "int n"] by simp
qed

lemma check_destination:
  assumes "check_rjump_destination code p post_pos = Some (Inr d)" and "post_pos < 2 ^ 31"
  shows "p + 1 < length code \<and> 0 \<le> int post_pos + s16_at code p \<and>
    nat (int post_pos + s16_at code p) = d \<and> d < length code"
  using assms u32_small [OF assms(2)]
  by (auto simp: check_rjump_destination_def read_int16_be_def s16_at_def bind_eq_Some_conv
      nth_opt_def Let_def split: if_splits)

lemma check_table:
  assumes "check_rjumpv_table code i post_pos (2 * k) n dests = Some (Inr dests')"
    and "post_pos < 2 ^ 31" and "k + n \<le> 256"
  shows "set dests \<subseteq> set dests' \<and>
    targets_in (map (\<lambda>j. int post_pos + s16_at code (i + 2 + 2 * j)) [k..<k + n]) (length code) (set dests')"
  using assms
proof (induction n arbitrary: k dests)
  case 0
  then show ?case by simp
next
  case (Suc n)
  have "2 * k mod 65536 = 2 * k" using Suc.prems(3) by simp
  then obtain r where r: "check_rjump_destination code (i + 2 + 2 * k) post_pos = Some r"
      "(case r of Inl _ \<Rightarrow> Some (Inl ()) | Inr d \<Rightarrow>
          check_rjumpv_table code i post_pos (2 * k + REL_OFFSET_SIZE) n (dests @ [d])) = Some (Inr dests')"
    using Suc.prems(1) by (auto simp: bind_eq_Some_conv)
  then obtain d where d: "check_rjump_destination code (i + 2 + 2 * k) post_pos = Some (Inr d)"
    and rest: "check_rjumpv_table code i post_pos (2 * Suc k) n (dests @ [d]) = Some (Inr dests')"
    by (cases r) (auto simp: REL_OFFSET_SIZE_def add.commute)
  from Suc.IH [OF rest] Suc.prems check_destination [OF d]
  show ?case
    by (auto simp: upt_rec [of k])
qed

text \<open>One round of the scan over the jumps.\<close>

lemma rjump_loop_step:
  assumes run: "rjump_loop code i dests imm = Some (Inr (D, M))"
    and i: "i < length code" "length code < 2 ^ 16" "eof_next code i \<le> length code"
  obtains dests' imm' where
    "rjump_loop code (eof_next code i) dests' imm' = Some (Inr (D, M))"
    "set dests \<subseteq> set dests'"
    "targets_in (jump_targets code i) (length code) (set dests')"
    "splice_opt imm (i + 1) (replicate (eof_immediate code i) True) = Some imm'"
proof -
  let ?op = "code ! i"
  consider "?op = OP_RJUMP \<or> ?op = OP_RJUMPI" | "?op = OP_RJUMPV"
    | "?op \<noteq> OP_RJUMP" "?op \<noteq> OP_RJUMPI" "?op \<noteq> OP_RJUMPV" by blast
  then show ?thesis
  proof cases
    case 1
    then have imm: "immediate_size (traits ?op) = 2" "eof_immediate code i = 2" "eof_next code i = Suc (Suc (Suc i))"
      using imm_traits by (auto simp: eof_immediate_def eof_next_def)
    obtain d imm' where "check_rjump_destination code (i + 1) (i + REL_OFFSET_SIZE + 1) = Some (Inr d)"
      "rjump_loop code (eof_next code i) (dests @ [d]) imm' = Some (Inr (D, M))"
      "splice_opt imm (i + 1) (replicate (eof_immediate code i) True) = Some imm'"
      using run [unfolded rjump_loop.simps [of code i dests imm]] i(1) 1 unfolding imm
      by (auto simp: imm bind_eq_Some_conv Let_def split: sum.splits)
    moreover from check_destination [OF this(1)] i 1
    have "targets_in (jump_targets code i) (length code) (set (dests @ [d]))"
      by (auto simp: jump_targets_def imm REL_OFFSET_SIZE_def)
    ultimately show ?thesis by (intro that [of "dests @ [d]" imm']) auto
  next
    case 2
    let ?n = "unat (code ! (i + 1)) + 1"
    have imm: "immediate_size (traits ?op) = 1" "eof_immediate code i = 1 + ?n * REL_OFFSET_SIZE"
      "eof_next code i = i + (1 + ?n * REL_OFFSET_SIZE) + 1"
      using 2 imm_traits by (auto simp: eof_immediate_def eof_next_def REL_OFFSET_SIZE_def)
    obtain ds imm' where ds: "check_rjumpv_table code i (i + 1 + (1 + ?n * REL_OFFSET_SIZE)) (2 * 0) ?n dests = Some (Inr ds)"
      "rjump_loop code (eof_next code i) ds imm' = Some (Inr (D, M))"
      "splice_opt imm (i + 1) (replicate (eof_immediate code i) True) = Some imm'"
      using run [unfolded rjump_loop.simps [of code i dests imm]] i(1) 2 unfolding imm
      by (auto simp: imm_traits(3) bind_eq_Some_conv Let_def ac_simps dest!: nth_opt_SomeD
          split: sum.splits simp del: check_rjumpv_table.simps replicate.simps)
    have "?n \<le> 256" using unat_byte_less [of "code ! (i + 1)"] by linarith
    then have "set dests \<subseteq> set ds \<and> targets_in (jump_targets code i) (length code) (set ds)"
      using check_table [OF ds(1)] i 2 imm
      by (simp add: jump_targets_def add.assoc)
    then show ?thesis using ds by (intro that [of ds imm']) auto
  next
    case 3
    obtain imm' where "rjump_loop code (eof_next code i) dests imm' = Some (Inr (D, M))"
      "splice_opt imm (i + 1) (replicate (eof_immediate code i) True) = Some imm'"
      using run [unfolded rjump_loop.simps [of code i dests imm]] i(1) 3
      by (auto simp: eof_next_def eof_immediate_def bind_eq_Some_conv Let_def)
    moreover have "targets_in (jump_targets code i) (length code) (set dests)"
      using 3 by (simp add: jump_targets_def)
    ultimately show ?thesis by (intro that [of dests imm']) auto
  qed
qed

text \<open>
  The scan over a whole section: every jump leads to a collected destination, and every
  position that is not marked as an immediate is the start of an instruction.
\<close>

definition starts_marked :: "byte list \<Rightarrow> nat \<Rightarrow> bool list \<Rightarrow> bool" where
  "starts_marked code i imm \<longleftrightarrow> length imm = length code \<and>
     (\<forall>p < length code. p < i \<longrightarrow> imm ! p \<or> eof_start code p)"

lemma starts_marked_step:
  assumes "starts_marked code i imm" and "eof_start code i" and "i < length code"
    and "splice_opt imm (i + 1) (replicate (eof_immediate code i) True) = Some imm'"
  shows "starts_marked code (eof_next code i) imm'"
  unfolding starts_marked_def
proof (intro conjI allI impI)
  show "length imm' = length code"
    using assms(1) splice_opt_length [OF assms(4)] by (simp add: starts_marked_def)
  fix p assume p: "p < length code" "p < eof_next code i"
  have len: "p < length imm" using assms(1) p by (simp add: starts_marked_def)
  consider "p < i" | "p = i" | "i < p" by linarith
  then show "imm' ! p \<or> eof_start code p"
  proof cases
    case 1
    then show ?thesis
      using splice_opt_nth [OF assms(4) len] assms(1) p by (simp add: starts_marked_def)
  next
    case 2
    then show ?thesis using assms(2) by simp
  next
    case 3
    then have "p - (i + 1) < eof_immediate code i" "i + 1 \<le> p" "p < i + 1 + eof_immediate code i"
      using p(2) by (simp_all add: eof_next_def)
    then show ?thesis
      using splice_opt_nth [OF assms(4) len] by (simp del: replicate.simps)
  qed
qed

lemma rjump_loop_starts:
  assumes "eof_start code j" and "rjump_loop code 0 [] (replicate (length code) False) = Some (Inr (D, M))"
    and "length code < 2 ^ 16"
    and "\<And>i. eof_start code i \<Longrightarrow> i < length code \<Longrightarrow> eof_next code i \<le> length code"
  shows "\<exists>dests imm. rjump_loop code j dests imm = Some (Inr (D, M)) \<and> starts_marked code j imm"
  using assms(1)
proof (induction rule: eof_start.induct)
  case first
  have "starts_marked code 0 (replicate (length code) False)" by (simp add: starts_marked_def)
  then show ?case using assms(2) by blast
next
  case (follows i)
  then obtain dests imm where run: "rjump_loop code i dests imm = Some (Inr (D, M))"
    and marked: "starts_marked code i imm" by blast
  show ?case
    by (rule rjump_loop_step [OF run follows(2) assms(3) assms(4) [OF follows(1,2)]])
      (use starts_marked_step [OF marked follows(1,2)] in blast)
qed

lemma rjump_loop_end: "length code \<le> i \<Longrightarrow> rjump_loop code i dests imm = Some (Inr (dests, imm))"
  by (simp add: rjump_loop.simps)

lemma rjump_loop_collects:
  assumes "rjump_loop code i dests imm = Some (Inr (D, M))" and "eof_start code i"
    and "length code < 2 ^ 16"
    and "\<And>i. eof_start code i \<Longrightarrow> i < length code \<Longrightarrow> eof_next code i \<le> length code"
  shows "set dests \<subseteq> set D"
  using assms(1,2)
proof (induction "length code - i" arbitrary: i dests imm rule: less_induct)
  case less
  show ?case
  proof (cases "i < length code")
    case True
    show ?thesis
    proof (rule rjump_loop_step [OF less.prems(1) True assms(3) assms(4) [OF less.prems(2) True]])
      fix dests' imm'
      assume run: "rjump_loop code (eof_next code i) dests' imm' = Some (Inr (D, M))"
        and sub: "set dests \<subseteq> set dests'"
      have "length code - eof_next code i < length code - i"
        using True eof_next_greater [of i code] by linarith
      from less.hyps [OF this run eof_start.follows [OF less.prems(2) True]] sub
      show "set dests \<subseteq> set D" by blast
    qed
  next
    case False
    then show ?thesis using less.prems(1) by (simp add: rjump_loop_end)
  qed
qed

lemma validate_rjump_checked:
  assumes ok: "validate_rjump_destinations code = Some True" and small: "length code < 2 ^ 16"
    and inside: "\<And>i. eof_start code i \<Longrightarrow> i < length code \<Longrightarrow> eof_next code i \<le> length code"
    and j: "eof_start code j" "j < length code"
  shows "targets_in (jump_targets code j) (length code) (Collect (eof_start code))"
proof -
  obtain D M where run: "rjump_loop code 0 [] (replicate (length code) False) = Some (Inr (D, M))"
    and free: "\<forall>d \<in> set D. \<not> M ! d"
  proof -
    obtain r where "rjump_loop code 0 [] (replicate (length code) False) = Some r"
      "(case r of Inl _ \<Rightarrow> Some False | Inr (D, M) \<Rightarrow> Some (\<forall>d \<in> set D. \<not> M ! d)) = Some True"
      using ok by (auto simp: validate_rjump_destinations_def bind_eq_Some_conv)
    then show ?thesis by (cases r) (auto intro: that)
  qed
  obtain e where e: "eof_start code e" "length code \<le> e"
    using eof_start_reaches [of code "length code"] by auto
  have marked: "starts_marked code e M"
    using rjump_loop_starts [OF e(1) run small inside] e(2) by (auto simp: rjump_loop_end)
  obtain dests imm where "rjump_loop code j dests imm = Some (Inr (D, M))"
    using rjump_loop_starts [OF j(1) run small inside] by blast
  then show ?thesis
  proof (rule rjump_loop_step [OF _ j(2) small inside [OF j]])
    fix dests' imm'
    assume "rjump_loop code (eof_next code j) dests' imm' = Some (Inr (D, M))"
      and targets: "targets_in (jump_targets code j) (length code) (set dests')"
    then have "set dests' \<subseteq> set D"
      using rjump_loop_collects eof_start.follows [OF j] small inside by blast
    then have "\<forall>t \<in> set (jump_targets code j). 0 \<le> t \<and> nat t < length code \<and> nat t \<in> set D"
      using targets unfolding targets_in_def by blast
    then show ?thesis
      using free marked e(2) unfolding targets_in_def starts_marked_def mem_Collect_eq
      by (meson less_le_trans)
  qed
qed

subsection \<open>One round of the worklist loop\<close>

primrec validate_all :: "int list \<Rightarrow> int \<Rightarrow> heights_state \<Rightarrow> (bool \<times> heights_state) option" where
  "validate_all [] h hw = Some (True, hw)"
| "validate_all (t # ts) h hw = do {
     (ok, hw) \<leftarrow> validate_successor t h hw;
     if ok then validate_all ts h hw else Some (False, hw) }"

lemma validate_all_single: "validate_all [t] h hw = validate_successor t h hw"
  by (cases "validate_successor t h hw") auto

lemma rjumpv_successors_all:
  assumes "p < 2 ^ 31" and "i + 2 + 2 * (k + n) \<le> length code"
  shows "rjumpv_successors code i p h k n hw =
    validate_all (map (\<lambda>j. int p + s16_at code (i + 2 + 2 * j)) [k..<k + n]) h hw"
  using assms(2)
proof (induction n arbitrary: k hw)
  case 0
  then show ?case by simp
next
  case (Suc n)
  have read: "read_int16_be code (i + k * REL_OFFSET_SIZE + 2) = Some (s16_at code (i + 2 + 2 * k))"
    using Suc.prems read_int16_eq [of "i + 2 + 2 * k" code]
    by (simp add: REL_OFFSET_SIZE_def ac_simps)
  have "[k..<k + Suc n] = k # [Suc k..<Suc k + n]" by (simp add: upt_conv_Cons)
  moreover have "rjumpv_successors code i p h (k + 1) n hw =
      validate_all (map (\<lambda>j. int p + s16_at code (i + 2 + 2 * j)) [Suc k..<Suc k + n]) h hw" for hw
    using Suc.IH [of "Suc k" hw] Suc.prems by simp
  ultimately show ?case
    by (simp only: rjumpv_successors.simps read bind.bind_lunit Let_def u32_small [OF assms(1)]
        list.map validate_all.simps)
qed

lemma jump_successors_all:
  assumes "eof_next code i \<le> length code" and "length code < 2 ^ 16"
  shows "jump_successors code i (eof_next code i) h hw = validate_all (jump_targets code i) h hw"
proof -
  consider "code ! i = OP_RJUMP \<or> code ! i = OP_RJUMPI" | "code ! i = OP_RJUMPV"
    | "code ! i \<noteq> OP_RJUMP" "code ! i \<noteq> OP_RJUMPI" "code ! i \<noteq> OP_RJUMPV" by blast
  then show ?thesis
  proof cases
    case 1
    then have nxt: "eof_next code i = i + 3"
      using imm_traits by (auto simp: eof_next_def eof_immediate_def)
    have "sint (word_of_nat i :: u32) = int i"
      using assms unfolding nxt by (intro u32_small) simp
    then show ?thesis
      using 1 assms read_int16_eq [of "i + 1" code]
      by (auto simp: nxt jump_successors_def jump_targets_def Let_def ac_simps validate_all_single
          simp del: validate_all.simps)
  next
    case 2
    let ?n = "unat (code ! (i + 1)) + 1"
    have nxt: "eof_next code i = i + 2 + 2 * ?n"
      using 2 by (simp add: eof_next_def eof_immediate_def)
    then show ?thesis
      using 2 assms rjumpv_successors_all [of "eof_next code i" i 0 ?n code h hw]
      by (simp add: jump_successors_def jump_targets_def)
  next
    case 3
    then show ?thesis by (simp add: jump_successors_def jump_targets_def)
  qed
qed

text \<open>A section that passed the checks before the stack validation.\<close>

definition section_ok :: "eof_code_type list \<Rightarrow> nat \<Rightarrow> byte list \<Rightarrow> bool" where
  "section_ok types fi code \<longleftrightarrow>
     code \<noteq> [] \<and> length code < 2 ^ 16 \<and> fi < length types \<and> check_types types = None \<and>
     (\<forall>i < length code. eof_start code i \<longrightarrow> instr_checked types code i \<and>
        targets_in (jump_targets code i) (length code) (Collect (eof_start code)))"

lemma section_okI:
  assumes "validate_instructions_loop ct header code 0 r = Some (Inr b)"
    and "validate_rjump_destinations code = Some True" and "check_types (code_types header) = None"
    and "code \<noteq> []" and "length code < 2 ^ 16" and "fi < length (code_types header)"
  shows "section_ok (code_types header) fi code"
proof -
  have checked: "instr_checked (code_types header) code i" if "eof_start code i" "i < length code" for i
    using validate_instructions_checked [OF assms(1)] that by blast
  then have "eof_next code i \<le> length code" if "eof_start code i" "i < length code" for i
    using that by (simp add: instr_checked_def)
  from validate_rjump_checked [OF assms(2,5) this] checked assms(3-6)
  show ?thesis by (simp add: section_ok_def)
qed

text \<open>The effect of an instruction is defined, and the height after it is not negative.\<close>

lemma int8_small: "- 128 \<le> x \<Longrightarrow> x < 128 \<Longrightarrow> int8_of x = x"
  using int_word_sint [where 'a = 8, of x] by (simp add: int8_of_def)

lemma check_types_in:
  "check_types ts = None \<Longrightarrow> t \<in> set ts \<Longrightarrow>
   uint (ty_inputs t) \<le> 127 \<and> (uint (ty_outputs t) \<le> 127 \<or> ty_outputs t = NON_RETURNING_FUNCTION)"
  by (induction ts)
    (auto split: if_splits simp: not_less OUTPUTS_INPUTS_NUMBER_LIMIT_def word_le_def)

lemma read_uint16_Some: "i + 1 < length code \<Longrightarrow> \<exists>v. read_uint16_be code i = Some v"
  by (simp add: read_uint16_be_def)

lemma stack_effect_total:
  assumes ok: "section_ok types fi code" and i: "eof_start code i" "i < length code"
  shows "total (stack_effect L code fi types i h) (\<lambda>r. case r of Inl e \<Rightarrow> e \<noteq> EOF_success
     | Inr (req, change) \<Rightarrow> \<not> is_terminating (traits (code ! i)) \<longrightarrow> 0 \<le> req + change)"
proof -
  have checked: "instr_checked types code i" and fi: "fi < length types"
    using ok i by (simp_all add: section_ok_def)
  have read: "\<exists>fid. read_uint16_be code (i + 1) = Some fid"
    if "code ! i = OP_CALLF \<or> code ! i = OP_JUMPF"
    using that checked imm_traits read_uint16_Some [of "i + 1" code]
    by (auto simp: instr_checked_def eof_next_def eof_immediate_def)
  consider "code ! i = OP_CALLF" | "code ! i = OP_JUMPF" | "code ! i = OP_RETF"
    | "code ! i \<noteq> OP_CALLF" "code ! i \<noteq> OP_JUMPF" "code ! i \<noteq> OP_RETF" by blast
  then show ?thesis
  proof cases
    case 1
    then obtain fid where fid: "read_uint16_be code (i + 1) = Some fid" using read by blast
    then have t: "unat fid < length types" "ty_outputs (types ! unat fid) \<noteq> NON_RETURNING_FUNCTION"
      using checked 1 by (auto simp: instr_checked_def returns_ok_def)
    then have "uint (ty_inputs (types ! unat fid)) \<le> 127" "uint (ty_outputs (types ! unat fid)) \<le> 127"
      using ok check_types_in [of types "types ! unat fid"] by (auto simp: section_ok_def)
    then have "int8_of (uint (ty_inputs (types ! unat fid))) = uint (ty_inputs (types ! unat fid))"
      "int8_of (uint (ty_outputs (types ! unat fid)) - uint (ty_inputs (types ! unat fid))) =
       uint (ty_outputs (types ! unat fid)) - uint (ty_inputs (types ! unat fid))"
      using uint_ge_0 [of "ty_inputs (types ! unat fid)"] uint_ge_0 [of "ty_outputs (types ! unat fid)"]
      by (intro int8_small; linarith)+
    then show ?thesis
      using 1 fid t by (simp add: stack_effect_def Let_def cassert_def)
  next
    case 2
    then obtain fid where fid: "read_uint16_be code (i + 1) = Some fid" using read by blast
    then have t: "unat fid < length types"
      using checked 2 by (auto simp: instr_checked_def returns_ok_def)
    then show ?thesis
      using 2 fid fi imm_traits(8) by (simp add: stack_effect_def Let_def)
  next
    case 3
    then show ?thesis
      using fi imm_traits(9) by (simp add: stack_effect_def Let_def)
  next
    case 4
    then show ?thesis
      using traits_heights [of "code ! i"] by (simp add: stack_effect_def Let_def)
  qed
qed

subsection \<open>What a round preserves\<close>

text \<open>
  The measure of the loop: the positions without a height and the entries of the worklist.
\<close>

definition unvisited :: "int list \<Rightarrow> nat" where
  "unvisited heights = card {k. k < length heights \<and> heights ! k = LOC_UNVISITED}"

lemma unvisited_update:
  assumes "k < length heights" and "heights ! k = LOC_UNVISITED" and "h \<noteq> LOC_UNVISITED"
  shows "Suc (unvisited (heights[k := h])) = unvisited heights"
proof -
  let ?S = "{j. j < length heights \<and> heights ! j = LOC_UNVISITED}"
  have "{j. j < length (heights[k := h]) \<and> heights[k := h] ! j = LOC_UNVISITED} = ?S - {k}"
    using assms by (auto simp: nth_list_update)
  moreover have "k \<in> ?S" "finite ?S" using assms by simp_all
  ultimately show ?thesis
    unfolding unvisited_def by (simp only: card_Suc_Diff1)
qed

lemma unvisited_splice:
  assumes "splice_opt heights i (replicate n LOC_IMMEDIATE) = Some heights'"
  shows "unvisited heights' \<le> unvisited heights"
proof -
  have "{j. j < length heights' \<and> heights' ! j = LOC_UNVISITED}
      \<subseteq> {j. j < length heights \<and> heights ! j = LOC_UNVISITED}"
    using splice_opt_nth [OF assms] splice_opt_length [OF assms]
    by (auto split: if_splits)
  then show ?thesis
    unfolding unvisited_def by (intro card_mono) simp_all
qed

text \<open>Visiting successors with height \<open>h\<close>: only positions without a height get one.\<close>

definition spread :: "byte list \<Rightarrow> int \<Rightarrow> heights_state \<Rightarrow> heights_state \<Rightarrow> bool" where
  "spread code h hw hw' \<longleftrightarrow>
     length (fst hw') = length (fst hw) \<and>
     (\<forall>p < length (fst hw). fst hw' ! p = fst hw ! p \<or>
        (fst hw ! p = LOC_UNVISITED \<and> fst hw' ! p = h \<and> p \<in> set (snd hw'))) \<and>
     set (snd hw) \<subseteq> set (snd hw') \<and>
     (\<forall>p \<in> set (snd hw'). p \<in> set (snd hw) \<or>
        (p < length (fst hw) \<and> eof_start code p \<and> fst hw ! p = LOC_UNVISITED \<and> fst hw' ! p = h)) \<and>
     unvisited (fst hw') + length (snd hw') = unvisited (fst hw) + length (snd hw)"

lemma spread_refl: "spread code h hw hw"
  by (simp add: spread_def)

lemma spread_trans:
  assumes "spread code h hw hw1" and "spread code h hw1 hw2" and "h \<noteq> LOC_UNVISITED"
  shows "spread code h hw hw2"
proof -
  obtain H wl H1 wl1 H2 wl2 where p: "hw = (H, wl)" "hw1 = (H1, wl1)" "hw2 = (H2, wl2)"
    by (metis prod.exhaust)
  have H: "H2 ! p = H ! p \<or> (H ! p = LOC_UNVISITED \<and> H2 ! p = h \<and> p \<in> set wl2)" if "p < length H" for p
  proof -
    have "H1 ! p = H ! p \<or> (H ! p = LOC_UNVISITED \<and> H1 ! p = h \<and> p \<in> set wl1)"
      "H2 ! p = H1 ! p \<or> (H1 ! p = LOC_UNVISITED \<and> H2 ! p = h \<and> p \<in> set wl2)"
      "set wl1 \<subseteq> set wl2"
      using assms(1,2) that unfolding spread_def p by auto
    then show ?thesis by auto
  qed
  have wl: "p \<in> set wl \<or> (p < length H \<and> eof_start code p \<and> H ! p = LOC_UNVISITED \<and> H2 ! p = h)"
    if "p \<in> set wl2" for p
  proof (cases "p \<in> set wl1")
    case True
    then have "p \<in> set wl \<or> (p < length H \<and> eof_start code p \<and> H ! p = LOC_UNVISITED \<and> H1 ! p = h)"
      using assms(1) unfolding spread_def p by auto
    then show ?thesis
      using assms(2) assms(1) unfolding spread_def p by auto
  next
    case False
    then have "p < length H1 \<and> eof_start code p \<and> H1 ! p = LOC_UNVISITED \<and> H2 ! p = h"
      using assms(2) that unfolding spread_def p by auto
    then show ?thesis
      using assms(1,3) unfolding spread_def p by auto
  qed
  show ?thesis
    using assms(1,2) H wl unfolding spread_def p by auto
qed

lemma validate_successor_spread:
  assumes "0 \<le> t" and "nat t < length (fst hw)" and "eof_start code (nat t)" and "0 \<le> h"
  shows "total (validate_successor t h hw) (\<lambda>(ok, hw').
    spread code h hw hw' \<and> (ok \<longrightarrow> fst hw' ! nat t = h))"
proof -
  obtain H wl where hw: "hw = (H, wl)" by (cases hw)
  show ?thesis
  proof (cases "H ! nat t = LOC_UNVISITED")
    case True
    then show ?thesis
      using assms unvisited_update [of "nat t" H h]
      by (auto simp: hw validate_successor_def spread_def nth_list_update)
  next
    case False
    then show ?thesis
      using assms by (auto simp: hw validate_successor_def spread_refl)
  qed
qed

lemma spread_keeps:
  "spread code h hw hw' \<Longrightarrow> p < length (fst hw) \<Longrightarrow> fst hw ! p \<noteq> LOC_UNVISITED \<Longrightarrow>
   fst hw' ! p = fst hw ! p"
  by (auto simp: spread_def)

lemma validate_all_spread:
  assumes "targets_in ts (length (fst hw)) (Collect (eof_start code))" and "0 \<le> h"
  shows "total (validate_all ts h hw) (\<lambda>(ok, hw').
    spread code h hw hw' \<and> (ok \<longrightarrow> (\<forall>t \<in> set ts. fst hw' ! nat t = h)))"
  using assms(1)
proof (induction ts arbitrary: hw)
  case Nil
  then show ?case by (simp add: spread_refl)
next
  case (Cons t ts)
  then obtain ok hw1 where step: "validate_successor t h hw = Some (ok, hw1)"
    and s1: "spread code h hw hw1" "ok \<longrightarrow> fst hw1 ! nat t = h"
    using validate_successor_spread [of t hw code h] assms(2) by (auto simp: total_iff)
  show ?case
  proof (cases ok)
    case True
    have len: "length (fst hw1) = length (fst hw)" using s1(1) by (simp add: spread_def)
    then obtain ok' hw2 where rest: "validate_all ts h hw1 = Some (ok', hw2)"
      and s2: "spread code h hw1 hw2" "ok' \<longrightarrow> (\<forall>t \<in> set ts. fst hw2 ! nat t = h)"
      using Cons.IH [of hw1] Cons.prems by (auto simp: total_iff)
    have "fst hw2 ! nat t = h"
      using spread_keeps [OF s2(1), of "nat t"] s1(2) True Cons.prems len assms(2) by simp
    then show ?thesis
      using spread_trans [OF s1(1) s2(1)] s2(2) assms(2) by (simp add: step True rest)
  next
    case False
    then show ?thesis using s1 by (simp add: step)
  qed
qed

subsection \<open>The loop\<close>

text \<open>
  \<open>height_typed\<close>: the instruction at \<open>i\<close> finds the operands it needs, and every instruction that
  may follow it starts inside the section with the height that the one at \<open>i\<close> leaves.
\<close>

definition height_typed ::
  "'a libs_scheme \<Rightarrow> eof_code_type list \<Rightarrow> nat \<Rightarrow> byte list \<Rightarrow> int list \<Rightarrow> nat \<Rightarrow> bool" where
  "height_typed L types fi code H i \<longleftrightarrow>
     (\<exists>req change. stack_effect L code fi types i (H ! i) = Some (Inr (req, change)) \<and> req \<le> H ! i \<and>
        (\<forall>t \<in> set (successors code i). 0 \<le> t \<and> nat t < length code \<and> eof_start code (nat t) \<and>
           H ! nat t = H ! i + change \<and> 0 \<le> H ! nat t))"

definition heights_inv ::
  "'a libs_scheme \<Rightarrow> eof_code_type list \<Rightarrow> nat \<Rightarrow> byte list \<Rightarrow> int \<Rightarrow> heights_state \<Rightarrow> bool" where
  "heights_inv L types fi code h0 hw \<longleftrightarrow>
     length (fst hw) = length code \<and> fst hw ! 0 = h0 \<and> 0 \<le> h0 \<and>
     (\<forall>i \<in> set (snd hw). i < length code \<and> eof_start code i \<and> 0 \<le> fst hw ! i) \<and>
     (\<forall>i < length code. eof_start code i \<longrightarrow> LOC_UNVISITED \<le> fst hw ! i \<and>
        (0 \<le> fst hw ! i \<and> i \<notin> set (snd hw) \<longrightarrow> height_typed L types fi code (fst hw) i))"

text \<open>A round in terms of the successors.\<close>

lemma stack_height_step_eq:
  assumes ok: "section_ok types fi code" and i: "eof_start code i" "i < length code"
    and H: "length H = length code" "H ! i \<noteq> LOC_UNVISITED"
    and splice: "splice_opt H (i + 1) (replicate (eof_immediate code i) LOC_IMMEDIATE) = Some H1"
    and effect: "stack_effect L code fi types i (H ! i) = Some (Inr (req, change))" "req \<le> H ! i"
  defines "falls \<equiv> \<not> is_terminating (traits (code ! i)) \<and> code ! i \<noteq> OP_RJUMP"
  shows "stack_height_step L code fi types i (H, wl) =
    (if falls \<and> eof_next code i = length code then eof_error EOF_no_terminating_instruction
     else do {
       (ok, hw) \<leftarrow> validate_all (successors code i) (H ! i + change) (H1, wl);
       Some (if ok then Inr hw else Inl EOF_stack_height_mismatch) })"
proof -
  have nxt: "eof_next code i \<le> length code" "length code < 2 ^ 16"
    using ok i by (simp_all add: section_ok_def instr_checked_def)
  note jumps = jump_successors_all [OF nxt]
  have imm: "(if code ! i = OP_RJUMPV then do {
         b \<leftarrow> nth_opt code (i + 1); Some (1 + (unat b + 1) * REL_OFFSET_SIZE) }
       else Some (immediate_size (traits (code ! i)))) = Some (eof_immediate code i)"
    using nxt(1) by (auto simp: eof_immediate_def eof_next_def REL_OFFSET_SIZE_def)
  have pos: "i + eof_immediate code i + 1 = eof_next code i" by (simp add: eof_next_def)
  have read: "nth_opt code i = Some (code ! i)" "nth_opt H i = Some (H ! i)"
    using i(2) H(1) by simp_all
  have "\<not> H ! i < req" using effect(2) by simp
  then have "stack_height_step L code fi types i (H, wl) =
    (if falls \<and> eof_next code i \<ge> length code then eof_error EOF_no_terminating_instruction
     else do {
       (ok, hw) \<leftarrow> (if falls
         then validate_successor (int (eof_next code i)) (H ! i + change) (H1, wl)
         else Some (True, H1, wl));
       if \<not> ok then eof_error EOF_stack_height_mismatch
       else do {
         (ok, hw) \<leftarrow> validate_all (jump_targets code i) (H ! i + change) hw;
         if \<not> ok then eof_error EOF_stack_height_mismatch else Some (Inr hw) } })"
    using H(2)
    by (simp only: stack_height_step_def read bind.bind_lunit prod.case Let_def effect(1)
        checked_bind_def option.case sum.case if_False imm splice pos jumps cassert_def falls_def
        simp_thms if_True)
  also have "\<dots> = (if falls \<and> eof_next code i = length code then eof_error EOF_no_terminating_instruction
     else do {
       (ok, hw) \<leftarrow> validate_all (successors code i) (H ! i + change) (H1, wl);
       Some (if ok then Inr hw else Inl EOF_stack_height_mismatch) })"
  proof (cases falls)
    case True
    then have "successors code i = int (eof_next code i) # jump_targets code i"
      by (auto simp: successors_def falls_def)
    then show ?thesis
      using True nxt(1)
      by (cases "validate_successor (int (eof_next code i)) (H ! i + change) (H1, wl)")
        (auto intro!: Option.bind_cong split: prod.split)
  next
    case False
    then have "successors code i = jump_targets code i"
      by (auto simp: successors_def falls_def)
    then show ?thesis
      using False by (auto intro!: Option.bind_cong split: prod.split)
  qed
  finally show ?thesis .
qed

lemma height_typed_keeps:
  assumes typed: "height_typed L types fi code H i" and i: "i < length code" "eof_start code i" "0 \<le> H ! i"
    and keeps: "\<And>p. p < length code \<Longrightarrow> eof_start code p \<Longrightarrow> 0 \<le> H ! p \<Longrightarrow> H' ! p = H ! p"
  shows "height_typed L types fi code H' i"
proof -
  obtain req change where eff: "stack_effect L code fi types i (H ! i) = Some (Inr (req, change))"
      "req \<le> H ! i"
    and succ: "\<And>t. t \<in> set (successors code i) \<Longrightarrow> 0 \<le> t \<and> nat t < length code \<and>
      eof_start code (nat t) \<and> H ! nat t = H ! i + change \<and> 0 \<le> H ! nat t"
    using typed unfolding height_typed_def by blast
  have same: "H' ! i = H ! i" using keeps i by blast
  have "H' ! nat t = H ! nat t" if "t \<in> set (successors code i)" for t
    using keeps succ [OF that] by blast
  moreover have "0 \<le> H ! i + change" if "t \<in> set (successors code i)" for t
    using succ [OF that] by linarith
  ultimately show ?thesis
    unfolding height_typed_def
    by (intro exI conjI ballI) (use eff succ same in auto)
qed

lemma successors_not_terminating:
  "successors code i \<noteq> [] \<Longrightarrow> \<not> is_terminating (traits (code ! i))"
proof -
  have "\<not> is_terminating (traits OP_RJUMP)" "\<not> is_terminating (traits OP_RJUMPI)"
    "\<not> is_terminating (traits OP_RJUMPV)" by code_simp+
  then show "successors code i \<noteq> [] \<Longrightarrow> \<not> is_terminating (traits (code ! i))"
    by (auto simp: successors_def jump_targets_def split: if_splits)
qed

text \<open>What the marks and the visits of a round leave of the heights at instruction starts.\<close>

lemma round_heights:
  assumes splice: "splice_opt H (i + 1) (replicate (eof_immediate code i) LOC_IMMEDIATE) = Some H1"
    and spread: "spread code h (H1, wl) (H2, wl2)" and len: "length H = length code"
    and i: "eof_start code i" and p: "eof_start code p" "p < length code"
  shows "H2 ! p = H ! p \<or> (H ! p = LOC_UNVISITED \<and> H2 ! p = h \<and> p \<in> set wl2)"
proof -
  have "H1 ! p = H ! p"
  proof (cases "i < p")
    case True
    then have "eof_next code i \<le> p" by (rule eof_start_ordered [OF i p(1)])
    then show ?thesis
      using splice_opt_nth [OF splice, of p] len p(2) by (simp add: eof_next_def)
  next
    case False
    then show ?thesis using splice_opt_nth [OF splice, of p] len p(2) by simp
  qed
  then show ?thesis
    using spread splice_opt_length [OF splice] len p(2) by (auto simp: spread_def)
qed

lemma round_inv:
  assumes inv: "heights_inv L types fi code h0 (H, i # wl)"
    and splice: "splice_opt H (i + 1) (replicate (eof_immediate code i) LOC_IMMEDIATE) = Some H1"
    and spread: "spread code (H ! i + change) (H1, wl) (H2, wl2)"
    and h: "successors code i \<noteq> [] \<longrightarrow> 0 \<le> H ! i + change" "successors code i = [] \<longrightarrow> H2 = H1 \<and> wl2 = wl"
    and effect: "stack_effect L code fi types i (H ! i) = Some (Inr (req, change))" "req \<le> H ! i"
    and targets: "targets_in (successors code i) (length code) (Collect (eof_start code))"
    and visited: "\<forall>t \<in> set (successors code i). H2 ! nat t = H ! i + change"
  shows "heights_inv L types fi code h0 (H2, wl2)"
proof -
  have i: "eof_start code i" "i < length code" "0 \<le> H ! i" and len: "length H = length code"
    and h0: "H ! 0 = h0" "0 \<le> h0"
    using inv by (simp_all add: heights_inv_def)
  have lens: "length H1 = length code" "length H2 = length code"
    using splice_opt_length [OF splice] spread len by (simp_all add: spread_def)
  note heights = round_heights [OF splice spread len i(1)]
  have keeps: "H2 ! p = H ! p" if "p < length code" "eof_start code p" "0 \<le> H ! p" for p
    using heights [OF that(2,1)] that(3) by auto
  have new: "0 \<le> H2 ! p" if "p < length code" "eof_start code p" "H2 ! p \<noteq> H ! p" for p
  proof (cases "successors code i = []")
    case True
    then show ?thesis
      using h(2) heights [OF that(2,1)] inv that
      by (auto simp: heights_inv_def)
  next
    case False
    then show ?thesis using h(1) heights [OF that(2,1)] that(3) by auto
  qed
  have work: "p < length code \<and> eof_start code p \<and> 0 \<le> H2 ! p" if "p \<in> set wl2" for p
  proof (cases "p \<in> set wl")
    case True
    then have "p < length code" "eof_start code p" "0 \<le> H ! p"
      using inv by (simp_all add: heights_inv_def)
    then show ?thesis using keeps by simp
  next
    case False
    then have p: "p < length code" "eof_start code p" "H2 ! p = H ! i + change"
      using spread that lens by (auto simp: spread_def)
    moreover have "successors code i \<noteq> []" using h(2) False that by auto
    ultimately show ?thesis using h(1) by simp
  qed
  have typed: "height_typed L types fi code H2 p"
    if p: "p < length code" "eof_start code p" "0 \<le> H2 ! p" "p \<notin> set wl2" for p
  proof (cases "p = i")
    case True
    have same: "H2 ! i = H ! i" using keeps i by simp
    have "0 \<le> H ! i + change" if "t \<in> set (successors code i)" for t
      using h(1) that by auto
    then show ?thesis
      unfolding height_typed_def True
      by (intro exI conjI ballI) (use same effect targets visited in \<open>auto simp: targets_in_def\<close>)
  next
    case False
    have "H2 ! p = H ! p" using heights [OF p(2,1)] p(4) by blast
    moreover have "p \<notin> set (i # wl)" using False p(4) spread by (auto simp: spread_def)
    ultimately have "height_typed L types fi code H p"
      using inv p by (simp add: heights_inv_def)
    then show ?thesis
      using p \<open>H2 ! p = H ! p\<close> keeps by (intro height_typed_keeps [of L types fi code H p H2]) auto
  qed
  have low: "LOC_UNVISITED \<le> H2 ! p" if "p < length code" "eof_start code p" for p
    using new [OF that] inv that by (cases "H2 ! p = H ! p") (auto simp: heights_inv_def)
  have "H2 ! 0 = h0" using keeps [of 0] h0 i(2) eof_start.first by force
  then show ?thesis
    using lens h0(2) work typed low unfolding heights_inv_def by auto
qed

text \<open>
  A round on a checked section has a result; if it is not an error, the invariant holds again
  and the measure has decreased.
\<close>

lemma stack_height_step_inv:
  assumes ok: "section_ok types fi code" and inv: "heights_inv L types fi code h0 (H, i # wl)"
  shows "total (stack_height_step L code fi types i (H, wl)) (\<lambda>r. case r of Inl e \<Rightarrow> e \<noteq> EOF_success
     | Inr hw' \<Rightarrow> heights_inv L types fi code h0 hw' \<and>
         unvisited (fst hw') + length (snd hw') \<le> unvisited H + length wl)"
proof -
  have i: "eof_start code i" "i < length code" "0 \<le> H ! i" and H: "length H = length code"
    using inv by (simp_all add: heights_inv_def)
  have unv: "H ! i \<noteq> LOC_UNVISITED" using i(3) by simp
  have fits: "eof_next code i \<le> length code"
    and targets: "targets_in (jump_targets code i) (length code) (Collect (eof_start code))"
    using ok i by (simp_all add: section_ok_def instr_checked_def)
  obtain e where effect: "stack_effect L code fi types i (H ! i) = Some e"
    and pos: "case e of Inl e \<Rightarrow> e \<noteq> EOF_success
     | Inr (req, change) \<Rightarrow> \<not> is_terminating (traits (code ! i)) \<longrightarrow> 0 \<le> req + change"
    using stack_effect_total [OF ok i(1,2), of L "H ! i"] by (auto simp: total_iff)
  show ?thesis
  proof (cases e)
    case (Inl x)
    then have "stack_height_step L code fi types i (H, wl) = Some (Inl x)"
      using effect i(2) H unv by (simp add: stack_height_step_def checked_bind_def cassert_def)
    then show ?thesis using pos Inl by simp
  next
    case (Inr rc)
    obtain req change where rc: "rc = (req, change)" by (cases rc)
    show ?thesis
    proof (cases "H ! i < req")
      case True
      then have "stack_height_step L code fi types i (H, wl) = Some (Inl EOF_stack_underflow)"
        using effect i(2) H unv Inr rc
        by (simp add: stack_height_step_def checked_bind_def cassert_def)
      then show ?thesis by simp
    next
      case False
      let ?falls = "\<not> is_terminating (traits (code ! i)) \<and> code ! i \<noteq> OP_RJUMP"
      obtain H1 where H1: "splice_opt H (i + 1) (replicate (eof_immediate code i) LOC_IMMEDIATE) = Some H1"
        using fits H by (simp add: eof_next_def)
      note step = stack_height_step_eq [OF ok i(1,2) H unv H1 effect [unfolded Inr rc], of wl]
      show ?thesis
      proof (cases "?falls \<and> eof_next code i = length code")
        case True
        then show ?thesis using step False by simp
      next
        case fall: False
        let ?h = "H ! i + change"
        have len: "length H1 = length code" using splice_opt_length [OF H1] H by simp
        have "?falls \<Longrightarrow> eof_start code (eof_next code i) \<and> eof_next code i < length code"
          using fall fits eof_start.follows [OF i(1,2)] by auto
        then have all: "targets_in (successors code i) (length code) (Collect (eof_start code))"
          using targets by (auto simp: successors_def)
        have h: "0 \<le> ?h" if "successors code i \<noteq> []"
          using successors_not_terminating [OF that] pos False by (simp add: Inr rc)
        obtain ok hw' where run: "validate_all (successors code i) ?h (H1, wl) = Some (ok, hw')"
          and spread: "spread code ?h (H1, wl) hw'"
          and visited: "ok \<longrightarrow> (\<forall>t \<in> set (successors code i). fst hw' ! nat t = ?h)"
          and none: "successors code i = [] \<longrightarrow> hw' = (H1, wl)"
        proof (cases "successors code i = []")
          case True
          then show ?thesis using that [of True "(H1, wl)"] by (simp add: spread_refl)
        next
          case False
          then show ?thesis
            using that validate_all_spread [of "successors code i" "(H1, wl)" code ?h] all h len
            by (auto simp: total_iff)
        qed
        have "unvisited (fst hw') + length (snd hw') \<le> unvisited H + length wl"
          using spread unvisited_splice [OF H1] by (simp add: spread_def)
        moreover have "heights_inv L types fi code h0 hw'" if ok
          using round_inv [OF inv H1, of change "fst hw'" "snd hw'" req] spread h none effect Inr rc
            False all visited that by auto
        ultimately show ?thesis
          using step False fall run by auto
      qed
    qed
  qed
qed

text \<open>
  The loop, given as much fuel as the measure, ends; if it ends without an error, the
  invariant holds with an empty worklist.
\<close>

lemma stack_height_loop_terminates:
  assumes "section_ok types fi code" and "heights_inv L types fi code h0 (H, wl)"
    and "unvisited H + length wl \<le> fuel"
  shows "\<exists>r. stack_height_loop fuel L code fi types (H, wl) = Finished (Some r) \<and>
    (case r of Inl e \<Rightarrow> e \<noteq> EOF_success | Inr H' \<Rightarrow> heights_inv L types fi code h0 (H', []))"
  using assms(2,3)
proof (induction fuel arbitrary: H wl)
  case 0
  then show ?case by (cases wl) simp_all
next
  case (Suc fuel)
  show ?case
  proof (cases wl)
    case Nil
    then show ?thesis using Suc.prems by simp
  next
    case (Cons i wl')
    obtain r where r: "stack_height_step L code fi types i (H, wl') = Some r"
      and inv: "case r of Inl e \<Rightarrow> e \<noteq> EOF_success | Inr hw' \<Rightarrow> heights_inv L types fi code h0 hw' \<and>
         unvisited (fst hw') + length (snd hw') \<le> unvisited H + length wl'"
      using stack_height_step_inv [OF assms(1) Suc.prems(1) [unfolded Cons]] by (auto simp: total_iff)
    show ?thesis
    proof (cases r)
      case (Inl e)
      then show ?thesis using inv by (simp add: Cons r)
    next
      case (Inr hw')
      then show ?thesis
        using Suc.IH [of "fst hw'" "snd hw'"] inv Suc.prems(2) by (simp add: Cons r)
    qed
  qed
qed

text \<open>The first state of the loop.\<close>

lemma initial_heights:
  fixes h0 :: int
  assumes code: "code \<noteq> []" and h0: "0 \<le> h0"
  defines "H \<equiv> (replicate (length code) LOC_UNVISITED)[0 := h0]"
  shows "heights_inv L types fi code h0 (H, [0])" and "unvisited H + length [0 :: nat] \<le> length code"
proof -
  have nth: "H ! p = (if p = 0 then h0 else LOC_UNVISITED)" if "p < length code" for p
    using that unfolding H_def by (cases code) (auto simp: nth_list_update)
  have "length H = length code" by (simp add: H_def)
  then show "heights_inv L types fi code h0 (H, [0])"
    using code h0 nth by (auto simp: heights_inv_def eof_start.first)
  have "Suc (unvisited H) = unvisited (replicate (length code) LOC_UNVISITED)"
    unfolding H_def by (rule unvisited_update) (use code h0 in auto)
  also have "\<dots> = length code" by (simp add: unvisited_def cong: conj_cong)
  finally show "unvisited H + length [0 :: nat] \<le> length code" by simp
qed

lemma stack_height_loop_initial:
  assumes ok: "section_ok types fi code"
  shows "\<exists>r. stack_height_loop (length code) L code fi types
      ((replicate (length code) LOC_UNVISITED)[0 := uint (ty_inputs (types ! fi))], [0]) = Finished (Some r) \<and>
    (case r of Inl e \<Rightarrow> e \<noteq> EOF_success
     | Inr H' \<Rightarrow> heights_inv L types fi code (uint (ty_inputs (types ! fi))) (H', []))"
proof -
  have "code \<noteq> []" using ok by (simp add: section_ok_def)
  then show ?thesis
    using initial_heights [of code "uint (ty_inputs (types ! fi))"]
    by (intro stack_height_loop_terminates [OF ok]) simp_all
qed

text \<open>The whole validation of the stack of a section.\<close>

lemma validate_max_stack_height_total:
  assumes ok: "section_ok types fi code"
  shows "total (validate_max_stack_height L code fi types) (\<lambda>r. case r of Inl e \<Rightarrow> e \<noteq> EOF_success
     | Inr msh \<Rightarrow> \<exists>H. length H = length code \<and> H ! 0 = uint (ty_inputs (types ! fi)) \<and>
         (\<forall>i < length code. eof_start code i \<longrightarrow>
            0 \<le> H ! i \<and> H ! i \<le> msh \<and> height_typed L types fi code H i))"
proof -
  let ?h0 = "uint (ty_inputs (types ! fi))"
  let ?H = "(replicate (length code) LOC_UNVISITED)[0 := ?h0]"
  have code: "code \<noteq> []" "0 < length code" and fi: "fi < length types"
    using ok by (simp_all add: section_ok_def)
  obtain r where loop: "stack_height_loop (length code) L code fi types (?H, [0]) = Finished (Some r)"
    and inv: "case r of Inl e \<Rightarrow> e \<noteq> EOF_success | Inr H' \<Rightarrow> heights_inv L types fi code ?h0 (H', [])"
    using stack_height_loop_initial [OF ok] by blast
  show ?thesis
  proof (cases r)
    case (Inl e)
    then show ?thesis
      using code fi loop inv by (simp add: validate_max_stack_height_def checked_bind_def cassert_def)
  next
    case (Inr H)
    have "0 \<le> H ! i \<and> H ! i \<le> Max (set H) \<and> height_typed L types fi code H i"
      if "LOC_UNVISITED \<notin> set H" "i < length code" "eof_start code i" for i
    proof -
      have "length H = length code" using inv Inr by (simp add: heights_inv_def)
      then have mem: "H ! i \<in> set H" using that by simp
      then have "H ! i \<noteq> LOC_UNVISITED" using that(1) by metis
      moreover have "LOC_UNVISITED \<le> H ! i" using that inv Inr by (simp add: heights_inv_def)
      ultimately have "0 \<le> H ! i" by linarith
      then show ?thesis using inv Inr mem that by (simp add: heights_inv_def)
    qed
    then show ?thesis
      using code fi loop inv Inr
      by (auto simp: validate_max_stack_height_def checked_bind_def cassert_def heights_inv_def)
  qed
qed

end
