(* ===== verification/Eof_Container.thy ===== *)
theory Eof_Container
  imports Eof_Stack
begin

text \<open>
  Validation of a whole EOF container: the section headers that the state machine accepts, the
  types and sections they describe, and that every pass has a result, so that no byte outside
  the container is read and no assertion fails. The reader of valid headers is shown to
  read back what the validation has computed.
\<close>

subsection \<open>Results that are errors or satisfy a predicate\<close>

definition checked_total :: "'a checked \<Rightarrow> ('a \<Rightarrow> bool) \<Rightarrow> bool" where
  "checked_total m Q \<longleftrightarrow> total m (\<lambda>r. case r of Inl e \<Rightarrow> e \<noteq> EOF_success | Inr x \<Rightarrow> Q x)"

lemma checked_total_simps [simp]:
  "checked_total (Some (Inl e)) Q \<longleftrightarrow> e \<noteq> EOF_success" "checked_total (Some (Inr x)) Q \<longleftrightarrow> Q x" "\<not> checked_total None Q"
  by (simp_all add: checked_total_def)

lemma checked_total_bind:
  "checked_total m P \<Longrightarrow> (\<And>x. P x \<Longrightarrow> checked_total (f x) Q) \<Longrightarrow> checked_total (checked_bind m f) Q"
  by (cases m; cases "the m") (auto simp: checked_total_def checked_bind_def)

lemma checked_total_mono: "checked_total m P \<Longrightarrow> (\<And>x. P x \<Longrightarrow> Q x) \<Longrightarrow> checked_total m Q"
  by (auto simp: checked_total_def total_iff split: sum.splits)

lemma checked_total_if:
  "(c \<Longrightarrow> checked_total a Q) \<Longrightarrow> (\<not> c \<Longrightarrow> checked_total b Q) \<Longrightarrow> checked_total (if c then a else b) Q"
  by simp

lemma checked_totalD: "checked_total m Q \<Longrightarrow> m = Some (Inr x) \<Longrightarrow> Q x"
  by (simp add: checked_total_def)

lemma checked_total_result: "checked_total m Q \<Longrightarrow> \<exists>r. m = Some r"
  by (auto simp: checked_total_def total_iff)

subsection \<open>The section headers\<close>

text \<open>
  What the state machine has read when it stops at \<open>it\<close>: the sizes of a header of the fixed
  shape, with the bytes of the container they came from.
\<close>

definition header_bytes :: "byte list \<Rightarrow> section_headers \<Rightarrow> nat \<Rightarrow> bool" where
  "header_bytes c headers it \<longleftrightarrow> (\<exists>t n ss d.
     headers = (\<lambda>s. if s = TYPE_SECTION then [t] else if s = CODE_SECTION then ss
                    else if s = DATA_SECTION then [d] else []) \<and>
     ss \<noteq> [] \<and> length ss = unat n \<and> (\<forall>s \<in> set ss. s \<noteq> 0) \<and> it = 13 + 2 * length ss \<and> it \<le> length c \<and>
     c ! 3 = TYPE_SECTION \<and> read_uint16_be c 4 = Some t \<and>
     c ! 6 = CODE_SECTION \<and> read_uint16_be c 7 = Some n \<and> read_sizes c 9 (unat n) = Some ss \<and>
     c ! (9 + 2 * unat n) = DATA_SECTION \<and> read_uint16_be c (10 + 2 * unat n) = Some d \<and>
     c ! (12 + 2 * unat n) = TERMINATOR)"

lemma headers_stop:
  "length c \<le> it \<or> st = Terminated \<Longrightarrow> validate_headers_loop L c st sid num H it ex = Some (Inr (st, H, it))"
  by (subst validate_headers_loop.simps) auto

lemma headers_terminator:
  "it < length c \<Longrightarrow> validate_headers_loop L c Section_id sid num H it TERMINATOR =
    (if c ! it \<noteq> TERMINATOR then eof_error EOF_header_terminator_missing
     else Some (Inr (Terminated, H, it + 1)))"
  by (subst validate_headers_loop.simps)
    (simp add: headers_stop get_section_missing_error_def)

lemma headers_data_size:
  "it < length c \<Longrightarrow> validate_headers_loop L c Section_size DATA_SECTION num H it ex =
    (if it + 1 \<ge> length c then eof_error EOF_incomplete_section_size
     else do {
       d \<leftarrow> read_uint16_be c it;
       validate_headers_loop L c Section_id DATA_SECTION num
         (H(DATA_SECTION := H DATA_SECTION @ [d])) (it + 2) ex })"
  by (subst validate_headers_loop.simps) (simp add: add_section_sizes_def)

lemma headers_data_id:
  "it < length c \<Longrightarrow> validate_headers_loop L c Section_id sid num H it DATA_SECTION =
    (if c ! it \<noteq> DATA_SECTION then eof_error EOF_data_section_missing
     else validate_headers_loop L c Section_size DATA_SECTION num H (it + 1) TERMINATOR)"
  by (subst validate_headers_loop.simps) (simp add: get_section_missing_error_def)

lemma headers_type_size:
  "it < length c \<Longrightarrow> validate_headers_loop L c Section_size TYPE_SECTION num H it ex =
    (if it + 1 \<ge> length c then eof_error EOF_incomplete_section_size
     else do {
       t \<leftarrow> read_uint16_be c it;
       if t = 0 then eof_error EOF_zero_section_size
       else validate_headers_loop L c Section_id TYPE_SECTION num
         (H(TYPE_SECTION := H TYPE_SECTION @ [t])) (it + 2) ex })"
  by (subst validate_headers_loop.simps) (simp add: add_section_sizes_def cong: if_cong)

lemma headers_type_id:
  "it < length c \<Longrightarrow> validate_headers_loop L c Section_id sid num H it TYPE_SECTION =
    (if c ! it \<noteq> TYPE_SECTION then eof_error EOF_type_section_missing
     else validate_headers_loop L c Section_size TYPE_SECTION num H (it + 1) CODE_SECTION)"
  by (subst validate_headers_loop.simps) (simp add: get_section_missing_error_def)

lemma headers_code_id:
  "it < length c \<Longrightarrow> validate_headers_loop L c Section_id sid num H it CODE_SECTION =
    (if c ! it \<noteq> CODE_SECTION then eof_error EOF_code_section_missing
     else if it + 2 \<ge> length c then eof_error EOF_incomplete_section_number
     else do {
       n \<leftarrow> read_uint16_be c (it + 1);
       if n = 0 then eof_error EOF_zero_section_size
       else if unat n > CODE_SECTION_NUMBER_LIMIT then eof_error EOF_too_many_code_sections
       else validate_headers_loop L c Section_size CODE_SECTION n H (it + 3) DATA_SECTION })"
  by (subst validate_headers_loop.simps) (simp add: get_section_missing_error_def numeral_2_eq_2 numeral_3_eq_3 cong: if_cong)

lemma headers_code_size:
  "it < length c \<Longrightarrow> num \<noteq> 0 \<Longrightarrow> validate_headers_loop L c Section_size CODE_SECTION num H it ex =
    do {
      r \<leftarrow> validate_code_sizes c (unat num) it H;
      (case r of Inl e \<Rightarrow> eof_error e
       | Inr (H, it') \<Rightarrow> validate_headers_loop L c Section_id CODE_SECTION num H (it + 2 * unat num) ex) }"
  by (subst validate_headers_loop.simps) (simp add: cassert_def word_gt_0)

definition with_code :: "section_headers \<Rightarrow> u16 list \<Rightarrow> section_headers" where
  "with_code H ss = H(CODE_SECTION := H CODE_SECTION @ ss)"

lemma with_code_simps [simp]:
  "with_code H [] = H" "with_code (with_code H xs) ys = with_code H (xs @ ys)"
  by (simp_all add: with_code_def fun_eq_iff)

lemma validate_code_sizes_total:
  "checked_total (validate_code_sizes c n it H) (\<lambda>(H', it'). it' = it + 2 * n \<and>
     (\<exists>ss. read_sizes c it n = Some ss \<and> (\<forall>s \<in> set ss. s \<noteq> 0) \<and> H' = with_code H ss))"
proof (induction n arbitrary: it H)
  case 0
  then show ?case by simp
next
  case (Suc n)
  show ?case
  proof (cases "it + 1 \<ge> length c")
    case True
    then show ?thesis by simp
  next
    case False
    then obtain s where s: "read_uint16_be c it = Some s"
      using read_uint16_be_Some [of it c] by auto
    show ?thesis
    proof (cases "s = 0")
      case True
      then show ?thesis using False s by simp
    next
      case nonzero: False
      have "add_section_sizes H CODE_SECTION [s] = Some (with_code H [s])"
        by (simp add: add_section_sizes_def with_code_def)
      then have step: "validate_code_sizes c (Suc n) it H = validate_code_sizes c n (it + 2) (with_code H [s])"
        using False s nonzero by simp
      show ?thesis
        unfolding step
        by (rule checked_total_mono [OF Suc.IH [of "it + 2" "with_code H [s]"]])
          (use nonzero in \<open>auto simp: s\<close>)
    qed
  qed
qed

lemma read_bind:
  assumes "it + 1 < length c" and "\<And>v. read_uint16_be c it = Some v \<Longrightarrow> checked_total (f v) Q"
  shows "checked_total (Option.bind (read_uint16_be c it) f) Q"
  using read_uint16_be_Some [OF assms(1)] assms(2) by auto

text \<open>The states of the machine, from the last one back to the first.\<close>

lemma headers_from_terminator:
  "checked_total (validate_headers_loop L c Section_id sid num H it TERMINATOR)
     (\<lambda>(st, H', it'). st = Terminated \<longrightarrow> H' = H \<and> it' = it + 1 \<and> it < length c \<and> c ! it = TERMINATOR)"
  by (cases "it < length c") (simp_all add: headers_terminator headers_stop)

lemma headers_from_data:
  "checked_total (validate_headers_loop L c Section_id sid num H it DATA_SECTION)
     (\<lambda>(st, H', it'). st = Terminated \<longrightarrow> (\<exists>d. c ! it = DATA_SECTION \<and>
        read_uint16_be c (it + 1) = Some d \<and> H' = H(DATA_SECTION := H DATA_SECTION @ [d]) \<and>
        it' = it + 4 \<and> it + 3 < length c \<and> c ! (it + 3) = TERMINATOR))"
proof -
  consider "length c \<le> it" | "length c = it + 1" | "length c = it + 2" | "it + 2 < length c" by linarith
  then show ?thesis
  proof cases
    case 4
    have "checked_total (Option.bind (read_uint16_be c (it + 1)) (\<lambda>d.
        validate_headers_loop L c Section_id DATA_SECTION num
         (H(DATA_SECTION := H DATA_SECTION @ [d])) (it + 1 + 2) TERMINATOR))
      (\<lambda>(st, H', it'). st = Terminated \<longrightarrow> (\<exists>d.
        read_uint16_be c (it + 1) = Some d \<and> H' = H(DATA_SECTION := H DATA_SECTION @ [d]) \<and>
        it' = it + 4 \<and> it + 3 < length c \<and> c ! (it + 3) = TERMINATOR))"
      by (rule read_bind)
        (use 4 in \<open>auto intro!: checked_total_mono [OF headers_from_terminator] simp: eval_nat_numeral\<close>)
    then show ?thesis
      using 4 by (auto simp: headers_data_id headers_data_size elim!: checked_total_mono)
  qed (simp_all add: headers_data_id headers_data_size headers_stop)
qed

lemma headers_from_code_size:
  assumes "num \<noteq> 0"
  shows "checked_total (validate_headers_loop L c Section_size CODE_SECTION num H it DATA_SECTION)
    (\<lambda>(st, H', it'). st = Terminated \<longrightarrow> (\<exists>ss d. read_sizes c it (unat num) = Some ss \<and>
       (\<forall>s \<in> set ss. s \<noteq> 0) \<and> c ! (it + 2 * unat num) = DATA_SECTION \<and>
       read_uint16_be c (it + 2 * unat num + 1) = Some d \<and>
       H' = (with_code H ss)(DATA_SECTION := with_code H ss DATA_SECTION @ [d]) \<and>
       it' = it + 2 * unat num + 4 \<and> it + 2 * unat num + 3 < length c \<and>
       c ! (it + 2 * unat num + 3) = TERMINATOR))"
proof (cases "it < length c")
  case False
  then show ?thesis by (simp add: headers_stop)
next
  case True
  obtain r where r: "validate_code_sizes c (unat num) it H = Some r"
    and sizes: "case r of Inl e \<Rightarrow> e \<noteq> EOF_success | Inr (H', it') \<Rightarrow> it' = it + 2 * unat num \<and>
     (\<exists>ss. read_sizes c it (unat num) = Some ss \<and> (\<forall>s \<in> set ss. s \<noteq> 0) \<and> H' = with_code H ss)"
    using validate_code_sizes_total [of c "unat num" it H]
    by (auto simp: checked_total_def total_iff)
  show ?thesis
  proof (cases r)
    case (Inl e)
    then show ?thesis using True assms sizes by (simp add: headers_code_size r)
  next
    case (Inr p)
    obtain H1 it1 where p: "p = (H1, it1)" by (cases p)
    then show ?thesis
      using True assms sizes headers_from_data [of L c CODE_SECTION num H1 "it + 2 * unat num"]
      by (auto simp: headers_code_size r Inr elim!: checked_total_mono)
  qed
qed

lemma headers_from_code:
  "checked_total (validate_headers_loop L c Section_id sid num H it CODE_SECTION)
    (\<lambda>(st, H', it'). st = Terminated \<longrightarrow> (\<exists>n ss d. c ! it = CODE_SECTION \<and>
       read_uint16_be c (it + 1) = Some n \<and> n \<noteq> 0 \<and> read_sizes c (it + 3) (unat n) = Some ss \<and>
       (\<forall>s \<in> set ss. s \<noteq> 0) \<and> c ! (it + 3 + 2 * unat n) = DATA_SECTION \<and>
       read_uint16_be c (it + 3 + 2 * unat n + 1) = Some d \<and>
       H' = (with_code H ss)(DATA_SECTION := with_code H ss DATA_SECTION @ [d]) \<and>
       it' = it + 3 + 2 * unat n + 4 \<and> it + 3 + 2 * unat n + 3 < length c \<and>
       c ! (it + 3 + 2 * unat n + 3) = TERMINATOR))"
proof -
  consider "length c \<le> it" | "it < length c" "length c \<le> it + 2" | "it + 2 < length c" by linarith
  then show ?thesis
  proof cases
    case 3
    then obtain n where n: "read_uint16_be c (it + 1) = Some n"
      using read_uint16_be_Some [of "it + 1" c] by auto
    show ?thesis
    proof (cases "n = 0 \<or> unat n > CODE_SECTION_NUMBER_LIMIT")
      case True
      then show ?thesis using 3 n by (auto simp: headers_code_id)
    next
      case False
      then show ?thesis
        using 3 n headers_from_code_size [of n L c H "it + 3"]
        by (auto simp: headers_code_id add.commute elim!: checked_total_mono)
    qed
  qed (simp_all add: headers_code_id headers_stop)
qed

lemma validate_headers_loop_total:
  "checked_total (validate_headers_loop L c Section_id 0 0 no_sections 3 TYPE_SECTION)
    (\<lambda>(st, H, it). st = Terminated \<longrightarrow> header_bytes c H it)"
proof -
  consider "length c \<le> 3" | "length c = 4" | "length c = 5" | "5 < length c" by linarith
  then show ?thesis
  proof cases
    case 4
    then obtain t where t: "read_uint16_be c 4 = Some t"
      using read_uint16_be_Some [of 4 c] by auto
    let ?H = "no_sections(TYPE_SECTION := [t])"
    have shape: "header_bytes c ((with_code ?H ss)(DATA_SECTION := with_code ?H ss DATA_SECTION @ [d]))
        (13 + 2 * unat n)"
      if "c ! 3 = TYPE_SECTION" "c ! 6 = CODE_SECTION" "read_uint16_be c 7 = Some n" "n \<noteq> 0"
        "read_sizes c 9 (unat n) = Some ss" "\<forall>s \<in> set ss. s \<noteq> 0"
        "c ! (9 + 2 * unat n) = DATA_SECTION" "read_uint16_be c (10 + 2 * unat n) = Some d"
        "12 + 2 * unat n < length c" "c ! (12 + 2 * unat n) = TERMINATOR" for n ss d
    proof -
      have len: "length ss = unat n" using that(5) by (rule length_read_sizes)
      then have "ss \<noteq> []" using that(4) by (auto simp: unat_eq_0)
      then show ?thesis
        unfolding header_bytes_def using that len t
        by (intro exI [of _ t] exI [of _ n])
          (auto simp: with_code_def no_sections_def fun_eq_iff intro!: exI [of _ ss] exI [of _ d])
    qed
    show ?thesis
    proof (cases "c ! 3 = TYPE_SECTION \<and> t \<noteq> 0")
      case True
      then show ?thesis
        using 4 t headers_from_code [of L c TYPE_SECTION 0 ?H 6]
        by (auto simp: headers_type_id headers_type_size no_sections_def elim!: checked_total_mono
            intro!: shape [unfolded no_sections_def])
    next
      case False
      then show ?thesis using 4 t by (auto simp: headers_type_id headers_type_size)
    qed
  qed (simp_all add: headers_type_id headers_type_size headers_stop)
qed

subsection \<open>Types, offsets and code\<close>

lemma read_types_total:
  "off + 4 * n \<le> length c \<Longrightarrow> total (read_types c off (off + 4 * n)) (\<lambda>ts. length ts = n)"
proof (induction n arbitrary: off)
  case 0
  then show ?case by (simp add: read_types.simps)
next
  case (Suc n)
  have "off + 4 * Suc n = off + 4 + 4 * n" by simp
  then obtain ts where ts: "read_types c (off + 4) (off + 4 * Suc n) = Some ts" "length ts = n"
    using Suc.IH [of "off + 4"] Suc.prems unfolding total_iff
    by (metis (no_types, lifting) add.assoc mult_Suc_right)
  obtain v where "read_uint16_be c (off + 2) = Some v"
    using read_uint16_be_Some [of "off + 2" c] Suc.prems by auto
  then show ?case
    using ts Suc.prems by (subst read_types.simps) (simp add: numeral_eq_Suc)
qed

lemma section_offsets_total:
  "off + sum_list (map unat ss) \<le> 65535 \<Longrightarrow> ss \<noteq> [] \<Longrightarrow>
   total (section_offsets L off ss) (\<lambda>os. length os = length ss \<and>
     (\<forall>k < length ss. unat (os ! k) = off + sum_list (map unat (take k ss))))"
proof (induction ss arbitrary: off)
  case Nil
  then show ?case by simp
next
  case (Cons s ss)
  have unat: "unat (word_of_nat off :: u16) = off"
    using Cons.prems(1) by (simp add: unat_of_nat)
  show ?case
  proof (cases "ss = []")
    case True
    then show ?thesis using Cons.prems(1) unat by (simp add: cassert_def)
  next
    case False
    then obtain os where os: "section_offsets L (off + unat s) ss = Some os" "length os = length ss"
      and offs: "\<forall>k < length ss. unat (os ! k) = off + unat s + sum_list (map unat (take k ss))"
      using Cons.IH [of "off + unat s"] Cons.prems(1) by (auto simp: total_iff)
    have "unat ((word_of_nat off # os) ! k) = off + sum_list (map unat (take k (s # ss)))"
      if "k < length (s # ss)" for k
      using that offs unat by (cases k) simp_all
    moreover have "off \<le> 65535" using Cons.prems(1) by simp
    ultimately show ?thesis
      using os by (simp add: cassert_def)
  qed
qed

lemma sum_take_le: "k < length (ss :: u16 list) \<Longrightarrow>
  sum_list (map unat (take k ss)) + unat (ss ! k) \<le> sum_list (map unat ss)"
proof -
  assume k: "k < length ss"
  then have "ss = take k ss @ ss ! k # drop (Suc k) ss" by (rule id_take_nth_drop)
  then have "sum_list (map unat ss) = sum_list (map unat (take k ss @ ss ! k # drop (Suc k) ss))"
    by simp
  then show ?thesis by simp
qed

subsection \<open>Every pass over a section has a result\<close>

lemma instr_loop_total:
  "\<exists>r. validate_instructions_loop ct header code i b = Some r \<and> r \<noteq> Inl EOF_success"
proof (induction ct header code i b rule: validate_instructions_loop.induct)
  case (1 ct header code i b)
  have read: "\<exists>v. read_uint16_be code (i + 1) = Some v" if "i + 2 < length code"
    using that read_uint16_be_Some [of "i + 1" code] by simp
  show ?case
    using 1 imm_traits read
    by (subst validate_instructions_loop.simps) (auto simp: Let_def nth_opt_def)
qed

lemma check_destination_total:
  "p + 1 < length code \<Longrightarrow> \<exists>d. check_rjump_destination code p q = Some d"
  by (simp add: check_rjump_destination_def read_int16_eq Let_def)

lemma check_table_total:
  "i + 2 + 2 * (k + n) \<le> length code \<Longrightarrow> k + n \<le> 256 \<Longrightarrow>
   \<exists>r. check_rjumpv_table code i q (2 * k) n dests = Some r"
proof (induction n arbitrary: k dests)
  case 0
  then show ?case by simp
next
  case (Suc n)
  have "2 * k mod 65536 = 2 * k" using Suc.prems(2) by simp
  moreover obtain d where "check_rjump_destination code (i + 2 + 2 * k) q = Some d"
    using check_destination_total [of "i + 2 + 2 * k" code q] Suc.prems(1) by auto
  moreover have "\<exists>r. check_rjumpv_table code i q (2 * Suc k) n (dests @ [x]) = Some r" for x
    by (rule Suc.IH) (use Suc.prems in simp_all)
  ultimately show ?case
    by (cases d) (simp_all add: REL_OFFSET_SIZE_def add.commute)
qed

lemma rjump_loop_total:
  assumes "eof_start code i" and "length imm = length code"
    and "\<And>i. eof_start code i \<Longrightarrow> i < length code \<Longrightarrow> eof_next code i \<le> length code"
  shows "\<exists>r. rjump_loop code i dests imm = Some r"
  using assms(1,2)
proof (induction "length code - i" arbitrary: i dests imm rule: less_induct)
  case less
  show ?case
  proof (cases "i < length code")
    case False
    then show ?thesis by (simp add: rjump_loop_end)
  next
    case True
    note fits = assms(3) [OF less.prems(1) True]
    let ?op = "code ! i"
    have rec: "\<exists>r. rjump_loop code (eof_next code i) ds imm' = Some r"
      if "length imm' = length code" for ds imm'
      using less.hyps [of "eof_next code i" imm' ds] eof_start.follows [OF less.prems(1) True]
        eof_next_greater [of i code] True that by simp
    obtain imm' where imm': "splice_opt imm (i + 1) (replicate (eof_immediate code i) True) = Some imm'"
        "length imm' = length code"
    proof (rule that)
      show "splice_opt imm (i + 1) (replicate (eof_immediate code i) True) =
          Some (take (i + 1) imm @ replicate (eof_immediate code i) True @
            drop (i + 1 + eof_immediate code i) imm)"
        using fits less.prems(2) by (simp add: eof_next_def splice_opt_def)
      from splice_opt_length [OF this] less.prems(2)
      show "length (take (i + 1) imm @ replicate (eof_immediate code i) True @
            drop (i + 1 + eof_immediate code i) imm) = length code" by simp
    qed
    consider "?op = OP_RJUMP \<or> ?op = OP_RJUMPI" | "?op = OP_RJUMPV"
      | "?op \<noteq> OP_RJUMP" "?op \<noteq> OP_RJUMPI" "?op \<noteq> OP_RJUMPV" by blast
    then obtain r where r: "(if ?op = OP_RJUMP \<or> ?op = OP_RJUMPI then do {
               d \<leftarrow> check_rjump_destination code (i + 1) (i + REL_OFFSET_SIZE + 1);
               Some (case d of Inl _ \<Rightarrow> Inl () | Inr d \<Rightarrow> Inr (dests @ [d], immediate_size (traits ?op))) }
             else if ?op = OP_RJUMPV then do {
               b \<leftarrow> nth_opt code (i + 1);
               let count = unat b + 1;
               let imm_size = immediate_size (traits ?op) + count * REL_OFFSET_SIZE;
               let post_pos = i + 1 + imm_size;
               ds \<leftarrow> check_rjumpv_table code i post_pos 0 count dests;
               Some (case ds of Inl _ \<Rightarrow> Inl () | Inr ds \<Rightarrow> Inr (ds, imm_size)) }
             else Some (Inr (dests, immediate_size (traits ?op)))) = Some r"
      and imm: "case r of Inl _ \<Rightarrow> True | Inr (ds, k) \<Rightarrow> k = eof_immediate code i"
    proof cases
      case 1
      then obtain d where "check_rjump_destination code (i + 1) (i + REL_OFFSET_SIZE + 1) = Some d"
        using check_destination_total [of "i + 1" code "i + REL_OFFSET_SIZE + 1"] fits imm_traits
        by (auto simp: eof_next_def eof_immediate_def)
      then show ?thesis
        using 1 by (intro that) (auto simp: eof_immediate_def split: sum.splits)
    next
      case 2
      let ?n = "unat (code ! (i + 1)) + 1"
      have "eof_next code i = i + 2 + 2 * ?n" "?n \<le> 256"
        using 2 unat_byte_less [of "code ! (i + 1)"] by (simp_all add: eof_next_def eof_immediate_def)
      then obtain ds where ds: "check_rjumpv_table code i (i + 1 + (1 + ?n * REL_OFFSET_SIZE)) 0 ?n dests = Some ds"
        using check_table_total [of i 0 ?n code _ dests] fits by (metis add_0 mult_0_right)
      have "nth_opt code (i + 1) = Some (code ! (i + 1))"
        using \<open>eof_next code i = i + 2 + 2 * ?n\<close> fits by simp
      then show ?thesis
        using 2 ds imm_traits(3)
        by (intro that) (auto simp: eof_immediate_def Let_def REL_OFFSET_SIZE_def
            simp del: check_rjumpv_table.simps split: sum.splits)
    next
      case 3
      then show ?thesis by (intro that) (auto simp: eof_immediate_def)
    qed
    show ?thesis
      unfolding rjump_loop.simps [of code i dests imm] Let_def
      using True r [unfolded Let_def] imm imm'(1) rec [OF imm'(2)]
      by (cases r) (auto simp: eof_next_def)
  qed
qed

lemma validate_rjump_total:
  assumes "\<And>i. eof_start code i \<Longrightarrow> i < length code \<Longrightarrow> eof_next code i \<le> length code"
  shows "\<exists>b. validate_rjump_destinations code = Some b"
  using rjump_loop_total [OF eof_start.first _ assms, of "replicate (length code) False" "[]"]
  by (auto simp: validate_rjump_destinations_def split: sum.split)

subsection \<open>Whole containers\<close>

text \<open>The section of index \<open>k\<close> lies inside the container.\<close>

lemma get_code_eq:
  assumes "k < length (code_offsets h)" and "length (code_sizes h) = length (code_offsets h)"
    and "unat (code_offsets h ! k) + unat (code_sizes h ! k) \<le> length c"
  shows "get_code L h c k = Some (take (unat (code_sizes h ! k)) (drop (unat (code_offsets h ! k)) c))"
  using assms by (simp add: get_code_def cassert_def substr_def)

definition header_fits :: "eof1_header \<Rightarrow> byte list \<Rightarrow> bool" where
  "header_fits h c \<longleftrightarrow>
     length (code_offsets h) = length (code_sizes h) \<and> length (code_types h) = length (code_sizes h) \<and>
     check_types (code_types h) = None \<and>
     (\<forall>k < length (code_sizes h). code_sizes h ! k \<noteq> 0 \<and>
        unat (code_offsets h ! k) + unat (code_sizes h ! k) \<le> length c)"

text \<open>What the validation of the sections establishes for one of them.\<close>

definition section_valid :: "'a libs_scheme \<Rightarrow> eof1_header \<Rightarrow> byte list \<Rightarrow> nat \<Rightarrow> bool" where
  "section_valid L h c k \<longleftrightarrow>
     (let code = take (unat (code_sizes h ! k)) (drop (unat (code_offsets h ! k)) c); t = code_types h ! k
      in section_ok (code_types h) k code \<and>
         (\<exists>H. length H = length code \<and> H ! 0 = uint (ty_inputs t) \<and>
            (\<forall>i < length code. eof_start code i \<longrightarrow>
               0 \<le> H ! i \<and> H ! i \<le> uint (ty_max_stack_height t) \<and>
               height_typed L (code_types h) k code H i)))"

lemma validate_sections_total:
  "header_fits h c \<Longrightarrow> k + n = length (code_sizes h) \<Longrightarrow>
   checked_total (validate_sections L r h c k n) (\<lambda>_. \<forall>j. k \<le> j \<and> j < k + n \<longrightarrow> section_valid L h c j)"
proof (induction n arbitrary: k)
  case 0
  then show ?case by auto
next
  case (Suc n)
  define code where code_def: "code = take (unat (code_sizes h ! k)) (drop (unat (code_offsets h ! k)) c)"
  have k: "k < length (code_sizes h)" using Suc.prems(2) by simp
  then have fits: "unat (code_offsets h ! k) + unat (code_sizes h ! k) \<le> length c" "code_sizes h ! k \<noteq> 0"
    and types: "k < length (code_types h)" "check_types (code_types h) = None"
    using Suc.prems(1) by (simp_all add: header_fits_def)
  have get: "get_code L h c k = Some code"
    unfolding code_def by (rule get_code_eq) (use k Suc.prems(1) fits in \<open>simp_all add: header_fits_def\<close>)
  have "length code = unat (code_sizes h ! k)" using fits(1) by (simp add: code_def)
  moreover have "unat (code_sizes h ! k) < 2 ^ LENGTH(16)" by (rule unsigned_less)
  ultimately have small: "length code < 2 ^ 16" by simp
  have nonempty: "code \<noteq> []"
    using \<open>length code = unat (code_sizes h ! k)\<close> fits(2) by (auto simp: unat_eq_0)
  let ?ct = "get_baseline_cost_table r 1"
  obtain q where loop: "validate_instructions_loop ?ct h code 0 False = Some q" "q \<noteq> Inl EOF_success"
    using instr_loop_total by blast
  show ?case
  proof (cases q)
    case (Inl e)
    then show ?thesis
      using loop(2) by (simp add: validate_instructions_def get cassert_def nonempty loop(1) checked_bind_def Let_def)
  next
    case (Inr b)
    note checked = validate_instructions_checked [OF loop(1) [unfolded Inr]]
    have inside: "eof_next code i \<le> length code" if "eof_start code i" "i < length code" for i
      using checked [OF that] by (simp add: instr_checked_def)
    obtain ok where rj: "validate_rjump_destinations code = Some ok"
      using validate_rjump_total [OF inside] by blast
    have instrs: "validate_instructions L r h k c =
        (if b \<noteq> (ty_outputs (code_types h ! k) \<noteq> NON_RETURNING_FUNCTION)
         then eof_error EOF_invalid_non_returning_flag else Some (Inr ()))"
      using types by (simp add: validate_instructions_def get cassert_def nonempty loop(1) Inr
          checked_bind_def Let_def)
    show ?thesis
    proof (cases "b = (ty_outputs (code_types h ! k) \<noteq> NON_RETURNING_FUNCTION) \<and> ok")
      case False
      then show ?thesis
        by (auto simp: instrs checked_bind_def get rj)
    next
      case True
      have sec: "section_ok (code_types h) k code"
        using section_okI [OF loop(1) [unfolded Inr] _ types(2) nonempty small types(1)] rj True by simp
      let ?t = "code_types h ! k"
      have "checked_total (validate_max_stack_height L code k (code_types h)) (\<lambda>msh.
          msh = uint (ty_max_stack_height ?t) \<longrightarrow> section_valid L h c k)"
        using validate_max_stack_height_total [OF sec, of L]
        unfolding checked_total_def
        by (rule total_mono) (auto simp: section_valid_def Let_def sec code_def [symmetric] split: sum.splits)
      then have "checked_total (checked_bind (validate_max_stack_height L code k (code_types h)) (\<lambda>msh. do {
         t \<leftarrow> nth_opt (code_types h) k;
         if msh \<noteq> uint (ty_max_stack_height t) then eof_error EOF_invalid_max_stack_height
         else validate_sections L r h c (k + 1) n }))
        (\<lambda>_. \<forall>j. k \<le> j \<and> j < k + Suc n \<longrightarrow> section_valid L h c j)"
      proof (rule checked_total_bind)
        fix msh assume valid: "msh = uint (ty_max_stack_height ?t) \<longrightarrow> section_valid L h c k"
        have "checked_total (validate_sections L r h c (k + 1) n)
            (\<lambda>_. \<forall>j. k + 1 \<le> j \<and> j < k + 1 + n \<longrightarrow> section_valid L h c j)"
          using Suc.IH [of "k + 1"] Suc.prems by simp
        then show "checked_total (do {
           t \<leftarrow> nth_opt (code_types h) k;
           if msh \<noteq> uint (ty_max_stack_height t) then eof_error EOF_invalid_max_stack_height
           else validate_sections L r h c (k + 1) n })
          (\<lambda>_. \<forall>j. k \<le> j \<and> j < k + Suc n \<longrightarrow> section_valid L h c j)"
          using types(1) valid
          by (auto elim!: checked_total_mono simp: le_Suc_eq Suc_le_eq)
             (metis Suc_leI le_neq_implies_less)
      qed
      then show ?thesis
        using True by (simp add: instrs checked_bind_def get rj)
    qed
  qed
qed

text \<open>The headers of an accepted container and the sizes they give.\<close>

definition headers_valid :: "byte list \<Rightarrow> section_headers \<Rightarrow> bool" where
  "headers_valid c headers \<longleftrightarrow>
     header_bytes c headers (eof_header_size headers) \<and>
     (\<exists>t d. headers TYPE_SECTION = [t] \<and> headers DATA_SECTION = [d] \<and> headers CODE_SECTION \<noteq> [] \<and>
        unat t = 4 * length (headers CODE_SECTION) \<and>
        eof_header_size headers + unat t + sum_list (map unat (headers CODE_SECTION)) + unat d = length c)"

lemma validate_eof_headers_total: "checked_total (validate_eof_headers L c) (headers_valid c)"
proof -
  obtain r where r: "validate_headers_loop L c Section_id 0 0 no_sections 3 TYPE_SECTION = Some r"
    and valid: "case r of Inl e \<Rightarrow> e \<noteq> EOF_success | Inr (st, H, it) \<Rightarrow> st = Terminated \<longrightarrow> header_bytes c H it"
    using validate_headers_loop_total [of L c] by (auto simp: checked_total_def total_iff)
  show ?thesis
  proof (cases r)
    case (Inl e)
    then show ?thesis using valid by (simp add: validate_eof_headers_def r)
  next
    case (Inr p)
    obtain st H it where p: "p = (st, H, it)" by (cases p)
    show ?thesis
    proof (cases "st = Terminated")
      case False
      then show ?thesis by (simp add: validate_eof_headers_def r Inr p)
    next
      case True
      then have hb: "header_bytes c H it" using valid Inr p by simp
      then obtain t d where H: "H TYPE_SECTION = [t]" "H DATA_SECTION = [d]" "H CODE_SECTION \<noteq> []"
        and it: "it = 13 + 2 * length (H CODE_SECTION)" "it \<le> length c"
        by (auto simp: header_bytes_def)
      then have size: "eof_header_size H = it" by (simp add: eof_header_size_def)
      have "headers_valid c H"
        if "unat t + sum_list (map unat (H CODE_SECTION)) + unat d = length c - it"
          "unat t = length (H CODE_SECTION) * 4"
        using hb H it that unfolding headers_valid_def size by auto
      then show ?thesis
        using True H by (simp add: validate_eof_headers_def r Inr p Let_def)
    qed
  qed
qed

lemma check_types_error: "check_types ts \<noteq> Some EOF_success"
  by (induction ts) simp_all

lemma validate_types_total:
  assumes "header_size + unat tsz < length c" and "unat tsz = 4 * n" and "0 < n"
  shows "checked_total (validate_types L c header_size tsz) (\<lambda>ts. length ts = n \<and>
     check_types ts = None \<and> read_types c header_size (header_size + unat tsz) = Some ts)"
proof -
  obtain ts where ts: "read_types c header_size (header_size + unat tsz) = Some ts" "length ts = n"
    using read_types_total [of header_size n c] assms by (auto simp: total_iff)
  have "c \<noteq> []" using assms(1) by auto
  then show ?thesis
    using assms ts check_types_error [of ts]
    by (auto simp: validate_types_def cassert_def split: option.split)
qed

text \<open>What is known of the header of an accepted container.\<close>

definition eof_valid :: "'a libs_scheme \<Rightarrow> byte list \<Rightarrow> eof1_header \<Rightarrow> bool" where
  "eof_valid L c h \<longleftrightarrow> (\<exists>headers t d.
     headers_valid c headers \<and> headers TYPE_SECTION = [t] \<and> headers DATA_SECTION = [d] \<and>
     read_types c (eof_header_size headers) (eof_header_size headers + unat t) = Some (code_types h) \<and>
     section_offsets L (eof_header_size headers + unat t) (headers CODE_SECTION) = Some (code_offsets h) \<and>
     code_sizes h = headers CODE_SECTION \<and> data_size h = d \<and> eof_version h = c ! 2) \<and>
   header_fits h c \<and> (\<forall>k < length (code_sizes h). section_valid L h c k)"

lemma validate_eof1_total:
  assumes "3 \<le> length c" and "length c \<le> 65535"
  shows "checked_total (validate_eof1 L r c) (eof_valid L c)"
  unfolding validate_eof1_def
proof (rule checked_total_bind [OF validate_eof_headers_total])
  fix headers assume valid: "headers_valid c headers"
  let ?ss = "headers CODE_SECTION" and ?sz = "eof_header_size headers"
  obtain t d where td: "headers TYPE_SECTION = [t]" "headers DATA_SECTION = [d]"
    and ss: "?ss \<noteq> []" "unat t = 4 * length ?ss"
    and sum: "?sz + unat t + sum_list (map unat ?ss) + unat d = length c"
    using valid by (auto simp: headers_valid_def)
  have nonzero: "\<forall>s \<in> set ?ss. s \<noteq> 0"
    using valid by (auto simp: headers_valid_def header_bytes_def)
  then have "unat (hd ?ss) > 0" using ss(1) by (simp add: unat_gt_0)
  moreover have "unat (hd ?ss) \<le> sum_list (map unat ?ss)" using ss(1) by (cases ?ss) simp_all
  ultimately have less: "?sz + unat t < length c" using sum by linarith
  obtain os where os: "section_offsets L (?sz + unat t) ?ss = Some os" "length os = length ?ss"
    and offs: "\<forall>k < length ?ss. unat (os ! k) = ?sz + unat t + sum_list (map unat (take k ?ss))"
    using section_offsets_total [of "?sz + unat t" ?ss L] sum assms(2) ss(1) by (auto simp: total_iff)
  have ends: "unat (os ! k) + unat (?ss ! k) \<le> length c" if "k < length ?ss" for k
    using offs sum_take_le [OF that] sum that by simp
  have "checked_total (checked_bind (validate_types L c ?sz t) (\<lambda>types. do {
       offsets \<leftarrow> section_offsets L (?sz + unat t) ?ss;
       version \<leftarrow> nth_opt c 2;
       let header = \<lparr>eof_version = version, code_sizes = ?ss, code_offsets = offsets, data_size = d,
         code_types = types\<rparr>;
       checked_bind (validate_sections L r header c 0 (length (code_sizes header)))
         (\<lambda>_. Some (Inr header)) })) (eof_valid L c)"
  proof (rule checked_total_bind [OF validate_types_total [OF less ss(2)]])
    show "0 < length ?ss" using ss(1) by simp
    fix ts assume ts: "length ts = length ?ss \<and> check_types ts = None \<and>
      read_types c ?sz (?sz + unat t) = Some ts"
    let ?h = "\<lparr>eof_version = c ! 2, code_sizes = ?ss, code_offsets = os, data_size = d, code_types = ts\<rparr>"
    have fits: "header_fits ?h c"
      using ts os(2) ends nonzero by (simp add: header_fits_def)
    have "checked_total (validate_sections L r ?h c 0 (length (code_sizes ?h)))
        (\<lambda>_. \<forall>j. 0 \<le> j \<and> j < 0 + length (code_sizes ?h) \<longrightarrow> section_valid L ?h c j)"
      by (rule validate_sections_total [OF fits]) simp
    then have "checked_total (checked_bind (validate_sections L r ?h c 0 (length (code_sizes ?h)))
        (\<lambda>_. Some (Inr ?h))) (eof_valid L c)"
      by (rule checked_total_bind)
        (use valid td ts os(1) fits in \<open>auto simp: eof_valid_def\<close>)
    then show "checked_total (do {
       offsets \<leftarrow> section_offsets L (?sz + unat t) ?ss;
       version \<leftarrow> nth_opt c 2;
       let header = \<lparr>eof_version = version, code_sizes = ?ss, code_offsets = offsets, data_size = d,
         code_types = ts\<rparr>;
       checked_bind (validate_sections L r header c 0 (length (code_sizes header)))
         (\<lambda>_. Some (Inr header)) }) (eof_valid L c)"
      using os(1) assms(1) by (simp add: Let_def)
  qed
  then show "checked_total (do {
       data_sz \<leftarrow> nth_opt (headers DATA_SECTION) 0;
       let header_size = ?sz;
       type_section_size \<leftarrow> nth_opt (headers TYPE_SECTION) 0;
       checked_bind (validate_types L c header_size type_section_size) (\<lambda>types. do {
         offsets \<leftarrow> section_offsets L (header_size + unat type_section_size) (headers CODE_SECTION);
         version \<leftarrow> nth_opt c 2;
         let header = \<lparr>eof_version = version, code_sizes = headers CODE_SECTION,
           code_offsets = offsets, data_size = data_sz, code_types = types\<rparr>;
         checked_bind (validate_sections L r header c 0 (length (code_sizes header)))
           (\<lambda>_. Some (Inr header)) }) }) (eof_valid L c)"
    by (simp add: td Let_def)
qed

lemma validate_eof_total:
  assumes "length c \<le> 65535"
  shows "total (validate_eof L r c) (\<lambda>_. True)"
proof -
  have "3 \<le> length c" if "get_eof_version c = 1" using that by (simp add: get_eof_version_def split: if_splits)
  then show ?thesis
    using checked_total_result [OF validate_eof1_total [of c L r]] assms
    by (auto simp: validate_eof_def)
qed

subsection \<open>Reading back a valid header\<close>

lemma read_sections_terminator: "i < length c \<Longrightarrow> c ! i = TERMINATOR \<Longrightarrow> read_sections c i H = Some H"
  by (subst read_sections.simps) simp

lemma read_sections_single:
  "i < length c \<Longrightarrow> c ! i = sid \<Longrightarrow> sid = TYPE_SECTION \<or> sid = DATA_SECTION \<Longrightarrow>
   read_uint16_be c (i + 1) = Some s \<Longrightarrow>
   read_sections c i H = read_sections c (i + 3) (H(sid := H sid @ [s]))"
  by (subst read_sections.simps) (auto simp: add_section_sizes_def)

lemma read_sections_code:
  "i < length c \<Longrightarrow> c ! i = CODE_SECTION \<Longrightarrow> read_uint16_be c (i + 1) = Some n \<Longrightarrow>
   read_sizes c (i + 3) (unat n) = Some ss \<Longrightarrow>
   read_sections c i H = read_sections c (i + 3 + 2 * unat n) (H(CODE_SECTION := H CODE_SECTION @ ss))"
  by (subst read_sections.simps) (simp add: add_section_sizes_def)

lemma read_sections_valid:
  assumes "header_bytes c headers it"
  shows "read_sections c 3 no_sections = Some headers"
proof -
  obtain t n ss d where headers: "headers = (\<lambda>s. if s = TYPE_SECTION then [t] else if s = CODE_SECTION then ss
                    else if s = DATA_SECTION then [d] else [])"
    and n: "length ss = unat n" and len: "13 + 2 * length ss \<le> length c"
    and bytes: "c ! 3 = TYPE_SECTION" "read_uint16_be c 4 = Some t"
     "c ! 6 = CODE_SECTION" "read_uint16_be c 7 = Some n" "read_sizes c 9 (unat n) = Some ss"
     "c ! (9 + 2 * unat n) = DATA_SECTION" "read_uint16_be c (10 + 2 * unat n) = Some d"
     "c ! (12 + 2 * unat n) = TERMINATOR"
    using assms by (auto simp: header_bytes_def)
  let ?H1 = "no_sections(TYPE_SECTION := no_sections TYPE_SECTION @ [t])"
  let ?H2 = "?H1(CODE_SECTION := ?H1 CODE_SECTION @ ss)"
  let ?H3 = "?H2(DATA_SECTION := ?H2 DATA_SECTION @ [d])"
  have "read_sections c 3 no_sections = read_sections c 6 ?H1"
    using read_sections_single [of 3 c TYPE_SECTION t no_sections] bytes len by simp
  also have "\<dots> = read_sections c (9 + 2 * unat n) ?H2"
    using read_sections_code [of 6 c n ss ?H1] bytes len n by simp
  also have "\<dots> = read_sections c (12 + 2 * unat n) ?H3"
    using read_sections_single [of "9 + 2 * unat n" c DATA_SECTION d ?H2] bytes len n
    by (simp add: add.commute)
  also have "\<dots> = Some ?H3"
    using bytes len n by (intro read_sections_terminator) simp_all
  also have "?H3 = headers"
    by (auto simp: headers no_sections_def fun_eq_iff)
  finally show ?thesis .
qed

lemma read_valid_header:
  assumes "eof_valid L c h" and "3 \<le> length c"
  shows "read_valid_eof1_header L c = Some h"
proof -
  obtain headers t d where
    "header_bytes c headers (eof_header_size headers)" "headers TYPE_SECTION = [t]" "headers DATA_SECTION = [d]"
    "read_types c (eof_header_size headers) (eof_header_size headers + unat t) = Some (code_types h)"
    "section_offsets L (eof_header_size headers + unat t) (headers CODE_SECTION) = Some (code_offsets h)"
    "code_sizes h = headers CODE_SECTION" "data_size h = d" "eof_version h = c ! 2"
    using assms(1) by (auto simp: eof_valid_def headers_valid_def)
  then show ?thesis
    using assms(2) read_sections_valid [of c headers]
    by (simp add: read_valid_eof1_header_def Let_def)
qed

end
