(* ===== verification/Eof_Properties.thy ===== *)
theory Eof_Properties
  imports Eof_Container
begin

text \<open>
  Properties of the validation of EOF containers. The witnesses validate the smallest valid
  container, whose only section is a \<open>STOP\<close>, and a section that jumps back to its start.
\<close>

definition stop_container :: "byte list" where
  "stop_container = [0xef, 0x00, 0x01, 0x01, 0x00, 0x04, 0x02, 0x00, 0x01, 0x00, 0x01, 0x04, 0x00, 0x00,
     0x00, 0x00, 0x80, 0x00, 0x00, 0x00]"

lemma stop_bytes:
  "length stop_container = 20" "stop_container ! 2 = 1" "stop_container ! 3 = 1" "stop_container ! 6 = 2"
  "stop_container ! 11 = 4" "stop_container ! 14 = 0" "stop_container ! 15 = 0"
  "stop_container ! 16 = 0x80" "take 1 (drop 19 stop_container) = [0]"
  "is_eof_container stop_container" "get_eof_version stop_container = 1"
  by (simp_all add: stop_container_def is_eof_container_def get_eof_version_def MAGIC_def)

lemma stop_reads:
  "read_uint16_be stop_container 4 = Some 4" "read_uint16_be stop_container 7 = Some 1"
  "read_uint16_be stop_container 9 = Some 1" "read_uint16_be stop_container 12 = Some 0"
  "read_uint16_be stop_container 17 = Some 0"
  by (simp_all add: read_uint16_be_def stop_container_def)

lemma stop_facts:
  "get_baseline_cost_table EVMC_PRAGUE 1 0 = 0" "immediate_size (traits 0) = 0"
  "stack_height_required (traits 0) = 0" "stack_height_change (traits 0) = 0"
  "is_terminating (traits 0)"
  by code_simp+

definition stop_type :: eof_code_type where
  "stop_type = \<lparr>ty_inputs = 0, ty_outputs = 0x80, ty_max_stack_height = 0\<rparr>"

definition stop_header :: eof1_header where
  "stop_header = \<lparr>eof_version = 1, code_sizes = [1], code_offsets = [19], data_size = 0,
     code_types = [stop_type]\<rparr>"

lemma stop_fields:
  "code_sizes stop_header = [1]" "code_offsets stop_header = [19]" "code_types stop_header = [stop_type]"
  "uint (ty_max_stack_height stop_type) = 0" "ty_outputs stop_type = NON_RETURNING_FUNCTION"
  by (simp_all add: stop_header_def stop_type_def)

lemma stop_headers:
  "validate_eof_headers L stop_container =
     Some (Inr (no_sections(TYPE_SECTION := [4], CODE_SECTION := [1], DATA_SECTION := [0])))"
  by (simp add: validate_eof_headers_def headers_type_id headers_type_size headers_code_id
      headers_code_size headers_data_id headers_data_size headers_terminator stop_bytes stop_reads
      CODE_SECTION_NUMBER_LIMIT_def no_sections_def add_section_sizes_def)

lemma stop_types: "validate_types L stop_container 15 4 = Some (Inr [stop_type])"
proof -
  have "stop_container \<noteq> []" by (simp add: stop_container_def)
  then show ?thesis
    by (simp add: validate_types_def read_types.simps stop_bytes stop_reads cassert_def
        OUTPUTS_INPUTS_NUMBER_LIMIT_def MAX_STACK_HEIGHT_def stop_type_def)
qed

lemma stop_passes:
  "validate_instructions_loop (get_baseline_cost_table EVMC_PRAGUE 1) stop_header [0] 0 False = Some (Inr False)"
  "validate_rjump_destinations [0] = Some True"
  "validate_max_stack_height L [0] 0 [stop_type] = Some (Inr 0)"
  "check_types [stop_type] = None"
  by (simp_all add: validate_instructions_loop.simps stop_facts undefined_cost_def
      validate_rjump_destinations_def rjump_loop.simps splice_opt_def validate_max_stack_height_def
      cassert_def stack_height_step_def stack_effect_def checked_bind_def jump_successors_def Let_def
      stop_type_def OUTPUTS_INPUTS_NUMBER_LIMIT_def MAX_STACK_HEIGHT_def)

lemma stop_container_eof1: "validate_eof1 L EVMC_PRAGUE stop_container = Some (Inr stop_header)"
proof -
  have code: "get_code L stop_header stop_container 0 = Some [0]"
    using stop_bytes by (simp add: get_code_def cassert_def substr_def stop_fields)
  have "validate_instructions L EVMC_PRAGUE stop_header 0 stop_container = Some (Inr ())"
    using stop_passes(1) code
    by (simp add: validate_instructions_def cassert_def checked_bind_def stop_fields)
  then have "validate_sections L EVMC_PRAGUE stop_header stop_container 0 (Suc 0) = Some (Inr ())"
    using code by (simp add: checked_bind_def stop_fields stop_passes(2,3))
  then show ?thesis
    unfolding validate_eof1_def stop_headers
    by (simp add: checked_bind_def eof_header_size_def no_sections_def stop_types cassert_def
        stop_bytes stop_header_def)
qed

lemma stop_container_valid: "validate_eof L EVMC_PRAGUE stop_container = Some EOF_success"
  using stop_container_eof1 [of L] stop_bytes
  by (simp add: validate_eof_def less_evmc_revision_def)
text \<open>
  C34. Validation always has a result: for every byte string of at most 65535 bytes and every
  revision, \<open>validate_eof\<close> returns an error code. It reads no byte outside the container, no
  element outside its vectors, none of its assertions fails, and its worklist loop ends.
\<close>

theorem eof_validation_total:
  assumes "length c \<le> 65535"
  shows "\<exists>e. validate_eof L r c = Some e"
  using validate_eof_total [OF assms, of L r] by (auto simp: total_iff)

theorem eof_validation_total_witness:
  "\<exists>e. validate_eof reference_libs EVMC_PRAGUE [0xef, 0x00, 0x01, 0x01, 0xff] = Some e"
  using eof_validation_total [of "[0xef, 0x00, 0x01, 0x01, 0xff]"] by simp

lemma section_valid_typed:
  assumes "section_valid L h c k"
  shows "let code = take (unat (code_sizes h ! k)) (drop (unat (code_offsets h ! k)) c); t = code_types h ! k
      in \<exists>H. H ! 0 = uint (ty_inputs t) \<and>
        (\<forall>i < length code. eof_start code i \<longrightarrow> 0 \<le> H ! i \<and> H ! i \<le> uint (ty_max_stack_height t) \<and>
           (\<exists>req change. stack_effect L code k (code_types h) i (H ! i) = Some (Inr (req, change)) \<and>
              req \<le> H ! i \<and> (\<forall>d \<in> set (successors code i). 0 \<le> d \<and> nat d < length code \<and>
                eof_start code (nat d) \<and> H ! nat d = H ! i + change)))"
proof -
  define code where "code = take (unat (code_sizes h ! k)) (drop (unat (code_offsets h ! k)) c)"
  obtain H where H: "H ! 0 = uint (ty_inputs (code_types h ! k))"
    and typed: "\<And>i. i < length code \<Longrightarrow> eof_start code i \<Longrightarrow> 0 \<le> H ! i \<and>
      H ! i \<le> uint (ty_max_stack_height (code_types h ! k)) \<and> height_typed L (code_types h) k code H i"
    using assms unfolding section_valid_def Let_def code_def by blast
  have "\<exists>req change. stack_effect L code k (code_types h) i (H ! i) = Some (Inr (req, change)) \<and>
      req \<le> H ! i \<and> (\<forall>d \<in> set (successors code i). 0 \<le> d \<and> nat d < length code \<and>
        eof_start code (nat d) \<and> H ! nat d = H ! i + change)"
    if "i < length code" "eof_start code i" for i
    using typed [OF that] unfolding height_typed_def by metis
  then show ?thesis
    unfolding Let_def code_def [symmetric] using H typed by (intro exI [of _ H]) simp
qed

text \<open>
  C35. An accepted container is well typed: every code section lies inside the container, and
  there are stack heights for its positions, starting with the declared inputs, that stay
  between 0 and the declared maximum, such that every instruction finds the operands it
  requires and every instruction that can follow it (the next one or a jump destination) starts
  inside the section with the height this one leaves.
\<close>

theorem accepted_sections_typed:
  assumes "length c \<le> 65535" and "validate_eof L r c = Some EOF_success"
  shows "\<exists>h. validate_eof1 L r c = Some (Inr h) \<and> (\<forall>k < length (code_sizes h).
     unat (code_offsets h ! k) + unat (code_sizes h ! k) \<le> length c \<and>
     (let code = take (unat (code_sizes h ! k)) (drop (unat (code_offsets h ! k)) c); t = code_types h ! k
      in \<exists>H. H ! 0 = uint (ty_inputs t) \<and>
        (\<forall>i < length code. eof_start code i \<longrightarrow> 0 \<le> H ! i \<and> H ! i \<le> uint (ty_max_stack_height t) \<and>
           (\<exists>req change. stack_effect L code k (code_types h) i (H ! i) = Some (Inr (req, change)) \<and>
              req \<le> H ! i \<and> (\<forall>d \<in> set (successors code i). 0 \<le> d \<and> nat d < length code \<and>
                eof_start code (nat d) \<and> H ! nat d = H ! i + change)))))"
proof -
  have len: "3 \<le> length c" and version: "get_eof_version c = 1"
    using assms(2) by (auto simp: validate_eof_def get_eof_version_def split: if_splits)
  obtain q where q: "validate_eof1 L r c = Some q"
    using checked_total_result [OF validate_eof1_total [OF len assms(1)]] by blast
  have "q \<noteq> Inl EOF_success"
    using validate_eof1_total [OF len assms(1), of L r] q by auto
  then obtain h where h: "validate_eof1 L r c = Some (Inr h)"
    using assms(2) version q by (cases q) (auto simp: validate_eof_def split: if_splits)
  then have "eof_valid L c h" by (rule checked_totalD [OF validate_eof1_total [OF len assms(1)]])
  then have "unat (code_offsets h ! k) + unat (code_sizes h ! k) \<le> length c \<and> section_valid L h c k"
    if "k < length (code_sizes h)" for k
    using that by (simp add: eof_valid_def header_fits_def)
  then show ?thesis
    by (intro exI [of _ h] conjI h allI impI) (simp, rule section_valid_typed, simp)
qed

theorem accepted_sections_typed_witness:
  "\<exists>h. validate_eof1 reference_libs EVMC_PRAGUE stop_container = Some (Inr h)"
  using accepted_sections_typed [OF _ stop_container_valid [of reference_libs]] stop_bytes by auto

text \<open>
  C36. Reading the header of an accepted container without checks, as the interpreter does before
  every run, gives exactly the header that the validation computed: sizes, offsets, types and
  version.
\<close>

theorem header_read_back:
  assumes "length c \<le> 65535" and "3 \<le> length c" and "validate_eof1 L r c = Some (Inr h)"
  shows "read_valid_eof1_header L c = Some h"
  using checked_totalD [OF validate_eof1_total [OF assms(2,1)] assms(3)] assms(2)
  by (rule read_valid_header)

theorem header_read_back_witness:
  "read_valid_eof1_header reference_libs stop_container = Some stop_header"
  using header_read_back [OF _ _ stop_container_eof1 [of reference_libs]] stop_bytes by simp

text \<open>
  The worklist loop ends: on a section that passed the checks of its instructions and of its
  jumps, one round per byte is enough, because every round takes a position from the
  worklist and adds only positions that had no height yet.
\<close>

theorem stack_validation_ends:
  assumes "validate_instructions_loop ct header code 0 ret = Some (Inr b)"
    and "validate_rjump_destinations code = Some True" and "check_types (code_types header) = None"
    and "code \<noteq> []" and "length code < 2 ^ 16" and "k < length (code_types header)"
  shows "\<exists>r. stack_height_loop (length code) L code k (code_types header)
     ((replicate (length code) LOC_UNVISITED)[0 := uint (ty_inputs (code_types header ! k))], [0]) = Finished (Some r)"
  using stack_height_loop_initial [OF section_okI [OF assms], of L] by (elim exE conjE) (rule exI)

theorem stack_validation_ends_witness:
  "\<exists>r. stack_height_loop 1 reference_libs [0] 0 [stop_type] ([0], [0]) = Finished (Some r)"
  using stack_validation_ends [OF stop_passes(1,2), of 0 reference_libs] stop_passes(4)
  by (simp add: stop_fields) (simp add: stop_type_def)

text \<open>
  C37. A jump never leads into the middle of an instruction: in a section that passed the checks of
  its instructions and of its jumps, every relative jump of every instruction leads to the
  start of an instruction inside the section.
\<close>

theorem relative_jumps_land:
  assumes "validate_instructions_loop ct header code 0 ret = Some (Inr b)"
    and "validate_rjump_destinations code = Some True" and "length code < 2 ^ 16"
    and "eof_start code i" and "i < length code" and "d \<in> set (jump_targets code i)"
  shows "0 \<le> d \<and> nat d < length code \<and> eof_start code (nat d)"
proof -
  have "eof_next code j \<le> length code" if "eof_start code j" "j < length code" for j
    using validate_instructions_checked [OF assms(1) that] by (simp add: instr_checked_def)
  from validate_rjump_checked [OF assms(2,3) this assms(4,5)] assms(6)
  show ?thesis by (auto simp: targets_in_def)
qed

lemma jump_back:
  "validate_instructions_loop (get_baseline_cost_table EVMC_PRAGUE 1) stop_header [0xe0, 0xff, 0xfd] 0 False =
     Some (Inr False)"
  "validate_rjump_destinations [0xe0, 0xff, 0xfd] = Some True"
  "jump_targets [0xe0, 0xff, 0xfd] 0 = [0]"
proof -
  have cost: "get_baseline_cost_table EVMC_PRAGUE 1 OP_RJUMP = 2" by code_simp
  have off: "s16_at [0xe0, 0xff, 0xfd] 1 = - 3" "read_int16_be [0xe0, 0xff, 0xfd] 1 = Some (- 3)"
    by (simp_all add: s16_at_def read_int16_be_def)
  show "validate_instructions_loop (get_baseline_cost_table EVMC_PRAGUE 1) stop_header [0xe0, 0xff, 0xfd] 0 False =
     Some (Inr False)"
    by (simp add: validate_instructions_loop.simps cost imm_traits undefined_cost_def)
  show "validate_rjump_destinations [0xe0, 0xff, 0xfd] = Some True"
    by (simp add: validate_rjump_destinations_def rjump_loop.simps imm_traits splice_opt_def
        check_rjump_destination_def off [simplified] REL_OFFSET_SIZE_def)
  show "jump_targets [0xe0, 0xff, 0xfd] 0 = [0]"
    using off(1) by (simp add: jump_targets_def eof_next_def eof_immediate_def imm_traits)
qed

theorem relative_jumps_land_witness:
  "eof_start [0xe0, 0xff, 0xfd] (nat (hd (jump_targets [0xe0, 0xff, 0xfd] 0)))"
  using relative_jumps_land [OF jump_back(1,2) _ eof_start.first _, of 0] by (simp add: jump_back(3))

end
