(* ===== verification/Vm_Host.thy ===== *)
theory Vm_Host
  imports Assigner
begin

text \<open>
  The host that serves the interpreter's callbacks (\<open>include/vm_host.hpp\<close>): a map of accounts,
  the transaction context, the assigner's tables and the target circuit. \<open>call\<close> runs the code
  of another account with \<open>evaluate\<close>, whose callbacks come back to the same host, so the
  callbacks of the host are defined by recursion on the number of nested calls that are
  allowed.
\<close>

subsection \<open>Accounts\<close>

record account =
  acc_balance :: evmc_bytes32
  acc_code :: "byte list"
  acc_storage :: "evmc_bytes32 \<rightharpoonup> evmc_bytes32"
  acc_transient_storage :: "evmc_bytes32 \<rightharpoonup> evmc_bytes32"

definition empty_account :: account where
  "empty_account = \<lparr>acc_balance = zero_bytes32, acc_code = [], acc_storage = Map.empty,
     acc_transient_storage = Map.empty\<rparr>"

text \<open>
  The default \<open>code_hash\<close>: every byte \<open>v\<close> is xored into the byte \<open>v % 32\<close> of the result.
\<close>

definition code_hash :: "account \<Rightarrow> evmc_bytes32" where
  "code_hash acc = foldl (\<lambda>ret v. ret[unat v mod 32 := ret ! (unat v mod 32) XOR v])
     zero_bytes32 (acc_code acc)"

record 't vm_host =
  accounts :: "evmc_address \<rightharpoonup> account"
  tx_context :: evmc_tx_context
  tables :: "'t assignments"
  target_circuit :: string

text \<open>The constructors, without accounts and with some, and the host of a new context.\<close>

definition vm_host_init :: "evmc_tx_context \<Rightarrow> 't assignments \<Rightarrow> string \<Rightarrow> 't vm_host" where
  "vm_host_init tx assigner target =
     \<lparr>accounts = Map.empty, tx_context = tx, tables = assigner, target_circuit = target\<rparr>"

definition vm_host_with_accounts ::
  "evmc_tx_context \<Rightarrow> (evmc_address \<rightharpoonup> account) \<Rightarrow> 't assignments \<Rightarrow> string \<Rightarrow> 't vm_host" where
  "vm_host_with_accounts tx accs assigner target =
     \<lparr>accounts = accs, tx_context = tx, tables = assigner, target_circuit = target\<rparr>"

definition vm_host_create_context :: "evmc_tx_context \<Rightarrow> 't assignments \<Rightarrow> 't vm_host" where
  "vm_host_create_context tx assigner = vm_host_init tx assigner ''''"

definition vm_tables :: "('t vm_host, 't) tables_ref" where
  "vm_tables = \<lparr>get_tables = tables, put_tables = (\<lambda>m h. h\<lparr>tables := m\<rparr>)\<rparr>"

definition get_account :: "'t vm_host \<Rightarrow> evmc_address \<Rightarrow> account option" where
  "get_account h addr = accounts h addr"

definition put_account :: "'t vm_host \<Rightarrow> evmc_address \<Rightarrow> account \<Rightarrow> 't vm_host" where
  "put_account h addr acc = h\<lparr>accounts := (accounts h)(addr \<mapsto> acc)\<rparr>"

subsection \<open>Callbacks that read and write accounts\<close>

definition vm_account_exists :: "'t vm_host \<Rightarrow> evmc_address \<Rightarrow> bool" where
  "vm_account_exists h addr \<longleftrightarrow> get_account h addr \<noteq> None"

definition vm_get_storage :: "'t vm_host \<Rightarrow> evmc_address \<Rightarrow> evmc_bytes32 \<Rightarrow> evmc_bytes32" where
  "vm_get_storage h addr key =
     (case get_account h addr of
        None \<Rightarrow> zero_bytes32
      | Some acc \<Rightarrow> (case acc_storage acc key of None \<Rightarrow> zero_bytes32 | Some v \<Rightarrow> v))"

definition vm_set_storage ::
  "'t vm_host \<Rightarrow> evmc_address \<Rightarrow> evmc_bytes32 \<Rightarrow> evmc_bytes32 \<Rightarrow> evmc_storage_status \<times> 't vm_host" where
  "vm_set_storage h addr key v =
     (case get_account h addr of
        None \<Rightarrow> (EVMC_STORAGE_DELETED, h)
      | Some acc \<Rightarrow>
          (case acc_storage acc key of
             None \<Rightarrow> (EVMC_STORAGE_DELETED, h)
           | Some prev_value \<Rightarrow>
               (if bytes32_eq prev_value v then EVMC_STORAGE_ASSIGNED else EVMC_STORAGE_MODIFIED,
                put_account h addr (acc\<lparr>acc_storage := (acc_storage acc)(key \<mapsto> v)\<rparr>))))"

definition vm_get_balance :: "'t vm_host \<Rightarrow> evmc_address \<Rightarrow> evmc_bytes32" where
  "vm_get_balance h addr =
     (case get_account h addr of None \<Rightarrow> zero_bytes32 | Some acc \<Rightarrow> acc_balance acc)"

definition vm_get_code_size :: "'t vm_host \<Rightarrow> evmc_address \<Rightarrow> nat" where
  "vm_get_code_size h addr =
     (case get_account h addr of None \<Rightarrow> 0 | Some acc \<Rightarrow> length (acc_code acc))"

definition vm_get_code_hash :: "'t vm_host \<Rightarrow> evmc_address \<Rightarrow> evmc_bytes32" where
  "vm_get_code_hash h addr =
     (case get_account h addr of None \<Rightarrow> zero_bytes32 | Some acc \<Rightarrow> code_hash acc)"

text \<open>The bytes that \<open>copy_code\<close> writes to the buffer; it returns their number.\<close>

definition vm_copy_code :: "'t vm_host \<Rightarrow> evmc_address \<Rightarrow> nat \<Rightarrow> nat \<Rightarrow> byte list" where
  "vm_copy_code h addr code_offset buffer_size =
     (case get_account h addr of
        None \<Rightarrow> []
      | Some acc \<Rightarrow>
          if code_offset \<ge> length (acc_code acc) then []
          else let n = min buffer_size (length (acc_code acc) - code_offset)
               in take n (drop code_offset (acc_code acc)))"

definition vm_selfdestruct :: "'t vm_host \<Rightarrow> evmc_address \<Rightarrow> evmc_address \<Rightarrow> bool" where
  "vm_selfdestruct h addr beneficiary = False"

definition vm_get_block_hash :: "'t vm_host \<Rightarrow> int \<Rightarrow> evmc_bytes32" where
  "vm_get_block_hash h number =
     (let current_block_number = block_number (tx_context h)
      in if number < current_block_number \<and> number \<ge> current_block_number - 256
         then be_bytes 32 0xb10c8a5fb10c8a5fb10c8a5fb10c8a5fb10c8a5fb10c8a5fb10c8a5fb10c8a5f
         else zero_bytes32)"

definition vm_emit_log ::
  "'t vm_host \<Rightarrow> evmc_address \<Rightarrow> byte list \<Rightarrow> evmc_bytes32 list \<Rightarrow> 't vm_host" where
  "vm_emit_log h addr data topics = h"

definition vm_access_account :: "'t vm_host \<Rightarrow> evmc_address \<Rightarrow> evmc_access_status" where
  "vm_access_account h addr = EVMC_ACCESS_COLD"

definition vm_access_storage ::
  "'t vm_host \<Rightarrow> evmc_address \<Rightarrow> evmc_bytes32 \<Rightarrow> evmc_access_status" where
  "vm_access_storage h addr key = EVMC_ACCESS_COLD"

definition vm_get_transient_storage ::
  "'t vm_host \<Rightarrow> evmc_address \<Rightarrow> evmc_bytes32 \<Rightarrow> evmc_bytes32" where
  "vm_get_transient_storage h addr key =
     (case get_account h addr of
        None \<Rightarrow> zero_bytes32
      | Some acc \<Rightarrow> (case acc_transient_storage acc key of None \<Rightarrow> zero_bytes32 | Some v \<Rightarrow> v))"

definition vm_set_transient_storage ::
  "'t vm_host \<Rightarrow> evmc_address \<Rightarrow> evmc_bytes32 \<Rightarrow> evmc_bytes32 \<Rightarrow> 't vm_host" where
  "vm_set_transient_storage h addr key v =
     (case get_account h addr of
        None \<Rightarrow> h
      | Some acc \<Rightarrow> put_account h addr
          (acc\<lparr>acc_transient_storage := (acc_transient_storage acc)(key \<mapsto> v)\<rparr>))"

subsection \<open>Calls\<close>

text \<open>A nested run: the parameters of \<open>evaluate\<close> that differ between the two callers.\<close>

type_synonym 't runner = "'t vm_host \<Rightarrow> evmc_message \<Rightarrow> byte list \<Rightarrow> (evmc_result \<times> 't vm_host) option"

text \<open>
  \<open>handle_call\<close> holds references to the sender's account and the callee's account, which may
  be the same; every balance is read when the code reads it.
\<close>

definition transfer ::
  "'a libs_scheme \<Rightarrow> 't vm_host \<Rightarrow> evmc_message \<Rightarrow> account \<Rightarrow> 't vm_host" where
  "transfer L h m sender_acc =
     (let value_to_transfer = word_of_uint256be L (msg_value m);
          balance = word_of_uint256be L (acc_balance sender_acc);
          h = put_account h (msg_sender m)
            (sender_acc\<lparr>acc_balance := to_uint256be L (zw_sub balance value_to_transfer)\<rparr>)
      in case get_account h (msg_code_address m) of
           None \<Rightarrow> h
         | Some acc \<Rightarrow> put_account h (msg_code_address m)
             (acc\<lparr>acc_balance := to_uint256be L
                (zw_add value_to_transfer (word_of_uint256be L (acc_balance acc)))\<rparr>))"

definition handle_call ::
  "'a libs_scheme \<Rightarrow> 't runner \<Rightarrow> 't vm_host \<Rightarrow> evmc_message \<Rightarrow> (evmc_result \<times> 't vm_host) option" where
  "handle_call L run_code h m =
     (case get_account h (msg_sender m) of
        None \<Rightarrow> Some (result_no_output EVMC_INTERNAL_ERROR 0 0, h)
      | Some sender_acc \<Rightarrow>
          let h = (if get_account h (msg_code_address m) = None
                   then put_account h (msg_code_address m) empty_account else h);
              h = (if msg_kind m = EVMC_CALL then transfer L h m sender_acc else h)
          in case get_account h (msg_code_address m) of
               None \<Rightarrow> None
             | Some acc \<Rightarrow>
                 if acc_code acc = [] then
                   Some (make_result (malloc_ok L) EVMC_SUCCESS (msg_gas m) 0 (msg_input m), h)
                 else run_code h m (acc_code acc))"

text \<open>
  \<open>calculate_address\<close> hashes the bytes of the sum as they lie in memory, the least significant
  one first.
\<close>

definition calculate_address :: "'a libs_scheme \<Rightarrow> evmc_message \<Rightarrow> evmc_address" where
  "calculate_address L m =
     (let seed = word_of_uint256be L (msg_create2_salt m);
          hash = word_of_hash L (keccak256 L (msg_input m));
          sender = word_of_address L (msg_sender m);
          sum = zw_add (zw_add (zw_add (word_of_size 0xff) seed) hash) sender;
          rehash = keccak256 L (rev (be_bytes 32 (unat sum)))
      in take 20 (drop 12 rehash))"

definition handle_create ::
  "'a libs_scheme \<Rightarrow> 't runner \<Rightarrow> 't vm_host \<Rightarrow> evmc_message \<Rightarrow> (evmc_result \<times> 't vm_host) option" where
  "handle_create L run_code h m =
     (let new_contract_address = calculate_address L m
      in if get_account h new_contract_address \<noteq> None
         then Some (result_no_output EVMC_FAILURE 0 0, h)
         else let h = put_account h new_contract_address empty_account
         in if msg_input m = []
            then Some (result_created EVMC_SUCCESS (msg_gas m) 0 new_contract_address, h)
            else do {
              let init_msg = m\<lparr>msg_kind := EVMC_CALL, msg_recipient := new_contract_address,
                msg_sender := msg_sender m, msg_input := []\<rparr>;
              (res, h) \<leftarrow> run_code h init_msg (msg_input m);
              let h = (if res_status_code res = EVMC_SUCCESS
                then (let acc = (case get_account h new_contract_address of
                            None \<Rightarrow> empty_account | Some acc \<Rightarrow> acc)
                      in put_account h new_contract_address (acc\<lparr>acc_code := res_output res\<rparr>))
                else h);
              Some (res\<lparr>res_create_address := new_contract_address\<rparr>, h) })"

definition vm_call ::
  "'a libs_scheme \<Rightarrow> 't runner \<Rightarrow> 't vm_host \<Rightarrow> evmc_message \<Rightarrow> (evmc_result \<times> 't vm_host) option" where
  "vm_call L run_code h m =
     (case msg_kind m of
        EVMC_CALL \<Rightarrow> handle_call L run_code h m
      | EVMC_CALLCODE \<Rightarrow> handle_call L run_code h m
      | EVMC_DELEGATECALL \<Rightarrow> handle_call L run_code h m
      | EVMC_CREATE \<Rightarrow> handle_create L run_code h m
      | EVMC_CREATE2 \<Rightarrow> handle_create L run_code h m)"

subsection \<open>The host interface\<close>

definition vm_interface ::
  "'a libs_scheme \<Rightarrow> 't runner \<Rightarrow> 't vm_host host_interface" where
  "vm_interface L run_code = \<lparr>
     account_exists_fn = (\<lambda>h a. (vm_account_exists h a, h)),
     get_storage_fn = (\<lambda>h a k. (vm_get_storage h a k, h)),
     set_storage_fn = vm_set_storage,
     get_balance_fn = (\<lambda>h a. (vm_get_balance h a, h)),
     get_code_size_fn = (\<lambda>h a. (vm_get_code_size h a, h)),
     get_code_hash_fn = (\<lambda>h a. (vm_get_code_hash h a, h)),
     copy_code_fn = (\<lambda>h a off n. (vm_copy_code h a off n, h)),
     selfdestruct_fn = (\<lambda>h a b. (vm_selfdestruct h a b, h)),
     call_fn = vm_call L run_code,
     get_tx_context_fn = tx_context,
     get_block_hash_fn = vm_get_block_hash,
     emit_log_fn = vm_emit_log,
     access_account_fn = (\<lambda>h a. (vm_access_account h a, h)),
     access_storage_fn = (\<lambda>h a k. (vm_access_storage h a k, h)),
     get_transient_storage_fn = (\<lambda>h a k. (vm_get_transient_storage h a k, h)),
     set_transient_storage_fn = vm_set_transient_storage\<rparr>"

definition vm_env :: "libs \<Rightarrow> 't runner \<Rightarrow> 't vm_host env" where
  "vm_env L run_code = libs.extend L (env.fields (vm_interface L run_code))"

text \<open>
  Runs nested \<open>depth\<close> deep: a run past the last level is \<open>None\<close>, like one without a
  determined result or one that used up its fuel.
\<close>

primrec vm_run :: "nat \<Rightarrow> nat \<Rightarrow> libs \<Rightarrow> ('t, 'f :: field) circuit_lib \<Rightarrow> 't runner" where
  "vm_run 0 fuel L C = (\<lambda>h m code. None)"
| "vm_run (Suc depth) fuel L C = (\<lambda>h m code.
     (case evaluate fuel (vm_env L (vm_run depth fuel L C)) C vm_tables h
             EVMC_LATEST_STABLE_REVISION m code (target_circuit h) of
        Done r \<Rightarrow> Some r
      | _ \<Rightarrow> None))"

text \<open>\<open>evaluate\<close> on this host, as the users of the library call it.\<close>

definition vm_evaluate ::
  "nat \<Rightarrow> nat \<Rightarrow> libs \<Rightarrow> ('t, 'f :: field) circuit_lib \<Rightarrow> 't vm_host \<Rightarrow> evmc_revision \<Rightarrow>
   evmc_message \<Rightarrow> byte list \<Rightarrow> string \<Rightarrow> (evmc_result \<times> 't vm_host) run" where
  "vm_evaluate depth fuel L C h r m code target =
     evaluate fuel (vm_env L (vm_run depth fuel L C)) C vm_tables h r m code target"

end
