(* ===== verification/Evaluation.thy ===== *)
theory Evaluation
  imports Gas Rw_Table Vm_Host
begin

text \<open>
  What \<open>evaluate\<close> is made of: a start that analyses the code, makes the state and fills the
  bytecode table, a run of the interpreter, and an end that fills the read/write table and makes
  the result. The lemmas take a finished evaluation apart into these three and say what each
  of them leaves behind.
\<close>

subsection \<open>Taking an evaluation apart\<close>

lemma run_bind_Done: "run_bind m f = Done y \<longleftrightarrow> (\<exists>x. m = Done x \<and> f x = Done y)"
  by (cases m) simp_all

lemma run_of_Done: "run_of m = Done y \<longleftrightarrow> m = Some y"
  by (cases m) (simp_all add: run_of_def)

lemma evaluate_unknown:
  "zkevm_circuits_map tgt = None \<Longrightarrow>
   evaluate fuel E C R ctx r m code tgt = Done (result_no_output EVMC_FAILURE (msg_gas m) 0, ctx)"
  by (simp add: evaluate_def)

lemma evaluate_parts:
  assumes "evaluate fuel E C R ctx r m code tgt = Done (res, ctx')"
    and "zkevm_circuits_map tgt = Some k"
  obtains s g s' s'' where "evaluate_start E C R ctx r m code k = Some s"
    and "dispatch fuel E (get_baseline_cost_table (revision s) (eof_version (analysis_header (analysis s))))
          s (msg_gas m) = Done (g, s')"
    and "evaluate_end E C R k g s' = Some (res, s'')" and "ctx' = host s''"
  using assms by (auto simp: evaluate_def run_bind_Done run_of_Done Let_def)

subsection \<open>The start\<close>

text \<open>The state the interpreter starts in is the constructor's, but for the tables in its host.\<close>

lemma init_fields:
  assumes "exec_state_init E m r ctx code data cid an = Some s"
  shows "rw_trace s = []" "call_id s = cid" "msg s = m" "revision s = r" "gas_refund s = 0"
    "host s = ctx" "original_code s = code" "analysis s = an" "mem_wf (memory s)"
    "length (stack_space s) = stack_limit"
  using assms
  by (auto simp: exec_state_init_def mem_new_def allocate_capacity_def bind_eq_Some_conv
      mem_wf_def mem_size_def page_size_def split: if_splits)

lemma evaluate_start_cases:
  assumes "evaluate_start E C R ctx r m code k = Some s"
  obtains s0 data an where "exec_state_init E m r ctx code data 0 an = Some s0"
    and "analyze E r code = Some an"
    and "(k AND CIRCUIT_BYTECODE = 0 \<and> s = s0) \<or>
      (k AND CIRCUIT_BYTECODE \<noteq> 0 \<and> (\<exists>bytes tabs.
         slice_opt (code_buffer an) (executable_offset an) (length code) = Some bytes \<and>
         handle_bytecode C bytes (get_tables R ctx) = Some tabs \<and>
         s = s0\<lparr>host := put_tables R tabs ctx\<rparr>))"
proof -
  obtain an data s0 where an: "analyze E r code = Some an"
    and s0: "exec_state_init E m r ctx code data 0 an = Some s0"
    and rest: "(if k AND CIRCUIT_BYTECODE \<noteq> 0 then do {
       bytes \<leftarrow> slice_opt (code_buffer an) (executable_offset an) (length (original_code s0));
       tabs \<leftarrow> handle_bytecode C bytes (get_tables R (host s0));
       Some (s0\<lparr>host := put_tables R tabs (host s0)\<rparr>) } else Some s0) = Some s"
    using assms unfolding evaluate_start_def by (force simp: bind_eq_Some_conv)
  show thesis
    using rest by (intro that [OF s0 an], cases "k AND CIRCUIT_BYTECODE = 0")
      (auto simp: init_fields [OF s0] bind_eq_Some_conv)
qed

lemma evaluate_start_state:
  assumes "evaluate_start E C R ctx r m code k = Some s"
  shows "rw_trace s = []" "call_id s = 0" "msg s = m" "revision s = r" "gas_refund s = 0"
    "original_code s = code" "mem_wf (memory s)" "length (stack_space s) = stack_limit"
    "analyze E r code = Some (analysis s)" "traced s"
proof -
  obtain s0 data an h where s0: "exec_state_init E m r ctx code data 0 an = Some s0"
    and an: "analyze E r code = Some an" and s: "s = s0\<lparr>host := h\<rparr>"
  proof (rule evaluate_start_cases [OF assms])
    fix s0 data an
    assume *: "exec_state_init E m r ctx code data 0 an = Some s0" "analyze E r code = Some an"
      and "(k AND CIRCUIT_BYTECODE = 0 \<and> s = s0) \<or>
      (k AND CIRCUIT_BYTECODE \<noteq> 0 \<and> (\<exists>bytes tabs.
         slice_opt (code_buffer an) (executable_offset an) (length code) = Some bytes \<and>
         handle_bytecode C bytes (get_tables R ctx) = Some tabs \<and>
         s = s0\<lparr>host := put_tables R tabs ctx\<rparr>))"
    then have "s = s0\<lparr>host := host s\<rparr>" by auto
    then show thesis by (rule that [OF *])
  qed
  show "rw_trace s = []" "call_id s = 0" "msg s = m" "revision s = r" "gas_refund s = 0"
    "original_code s = code" "mem_wf (memory s)" "length (stack_space s) = stack_limit"
    "analyze E r code = Some (analysis s)" "traced s"
    using init_fields [OF s0] an by (simp_all add: s traced_def)
qed

subsection \<open>The end\<close>

lemma evaluate_end_parts:
  assumes "evaluate_end E C R k g s = Some (res, s'')"
  obtains out where
    "res = make_result (malloc_ok E) (status s)
       (if status s = EVMC_SUCCESS \<or> status s = EVMC_REVERT then g else 0)
       (if status s = EVMC_SUCCESS then gas_refund s else 0) out"
    and "(k AND CIRCUIT_RW = 0 \<and> host s'' = host s) \<or>
      (k AND CIRCUIT_RW \<noteq> 0 \<and> (\<exists>tr tabs. handle_rw E C (rw_trace s) (get_tables R (host s)) = Some (tr, tabs) \<and>
         host s'' = put_tables R tabs (host s)))"
  using assms unfolding evaluate_end_def Let_def
  by (cases "k AND CIRCUIT_RW = 0") (auto simp: bind_eq_Some_conv cong: if_cong)

lemma make_result_gas:
  "res_gas_left (make_result ok st g rf out) = (if length out \<noteq> 0 \<and> \<not> ok (length out) then 0 else g)"
  "res_gas_refund (make_result ok st g rf out) = (if length out \<noteq> 0 \<and> \<not> ok (length out) then 0 else rf)"
  "res_status_code (make_result ok st g rf out) =
     (if length out \<noteq> 0 \<and> \<not> ok (length out) then EVMC_OUT_OF_MEMORY else st)"
  by (simp_all add: make_result_def)

text \<open>The read/write table after the run, when the host keeps the tables it is given.\<close>

lemma handle_rw_table:
  assumes "handle_rw L C tr m = Some (tr', m')" and "m CIRCUIT_RW = Some t"
  shows "\<exists>t'. process_rw_operations L (table_lib.truncate C) tr t = Some (tr', t') \<and>
    m' = m(CIRCUIT_RW \<mapsto> t')"
  using assms by (auto simp: handle_rw_def bind_eq_Some_conv)

lemma handle_bytecode_table:
  assumes "handle_bytecode C code m = Some m'" and "m CIRCUIT_BYTECODE = Some t"
  shows "\<exists>t'. process_bytecode_input C code t = Some t' \<and> m' = m(CIRCUIT_BYTECODE \<mapsto> t')"
  using assms by (auto simp: handle_bytecode_def bind_eq_Some_conv)

subsection \<open>Negative gas\<close>

text \<open>
  No instruction starts with negative gas: the checks before it fail. An opcode without a cost
  has cost \<open>- 1\<close> when the assertions are compiled out, and is then undefined.
\<close>

lemma check_negative_gas:
  assumes "check_requirements L (get_baseline_cost_table r v) g tp op = Some (st, g')" and "g < 0"
    and "op \<in> set handler_opcodes"
  shows "st \<notin> {EVMC_SUCCESS, EVMC_REVERT}"
proof -
  have "st \<noteq> EVMC_SUCCESS"
  proof
    assume "st = EVMC_SUCCESS"
    moreover obtain fn where "map_of (map_opcodes :: (byte \<times> unit instr_fn) list) op = Some fn"
      using assms(3) unfolding handler_opcodes_map [symmetric, where 'a = unit]
      by (metis map_of_eq_None_iff not_None_eq image_set)
    ultimately show False
      using handler_cost [of op fn L r v g tp g'] assms(1,2) by simp
  qed
  moreover have "st \<noteq> EVMC_REVERT"
    using assms(1) by (auto simp: check_requirements_def bind_eq_Some_conv Let_def split: if_splits)
  ultimately show ?thesis by simp
qed

lemma invoke_negative_gas:
  fixes E :: "'h env"
  assumes "invoke E (get_baseline_cost_table r v) pos tp g s op = Some (p, tp', g', s')" and "g < 0"
  shows "p = None \<and> (\<exists>st. st \<notin> {EVMC_SUCCESS, EVMC_REVERT} \<and> s' = s\<lparr>status := st\<rparr>)"
proof -
  obtain st g1 where req: "check_requirements E (get_baseline_cost_table r v) g tp op = Some (st, g1)"
    using assms(1) by (auto simp: invoke_def bind_eq_Some_conv)
  have rev: "st \<noteq> EVMC_REVERT"
    using req by (auto simp: check_requirements_def bind_eq_Some_conv Let_def split: if_splits)
  show ?thesis
  proof (cases "op \<in> set handler_opcodes")
    case True
    then show ?thesis
      using check_negative_gas [OF req assms(2)] assms(1) req by (auto simp: invoke_def)
  next
    case False
    then have "map_of (map_opcodes :: (byte \<times> 'h instr_fn) list) op = None"
      unfolding map_of_eq_None_iff using handler_opcodes_map by (metis image_set)
    then show ?thesis
      using assms(1) req rev by (cases "st = EVMC_SUCCESS") (auto simp: invoke_def)
  qed
qed

lemma dispatch_negative_gas:
  assumes "dispatch fuel E (get_baseline_cost_table r v) s g = Done (g', s')" and "g < 0"
  shows "\<exists>st. st \<notin> {EVMC_SUCCESS, EVMC_REVERT} \<and> s' = s\<lparr>status := st\<rparr>"
  using assms
  by (cases fuel) (auto simp: dispatch_def split: option.splits dest!: invoke_negative_gas)

subsection \<open>The tables an evaluation leaves\<close>

text \<open>The host context keeps the tables that are put into it.\<close>

definition keeps_tables :: "('h, 't) tables_ref \<Rightarrow> bool" where
  "keeps_tables R \<longleftrightarrow> (\<forall>tabs h. get_tables R (put_tables R tabs h) = tabs)"

lemma vm_keeps_tables: "keeps_tables vm_tables"
  by (simp add: keeps_tables_def vm_tables_def)

lemma legacy_executable:
  assumes "analyze E r code = Some an" and "r < EVMC_PRAGUE \<or> \<not> is_eof_container code"
  shows "slice_opt (code_buffer an) (executable_offset an) (length code) = Some code"
  using assms by (auto simp: analyze_def analyze_legacy_def pad_code_def slice_opt_def)

lemma start_bytecode_table:
  assumes start: "evaluate_start E C R ctx r m code k = Some s" and keeps: "keeps_tables R"
    and legacy: "r < EVMC_PRAGUE \<or> \<not> is_eof_container code" and k: "k AND CIRCUIT_BYTECODE \<noteq> 0"
    and t: "get_tables R ctx CIRCUIT_BYTECODE = Some t"
  shows "\<exists>t'. process_bytecode_input C code t = Some t' \<and>
    get_tables R (host s) = (get_tables R ctx)(CIRCUIT_BYTECODE \<mapsto> t')"
proof (rule evaluate_start_cases [OF start])
  fix s0 data an
  assume "exec_state_init E m r ctx code data 0 an = Some s0" and an: "analyze E r code = Some an"
    and "(k AND CIRCUIT_BYTECODE = 0 \<and> s = s0) \<or>
      (k AND CIRCUIT_BYTECODE \<noteq> 0 \<and> (\<exists>bytes tabs.
         slice_opt (code_buffer an) (executable_offset an) (length code) = Some bytes \<and>
         handle_bytecode C bytes (get_tables R ctx) = Some tabs \<and>
         s = s0\<lparr>host := put_tables R tabs ctx\<rparr>))"
  then obtain tabs where tabs: "handle_bytecode C code (get_tables R ctx) = Some tabs"
      and "s = s0\<lparr>host := put_tables R tabs ctx\<rparr>"
    using k legacy_executable [OF an legacy] by auto
  then show ?thesis
    using handle_bytecode_table [OF tabs t] keeps by (auto simp: keeps_tables_def)
qed

lemma end_rw_table:
  assumes ended: "evaluate_end E C R k g s = Some (res, s'')" and keeps: "keeps_tables R"
    and k: "k AND CIRCUIT_RW \<noteq> 0" and t: "get_tables R (host s) CIRCUIT_RW = Some t"
  shows "\<exists>tr' t'. process_rw_operations E (table_lib.truncate C) (rw_trace s) t = Some (tr', t') \<and>
    get_tables R (host s'') = (get_tables R (host s))(CIRCUIT_RW \<mapsto> t')"
proof (rule evaluate_end_parts [OF ended])
  assume "(k AND CIRCUIT_RW = 0 \<and> host s'' = host s) \<or>
      (k AND CIRCUIT_RW \<noteq> 0 \<and> (\<exists>tr tabs. handle_rw E C (rw_trace s) (get_tables R (host s)) = Some (tr, tabs) \<and>
         host s'' = put_tables R tabs (host s)))"
  then obtain tr tabs where tabs: "handle_rw E C (rw_trace s) (get_tables R (host s)) = Some (tr, tabs)"
      and "host s'' = put_tables R tabs (host s)"
    using k by auto
  then show ?thesis
    using handle_rw_table [OF tabs t] keeps by (fastforce simp: keeps_tables_def)
qed

text \<open>The targets that exist, and what a target leaves alone that does not name a circuit.\<close>

lemma circuit_targets:
  "zkevm_circuits_map tgt = Some k \<longleftrightarrow>
     (tgt = '''' \<and> k = CIRCUIT_ALL) \<or> (tgt = ''bytecode'' \<and> k = CIRCUIT_BYTECODE) \<or> (tgt = ''rw'' \<and> k = CIRCUIT_RW)"
  by (auto simp: zkevm_circuits_map_def)

lemma start_unnamed:
  assumes start: "evaluate_start E C R ctx r m code k = Some s" and "k AND CIRCUIT_BYTECODE = 0"
  shows "host s = ctx"
  using assms(2) by (rule_tac evaluate_start_cases [OF start]) (auto dest: init_fields(6))

lemma start_no_table:
  assumes start: "evaluate_start E C R ctx r m code k = Some s" and keeps: "keeps_tables R"
    and "get_tables R ctx CIRCUIT_BYTECODE = None"
  shows "get_tables R (host s) = get_tables R ctx"
  using assms(3) keeps
  by (rule_tac evaluate_start_cases [OF start])
    (auto simp: handle_bytecode_def keeps_tables_def dest: init_fields(6))

lemma end_unnamed:
  assumes ended: "evaluate_end E C R k g s = Some (res, s'')" and "k AND CIRCUIT_RW = 0"
  shows "host s'' = host s"
  using assms(2) by (rule_tac evaluate_end_parts [OF ended]) auto

lemma end_no_table:
  assumes ended: "evaluate_end E C R k g s = Some (res, s'')" and keeps: "keeps_tables R"
    and "get_tables R (host s) CIRCUIT_RW = None"
  shows "get_tables R (host s'') = get_tables R (host s)"
  using assms(3) keeps
  by (rule_tac evaluate_end_parts [OF ended]) (auto simp: handle_rw_def keeps_tables_def)

lemma run_traced:
  assumes "evaluate_start E C R ctx r m code k = Some s" and "dispatch fuel E ct s g = Done (g', s')"
  shows "ids_ok (rw_trace s') \<and> (\<forall>e \<in> set (rw_trace s'). rw_call_id e = 0)"
proof -
  have "frame s s'" using assms(2) by (auto simp: dispatch_def dest: frame_dispatch_loop)
  then show ?thesis
    using traced_frame [of s s'] evaluate_start_state [OF assms(1)] by (simp add: traced_def frame_def)
qed

subsection \<open>Moving value\<close>

abbreviation balance_word :: "'a libs_scheme \<Rightarrow> 't vm_host \<Rightarrow> evmc_address \<Rightarrow> zkevm_word" where
  "balance_word L h a \<equiv> word_of_uint256be L (vm_get_balance h a)"

text \<open>The host a call runs its callee on: the callee exists and holds the value.\<close>

definition callee_host :: "'a libs_scheme \<Rightarrow> 't vm_host \<Rightarrow> evmc_message \<Rightarrow> account \<Rightarrow> 't vm_host" where
  "callee_host L h m a = transfer L
     (if get_account h (msg_code_address m) = None then put_account h (msg_code_address m) empty_account else h) m a"

lemma get_put_account [simp]:
  "get_account (put_account h x acc) y = (if y = x then Some acc else get_account h y)"
  by (simp add: get_account_def put_account_def)

text \<open>Only balances change, and only those of the two accounts.\<close>

lemma callee_host_others:
  "x \<noteq> msg_sender m \<Longrightarrow> x \<noteq> msg_code_address m \<Longrightarrow> get_account (callee_host L h m a) x = get_account h x"
  by (simp add: callee_host_def transfer_def Let_def split: option.splits)

lemma callee_host_code:
  assumes "get_account h (msg_sender m) = Some a"
  shows "\<exists>acc. get_account (callee_host L h m a) (msg_code_address m) = Some acc \<and>
    acc_code acc = (case get_account h (msg_code_address m) of None \<Rightarrow> [] | Some b \<Rightarrow> acc_code b)"
  using assms
  by (cases "get_account h (msg_code_address m)")
    (auto simp: callee_host_def transfer_def Let_def empty_account_def)

lemma callee_host_storage:
  assumes "get_account h (msg_sender m) = Some a"
  shows "vm_get_storage (callee_host L h m a) x k = vm_get_storage h x k"
  using assms
  by (cases "get_account h (msg_code_address m)")
    (auto simp: callee_host_def transfer_def Let_def empty_account_def vm_get_storage_def split: option.splits)

lemma handle_call_eq:
  assumes "get_account h (msg_sender m) = Some a" and "msg_kind m = EVMC_CALL"
  shows "handle_call L run_code h m =
    (let code = (case get_account h (msg_code_address m) of None \<Rightarrow> [] | Some b \<Rightarrow> acc_code b);
         h1 = callee_host L h m a
     in if code = [] then Some (make_result (malloc_ok L) EVMC_SUCCESS (msg_gas m) 0 (msg_input m), h1)
        else run_code h1 m code)"
proof -
  obtain acc where acc: "get_account (callee_host L h m a) (msg_code_address m) = Some acc"
      "acc_code acc = (case get_account h (msg_code_address m) of None \<Rightarrow> [] | Some b \<Rightarrow> acc_code b)"
    using callee_host_code [OF assms(1)] by blast
  then show ?thesis
    using assms
    by (simp add: handle_call_def Let_def callee_host_def [symmetric] del: if_cancel)
qed

context intx_api
begin

lemma load_zero [simp]: "word_of_uint256be L zero_bytes32 = 0"
proof -
  have "be_val zero_bytes32 = 0"
    using be_val_zeros [of 32 "[]"] by (simp add: zero_bytes32_def)
  then have "unat (word_of_uint256be L zero_bytes32) = 0"
    by (simp add: word_of_uint256be_def be_load zero_bytes32_def)
  then show ?thesis by (simp add: unat_eq_0)
qed

lemma callee_host_balances:
  assumes "get_account h (msg_sender m) = Some a"
  shows "balance_word L (callee_host L h m a) x = balance_word L h x
    - (if x = msg_sender m then word_of_uint256be L (msg_value m) else 0)
    + (if x = msg_code_address m then word_of_uint256be L (msg_value m) else 0)"
  using assms
  by (cases "get_account h (msg_code_address m)")
    (auto simp: callee_host_def transfer_def Let_def empty_account_def vm_get_balance_def
      load_store zw_add_def zw_sub_def)

end

end
