(* ===== verification/Nesting.thy ===== *)
theory Nesting
  imports Evaluation
begin

text \<open>
  How deep calls nest. An instruction uses the callback \<open>call\<close> only for messages one level below
  its own, and not at all from level 1024 on. So a run does not depend on what \<open>call\<close> does with
  other messages, and the bound on nested runs in the model of the host is never met.
\<close>

subsection \<open>Another callback\<close>

definition with_call :: "('h \<Rightarrow> evmc_message \<Rightarrow> (evmc_result \<times> 'h) option) \<Rightarrow> 'h env \<Rightarrow> 'h env" where
  "with_call f E = E\<lparr>hif := (hif E)\<lparr>call_fn := f\<rparr>\<rparr>"

lemma with_call_call [simp]: "call_fn (hif (with_call f E)) = f"
  by (simp add: with_call_def)

lemma with_call_fields:
  "ndebug (with_call f E) = ndebug E" "malloc_ok (with_call f E) = malloc_ok E"
  "intx_sdivrem (with_call f E) = intx_sdivrem E" "intx_addmod (with_call f E) = intx_addmod E"
  "intx_mulmod (with_call f E) = intx_mulmod E" "intx_exp (with_call f E) = intx_exp E"
  "intx_count_significant_bytes (with_call f E) = intx_count_significant_bytes E"
  "intx_slt (with_call f E) = intx_slt E" "intx_be_load (with_call f E) = intx_be_load E"
  "intx_be_load_uint (with_call f E) = intx_be_load_uint E"
  "intx_be_store (with_call f E) = intx_be_store E"
  "intx_be_trunc (with_call f E) = intx_be_trunc E" "keccak256 (with_call f E) = keccak256 E"
  "integral_mod (with_call f E) = integral_mod E"
  "account_exists_fn (hif (with_call f E)) = account_exists_fn (hif E)"
  "get_storage_fn (hif (with_call f E)) = get_storage_fn (hif E)"
  "set_storage_fn (hif (with_call f E)) = set_storage_fn (hif E)"
  "get_balance_fn (hif (with_call f E)) = get_balance_fn (hif E)"
  "get_code_size_fn (hif (with_call f E)) = get_code_size_fn (hif E)"
  "get_code_hash_fn (hif (with_call f E)) = get_code_hash_fn (hif E)"
  "copy_code_fn (hif (with_call f E)) = copy_code_fn (hif E)"
  "selfdestruct_fn (hif (with_call f E)) = selfdestruct_fn (hif E)"
  "get_tx_context_fn (hif (with_call f E)) = get_tx_context_fn (hif E)"
  "get_block_hash_fn (hif (with_call f E)) = get_block_hash_fn (hif E)"
  "emit_log_fn (hif (with_call f E)) = emit_log_fn (hif E)"
  "access_account_fn (hif (with_call f E)) = access_account_fn (hif E)"
  "access_storage_fn (hif (with_call f E)) = access_storage_fn (hif E)"
  "get_transient_storage_fn (hif (with_call f E)) = get_transient_storage_fn (hif E)"
  "set_transient_storage_fn (hif (with_call f E)) = set_transient_storage_fn (hif E)"
  by (simp_all add: with_call_def)

text \<open>The definitions of everything that takes the environment, without the calls.\<close>

lemmas env_primitives =
  cassert_def word_of_uint256be_def word_of_address_def word_of_hash_def word_of_data_def
  zw_sdiv_def zw_smod_def zw_addmod_def zw_mulmod_def zw_exp_def zw_count_significant_bytes_def
  zw_slt_def to_hash_def to_address_def to_uint256be_def word_store_def load_partial_data_def
  intg_def word_and_integral_def address_integral_def to_field_as_address_def w_hi_integral_def
  w_lo_integral_def w_hi_def w_lo_def allocate_capacity_def mem_new_def mem_grow_def
  grow_memory_def check_memory_def check_memory_copy_def stack_operation_def memory_operation_def
  exec_state_init_def get_tx_context_def log_stack_def log_stack_at_def log_memory_def
  host_account_exists_def host_get_storage_def host_set_storage_def host_get_balance_def
  host_get_code_size_def host_get_code_hash_def host_copy_code_def host_selfdestruct_def
  host_get_block_hash_def host_access_account_def host_access_storage_def
  host_get_transient_storage_def host_set_transient_storage_def

lemmas env_handlers =
  arith1_def arith2_def i_add_def i_mul_def i_sub_def i_div_def i_sdiv_def i_mod_def i_smod_def
  i_addmod_def i_mulmod_def i_exp_def i_signextend_def i_lt_def i_gt_def i_slt_def i_sgt_def
  i_eq_def i_iszero_def i_and_def i_or_def i_xor_def i_not_def i_byte_def i_shl_def i_shr_def
  i_sar_def push_logged_def charge_cold_account_def copy_input_def i_address_def i_caller_def
  i_callvalue_def i_calldataload_def i_calldatasize_def i_calldatacopy_def i_codesize_def
  i_codecopy_def push_tx_def i_origin_def i_gasprice_def i_basefee_def i_blobhash_def
  i_blobbasefee_def i_blockhash_def i_coinbase_def i_timestamp_def i_number_def i_prevrandao_def
  i_gaslimit_def i_chainid_def account_query_def i_balance_def i_extcodesize_def i_extcodehash_def
  i_selfbalance_def i_extcodecopy_def i_returndatasize_def i_returndatacopy_def i_keccak256_def
  i_mload_def i_mstore_def i_mstore8_def i_msize_def i_mcopy_def i_sload_def i_sstore_def
  i_tload_def i_tstore_def i_dataload_def i_datasize_def i_dataloadn_def i_datacopy_def i_log_def
  i_push0_def push_value_def i_push_def i_dup_def swap_body_def i_swap_def i_dupn_def i_swapn_def
  i_stop_def i_invalid_def return_impl_def i_return_def i_revert_def selfdestruct_charge_def
  i_selfdestruct_def i_jump_def i_jumpi_def i_rjump_def i_rjumpi_def i_rjumpv_def i_pc_def
  i_gas_def i_callf_def i_retf_def i_jumpf_def

lemmas env_analysis =
  get_code_def read_valid_eof1_header_def analyze_eof1_def analyze_def

lemmas env_rows =
  lookup_cells_def number_chunk_cells_def chunk_cells_def operation_cells_def value_before_def
  advice_def process_row_def process_rw_operations_def

lemmas same_calls = with_call_fields env_primitives

text \<open>The loops, by induction.\<close>

lemma with_call_loops:
  "log_mem_loop (with_call f E) addr base w n j s = log_mem_loop E addr base w n j s"
  "log_zero_loop (with_call f E) dst n j s = log_zero_loop E dst n j s"
  "load_full_words (with_call f E) buf data n r = load_full_words E buf data n r"
  "log_push_loop (with_call f E) tp n i s = log_push_loop E tp n i s"
  "log_reads_loop (with_call f E) tp n i s = log_reads_loop E tp n i s"
  by (induction n arbitrary: j s data r i) (simp_all only: log_mem_loop.simps log_zero_loop.simps
      load_full_words.simps log_push_loop.simps log_reads_loop.simps same_calls)

lemma with_call_offsets: "section_offsets (with_call f E) off ss = section_offsets E off ss"
  by (induction ss arbitrary: off) (simp_all only: section_offsets.simps same_calls)

lemma with_call_analyze: "analyze (with_call f E) r code = analyze E r code"
  by (simp only: env_analysis same_calls with_call_offsets)

lemma with_call_init:
  "exec_state_init (with_call f E) m r ctx code data cid an = exec_state_init E m r ctx code data cid an"
  by (simp only: same_calls)

lemma with_call_requirements:
  "check_requirements (with_call f E) ct g tp op = check_requirements E ct g tp op"
  by (simp only: check_requirements_def same_calls)

subsection \<open>Every instruction but the calls\<close>

definition same_fn :: "'h instr_fn \<Rightarrow> bool" where
  "same_fn fn \<longleftrightarrow> (\<forall>f E pos tp g s. invoke_fn (with_call f E) fn pos tp g s = invoke_fn E fn pos tp g s)"

lemma same_fn_handlers:
  "same_fn (Fn_void v)"
  "(\<And>f E tp s. a (with_call f E) tp s = a E tp s) \<Longrightarrow> same_fn (Fn_state a)"
  "(\<And>f E tp g s. b (with_call f E) tp g s = b E tp g s) \<Longrightarrow> same_fn (Fn_result b)"
  "(\<And>f E tp s pos. c (with_call f E) tp s pos = c E tp s pos) \<Longrightarrow> same_fn (Fn_jump c)"
  "(\<And>f E tp g s. d (with_call f E) tp g s = d E tp g s) \<Longrightarrow> same_fn (Fn_term d)"
  by (simp_all add: same_fn_def)

lemma map_opcodes_same: "list_all (\<lambda>(op, fn). op \<in> set call_opcodes \<or> same_fn fn) map_opcodes"
  unfolding map_opcodes_def map_opcodes_to_push0_def map_opcodes_from_push1_def
    append.simps list.pred_inject prod.case
  by (intro conjI TrueI list.pred_inject(1);
      ((rule disjI1, simp add: call_opcodes_def; fail)
       | (rule disjI2, rule same_fn_handlers(1))
       | (rule disjI2, rule same_fn_handlers(2-5), simp only: env_handlers same_calls with_call_loops; fail)))

subsection \<open>Calls and creations\<close>

text \<open>The two callbacks agree on the messages that an instruction at the depth of \<open>s\<close> can send.\<close>

definition calls_agree :: "('h \<Rightarrow> evmc_message \<Rightarrow> (evmc_result \<times> 'h) option) \<Rightarrow> 'h env \<Rightarrow> int \<Rightarrow> bool" where
  "calls_agree f E d \<longleftrightarrow>
     (d < 1024 \<longrightarrow> (\<forall>h m. msg_depth m = d + 1 \<longrightarrow> f h m = call_fn (hif E) h m))"

lemma with_call_parts:
  "host_account_exists (with_call f E) = host_account_exists E"
  "host_get_balance (with_call f E) = host_get_balance E"
  "word_of_uint256be (with_call f E) = word_of_uint256be E"
  "word_of_address (with_call f E) = word_of_address E"
  "call_message (with_call f E) = call_message E"
  "create_message (with_call f E) = create_message E"
  "delegate_allowed (with_call f E) = delegate_allowed E"
  "pop_call_operands (with_call f E) = pop_call_operands E"
  "charge_cold_account (with_call f E) = charge_cold_account E"
  "check_memory_copy (with_call f E) = check_memory_copy E"
  "log_stack_at (with_call f E) = log_stack_at E"
  "log_reads_loop (with_call f E) = log_reads_loop E"
  by (intro ext; simp only: same_calls call_message_def create_message_def delegate_allowed_def
      pop_call_operands_def charge_cold_account_def with_call_loops)+

lemma run_same:
  assumes "f (host s) m = call_fn (hif E) (host s) m"
  shows "run_call (with_call f E) tp m off n g s = run_call E tp m off n g s"
    and "run_create (with_call f E) tp m g s = run_create E tp m g s"
  unfolding run_call_def run_create_def host_call_def with_call_call assms with_call_parts by (rule refl)+

lemma message_depth [simp]:
  "msg_depth (call_message E opc ops s input) = msg_depth (msg s) + 1"
  "msg_depth (create_message E cop endowment salt input g s) = msg_depth (msg s) + 1"
  by (simp_all add: call_message_def create_message_def)

lemma host_msg [simp]:
  "msg (snd (host_account_exists E s a)) = msg s" "msg (snd (host_get_balance E s a)) = msg s"
  by (simp_all add: host_defs split_def Let_def)

lemma delegate_allowed_msg: "delegate_allowed E opc a s = Some (b, s') \<Longrightarrow> msg s' = msg s"
  by (auto simp: delegate_allowed_def host_defs split: if_splits prod.splits)

lemma call_checked_same:
  assumes "calls_agree f E (msg_depth (msg s))"
  shows "call_checked (with_call f E) opc ops input tp g s = call_checked E opc ops input tp g s"
proof -
  have run: "run_call (with_call f E) tp m off n g s' = run_call E tp m off n g s'"
    if "msg_depth m = msg_depth (msg s) + 1" "\<not> 1024 \<le> msg_depth (msg s)" for tp m off n g s'
    using assms that by (intro run_same) (simp add: calls_agree_def)
  show ?thesis
    unfolding call_checked_def Let_def with_call_parts
    by (intro if_cong refl option.case_cong; simp add: split_def run cong: if_cong option.case_cong)
qed

lemma create_checked_same:
  assumes "calls_agree f E (msg_depth (msg s))"
  shows "create_checked (with_call f E) opc e salt off n tp g s = create_checked E opc e salt off n tp g s"
proof -
  have run: "run_create (with_call f E) tp m g s' = run_create E tp m g s'"
    if "msg_depth m = msg_depth (msg s) + 1" "\<not> 1024 \<le> msg_depth (msg s)" for tp m g s'
    using assms that by (intro run_same) (simp add: calls_agree_def)
  show ?thesis
    unfolding create_checked_def Let_def with_call_parts
    by (simp add: split_def run cong: if_cong)
qed

lemma bind_same: "(\<And>x. m = Some x \<Longrightarrow> a x = b x) \<Longrightarrow> Option.bind m a = Option.bind m b"
  by (cases m) simp_all

lemma case_prod_same: "(\<And>x y. p = (x, y) \<Longrightarrow> a x y = b x y) \<Longrightarrow> (case p of (x, y) \<Rightarrow> a x y) = (case p of (x, y) \<Rightarrow> b x y)"
  by (cases p) simp

lemma msg_steps:
  "log_reads_loop E tp n i s = Some s' \<Longrightarrow> msg s' = msg s"
  "stack_push s tp v = Some (tp', s') \<Longrightarrow> msg s' = msg s"
  "charge_cold_account E s a c g = (oog, g', s') \<Longrightarrow> msg s' = msg s"
  using postD [OF frame_log_reads_loop [OF frame_refl, of E tp n i s]]
  by (auto simp: frame_def stack_push_def stack_set_def charge_cold_account_def host_access_account_def
      bind_eq_Some_conv Let_def split: if_splits prod.splits)

lemma call_impl_same:
  assumes "calls_agree f E (msg_depth (msg s))"
  shows "call_impl (with_call f E) opc tp g s = call_impl E opc tp g s"
  unfolding call_impl_def Let_def with_call_parts
  by (intro bind_same case_prod_same if_cong refl call_checked_same;
      use assms in \<open>simp add: msg_steps(1) msg_steps(2) msg_steps(3)\<close>)

lemma create_impl_same:
  assumes "calls_agree f E (msg_depth (msg s))"
  shows "create_impl (with_call f E) opc tp g s = create_impl E opc tp g s"
  unfolding create_impl_def Let_def with_call_parts
  by (intro bind_same case_prod_same if_cong refl create_checked_same;
      use assms in \<open>simp add: msg_steps(1) msg_steps(2) msg_steps(3)\<close>)

lemma calls_same:
  assumes "calls_agree f E (msg_depth (msg s))"
  shows "i_call (with_call f E) tp g s = i_call E tp g s" "i_callcode (with_call f E) tp g s = i_callcode E tp g s"
    "i_delegatecall (with_call f E) tp g s = i_delegatecall E tp g s"
    "i_staticcall (with_call f E) tp g s = i_staticcall E tp g s"
    "i_create (with_call f E) tp g s = i_create E tp g s" "i_create2 (with_call f E) tp g s = i_create2 E tp g s"
  using assms
  by (simp_all add: i_call_def i_callcode_def i_delegatecall_def i_staticcall_def i_create_def i_create2_def
      call_impl_same create_impl_same)

subsection \<open>Runs\<close>

lemma call_opcode_handlers:
  "list_all (\<lambda>(op, fn). op \<in> set call_opcodes \<longrightarrow>
     fn \<in> Fn_result ` {i_call, i_callcode, i_delegatecall, i_staticcall, i_create, i_create2}) map_opcodes"
  unfolding map_opcodes_def map_opcodes_to_push0_def map_opcodes_from_push1_def
    append.simps list.pred_inject prod.case
  by (intro conjI TrueI list.pred_inject(1); simp add: call_opcodes_def)

lemma invoke_fn_same:
  assumes "(op, fn) \<in> set map_opcodes" and "calls_agree f E (msg_depth (msg s))"
  shows "invoke_fn (with_call f E) fn pos tp g s = invoke_fn E fn pos tp g s"
proof (cases "op \<in> set call_opcodes")
  case False
  then have "same_fn fn" using map_opcodes_same assms(1) by (force simp: list_all_iff)
  then show ?thesis by (simp add: same_fn_def)
next
  case True
  then have "fn \<in> Fn_result ` {i_call, i_callcode, i_delegatecall, i_staticcall, i_create, i_create2}"
    using call_opcode_handlers assms(1) by (force simp: list_all_iff)
  then show ?thesis using calls_same [OF assms(2)] by auto
qed

lemma invoke_same:
  assumes "calls_agree f E (msg_depth (msg s))"
  shows "invoke (with_call f E) ct pos tp g s op = invoke E ct pos tp g s op"
  unfolding invoke_def with_call_requirements
  by (intro bind_same case_prod_same if_cong refl option.case_cong)
    (auto dest!: map_of_SomeD simp: invoke_fn_same [OF _ assms])

lemma dispatch_loop_same:
  "calls_agree f E (msg_depth (msg s)) \<Longrightarrow>
   dispatch_loop n (with_call f E) ct pos tp g s = dispatch_loop n E ct pos tp g s"
proof (induction n arbitrary: pos tp g s)
  case 0
  then show ?case by simp
next
  case (Suc n)
  have "msg s' = msg s" if "invoke E ct pos tp g s op = Some (p, tp', g', s')" for op p tp' g' s'
    using postD [OF frame_invoke that] by (simp add: frame_def)
  then show ?case
    using Suc.prems
    by (auto simp: invoke_same [OF Suc.prems] split: option.splits intro!: Suc.IH)
qed

subsection \<open>Evaluations\<close>

lemma with_call_chunks: "word_chunk_cells (with_call f E) k v cs = word_chunk_cells E k v cs"
  by (induction cs arbitrary: k) (simp_all only: word_chunk_cells.simps same_calls)

lemma with_call_row: "process_row (with_call f E) T start i e t = process_row E T start i e t"
  by (simp only: env_rows same_calls with_call_chunks)

lemma with_call_rows: "process_rows (with_call f E) T start i es t = process_rows E T start i es t"
  by (induction es arbitrary: i t) (simp_all only: process_rows.simps with_call_row)

lemma with_call_tables: "handle_rw (with_call f E) C tr m = handle_rw E C tr m"
  by (simp only: handle_rw_def process_rw_operations_def with_call_rows)

lemma evaluate_start_same: "evaluate_start (with_call f E) C R ctx r m code k = evaluate_start E C R ctx r m code k"
  by (simp only: evaluate_start_def with_call_analyze with_call_init)

lemma evaluate_end_same: "evaluate_end (with_call f E) C R k g s = evaluate_end E C R k g s"
  by (simp only: evaluate_end_def with_call_tables same_calls)

lemma evaluate_same:
  assumes "calls_agree f E (msg_depth m)"
  shows "evaluate fuel (with_call f E) C R ctx r m code tgt = evaluate fuel E C R ctx r m code tgt"
proof (cases "zkevm_circuits_map tgt")
  case None
  then show ?thesis by (simp add: evaluate_def)
next
  case (Some k)
  show ?thesis
  proof (cases "evaluate_start E C R ctx r m code k")
    case None
    then show ?thesis by (simp add: evaluate_def Some evaluate_start_same run_of_def)
  next
    case start: (Some s)
    have "dispatch fuel (with_call f E) ct s g = dispatch fuel E ct s g" for ct g
      unfolding dispatch_def
      by (rule dispatch_loop_same) (use assms evaluate_start_state(3) [OF start] in simp)
    then show ?thesis
      by (simp add: evaluate_def Some start evaluate_start_same evaluate_end_same run_of_def)
  qed
qed

subsection \<open>Nested runs of the host\<close>

text \<open>The message that \<open>handle_create\<close> runs the new code with has the depth of its own.\<close>

lemma vm_call_same:
  assumes "\<And>h m' code. msg_depth m' = msg_depth m \<Longrightarrow> rc h m' code = rc' h m' code"
  shows "vm_call L rc h m = vm_call L rc' h m"
proof -
  have "handle_call L rc h m = handle_call L rc' h m"
    unfolding handle_call_def Let_def
    by (intro option.case_cong if_cong refl) (simp add: assms)
  moreover have "handle_create L rc h m = handle_create L rc' h m"
    unfolding handle_create_def Let_def
    by (intro if_cong refl) (simp add: assms)
  ultimately show ?thesis by (simp add: vm_call_def split: evmc_call_kind.split)
qed

lemma vm_env_with_call: "vm_env L rc = with_call (vm_call L rc) (vm_env L rc')"
  by (simp add: vm_env_def with_call_def vm_interface_def libs.defs env.defs)

lemma vm_env_call: "call_fn (hif (vm_env L rc)) = vm_call L rc"
  by (simp add: vm_env_def vm_interface_def libs.defs env.defs)

lemma vm_evaluate_same:
  assumes "\<And>h m' code. msg_depth m < 1024 \<Longrightarrow> msg_depth m' = msg_depth m + 1 \<Longrightarrow>
      vm_run n fuel L C h m' code = vm_run n' fuel L C h m' code"
  shows "evaluate fuel' (vm_env L (vm_run n fuel L C)) D R ctx r m code tgt =
    evaluate fuel' (vm_env L (vm_run n' fuel L C)) D R ctx r m code tgt"
proof -
  have "calls_agree (vm_call L (vm_run n fuel L C)) (vm_env L (vm_run n' fuel L C)) (msg_depth m)"
    using assms by (auto simp: calls_agree_def vm_env_call intro!: vm_call_same)
  from evaluate_same [OF this] show ?thesis
    by (simp only: vm_env_with_call [of L "vm_run n fuel L C" "vm_run n' fuel L C", symmetric])
qed

lemma vm_run_depth:
  "1025 \<le> msg_depth m + int n \<Longrightarrow> 0 < n \<Longrightarrow> n \<le> n' \<Longrightarrow>
   vm_run n' fuel L C h m code = vm_run n fuel L C h m code"
proof (induction n arbitrary: n' h m code)
  case 0
  then show ?case by simp
next
  case (Suc n)
  then obtain k where k: "n' = Suc k" "n \<le> k" by (cases n') auto
  have "vm_run k fuel L C h' m' code' = vm_run n fuel L C h' m' code'"
    if "msg_depth m < 1024" "msg_depth m' = msg_depth m + 1" for h' m' code'
    using that Suc.prems(1) k(2) by (intro Suc.IH) auto
  then show ?case
    unfolding k(1) vm_run.simps by (subst vm_evaluate_same [of m k fuel L C n]) simp_all
qed

end
