(* ===== verification/Table_Progress.thy ===== *)
theory Table_Progress
  imports Rw_Table
begin

text \<open>
  Filling the read/write table always succeeds. Whatever the table held before, the row of an
  operation differs from the row above in the chunks of its identifier, so the code never looks
  past the end of the list of sorting columns. This needs no assumption on the cells of the
  table, only that the identifiers are different 32-bit numbers.
\<close>

definition id_columns :: "nat list" where
  "id_columns = [48, 49]"

lemma id_columns_last: "drop 28 chunk_columns = id_columns"
  by (simp add: chunk_columns_def id_columns_def)

lemma id_columns_sorting: "set id_columns \<subseteq> set sorting"
  by (simp add: id_columns_def sorting_def chunk_columns_def)

text \<open>The row holds the identifier of the operation.\<close>

definition id_row :: "('t, 'f :: field) table_lib \<Rightarrow> 't \<Rightarrow> u32 \<Rightarrow> rw_operation \<Rightarrow> bool" where
  "id_row T t row e \<longleftrightarrow> map (\<lambda>c. tab_val T t c row) id_columns = map of_nat (digits 2 (rw_id e))"

context rw_circuit
begin

lemma id_row_mono:
  "id_row T t row e \<Longrightarrow> (\<And>c. c \<in> set id_columns \<Longrightarrow> tab_val T t' c row = tab_val T t c row) \<Longrightarrow> id_row T t' row e"
  by (simp add: id_row_def cong: map_cong)

lemma id_row_puts: "id_row T (tab_puts T row (operation_cells L e) t) row e"
proof -
  let ?t = "tab_puts T row (operation_cells L e) t"
  have "tab_val T ?t c row = x" if "(c, x) \<in> set (operation_cells L e)" for c x
    using that distinct_operation_columns by (intro val_puts_in) (simp_all add: fst_operation_cells)
  then have "map (\<lambda>c. tab_val T ?t c row) chunk_columns = map of_nat (chunk_values e)"
    by (intro map_zip_eq) (auto simp: operation_cells_def chunk_cells_eq chunk_columns_def)
  then have "map (\<lambda>c. tab_val T ?t c row) (drop 28 chunk_columns) = map of_nat (drop 28 (chunk_values e))"
    by (simp flip: drop_map)
  then show ?thesis
    by (simp add: id_row_def id_columns_last chunk_values_def)
qed

lemma id_rows_differ:
  assumes "id_row T t row e" and "id_row T t row' p" and "rw_id e \<noteq> rw_id p"
    and "rw_id e < 2 ^ 32" and "rw_id p < 2 ^ 32"
  shows "map (\<lambda>c. tab_val T t c row) sorting \<noteq> map (\<lambda>c. tab_val T t c row') sorting"
proof
  assume "map (\<lambda>c. tab_val T t c row) sorting = map (\<lambda>c. tab_val T t c row') sorting"
  then have "map (\<lambda>c. tab_val T t c row) id_columns = map (\<lambda>c. tab_val T t c row') id_columns"
    using id_columns_sorting by (auto intro!: map_cong)
  then have "map (of_nat :: nat \<Rightarrow> 'f) (digits 2 (rw_id e)) = map of_nat (digits 2 (rw_id p))"
    using assms(1,2) unfolding id_row_def by metis
  then have "digits 2 (rw_id e) = digits 2 (rw_id p)"
    by (rule map_inj_on) (intro inj_onI of_nat_inj, auto dest: digits_less)
  then show False
    using digits_inj [of "rw_id e" 2 "rw_id p"] assms(3-5) by simp
qed

text \<open>The advice is written to other columns than the identifier.\<close>

lemma advice_total:
  assumes e: "id_row T t row e" and p: "id_row T t (row - 1) p" and "rw_id e \<noteq> rw_id p"
    and "rw_id e < 2 ^ 32" and "rw_id p < 2 ^ 32"
  shows "total (advice L T row e t) (\<lambda>t'. id_row T t' row e)"
proof -
  obtain k t1 where f: "find_difference T row sorting 0 t = (k, t1)" by fastforce
  note eq = find_difference_eq [OF f]
  have k: "k < 32"
    using eq first_diff_neq [OF id_rows_differ [OF e p assms(3-5)]] by simp
  define t2 where "t2 = value_before L T row k e t1"
  define t3 where "t3 = tab_puts T row (bit_cells (intg L (push_bit (length index_columns) 1)) k index_columns) t2"
  define t4 where "t4 = boundary_marks T row k e t3"
  obtain t5 where t5: "difference_cells T row k t4 = Some t5"
    and v5: "\<And>c r. c \<noteq> RW_DIFFERENCE \<Longrightarrow> c \<noteq> RW_INV_DIFFERENCE \<Longrightarrow> tab_val T t5 c r = tab_val T t4 c r"
    using val_difference_cells [OF k, of row t4] by auto
  have "tab_val T t5 c r = tab_val T t c r" if "c \<in> set id_columns" for c r
  proof -
    have c: "c = 48 \<or> c = 49" using that by (simp add: id_columns_def)
    have "tab_val T t5 c r = tab_val T t4 c r" by (rule v5) (use c in auto)
    also have "\<dots> = tab_val T t3 c r"
      unfolding t4_def by (rule val_boundary_marks(1)) (use c in auto)
    also have "\<dots> = tab_val T t2 c r"
      unfolding t3_def by (rule val_puts_other)
        (use c fst_bit_cells in \<open>auto simp: index_columns_def simp flip: set_map\<close>)
    also have "\<dots> = tab_val T t c r"
      using c eq by (auto simp: t2_def val_value_before)
    finally show ?thesis .
  qed
  then have "id_row T t5 row e" using id_row_mono [OF e] by blast
  moreover have "advice L T row e t = Some t5"
    unfolding advice_def f Let_def prod.case t2_def [symmetric] t3_def [symmetric] t4_def [symmetric]
    by (rule t5)
  ultimately show ?thesis by simp
qed

lemma process_rows_total:
  assumes "0 < i \<Longrightarrow> id_row T t (start + word_of_nat i - 1) p"
    and "successively (\<lambda>p e. rw_id p < 2 ^ 32 \<and> rw_id e < 2 ^ 32 \<and> rw_id e \<noteq> rw_id p)
      (if i = 0 then es else p # es)"
  shows "total (process_rows L T start i es t) (\<lambda>_. True)"
  using assms
proof (induction es arbitrary: i t p)
  case (Cons e es)
  let ?row = "start + word_of_nat i"
  let ?t = "tab_puts T ?row (operation_cells L e) t"
  have e: "id_row T ?t ?row e" by (rule id_row_puts)
  have "total (process_row L T start i e t) (\<lambda>t'. id_row T t' ?row e)"
  proof (cases "i = 0")
    case True
    then show ?thesis using e by (simp add: process_row_def)
  next
    case False
    have "id_row T t (?row - 1) p" using Cons.prems(1) False by simp
    then have p: "id_row T ?t (?row - 1) p"
      by (rule id_row_mono) (simp add: val_puts_other)
    have "total (advice L T ?row e ?t) (\<lambda>t'. id_row T t' ?row e)"
      using advice_total [OF e p] Cons.prems(2) False by simp
    then show ?thesis using False by (simp add: process_row_def Let_def)
  qed
  then obtain t1 where run: "process_row L T start i e t = Some t1" and t1: "id_row T t1 ?row e"
    by (auto simp: total_iff)
  have "start + word_of_nat (Suc i) - 1 = ?row" by (simp add: add.commute)
  with t1 have "id_row T t1 (start + word_of_nat (Suc i) - 1) e" by (simp only:)
  moreover have "successively (\<lambda>p e. rw_id p < 2 ^ 32 \<and> rw_id e < 2 ^ 32 \<and> rw_id e \<noteq> rw_id p) (e # es)"
    using Cons.prems(2) by (simp split: if_splits)
  ultimately have "total (process_rows L T start (Suc i) es t1) (\<lambda>_. True)"
    by (intro Cons.IH [of "Suc i" t1 e]) (simp_all only: Suc_not_Zero if_False)
  then show ?case by (simp add: run)
qed simp

lemma process_rw_total:
  assumes "ids_ok tr" and "length tr \<le> 2 ^ 32"
  shows "total (process_rw_operations L T tr t) (\<lambda>_. True)"
proof -
  have "total (process_rows L T (word_of_nat (tab_size T t RW_OP)) 0 (sort_trace tr) t) (\<lambda>_. True)"
    by (rule process_rows_total) (use sort_trace_ids [OF assms] in simp_all)
  then show ?thesis
    by (auto simp: process_rw_operations_def total_iff)
qed

end

end
