(* ===== verification/Evaluation_Progress.thy ===== *)
theory Evaluation_Progress
  imports Evaluation Progress Trace_Bound Table_Progress
begin

text \<open>
  Whole evaluations of safe code have a result: the start makes a state, the run of safe code
  halts, its trace fits the identifiers of the table, and its output lies in its memory, so
  that the end fills the table and reads the output.
\<close>

subsection \<open>The trace of safe code\<close>

lemma safe_config_op:
  assumes "safe_code code" and "safe_config code pos tp s" and "code_byte s pos = Some op"
  shows "op_gas_ok E op"
  using assms padded_code_byte [of s code pos]
  by (auto simp: safe_config_def safe_code_def safe_from_def op_gas_ok_def call_opcodes_def
      unsafe_opcodes_def split: if_splits)

lemma safe_loop_counts:
  assumes env: "ndebug E" "intx_api E" "alloc_ok E" and code: "safe_code code"
  shows "safe_config code pos tp s \<Longrightarrow> trace_le n s \<Longrightarrow>
    dispatch_loop fuel E (get_baseline_cost_table r v) pos tp g s = Done (g', s') \<Longrightarrow>
    trace_le (n + gas_entries g + entries_per_gas) s'"
proof (induction fuel arbitrary: n pos tp g s)
  case 0
  then show ?case by simp
next
  case (Suc fuel)
  obtain op p tp1 g1 s1 where byte: "code_byte s pos = Some op"
    and run: "invoke E (get_baseline_cost_table r v) pos tp g s op = Some (p, tp1, g1, s1)"
    and safe: "\<And>q. p = Some q \<Longrightarrow> safe_config code q tp1 s1 \<and> weight tp1 g1 < weight tp g"
    by (rule safe_turn [OF env code Suc.prems(1), of r v g]) blast
  note turn = invoke_counts [OF safe_config_op [OF code Suc.prems(1) byte] Suc.prems(2) run]
  show ?case
  proof (cases p)
    case None
    then show ?thesis using turn Suc.prems(3) byte run by simp
  next
    case (Some q)
    then have "safe_config code q tp1 s1" using safe by blast
    from Suc.IH [OF this] turn Some show ?thesis
      using Suc.prems(3) byte run by fastforce
  qed
qed

subsection \<open>The start\<close>

lemma start_safe:
  assumes alloc: "alloc_ok E" and legacy: "r < EVMC_PRAGUE \<or> \<not> is_eof_container code"
    and hash: "hash_halves C code \<noteq> None"
  obtains s where "evaluate_start E C R ctx r m code k = Some s" and "safe_config code 0 stack_bottom s"
    and "rw_trace s = []" and "output_in s" and "traced s"
proof -
  have an: "analyze E r code = Some (analyze_legacy code)"
    using legacy by (simp add: analyze_def)
  obtain s0 where s0: "exec_state_init E m r ctx code [] 0 (analyze_legacy code) = Some s0"
    using alloc by (auto simp: exec_state_init_def mem_new_def allocate_capacity_def alloc_ok_def)
  have data: "get_data (analysis_header (analyze_legacy code)) code = Some []"
    by (simp add: analyze_legacy_def get_data_def legacy_header_def)
  have "handle_bytecode C code (get_tables R ctx) \<noteq> None"
    using hash by (auto simp: handle_bytecode_def process_bytecode_input_def split: option.split)
  then obtain tabs where tabs: "handle_bytecode C code (get_tables R ctx) = Some tabs" by blast
  define h where "h = (if k AND CIRCUIT_BYTECODE \<noteq> 0 then put_tables R tabs ctx else ctx)"
  have "evaluate_start E C R ctx r m code k =
      Some (if k AND CIRCUIT_BYTECODE \<noteq> 0 then s0\<lparr>host := put_tables R tabs ctx\<rparr> else s0)"
    using legacy_executable [OF an legacy]
    by (simp add: evaluate_start_def an data s0 init_fields [OF s0] tabs)
  also have "\<dots> = Some (s0\<lparr>host := h\<rparr>)"
    using init_fields(6) [OF s0] by (simp add: h_def)
  finally have start: "evaluate_start E C R ctx r m code k = Some (s0\<lparr>host := h\<rparr>)" .
  have "safe_config code 0 stack_bottom s0"
    by (rule init_safe_config [OF s0]) (simp add: max_call_id_def)
  then have "safe_config code 0 stack_bottom (s0\<lparr>host := h\<rparr>)"
    by (simp add: safe_config_def)
  moreover have "output_size s0 = 0"
    using s0 by (auto simp: exec_state_init_def bind_eq_Some_conv)
  ultimately show thesis
    using that [OF start] init_fields [OF s0] by (simp add: output_in_def range_ok_def traced_def)
qed

subsection \<open>The end\<close>

lemma evaluate_end_total:
  assumes "ndebug E" and "rw_circuit E (table_lib.truncate C)" and "output_in s"
    and "ids_ok (rw_trace s)" and "length (rw_trace s) \<le> 2 ^ 32"
  obtains res s'' where "evaluate_end E C R k g s = Some (res, s'')"
proof -
  obtain tr tabs where tabs: "handle_rw E C (rw_trace s) (get_tables R (host s)) = Some (tr, tabs)"
  proof (cases "get_tables R (host s) CIRCUIT_RW")
    case None
    then show ?thesis using that by (simp add: handle_rw_def)
  next
    case (Some t)
    obtain tr t' where "process_rw_operations E (table_lib.truncate C) (rw_trace s) t = Some (tr, t')"
      using rw_circuit.process_rw_total [OF assms(2,4,5), of t] by (auto simp: total_iff)
    then show ?thesis using that Some by (simp add: handle_rw_def)
  qed
  define s1 where "s1 = (if k AND CIRCUIT_RW \<noteq> 0 then s\<lparr>rw_trace := tr, host := put_tables R tabs (host s)\<rparr> else s)"
  have "output_in s1" using assms(3) by (simp add: s1_def output_in_def)
  then have "(if output_size s1 \<noteq> 0 then mem_read (memory s1) (output_offset s1) (output_size s1)
      else Some []) \<noteq> None"
    by (simp add: output_in_def range_ok_def mem_read_ok)
  moreover have "(if k AND CIRCUIT_RW \<noteq> 0 then do {
       (tr, m) \<leftarrow> handle_rw E C (rw_trace s) (get_tables R (host s));
       Some (s\<lparr>rw_trace := tr, host := put_tables R m (host s)\<rparr>) } else Some s) = Some s1"
    by (simp add: s1_def tabs)
  ultimately have "evaluate_end E C R k g s \<noteq> None"
    using assms(1) by (auto simp: evaluate_end_def cassert_def Let_def)
  then show thesis using that by auto
qed

lemma trace_fits: "trace_le (gas_entries g + entries_per_gas) s \<Longrightarrow> 36 * (g + 1) \<le> 2 ^ 32 \<Longrightarrow>
    length (rw_trace s) \<le> 2 ^ 32"
  by (auto simp: trace_le_def gas_entries_def entries_per_gas_def max_def split: if_splits)

lemma safe_evaluation:
  assumes env: "ndebug E" "alloc_ok E" and circuits: "rw_circuit E (table_lib.truncate C)"
    and code: "safe_code code" "r < EVMC_PRAGUE \<or> \<not> is_eof_container code" "hash_halves C code \<noteq> None"
    and gas: "36 * (msg_gas m + 1) \<le> 2 ^ 32" "1025 * nat (msg_gas m + 1) < fuel"
  shows "\<exists>res ctx'. evaluate fuel E C R ctx r m code tgt = Done (res, ctx')"
proof (cases "zkevm_circuits_map tgt")
  case None
  then show ?thesis by (simp add: evaluate_unknown)
next
  case (Some k)
  have api: "intx_api E"
    using circuits by (simp add: rw_circuit_def wide_integral_def)
  obtain s where start: "evaluate_start E C R ctx r m code k = Some s"
    and s: "safe_config code 0 stack_bottom s" "rw_trace s = []" "output_in s" "traced s"
    by (rule start_safe [OF env(2) code(2,3)])
  let ?ct = "get_baseline_cost_table (revision s) (eof_version (analysis_header (analysis s)))"
  have "weight stack_bottom (msg_gas m) < fuel" using gas(2) by (simp add: weight_def)
  from safe_loop [OF env(1) api env(2) code(1) s(1) this, of "revision s" "eof_version (analysis_header (analysis s))"]
  obtain g s' where loop: "dispatch_loop fuel E ?ct 0 stack_bottom (msg_gas m) s = Done (g, s')"
    by auto
  then have run: "dispatch fuel E ?ct s (msg_gas m) = Done (g, s')"
    by (simp add: dispatch_def)
  have frame: "frame s s'" using loop by (rule frame_dispatch_loop)
  then have "output_in s'" "ids_ok (rw_trace s')"
    using s(3,4) traced_frame [OF frame] by (simp_all add: frame_def traced_def)
  moreover have "trace_le 0 s" using s(2) by (simp add: trace_le_def)
  from safe_loop_counts [OF env(1) api env(2) code(1) s(1) this loop]
  have "length (rw_trace s') \<le> 2 ^ 32"
    using trace_fits gas(1) by simp
  ultimately obtain res s'' where "evaluate_end E C R k g s' = Some (res, s'')"
    by (rule evaluate_end_total [OF env(1) circuits, of s' R k g])
  then show ?thesis
    using Some start run by (auto simp: evaluate_def Let_def run_of_def)
qed

end
