(* ===== verification/Host_Properties.thy ===== *)
theory Host_Properties
  imports Nesting Evaluation_Progress
begin

text \<open>
  Properties of whole evaluations and of the host that runs them: the tables an evaluation
  leaves, what becomes of a call with negative gas, and the balances a call moves.
\<close>

subsection \<open>Evaluations\<close>

text \<open>
  C9. What a finished evaluation leaves in the tables. With a target that is not one of the
  empty text, \<open>bytecode\<close> and \<open>rw\<close> it fails and touches nothing. Otherwise it consists of a start,
  a run of the interpreter from the gas of the message, and an end. Before the run, the target
  \<open>bytecode\<close> and the empty one fill the bytecode table, if there is one, from the code of a
  legacy contract; with the target \<open>rw\<close> the host is as it was given, and where there is no
  bytecode table no table changes. The run leaves a trace numbered by its positions, of which
  all entries carry call identifier 0. At the end, with the target \<open>rw\<close> and the empty one, the
  read/write table, if there is one, its \<open>FIELD_TYPE\<close> column was never written and the trace is
  not longer than \<open>2 ^ 32\<close>, holds a row with its advice for every entry of the trace, in the
  strictly ascending order of the operations, and every other table is as the run left it; with
  the target \<open>bytecode\<close> the whole host is as the run left it, and where there is no read/write
  table every table is.
\<close>

theorem evaluation_fills_tables:
  assumes "evaluate fuel E C R ctx r m code tgt = Done (res, ctx')" and "keeps_tables R"
    and "rw_circuit E (table_lib.truncate C)" and "bytecode_circuit C"
  shows "(tgt \<notin> {'''', ''bytecode'', ''rw''} \<longrightarrow>
     res = result_no_output EVMC_FAILURE (msg_gas m) 0 \<and> ctx' = ctx) \<and>
   (tgt \<in> {'''', ''bytecode'', ''rw''} \<longrightarrow> (\<exists>k s g s'. zkevm_circuits_map tgt = Some k \<and>
     evaluate_start E C R ctx r m code k = Some s \<and>
     dispatch fuel E (get_baseline_cost_table (revision s) (eof_version (analysis_header (analysis s))))
       s (msg_gas m) = Done (g, s') \<and>
     (tgt \<in> {'''', ''bytecode''} \<and> (r < EVMC_PRAGUE \<or> \<not> is_eof_container code) \<longrightarrow>
        (\<forall>t hash. get_tables R ctx CIRCUIT_BYTECODE = Some t \<and> length code \<le> 2 ^ 32 \<and>
           hash_halves C code = Some hash \<longrightarrow>
           (\<exists>t'. get_tables R (host s) = (get_tables R ctx)(CIRCUIT_BYTECODE \<mapsto> t') \<and>
              (\<forall>j < length code. bytecode_row_holds (table_lib.truncate C) t'
                 (word_of_nat (tab_size C t BC_VALUE) + word_of_nat j) hash code j)))) \<and>
     (tgt = ''rw'' \<longrightarrow> host s = ctx) \<and>
     (get_tables R ctx CIRCUIT_BYTECODE = None \<longrightarrow> get_tables R (host s) = get_tables R ctx) \<and>
     ids_ok (rw_trace s') \<and> (\<forall>e \<in> set (rw_trace s'). rw_call_id e = 0) \<and>
     (tgt \<in> {'''', ''rw''} \<longrightarrow>
        (\<forall>t. get_tables R (host s') CIRCUIT_RW = Some t \<and> length (rw_trace s') \<le> 2 ^ 32 \<and>
           (\<forall>row. tab_val (table_lib.truncate C) t RW_FIELD_TYPE row = 0) \<longrightarrow>
           (\<exists>tr' t'. get_tables R ctx' = (get_tables R (host s'))(CIRCUIT_RW \<mapsto> t') \<and>
              mset tr' = mset (rw_trace s') \<and> sorted_wrt rw_less tr' \<and>
              rows_ok E (table_lib.truncate C) t'
                (word_of_nat (tab_size (table_lib.truncate C) t RW_OP)) tr'))) \<and>
     (tgt = ''bytecode'' \<longrightarrow> ctx' = host s') \<and>
     (get_tables R (host s') CIRCUIT_RW = None \<longrightarrow> get_tables R ctx' = get_tables R (host s'))))"
proof (cases "zkevm_circuits_map tgt")
  case None
  then have "tgt \<notin> {'''', ''bytecode'', ''rw''}" by (auto simp: zkevm_circuits_map_def)
  then show ?thesis using assms(1) None by (simp add: evaluate_unknown)
next
  case (Some k)
  then have tgt: "tgt = '''' \<and> k = CIRCUIT_ALL \<or> tgt = ''bytecode'' \<and> k = CIRCUIT_BYTECODE \<or>
      tgt = ''rw'' \<and> k = CIRCUIT_RW"
    by (simp only: circuit_targets)
  from assms(1) Some show ?thesis
  proof (rule evaluate_parts)
    fix s g s' s''
    assume start: "evaluate_start E C R ctx r m code k = Some s"
      and run: "dispatch fuel E (get_baseline_cost_table (revision s) (eof_version (analysis_header (analysis s))))
        s (msg_gas m) = Done (g, s')"
      and ended: "evaluate_end E C R k g s' = Some (res, s'')" and ctx': "ctx' = host s''"
    note traced = run_traced [OF start run]
    have bytes: "\<exists>t'. get_tables R (host s) = (get_tables R ctx)(CIRCUIT_BYTECODE \<mapsto> t') \<and>
        (\<forall>j < length code. bytecode_row_holds (table_lib.truncate C) t'
           (word_of_nat (tab_size C t BC_VALUE) + word_of_nat j) hash code j)"
      if "tgt \<in> {'''', ''bytecode''}" "r < EVMC_PRAGUE \<or> \<not> is_eof_container code"
        "get_tables R ctx CIRCUIT_BYTECODE = Some t" "length code \<le> 2 ^ 32" "hash_halves C code = Some hash"
      for t hash
    proof -
      have "k AND CIRCUIT_BYTECODE \<noteq> 0" using that(1) tgt by auto
      then show ?thesis
        using start_bytecode_table [OF start assms(2) that(2) _ that(3)]
          bytecode_circuit.bytecode_table [OF assms(4) that(4,5), of t] by (auto simp: total_iff)
    qed
    have rows: "\<exists>tr' t'. get_tables R ctx' = (get_tables R (host s'))(CIRCUIT_RW \<mapsto> t') \<and>
        mset tr' = mset (rw_trace s') \<and> sorted_wrt rw_less tr' \<and>
        rows_ok E (table_lib.truncate C) t' (word_of_nat (tab_size (table_lib.truncate C) t RW_OP)) tr'"
      if "tgt \<in> {'''', ''rw''}" "get_tables R (host s') CIRCUIT_RW = Some t"
        "length (rw_trace s') \<le> 2 ^ 32" "\<forall>row. tab_val (table_lib.truncate C) t RW_FIELD_TYPE row = 0"
      for t
    proof -
      have "k AND CIRCUIT_RW \<noteq> 0" using that(1) tgt by auto
      then show ?thesis
        using end_rw_table [OF ended assms(2) _ that(2)]
          rw_circuit.rw_table_rows [OF assms(3) spec [OF that(4)] that(3) conjunct1 [OF traced]]
        unfolding ctx' total_iff by fastforce
    qed
    have guards: "tgt = ''rw'' \<Longrightarrow> host s = ctx" "tgt = ''bytecode'' \<Longrightarrow> ctx' = host s'"
      using start_unnamed [OF start] end_unnamed [OF ended] tgt ctx' by auto
    have absent: "get_tables R ctx CIRCUIT_BYTECODE = None \<Longrightarrow> get_tables R (host s) = get_tables R ctx"
      "get_tables R (host s') CIRCUIT_RW = None \<Longrightarrow> get_tables R ctx' = get_tables R (host s')"
      using start_no_table [OF start assms(2)] end_no_table [OF ended assms(2)] ctx' by auto
    have known: "tgt \<in> {'''', ''bytecode'', ''rw''}" using tgt by auto
    show ?thesis
      using known Some start run traced bytes rows guards absent
      by (intro conjI impI exI [of _ k] exI [of _ s] exI [of _ g] exI [of _ s']) blast+
  qed
qed

text \<open>
  A callee with negative gas returns none: whatever its code, a finished evaluation of a
  message with negative gas ends in an error, with no gas left and no refund. So a host that
  runs its contracts with \<open>evaluate\<close> gives a caller that asks for negative gas back more than
  it passed on.
\<close>

theorem negative_gas_fails:
  assumes "evaluate fuel E C R ctx r m code tgt = Done (res, ctx')"
    and "zkevm_circuits_map tgt = Some k" and "msg_gas m < 0"
  shows "res_status_code res \<notin> {EVMC_SUCCESS, EVMC_REVERT} \<and>
     res_gas_left res = 0 \<and> res_gas_refund res = 0"
proof (rule evaluate_parts [OF assms(1,2)])
  fix s g s' s''
  assume "dispatch fuel E (get_baseline_cost_table (revision s) (eof_version (analysis_header (analysis s))))
      s (msg_gas m) = Done (g, s')"
    and ended: "evaluate_end E C R k g s' = Some (res, s'')"
  then have "status s' \<notin> {EVMC_SUCCESS, EVMC_REVERT}"
    using dispatch_negative_gas assms(3) by fastforce
  then show ?thesis
    by (rule_tac evaluate_end_parts [OF ended]) (simp add: make_result_gas)
qed

subsection \<open>Calls of the host\<close>

text \<open>
  C21. A call moves value and nothing else. When the sender exists, a \<open>CALL\<close> message ends at once,
  with all its gas and its input as output, if the callee has no code, and otherwise it is what
  running the callee's code on the new host gives; a failure of that code gives nothing back.
  In the new host the callee exists, the value is subtracted from the sender's balance and
  added to the callee's (modulo \<open>2 ^ 256\<close>, which leaves the sum as it was, and a call to
  oneself leaves the balance as it was), and every other account and all storage are
  unchanged.
\<close>

theorem call_moves_value:
  assumes "intx_api L" and "get_account h (msg_sender m) = Some a" and "msg_kind m = EVMC_CALL"
  shows "\<exists>h1. handle_call L run_code h m =
      (let code = (case get_account h (msg_code_address m) of None \<Rightarrow> [] | Some b \<Rightarrow> acc_code b)
       in if code = [] then Some (make_result (malloc_ok L) EVMC_SUCCESS (msg_gas m) 0 (msg_input m), h1)
          else run_code h1 m code) \<and>
     get_account h1 (msg_code_address m) \<noteq> None \<and>
     (\<forall>x. word_of_uint256be L (vm_get_balance h1 x) = word_of_uint256be L (vm_get_balance h x)
        - (if x = msg_sender m then word_of_uint256be L (msg_value m) else 0)
        + (if x = msg_code_address m then word_of_uint256be L (msg_value m) else 0)) \<and>
     (\<forall>x. x \<noteq> msg_sender m \<and> x \<noteq> msg_code_address m \<longrightarrow> get_account h1 x = get_account h x) \<and>
     (\<forall>x k. vm_get_storage h1 x k = vm_get_storage h x k)"
proof (intro exI [of _ "callee_host L h m a"] conjI allI impI)
  show "get_account (callee_host L h m a) (msg_code_address m) \<noteq> None"
    using callee_host_code [OF assms(2)] by force
qed (use handle_call_eq [OF assms(2,3)] intx_api.callee_host_balances [OF assms(1,2)]
  callee_host_storage [OF assms(2)] callee_host_others in \<open>auto simp: Let_def\<close>)

definition two_accounts :: "unit vm_host" where
  "two_accounts = \<lparr>accounts = [replicate 20 1 \<mapsto> empty_account\<lparr>acc_balance := be_bytes 32 100\<rparr>],
     tx_context = zero_tx_context, tables = Map.empty, target_circuit = ''''\<rparr>"

theorem call_moves_value_witness:
  "\<exists>h1. handle_call reference_libs (\<lambda>_ _ _. None) two_accounts
       (zero_message\<lparr>msg_sender := replicate 20 1, msg_code_address := replicate 20 2,
          msg_value := be_bytes 32 30, msg_gas := 5\<rparr>) =
     Some (make_result (\<lambda>_. True) EVMC_SUCCESS 5 0 [], h1) \<and>
     word_of_uint256be reference_libs (vm_get_balance h1 (replicate 20 2)) = 30"
proof -
  let ?m = "zero_message\<lparr>msg_sender := replicate 20 1, msg_code_address := replicate 20 2,
     msg_value := be_bytes 32 30, msg_gas := 5\<rparr>"
  have a: "get_account two_accounts (msg_sender ?m) = Some (empty_account\<lparr>acc_balance := be_bytes 32 100\<rparr>)"
      "get_account two_accounts (replicate 20 2) = None"
    by (simp_all add: two_accounts_def get_account_def replicate_eq_replicate)
  have v: "word_of_uint256be reference_libs (be_bytes 32 30) = 30"
    using ref.load_store [of 30] by (simp add: to_uint256be_def ref.be_store)
  have z: "word_of_uint256be reference_libs (vm_get_balance two_accounts (replicate 20 2)) = 0"
    using a(2) by (simp add: vm_get_balance_def ref.load_zero)
  show ?thesis
    using call_moves_value [OF ref.intx_api_axioms a(1), of "\<lambda>_ _ _. None"] a(2) v z
    by (auto simp: zero_message_def reference_libs_def replicate_eq_replicate)
qed

subsection \<open>A concrete evaluation\<close>

text \<open>\<open>STOP\<close> as the only instruction, on a host with two empty tables.\<close>

definition stop_host :: "(nat \<Rightarrow> rat list) vm_host" where
  "stop_host = \<lparr>accounts = Map.empty, tx_context = zero_tx_context,
     tables = [CIRCUIT_BYTECODE \<mapsto> (\<lambda>_. []), CIRCUIT_RW \<mapsto> (\<lambda>_. [])], target_circuit = ''''\<rparr>"

definition stop_env :: "(nat \<Rightarrow> rat list) vm_host env" where
  "stop_env = vm_env reference_libs (\<lambda>_ _ _. None)"

lemma stop_circuit: "rw_circuit stop_env (column_table :: (nat \<Rightarrow> rat list, rat) table_lib)"
  using rw_columns.rw_circuit_axioms by (simp add: rw_circuit_def stop_env_def vm_env_def)

lemma stop_requirements:
  "check_requirements E ct g stack_bottom OP_STOP =
     Some (if g < 0 then (EVMC_OUT_OF_GAS, g) else (EVMC_SUCCESS, g))"
proof -
  have "has_const_gas_cost OP_STOP" "gas_costs EVMC_FRONTIER OP_STOP = 0"
      "stack_height_change (traits OP_STOP) = 0" "stack_height_required (traits OP_STOP) = 0"
    by code_simp+
  then show ?thesis
    by (subst check_requirements_eq) (simp_all add: instr_cost_def undefined_cost_def)
qed

lemma stop_dispatch:
  assumes "code_byte s 0 = Some OP_STOP"
  shows "dispatch (Suc n) E ct s g = Done (g, s\<lparr>status := (if g < 0 then EVMC_OUT_OF_GAS else EVMC_SUCCESS)\<rparr>)"
  using assms
  by (simp add: dispatch_def invoke_def stop_requirements map_opcodes_def map_opcodes_to_push0_def
      i_stop_def stop_impl_def)

lemma stop_analysis: "analyze L EVMC_SHANGHAI [OP_STOP] = Some (analyze_legacy [OP_STOP])"
  by (simp add: analyze_def is_eof_container_def)

lemma stop_hash: "hash_halves column_circuits [OP_STOP] = Some (0, 0)"
  by (simp add: hash_halves_def column_circuits_def table_lib.defs circuit_lib.defs
      hash_value_def hash_digit_def numeral_eq_Suc)

lemma stop_start:
  "\<exists>s tabs. evaluate_start stop_env column_circuits vm_tables stop_host EVMC_SHANGHAI m [OP_STOP] CIRCUIT_ALL = Some s \<and>
     host s = stop_host\<lparr>tables := tabs\<rparr> \<and> tabs CIRCUIT_RW = Some (\<lambda>_. []) \<and> output_size s = 0 \<and>
     output_offset s = 0"
proof -
  have init: "exec_state_init stop_env m EVMC_SHANGHAI stop_host [OP_STOP] [] 0 (analyze_legacy [OP_STOP]) \<noteq> None"
    by (simp add: exec_state_init_def mem_new_def allocate_capacity_def stop_env_def vm_env_def
        reference_libs_def libs.defs env.defs)
  then obtain s0 where s0: "exec_state_init stop_env m EVMC_SHANGHAI stop_host [OP_STOP] []
      0 (analyze_legacy [OP_STOP]) = Some s0" by blast
  then have out: "output_size s0 = 0" "output_offset s0 = 0"
    by (auto simp: exec_state_init_def bind_eq_Some_conv)
  obtain t where t: "process_bytecode_input column_circuits [OP_STOP] (\<lambda>_. []) = Some t"
    using bytecode_columns.bytecode_table [OF _ stop_hash] by (force simp: total_iff)
  have tabs: "tables stop_host = [CIRCUIT_BYTECODE \<mapsto> (\<lambda>_. []), CIRCUIT_RW \<mapsto> (\<lambda>_. [])]"
    by (simp add: stop_host_def)
  have header: "analysis_header (analyze_legacy [OP_STOP]) = legacy_header"
    by (simp add: analyze_legacy_def)
  have slice: "slice_opt (code_buffer (analyze_legacy [OP_STOP])) (executable_offset (analyze_legacy [OP_STOP]))
      (length [OP_STOP]) = Some [OP_STOP]"
    by (rule legacy_executable [OF stop_analysis]) (simp add: less_evmc_revision_def)
  show ?thesis
    using slice
    by (simp add: evaluate_start_def stop_analysis header s0 init_fields [OF s0] out
        handle_bytecode_def t vm_tables_def tabs) (auto intro: exI [of _ "fun_upd _ _ _"])
qed

lemma stop_evaluates:
  "\<exists>res ctx'. evaluate 1 stop_env column_circuits vm_tables stop_host EVMC_SHANGHAI m [OP_STOP] '''' =
     Done (res, ctx')"
proof -
  obtain s tabs where s: "evaluate_start stop_env column_circuits vm_tables stop_host EVMC_SHANGHAI
        m [OP_STOP] CIRCUIT_ALL = Some s"
    and h: "host s = stop_host\<lparr>tables := tabs\<rparr>" "tabs CIRCUIT_RW = Some (\<lambda>_. [])"
      "output_size s = 0" "output_offset s = 0"
    using stop_start by blast
  have "analysis s = analyze_legacy [OP_STOP]"
    using evaluate_start_state(9) [OF s] by (simp add: stop_analysis)
  then have code: "code_byte s 0 = Some OP_STOP"
    by (simp add: analyze_legacy_def pad_code_def code_byte_def nth_opt_def)
  have "total (process_rw_operations stop_env (column_table :: (nat \<Rightarrow> rat list, rat) table_lib) []
      (\<lambda>_. [])) (\<lambda>_. True)"
    by (rule total_mono [OF rw_circuit.rw_table_rows [OF stop_circuit]])
      (simp_all add: column_table_def column_get_def ids_ok_def)
  then obtain tr t where "process_rw_operations stop_env
      (column_table :: (nat \<Rightarrow> rat list, rat) table_lib) [] (\<lambda>_. []) = Some (tr, t)"
    by (force simp: total_iff)
  then have "evaluate_end stop_env column_circuits vm_tables CIRCUIT_ALL g
      (s\<lparr>status := st\<rparr>) \<noteq> None" for g st
    using h evaluate_start_state(1) [OF s]
    by (simp add: evaluate_end_def handle_rw_def vm_tables_def Let_def)
  then show ?thesis
    using stop_dispatch [OF code, of 0] s
    by (auto simp: evaluate_def zkevm_circuits_map_def run_bind_Done run_of_Done)
qed

text \<open>The two properties on it.\<close>

theorem evaluation_fills_tables_witness:
  "\<exists>s t'. evaluate_start stop_env column_circuits vm_tables stop_host EVMC_SHANGHAI zero_message
     [OP_STOP] CIRCUIT_ALL = Some s \<and> tables (host s) CIRCUIT_BYTECODE = Some t' \<and>
     tab_val column_table t' BC_VALUE 0 = 0 \<and> tab_val column_table t' BC_IS_OPCODE 0 = 0"
proof -
  obtain res ctx' where run: "evaluate 1 stop_env column_circuits vm_tables stop_host EVMC_SHANGHAI zero_message
     [OP_STOP] '''' = Done (res, ctx')"
    using stop_evaluates by blast
  have tabs: "get_tables vm_tables stop_host CIRCUIT_BYTECODE = Some (\<lambda>_. [])"
    by (simp add: stop_host_def vm_tables_def)
  have circuits: "rw_circuit stop_env (table_lib.truncate column_circuits)"
    using stop_circuit by simp
  from evaluation_fills_tables [OF run vm_keeps_tables circuits bytecode_columns.bytecode_circuit_axioms]
  obtain k s where start: "zkevm_circuits_map '''' = Some k"
      "evaluate_start stop_env column_circuits vm_tables stop_host EVMC_SHANGHAI zero_message [OP_STOP] k = Some s"
    and table: "(EVMC_SHANGHAI < EVMC_PRAGUE \<or> \<not> is_eof_container [OP_STOP]) \<longrightarrow>
       (\<forall>t hash. get_tables vm_tables stop_host CIRCUIT_BYTECODE = Some t \<and> length [OP_STOP] \<le> 2 ^ 32 \<and>
          hash_halves column_circuits [OP_STOP] = Some hash \<longrightarrow>
          (\<exists>t'. get_tables vm_tables (host s) = (get_tables vm_tables stop_host)(CIRCUIT_BYTECODE \<mapsto> t') \<and>
             (\<forall>j < length [OP_STOP]. bytecode_row_holds (table_lib.truncate column_circuits) t'
                (word_of_nat (tab_size column_circuits t BC_VALUE) + word_of_nat j) hash [OP_STOP] j)))"
    by auto
  have k: "k = CIRCUIT_ALL" using start(1) by (simp add: zkevm_circuits_map_def)
  have size: "tab_size column_circuits (\<lambda>_. []) BC_VALUE = 0"
    by (simp add: column_circuits_def table_lib.defs column_table_def)
  obtain t' where "tables (host s) CIRCUIT_BYTECODE = Some t'"
      and "bytecode_row_holds column_table t' 0 (0, 0) [OP_STOP] 0"
    using mp [OF table] tabs stop_hash by (force simp: less_evmc_revision_def vm_tables_def size)
  then show ?thesis
    using start(2) k by (intro exI [of _ s] exI [of _ t']) (simp add: bytecode_row_holds_def)
qed

theorem negative_gas_fails_witness:
  "\<exists>res ctx'. evaluate 1 stop_env column_circuits vm_tables stop_host EVMC_SHANGHAI
     (zero_message\<lparr>msg_gas := - 5\<rparr>) [OP_STOP] '''' = Done (res, ctx') \<and> res_gas_left res = 0"
  using stop_evaluates [of "zero_message\<lparr>msg_gas := - 5\<rparr>"]
  by (force simp: zkevm_circuits_map_def dest: negative_gas_fails)

subsection \<open>Nested calls\<close>

text \<open>
  C3. Evaluating safe code always returns a result: for every input, host, revision, target
  circuit and state of the tables, a message whose gas keeps the trace within \<open>2 ^ 32\<close> entries
  (about 119 million units) and a legacy contract without unsafe instructions, \<open>evaluate\<close>
  analyses the code, fills the bytecode table, runs the code to its end, fills the read/write
  table and returns, without an undefined access on the way. The build has no assertions, its
  allocations succeed, the field of the circuits is large enough and the hash of the code is a
  string of at least 32 digits.
\<close>

theorem safe_code_evaluates:
  assumes "ndebug E" and "alloc_ok E" and "rw_circuit E (table_lib.truncate C)"
    and "safe_code code" and "r < EVMC_PRAGUE \<or> \<not> is_eof_container code" and "hash_halves C code \<noteq> None"
    and "36 * (msg_gas m + 1) \<le> 2 ^ 32" and "1025 * nat (msg_gas m + 1) < fuel"
  shows "\<exists>res ctx'. evaluate fuel E C R ctx r m code tgt = Done (res, ctx')"
  using assms by (rule safe_evaluation)

text \<open>The code \<open>PUSH1 3; PUSH1 5; ADD; JUMPDEST; PUSH1 5; JUMP\<close> with 100 units of gas.\<close>

theorem safe_code_evaluates_witness:
  "\<exists>res ctx'. evaluate 300000 stop_env column_circuits vm_tables stop_host EVMC_SHANGHAI
     (zero_message\<lparr>msg_gas := 100\<rparr>) [0x60, 3, 0x60, 5, 0x01, 0x5b, 0x60, 5, 0x56] '''' = Done (res, ctx')"
proof (rule safe_code_evaluates)
  show "safe_code [0x60, 3, 0x60, 5, 0x01, 0x5b, 0x60, 5, 0x56]"
    unfolding safe_code_def
    by (simp add: safe_from_step [of _ 0] safe_from_step [of _ "Suc (Suc n)" for n]
        instr_length_def unsafe_opcodes_def)
  show "rw_circuit stop_env (table_lib.truncate column_circuits)"
    using stop_circuit by simp
  show "hash_halves column_circuits [0x60, 3, 0x60, 5, 0x01, 0x5b, 0x60, 5, 0x56] \<noteq> None"
    by (simp add: hash_halves_def column_circuits_def table_lib.defs circuit_lib.defs)
qed (simp_all add: alloc_ok_def stop_env_def vm_env_def reference_libs_def libs.defs env.defs
    less_evmc_revision_def)

text \<open>
  C31. Calls nest at most 1024 deep: whatever contracts call or create each other, an evaluation
  with a message of depth \<open>d\<close> is the same for every bound on nested runs from \<open>1024 - d\<close> on, so
  the recursion between the interpreter and the host ends at that depth and the bound in the
  model is never met. An instruction at depth 1024 refuses to call, and every message that is
  sent is one level below the message of its sender.
\<close>

theorem nesting_bounded:
  assumes "1024 \<le> msg_depth m + int depth" and "depth \<le> depth'"
  shows "vm_evaluate depth' fuel L C h r m code tgt = vm_evaluate depth fuel L C h r m code tgt"
  unfolding vm_evaluate_def
  by (rule vm_evaluate_same, rule vm_run_depth) (use assms in simp_all)

theorem nesting_bounded_witness:
  "vm_evaluate 5000 9 reference_libs column_circuits stop_host EVMC_SHANGHAI zero_message [OP_STOP] '''' =
   vm_evaluate 1024 9 reference_libs column_circuits stop_host EVMC_SHANGHAI zero_message [OP_STOP] ''''"
  by (rule nesting_bounded) (simp_all add: zero_message_def)

end
