(* ===== verification/Handle_Properties.thy ===== *)
theory Handle_Properties
  imports Evmc_Handles
begin

text \<open>
  Properties of the objects that own the memory of a result or the instance of a VM: they follow
  from the contract of owning classes, interpreted on both classes.
\<close>

subsection \<open>Results\<close>

text \<open>
  C19. Memory of results is freed exactly once. A program makes, moves, assigns and destroys
  \<open>Result\<close> objects in any order, makes raw results with \<open>evmc_make_result\<close> and releases them with
  \<open>evmc_release_result\<close>, takes raw results from objects with \<open>release_raw\<close> and makes objects from
  raw results. No such program frees a block twice or frees what is not a block; the output of
  an object or raw result that is still to be released is allocated, no two of them will free
  the same block, blocks of others are kept, and when no object and no raw result is left
  nothing has leaked. Objects that were moved from or gave up their raw result stay part of the
  program and may be assigned to and destroyed, and an object may be assigned to itself. The
  only requirements are the scoping of objects and what the interface asks of raw results: each
  is converted or released once.
\<close>

theorem results_released_once:
  assumes "raw_scoped ps ([], [])"
  shows "\<exists>st raws h'. raw_run result_class result_raws ps (Map.empty, Map.empty, h) = Some (st, raws, h') \<and>
    (\<forall>x r. st x = Some r \<or> raws x = Some r \<longrightarrow> raw_release r \<noteq> Null_release \<longrightarrow>
       raw_output_data r \<in> allocated h') \<and>
    (\<forall>x y r q. st x = Some r \<longrightarrow> st y = Some q \<longrightarrow> raw_release r \<noteq> Null_release \<longrightarrow>
       raw_release q \<noteq> Null_release \<longrightarrow> raw_output_data r = raw_output_data q \<longrightarrow> x = y) \<and>
    (\<forall>k l r q. raws k = Some r \<longrightarrow> raws l = Some q \<longrightarrow> raw_release r \<noteq> Null_release \<longrightarrow>
       raw_release q \<noteq> Null_release \<longrightarrow> raw_output_data r = raw_output_data q \<longrightarrow> k = l) \<and>
    (\<forall>x k r q. st x = Some r \<longrightarrow> raws k = Some q \<longrightarrow> raw_release r \<noteq> Null_release \<longrightarrow>
       raw_release q \<noteq> Null_release \<longrightarrow> raw_output_data r \<noteq> raw_output_data q) \<and>
    allocated h \<subseteq> allocated h' \<and>
    (st = Map.empty \<longrightarrow> raws = Map.empty \<longrightarrow> allocated h' = allocated h)"
proof -
  have owned: "result_owned r = Some (raw_output_data r)" if "raw_release r \<noteq> Null_release" for r
    using that by (simp add: result_owned_def)
  from results.raw_program_owns [OF assms, of h] obtain st raws h'
    where run: "raw_run result_class result_raws ps (Map.empty, Map.empty, h) = Some (st, raws, h')"
      and held: "\<forall>x r. st x = Some r \<longrightarrow> set_option (result_owned r) \<subseteq> allocated h'"
        "\<forall>k r. raws k = Some r \<longrightarrow> set_option (result_owned r) \<subseteq> allocated h'"
      and one: "\<forall>x y r q i. st x = Some r \<longrightarrow> st y = Some q \<longrightarrow> result_owned r = Some i \<longrightarrow>
          result_owned q = Some i \<longrightarrow> x = y"
        "\<forall>k l r q i. raws k = Some r \<longrightarrow> raws l = Some q \<longrightarrow> result_owned r = Some i \<longrightarrow>
          result_owned q = Some i \<longrightarrow> k = l"
        "\<forall>x k r q. st x = Some r \<longrightarrow> raws k = Some q \<longrightarrow> set_option (result_owned r) \<inter> set_option (result_owned q) = {}"
      and ends: "allocated h \<subseteq> allocated h'"
        "st = Map.empty \<longrightarrow> raws = Map.empty \<longrightarrow> allocated h' = allocated h"
    by (elim exE conjE)
  have "raw_output_data r \<in> allocated h'" if "st x = Some r \<or> raws x = Some r" "raw_release r \<noteq> Null_release" for x r
    using held that owned [OF that(2)] by fastforce
  moreover have "x = y" if "st x = Some r" "st y = Some q" "raw_release r \<noteq> Null_release"
    "raw_release q \<noteq> Null_release" "raw_output_data r = raw_output_data q" for x y r q
    using one(1) that owned by metis
  moreover have "k = l" if "raws k = Some r" "raws l = Some q" "raw_release r \<noteq> Null_release"
    "raw_release q \<noteq> Null_release" "raw_output_data r = raw_output_data q" for k l r q
    using one(2) that owned by metis
  moreover have "raw_output_data r \<noteq> raw_output_data q" if "st x = Some r" "raws k = Some q"
    "raw_release r \<noteq> Null_release" "raw_release q \<noteq> Null_release" for x k r q
    using one(3) that(1,2) owned [OF that(3)] owned [OF that(4)] by fastforce
  ultimately show ?thesis using run ends by blast
qed

text \<open>
  Two results with output; the first is handed over as a raw result, as a host does that is
  called through the C interface, and the second is assigned to the object made from it.
\<close>

theorem results_released_once_witness:
  "\<exists>st raws h'. raw_run result_class result_raws
     [On_objects (Construct 0 (With_output (\<lambda>_. True) EVMC_SUCCESS 7 0 [1, 2])),
      Release_raw 5 0, On_objects (Destruct 0), Convert 1 5,
      On_objects (Construct 2 (With_output (\<lambda>_. True) EVMC_REVERT 3 0 [9])),
      On_objects (Move_assign 1 2), Make_raw 6 (Raw_args (\<lambda>_. True) EVMC_SUCCESS 1 0 [4]), Free_raw 6,
      On_objects (Move_assign 1 1), On_objects (Destruct 1), On_objects (Destruct 2)]
     (Map.empty, Map.empty, [(5, [8])]) = Some (st, raws, h') \<and> allocated [(5, [8])] \<subseteq> allocated h'"
proof -
  have "raw_scoped [On_objects (Construct 0 (With_output (\<lambda>_. True) EVMC_SUCCESS 7 0 [1, 2])),
      Release_raw 5 0, On_objects (Destruct 0), Convert 1 5,
      On_objects (Construct 2 (With_output (\<lambda>_. True) EVMC_REVERT 3 0 [9])),
      On_objects (Move_assign 1 2), Make_raw 6 (Raw_args (\<lambda>_. True) EVMC_SUCCESS 1 0 [4]), Free_raw 6,
      On_objects (Move_assign 1 1), On_objects (Destruct 1), On_objects (Destruct 2)] ([], [])"
    by simp
  from results_released_once [OF this, of "[(5, [8])]"] show ?thesis by blast
qed

text \<open>
  C40. The constructors of \<open>Result\<close> implement the results the interpreter is modelled with: what
  is read through the output pointer of a new object is the given output with the given status
  and gas, or, if the allocation fails, the empty result with the status \<open>EVMC_OUT_OF_MEMORY\<close>. A
  move and a round through the raw result read the same, and making a result or destroying one
  changes nothing that is read through any result with another block.
\<close>

theorem results_refine:
  assumes "result_make a h = (r, h')"
  shows "read_result h' r = Some (args_result a) \<and>
    read_result h' (fst (result_move r)) = Some (args_result a) \<and>
    read_result h' (result_of_raw (fst (result_release_raw r))) = Some (args_result a) \<and>
    (\<forall>q v. read_result h q = Some v \<longrightarrow> read_result h' q = Some v) \<and>
    (\<forall>q v h''. read_result h' q = Some v \<longrightarrow> result_destroy r h' = Some h'' \<longrightarrow>
       raw_output_size q = 0 \<or> result_owned r \<noteq> Some (raw_output_data q) \<longrightarrow> read_result h'' q = Some v)"
  using result_make_read [OF assms] result_make_frame [OF assms] result_destroy_frame [of r h']
  by (auto simp: result_move_def result_of_raw_def result_release_raw_def Let_def)

theorem results_refine_witness:
  "read_result (snd (result_make (With_output (\<lambda>n. n < 4) EVMC_SUCCESS 7 0 [1, 2]) []))
     (fst (result_make (With_output (\<lambda>n. n < 4) EVMC_SUCCESS 7 0 [1, 2]) [])) =
   Some (make_result (\<lambda>n. n < 4) EVMC_SUCCESS 7 0 [1, 2])"
  using results_refine [of "With_output (\<lambda>n. n < 4) EVMC_SUCCESS 7 0 [1, 2]" "[]"
      "fst (result_make (With_output (\<lambda>n. n < 4) EVMC_SUCCESS 7 0 [1, 2]) [])"
      "snd (result_make (With_output (\<lambda>n. n < 4) EVMC_SUCCESS 7 0 [1, 2]) [])"]
  by simp

subsection \<open>VM instances\<close>

text \<open>
  C20. Every VM instance is destroyed exactly once, whatever the functions of the VM do: no
  program that makes, moves, assigns and destroys \<open>VM\<close> objects uses the null pointer or an
  instance that has been destroyed, an object that is left and not null holds an instance that
  exists and no other object holds, and when no object is left all new instances are destroyed.
  A \<open>VM\<close> made from a null pointer is an object like any other.
\<close>

theorem vms_destroyed_once:
  fixes w :: "('c, 'w) vm_world"
  assumes "scoped ps []"
  shows "\<exists>st w'. handle_run VM_class ps (Map.empty, w) = Some (st, w') \<and>
    (\<forall>x m. st x = Some m \<longrightarrow> VM_is_valid m \<longrightarrow> vm_deref m w' \<noteq> None) \<and>
    (\<forall>x y m. st x = Some m \<longrightarrow> st y = Some m \<longrightarrow> VM_is_valid m \<longrightarrow> x = y) \<and>
    vm_alive w \<subseteq> vm_alive w' \<and> (st = Map.empty \<longrightarrow> vm_alive w' = vm_alive w)"
proof -
  obtain st w' where run: "handle_run VM_class ps (Map.empty, w) = Some (st, w')"
    and held: "\<And>x m. st x = Some m \<Longrightarrow> set_option (vm_owned m) \<subseteq> vm_alive w'"
    and one: "\<And>x y m q i. st x = Some m \<Longrightarrow> st y = Some q \<Longrightarrow> vm_owned m = Some i \<Longrightarrow>
      vm_owned q = Some i \<Longrightarrow> x = y"
    and ends: "vm_alive w \<subseteq> vm_alive w'" "st = Map.empty \<Longrightarrow> vm_alive w' = vm_alive w"
    using vms.program_owns [OF assms, of w] by blast
  have "vm_deref m w' \<noteq> None" if "st x = Some m" "VM_is_valid m" for x m
    using held [OF that(1)] that(2) vm_deref_alive [of m w'] by (simp add: vm_owned_def VM_is_valid_def)
  moreover have "x = y" if "st x = Some m" "st y = Some m" "VM_is_valid m" for x y m
    using one [OF that(1,2)] that(3) by (simp add: vm_owned_def VM_is_valid_def)
  ultimately show ?thesis using run ends by blast
qed

theorem vms_destroyed_once_witness:
  "\<exists>st (w' :: (unit, unit) vm_world). handle_run VM_class
     [Construct 0 None, Construct 1 (Some \<lparr>vm_abi_version = 11, vm_name = ''vm'', vm_version = ''1'',
        vm_destroy_fn = (\<lambda>_ w. w), vm_execute_fn = (\<lambda>_ _ _ _ _ w. (fst (result_make (Without_output EVMC_SUCCESS 0 0) []), w)),
        vm_get_capabilities_fn = (\<lambda>_ _. 1), vm_set_option_fn = None\<rparr>),
      Move_assign 0 1, Destruct 1, Destruct 0]
     (Map.empty, \<lparr>vm_instances = [], vm_inner = ()\<rparr>) = Some (st, w')"
  using vms_destroyed_once [of "[Construct 0 None, Construct 1 (Some \<lparr>vm_abi_version = 11, vm_name = ''vm'', vm_version = ''1'',
        vm_destroy_fn = (\<lambda>_ w. w), vm_execute_fn = (\<lambda>_ _ _ _ _ w. (fst (result_make (Without_output EVMC_SUCCESS 0 0) []), w)),
        vm_get_capabilities_fn = (\<lambda>_ _. 1), vm_set_option_fn = None\<rparr>),
      Move_assign 0 1, Destruct 1, Destruct 0]" "\<lparr>vm_instances = [], vm_inner = ()\<rparr>"]
  by auto

end
