(* ===== verification/Spec2Isabelle.thy ===== *)
theory Spec2Isabelle
  imports Data_Properties Machine_Properties Instruction_Properties Circuit_Properties
    Gas_Properties Eof_Properties Host_Properties Handle_Properties
begin

text \<open>
  The EVM assigner of NilFoundation (\<open>src/lib/assigner\<close>): an EVM interpreter derived from evmone
  that records every access to stack, memory and storage in a trace, and the code that turns the
  trace and the bytecode into the tables of two zero-knowledge circuits.

  The program. \<open>evaluate\<close> (\<open>include/assigner.hpp\<close>) analyses the code, fills the bytecode table,
  runs the interpreter loop \<open>dispatch\<close> (\<open>evmone/baseline.hpp\<close>) over an execution state, and fills
  the read/write table from the trace the instructions left. The instructions
  (\<open>evmone/instructions.hpp\<close>) charge gas, use the stack and the memory, log their accesses, and
  ask the host about accounts; the host (\<open>include/vm_host.hpp\<close>) answers, and runs a called
  contract with \<open>evaluate\<close> again.

  The model, in the order of the theories:

    \<^item> \<open>Prelude\<close>: lists, bytes and the two predicates on fallible code, \<open>post\<close> (a result has a
      property) and \<open>total\<close> (there is a result, and it has a property).
    \<^item> \<open>Hex\<close>, \<open>Evmc\<close>, \<open>Evmc_Operators\<close>: hexadecimal text (\<open>evmc/hex.hpp\<close>,
      \<open>evmc/filter_iterator.hpp\<close>) and the data of the EVMC interface (\<open>evmc/evmc.h\<close>,
      \<open>evmc/evmc.hpp\<close>, \<open>evmc/helpers.h\<close>) with the operators of addresses and hashes.
    \<^item> \<open>Ownership\<close>, \<open>Evmc_Handles\<close>: the objects that own memory or a VM instance, over an explicit
      heap and a table of instances (\<open>Result\<close> and \<open>VM\<close> of \<open>evmc/evmc.hpp\<close>, \<open>evmc/helpers.h\<close>). The
      contract of such a class is a locale, interpreted on both classes.
    \<^item> \<open>Zkevm_Word\<close>: the 256-bit word (\<open>include/zkevm_word.hpp\<close>).
    \<^item> \<open>Opcodes\<close>: opcodes, gas costs, traits and cost tables (\<open>evmone/instructions_opcodes.hpp\<close>,
      \<open>evmone/instructions_traits.hpp\<close>, \<open>evmone/baseline_instruction_table.cpp\<close>).
    \<^item> \<open>Memory\<close>, \<open>Rw_Operation\<close>, \<open>State\<close>: the growing memory, the entries of the trace
      (\<open>include/rw.hpp\<close>) and the execution state (\<open>evmone/execution_state.hpp\<close>).
    \<^item> \<open>Instr_Arith\<close>, \<open>Instr_Env\<close>, \<open>Instr_Mem\<close>, \<open>Instr_Stack\<close>, \<open>Instr_Flow\<close>, \<open>Instr_Call\<close>: one
      definition for each handler \<open>instr::core::x\<close>, named \<open>i_x\<close>.
    \<^item> \<open>Dispatch\<close>, \<open>Analysis\<close>: the checks before an instruction, the overloads of \<open>invoke\<close>, the loop
      (\<open>evmone/baseline.hpp\<close>, with the list of \<open>evmone/instructions_xmacro.hpp\<close>), and the analysis
      of the code (\<open>evmone/baseline.cpp\<close>).
    \<^item> \<open>Eof_Header\<close>, \<open>Eof_Validation\<close>: containers of the EVM object format (\<open>evmone/eof.hpp\<close>,
      \<open>evmone/eof.cpp\<close>).
    \<^item> \<open>Assignment_Table\<close>, \<open>Bytecode_Table\<close>, \<open>Rw_Table\<close>: the interface of a circuit's table and the
      two fillings (\<open>include/bytecode.hpp\<close>, \<open>process_rw_operations\<close> of \<open>include/rw.hpp\<close>).
    \<^item> \<open>Assigner\<close>, \<open>Vm_Host\<close>: \<open>evaluate\<close> and the host, whose nested runs are bounded by a depth.
    \<^item> \<open>Memory_Block\<close>: the class \<open>Memory\<close> with its pointer to a block from \<open>realloc\<close>; it is proved to
      implement \<open>Memory\<close>, which the instructions are modelled with.
    \<^item> \<open>Printing\<close>: the stream operators of words, trace entries, status codes, revisions and EOF
      errors.

  The execution state is one record that every operation returns updated. A stack pointer is an
  integer index into the array of stack slots, -1 being the bottom pointer; an operation whose
  access would lie outside the array, the memory or the code is \<open>None\<close>, as is a failed assertion
  unless \<open>ndebug\<close> holds. Gas and other signed 64-bit numbers are integers, with a check where the
  code could leave their range; words, bytes and unsigned numbers have their width.
\<close>

text \<open>
  What the lemmas show.

    \<^item> The trace. \<open>State\<close> and \<open>Dispatch\<close> prove that every instruction keeps the frame (what it may
      not change) and only appends entries with the next identifiers; \<open>Stack_Trace\<close>,
      \<open>Stack_Contracts\<close> and \<open>Operand_Table\<close> say when replaying the trace gives the stack, which
      \<open>MULMOD\<close> and \<open>SWAP\<close> break. \<open>Stack_Replay\<close> and \<open>Memory_Trace\<close> prove it for whole runs: the
      stack and the memory are what the trace wrote, and every logged read what was last
      written, if the code has none of the instructions listed there, which write without
      logging or log another slot or address.
    \<^item> Runs. \<open>Run\<close> gives the loop as a step relation and proves the invariants of its
      configurations, among them that the output is a range of the memory; \<open>Gas\<close> bounds the number
      of turns and \<open>Trace_Bound\<close> the number of entries; \<open>Progress\<close> proves that code without the
      listed unsafe instructions always has a next turn or a result.
    \<^item> Circuits. \<open>Rw_Table\<close> and \<open>Bytecode_Table\<close> prove what every row of a filled table holds;
      \<open>Evaluation\<close> carries this to \<open>evaluate\<close>. \<open>Table_Progress\<close> proves that filling the read/write
      table always succeeds, and \<open>Evaluation_Progress\<close> that evaluating safe code does.
    \<^item> Nested runs. \<open>Nesting\<close> proves that an instruction uses the callback \<open>call\<close> only for messages
      one level below its own, and not at all from level 1024 on.
    \<^item> EOF. \<open>Eof_Container\<close> and \<open>Eof_Stack\<close> prove that validation is total, and that an accepted
      container is cut into instructions whose jumps land on instructions and whose stack heights
      are typed.
    \<^item> Data. Round trips and orders of text, words, addresses and hashes, the memory, and the
      ownership of results and VM instances.

  The properties are in the theories named \<open>_Properties\<close>; each is followed by a witness if it
  has a hypothesis. \<open>Samples\<close> holds the data of the witnesses.

  Bounds and fuel. The interpreter loop has fuel. A turn that goes on takes at least one unit of
  gas, or it is \<open>LOG1\<close>, which is free and takes three of at most 1024 items from the stack, so
  \<open>1025 * (g + 1) + 1\<close> turns are enough for \<open>g\<close> units of gas. This needs a host that returns at
  most the gas a call was given, or code without calls: a call can be given negative gas, which
  fails and comes back as more gas for the caller, so the host of the program does not keep that
  contract for such messages. The work list of the EOF stack validation has fuel for one round per
  byte of the section: a round takes a position from the list and adds only positions that had
  no height yet, and the loop is proved to end within it.

  The trace has at most \<open>36 * (g + 1)\<close> entries after \<open>g\<close> units of gas: an instruction logs at most
  36 entries for each unit it costs. The identifiers of the entries are cells of 32 bits, so a
  message with less than \<open>2 ^ 32 / 36\<close> units, about 119 million, never overflows them.

  Runs of called contracts are bounded by a depth: 1024 less the depth of the message is enough,
  and a larger bound never changes the result.

  Parameters. Code that is not in the repository is an argument of the definitions: the 256-bit
  arithmetic of intx, Keccak and the integral type of the field (record \<open>libs\<close>, with the locales
  \<open>intx_api\<close> and \<open>wide_integral\<close> for their documented behaviour), the assignment table and the
  arithmetic of the circuit's field (records \<open>table_lib\<close> and \<open>circuit_lib\<close>, with the locales
  \<open>assignment_table\<close>, \<open>rw_circuit\<close> and \<open>bytecode_circuit\<close>), and whether an allocation succeeds.
  Each is instantiated by a concrete implementation on which the witnesses run. The functions of
  a VM instance are any functions of its state.

  Not modelled. The debug log and the error message of \<open>evaluate\<close>; the conversions between host objects and opaque pointers, and
  the accessors of a result's optional storage, which are casts; the creation and deletion of a
  host context on the C++ heap; release functions that other VMs might attach to a result; the
  macros for exported symbols; tests and command-line programs.
\<close>

end
